(* ===== verification/Rounding.thy ===== *)
theory Rounding
  imports Complex_Main "HOL-Library.Log_Nat"
begin

text \<open>
  Rounding to nearest, ties to even, into a binary format of \<open>p\<close> significant bits whose least
  exponent is \<open>emin\<close>: the arithmetic core of IEEE 754, executable on rationals. Only magnitudes are
  rounded (signs are kept apart), and overflow is left to the caller. The facts its clients use
  (monotone, the identity on representable values, into the representable values) are the laws of
  the locale \<open>rounding\<close>.
\<close>

section \<open>The exponent of a positive rational\<close>

definition pow2 :: "int \<Rightarrow> rat" where
  "pow2 e = 2 powi e"

lemma pow2_pos [simp]: "0 < pow2 e"
  by (simp add: pow2_def)

lemma pow2_nonneg [simp]: "0 \<le> pow2 e"
  by (simp add: less_imp_le)

lemma pow2_neq_0 [simp]: "pow2 e \<noteq> 0"
  by (simp add: pow2_def)

lemma pow2_0 [simp]: "pow2 0 = 1"
  by (simp add: pow2_def)

lemma pow2_add: "pow2 (a + b) = pow2 a * pow2 b"
  by (simp add: pow2_def power_int_add)

lemma pow2_diff: "pow2 (a - b) = pow2 a / pow2 b"
  by (simp add: pow2_def power_int_diff)

lemma pow2_nat: "pow2 (int n) = 2 ^ n"
  by (simp add: pow2_def)

lemma pow2_less: "a < b \<Longrightarrow> pow2 a < pow2 b"
  by (simp add: pow2_def power_int_strict_increasing)

lemma pow2_less_iff [simp]: "pow2 a < pow2 b \<longleftrightarrow> a < b"
  by (metis less_asym less_irrefl linorder_neqE pow2_less)

lemma pow2_le_iff [simp]: "pow2 a \<le> pow2 b \<longleftrightarrow> a \<le> b"
  by (simp flip: not_less)

definition floor_log2 :: "rat \<Rightarrow> int" where
  "floor_log2 x = (case quotient_of x of (n, d) \<Rightarrow>
     let k = bitlen n - bitlen d in if of_int d * pow2 k \<le> of_int n then k else k - 1)"

lemma bitlen_bounds_rat:
  assumes "0 < n"
  shows "pow2 (bitlen n - 1) \<le> of_int n" and "of_int n < pow2 (bitlen n)"
proof -
  have b: "0 < bitlen n" using assms by (simp add: bitlen_alt_def)
  have "2 ^ nat (bitlen n - 1) \<le> n" and "n < 2 ^ nat (bitlen n)"
    using bitlen_bounds [OF assms] by auto
  then have "of_int (2 ^ nat (bitlen n - 1)) \<le> (of_int n :: rat)"
    and "of_int n < (of_int (2 ^ nat (bitlen n)) :: rat)"
    by (simp_all only: of_int_le_iff of_int_less_iff)
  with b show "pow2 (bitlen n - 1) \<le> of_int n" and "of_int n < pow2 (bitlen n)"
    by (simp_all add: pow2_def power_int_def)
qed

lemma floor_log2_bounds:
  assumes "0 < x"
  shows "pow2 (floor_log2 x) \<le> x" and "x < pow2 (floor_log2 x + 1)"
proof -
  obtain n d where q: "quotient_of x = (n, d)" by fastforce
  have d: "0 < d" using quotient_of_denom_pos [OF q] .
  have x: "x = of_int n / of_int d" by (rule quotient_of_div [OF q])
  with assms d have n: "0 < n" by (simp add: zero_less_divide_iff)
  define k where "k = bitlen n - bitlen d"
  have dr: "0 < (of_int d :: rat)" using d by simp
  have "of_int n < pow2 (k + 1) * pow2 (bitlen d - 1)"
    using bitlen_bounds_rat(2) [OF n] by (simp add: k_def pow2_add [symmetric])
  also have "\<dots> \<le> pow2 (k + 1) * of_int d"
    using bitlen_bounds_rat(1) [OF d] by simp
  finally have up: "x < pow2 (k + 1)" using dr by (simp add: x field_simps)
  have "pow2 (k - 1) * of_int d \<le> pow2 (k - 1) * pow2 (bitlen d)"
    using bitlen_bounds_rat(2) [OF d] by simp
  also have "\<dots> = pow2 (bitlen n - 1)" by (simp add: k_def pow2_add [symmetric])
  also have "\<dots> \<le> of_int n" by (rule bitlen_bounds_rat(1) [OF n])
  finally have lo: "pow2 (k - 1) \<le> x" using dr by (simp add: x field_simps)
  have c: "of_int d * pow2 k \<le> of_int n \<longleftrightarrow> pow2 k \<le> x"
    using dr by (simp add: x field_simps)
  have "floor_log2 x = (if pow2 k \<le> x then k else k - 1)"
    by (simp add: floor_log2_def q k_def [symmetric] c)
  then show "pow2 (floor_log2 x) \<le> x" and "x < pow2 (floor_log2 x + 1)"
    using up lo by auto
qed

lemma floor_log2_less: "0 < x \<Longrightarrow> x < pow2 k \<Longrightarrow> floor_log2 x < k"
  using floor_log2_bounds(1) [of x] order_le_less_trans pow2_less_iff by blast

lemma floor_log2_ge: "0 < x \<Longrightarrow> pow2 k \<le> x \<Longrightarrow> k \<le> floor_log2 x"
  using floor_log2_bounds(2) [of x] order_le_less_trans pow2_less_iff
  by (metis zless_add1_eq not_less order_less_imp_le)

lemma floor_log2_mono: "0 < x \<Longrightarrow> x \<le> y \<Longrightarrow> floor_log2 x \<le> floor_log2 y"
  by (meson floor_log2_bounds(1) floor_log2_ge less_le_trans order_trans)

section \<open>Round half to even on rationals\<close>

definition rne :: "rat \<Rightarrow> int" where
  "rne x = (let f = \<lfloor>x\<rfloor>; d = x - of_int f in
     if d < 1 / 2 then f else if 1 / 2 < d then f + 1 else if even f then f else f + 1)"

lemma rne_of_int [simp]: "rne (of_int k) = k"
  by (simp add: rne_def)

lemma rne_bounds: "\<lfloor>x\<rfloor> \<le> rne x" "rne x \<le> \<lfloor>x\<rfloor> + 1"
  by (simp_all add: rne_def Let_def)

lemma rne_mono: "x \<le> y \<Longrightarrow> rne x \<le> rne y"
proof (cases "\<lfloor>x\<rfloor> = \<lfloor>y\<rfloor>")
  case True
  moreover assume "x \<le> y"
  ultimately show ?thesis by (auto simp: rne_def Let_def)
next
  case False
  moreover assume "x \<le> y"
  ultimately have "\<lfloor>x\<rfloor> + 1 \<le> \<lfloor>y\<rfloor>" using floor_mono [of x y] by simp
  then show ?thesis using rne_bounds [of x] rne_bounds [of y] by simp
qed

lemma rne_nonneg: "0 \<le> x \<Longrightarrow> 0 \<le> rne x"
  using rne_mono [of 0 x] rne_of_int [of 0] by simp

lemma rne_error: "\<bar>of_int (rne x) - x\<bar> \<le> 1 / 2"
proof -
  have "0 \<le> x - of_int \<lfloor>x\<rfloor>" and "x - of_int \<lfloor>x\<rfloor> < 1"
    using floor_correct [of x] by auto
  then show ?thesis by (simp add: rne_def Let_def abs_le_iff)
qed

section \<open>Rounding to \<open>p\<close> bits\<close>

definition ulp_exp :: "nat \<Rightarrow> int \<Rightarrow> rat \<Rightarrow> int" where
  "ulp_exp p emin x = max (floor_log2 x - (int p - 1)) emin"

definition round_at :: "nat \<Rightarrow> int \<Rightarrow> rat \<Rightarrow> rat" where
  "round_at p emin x = (if x \<le> 0 then 0 else
     let u = pow2 (ulp_exp p emin x) in of_int (rne (x / u)) * u)"

definition representable :: "nat \<Rightarrow> int \<Rightarrow> rat \<Rightarrow> bool" where
  "representable p emin x = (\<exists>m e. 0 \<le> m \<and> m < 2 ^ p \<and> emin \<le> e \<and> x = of_int m * pow2 e)"

lemma representableI:
  "0 \<le> m \<Longrightarrow> m < 2 ^ p \<Longrightarrow> emin \<le> e \<Longrightarrow> x = of_int m * pow2 e \<Longrightarrow> representable p emin x"
  by (auto simp: representable_def)

lemma representable_nonneg: "representable p emin x \<Longrightarrow> 0 \<le> x"
  by (auto simp: representable_def)

lemma representable_mono: "representable p e x \<Longrightarrow> e' \<le> e \<Longrightarrow> representable p e' x"
  by (auto simp: representable_def intro: order_trans)

lemma representable_nat: "n < 2 ^ p \<Longrightarrow> representable p 0 (of_nat n)"
proof (rule representableI [of "int n" p 0 0])
  assume "n < 2 ^ p"
  then have "int n < int (2 ^ p)" by (simp only: of_nat_less_iff)
  then show "int n < 2 ^ p" by simp
qed simp_all

lemma representable_pow2: "1 \<le> p \<Longrightarrow> emin \<le> e \<Longrightarrow> representable p emin (pow2 e)"
  by (rule representableI [of 1 p emin e]) (simp_all add: one_less_power)

text \<open>Scaling by a power of two keeps the significant bits.\<close>

lemma representable_scale:
  "representable p e x \<Longrightarrow> representable p (e + k) (x * pow2 k)"
  unfolding representable_def
  by (elim exE conjE, rule_tac x = m in exI, rule_tac x = "ea + k" in exI) (simp add: pow2_add)

lemma round_at_0 [simp]: "round_at p emin 0 = 0"
  by (simp add: round_at_def)

lemma round_at_nonneg [simp]: "0 \<le> round_at p emin x"
  by (auto simp: round_at_def Let_def intro!: mult_nonneg_nonneg rne_nonneg divide_nonneg_nonneg)

lemma round_at_id:
  assumes "1 \<le> p" and "representable p emin x"
  shows "round_at p emin x = x"
proof (cases "x = 0")
  case False
  from assms obtain m e where m: "0 \<le> m" "m < 2 ^ p" "emin \<le> e" and x: "x = of_int m * pow2 e"
    by (auto simp: representable_def)
  with False have "0 < x" by auto
  have "(of_int m :: rat) < of_int (2 ^ p)" using m by (simp only: of_int_less_iff)
  then have "x < pow2 (int p + e)" by (simp add: x pow2_add pow2_nat)
  then have "floor_log2 x < int p + e" using \<open>0 < x\<close> by (rule floor_log2_less [rotated])
  with m have le: "ulp_exp p emin x \<le> e" by (simp add: ulp_exp_def)
  define j where "j = nat (e - ulp_exp p emin x)"
  have "x / pow2 (ulp_exp p emin x) = of_int m * pow2 (e - ulp_exp p emin x)"
    by (simp add: x pow2_diff)
  also have "\<dots> = of_int (m * 2 ^ j)"
    using le pow2_nat [of j] by (simp add: j_def)
  finally have q: "x / pow2 (ulp_exp p emin x) = of_int (m * 2 ^ j)" .
  then have "round_at p emin x = of_int (m * 2 ^ j) * pow2 (ulp_exp p emin x)"
    using \<open>0 < x\<close> by (simp only: round_at_def Let_def q rne_of_int) simp
  also have "\<dots> = x" by (simp only: q [symmetric]) simp
  finally show ?thesis .
qed simp

lemma round_quot_le:
  assumes "1 \<le> p" and "0 < x"
  shows "rne (x / pow2 (ulp_exp p emin x)) \<le> 2 ^ p"
proof -
  have "x < pow2 (floor_log2 x + 1)" by (rule floor_log2_bounds(2) [OF assms(2)])
  also have "\<dots> \<le> pow2 (int p + ulp_exp p emin x)" by (simp add: ulp_exp_def)
  finally have "x / pow2 (ulp_exp p emin x) \<le> of_int (2 ^ p)"
    by (simp add: pow2_add pow2_nat field_simps)
  then show ?thesis using rne_mono rne_of_int by metis
qed

lemma round_at_representable:
  assumes "1 \<le> p"
  shows "representable p emin (round_at p emin x)"
proof (cases "0 < x")
  case True
  let ?e = "ulp_exp p emin x" and ?m = "rne (x / pow2 (ulp_exp p emin x))"
  have r: "round_at p emin x = of_int ?m * pow2 ?e" using True by (simp add: round_at_def Let_def)
  have m0: "0 \<le> ?m" using True by (intro rne_nonneg) simp
  have e: "emin \<le> ?e" by (simp add: ulp_exp_def)
  show ?thesis
  proof (cases "?m = 2 ^ p")
    case True
    have "round_at p emin x = of_int 1 * pow2 (int p + ?e)"
      by (simp add: r True pow2_add pow2_nat)
    then show ?thesis using e assms by (intro representableI [of 1 p emin "int p + ?e"])
      (simp_all add: one_less_power)
  next
    case False
    with round_quot_le [OF assms True, of emin] m0 e r show ?thesis
      by (intro representableI [of ?m p emin ?e]) simp_all
  qed
next
  case False
  then show ?thesis by (auto simp: round_at_def intro: representableI [of 0 p emin emin])
qed

lemma round_at_mono:
  assumes p: "1 \<le> p" and "x \<le> y"
  shows "round_at p emin x \<le> round_at p emin y"
proof (cases "0 < x")
  case True
  with \<open>x \<le> y\<close> have y: "0 < y" by simp
  let ?a = "ulp_exp p emin x" and ?b = "ulp_exp p emin y"
  have ab: "?a \<le> ?b" using floor_log2_mono [OF True \<open>x \<le> y\<close>] by (simp add: ulp_exp_def max_def)
  show ?thesis
  proof (cases "?a = ?b")
    case same: True
    have "rne (x / pow2 ?a) \<le> rne (y / pow2 ?a)"
      using \<open>x \<le> y\<close> by (intro rne_mono divide_right_mono) simp_all
    then show ?thesis using True y by (simp add: round_at_def Let_def same)
  next
    case False
    with ab have lt: "?a < ?b" by simp
    have "round_at p emin x \<le> of_int (2 ^ p) * pow2 ?a"
      using True round_quot_le [OF p True, of emin]
      by (simp only: round_at_def Let_def not_le if_not_P of_int_le_iff mult_right_mono pow2_nonneg
          if_False)
    also have "\<dots> = pow2 (int p + ?a)" by (simp add: pow2_add pow2_nat)
    also have "\<dots> \<le> pow2 (int p - 1 + ?b)" using lt by simp
    also have "\<dots> = round_at p emin (pow2 (int p - 1 + ?b))"
      using p by (intro round_at_id [symmetric] representable_pow2) (auto simp: ulp_exp_def)
    also have "\<dots> \<le> round_at p emin y"
    proof -
      have "emin < ?b" using lt by (simp add: ulp_exp_def)
      then have b: "?b = floor_log2 y - (int p - 1)" by (simp add: ulp_exp_def max_def split: if_splits)
      let ?z = "pow2 (int p - 1 + ?b)"
      have zy: "?z \<le> y" using floor_log2_bounds(1) [OF y] by (simp add: b)
      have lz: "floor_log2 ?z = floor_log2 y"
        using floor_log2_mono [of ?z y] zy floor_log2_ge [of ?z "floor_log2 y"] by (simp add: b)
      then have uz: "ulp_exp p emin ?z = ?b" by (simp add: ulp_exp_def)
      have "rne (?z / pow2 ?b) \<le> rne (y / pow2 ?b)"
        using zy by (intro rne_mono divide_right_mono) simp_all
      then show ?thesis using y pow2_pos [of "int p - 1 + ?b"]
        by (simp only: round_at_def Let_def uz not_le [THEN iffD2] if_False)
          (simp add: mult_right_mono)
    qed
    finally show ?thesis .
  qed
next
  case False
  then have "round_at p emin x = 0" by (simp add: round_at_def)
  then show ?thesis by simp
qed

text \<open>The absolute error is at most half a unit in the last place.\<close>

lemma round_at_error:
  assumes "0 < x"
  shows "\<bar>round_at p emin x - x\<bar> \<le> pow2 (ulp_exp p emin x) / 2"
proof -
  let ?u = "pow2 (ulp_exp p emin x)"
  have "round_at p emin x - x = (of_int (rne (x / ?u)) - x / ?u) * ?u"
    using assms by (simp add: round_at_def Let_def algebra_simps)
  then have "\<bar>round_at p emin x - x\<bar> = \<bar>of_int (rne (x / ?u)) - x / ?u\<bar> * ?u"
    by (simp add: abs_mult)
  also have "\<dots> \<le> 1 / 2 * ?u" by (intro mult_right_mono rne_error) simp
  finally show ?thesis by simp
qed

text \<open>Integers round to integers: no exponent below zero appears.\<close>

lemma round_at_nat_representable:
  assumes "1 \<le> p" and "emin \<le> 0"
  shows "representable p 0 (round_at p emin (of_nat n))"
proof (cases "n < 2 ^ p")
  case True
  then have "representable p 0 (of_nat n)" by (rule representable_nat)
  with assms show ?thesis by (simp add: round_at_id representable_mono)
next
  case False
  then have "2 ^ p \<le> n" by simp
  then have ge: "pow2 (int p) \<le> of_nat n"
    by (metis (mono_tags) of_nat_le_iff of_nat_numeral of_nat_power pow2_nat)
  moreover have "0 < (of_nat n :: rat)" using pow2_pos ge by (rule less_le_trans)
  ultimately have "int p \<le> floor_log2 (of_nat n)" by (intro floor_log2_ge)
  then have "ulp_exp p emin (of_nat n) = ulp_exp p 0 (of_nat n)"
    using assms by (simp add: ulp_exp_def)
  then have "round_at p emin (of_nat n) = round_at p 0 (of_nat n)" by (simp add: round_at_def)
  then show ?thesis using round_at_representable [OF assms(1)] by simp
qed

section \<open>The interface of a rounding\<close>

locale rounding =
  fixes rnd :: "rat \<Rightarrow> rat" and rep :: "rat \<Rightarrow> bool"
  assumes mono: "x \<le> y \<Longrightarrow> rnd x \<le> rnd y"
    and rep_id: "rep x \<Longrightarrow> rnd x = x"
    and rep_rnd: "rep (rnd x)"
    and rep_small: "n < 2 ^ 24 \<Longrightarrow> rep (of_nat n)"
begin

lemma rnd_0 [simp]: "rnd 0 = 0"
  using rep_id [OF rep_small [of 0]] by simp

lemma rnd_nonneg: "0 \<le> x \<Longrightarrow> 0 \<le> rnd x"
  using mono [of 0 x] by simp

lemma rnd_le: "x \<le> y \<Longrightarrow> rep y \<Longrightarrow> rnd x \<le> y"
  using mono [of x y] rep_id by simp

lemma le_rnd: "y \<le> x \<Longrightarrow> rep y \<Longrightarrow> y \<le> rnd x"
  using mono [of y x] rep_id by simp

text \<open>A rounded quotient of two ordered numbers, scaled to a percentage, stays in 0..100.\<close>

lemma percent_bounds:
  assumes "0 \<le> a" and "a \<le> b" and "0 < b"
  shows "0 \<le> rnd (rnd (a / b) * 100)" and "rnd (rnd (a / b) * 100) \<le> 100"
proof -
  have "a / b \<le> 1" using assms by simp
  moreover have "rep 1" using rep_small [of 1] by simp
  ultimately have "rnd (a / b) \<le> 1" by (rule rnd_le)
  then have "rnd (a / b) * 100 \<le> 100" by simp
  moreover have "rep 100" using rep_small [of 100] by simp
  ultimately show "rnd (rnd (a / b) * 100) \<le> 100" by (rule rnd_le)
  show "0 \<le> rnd (rnd (a / b) * 100)" using assms by (intro rnd_nonneg) (simp add: rnd_nonneg)
qed

text \<open>The other order of evaluation, \<open>100 * a / b\<close>, needs the product to be exact.\<close>

lemma percent_bounds_scaled:
  assumes "0 \<le> a" and "a \<le> b" and "0 < b" and "rep (100 * a)"
  shows "0 \<le> rnd (rnd (100 * a) / b)" and "rnd (rnd (100 * a) / b) \<le> 100"
proof -
  have r: "rnd (100 * a) = 100 * a" using assms(4) by (rule rep_id)
  have "100 * a / b \<le> 100" using assms by (simp add: field_simps)
  moreover have "rep 100" using rep_small [of 100] by simp
  ultimately show "rnd (rnd (100 * a) / b) \<le> 100" unfolding r by (rule rnd_le)
  show "0 \<le> rnd (rnd (100 * a) / b)" unfolding r using assms by (intro rnd_nonneg) simp
qed

text \<open>A quotient of ordered numerators is ordered: larger usage never shows a smaller share.\<close>

lemma percent_mono:
  assumes "a \<le> a'" and "0 < b"
  shows "rnd (rnd (a / b) * 100) \<le> rnd (rnd (a' / b) * 100)"
  using assms by (intro mono mult_right_mono divide_right_mono) simp_all

end

interpretation b64: rounding "round_at 53 (-1074)" "representable 53 (-1074)"
proof
  fix n :: nat assume "n < 2 ^ 24"
  then have "n < 2 ^ 53" by simp
  then show "representable 53 (- 1074) (of_nat n)"
    by (intro representable_mono [OF representable_nat]) simp_all
qed (simp_all add: round_at_mono round_at_id round_at_representable)

interpretation b32: rounding "round_at 24 (-149)" "representable 24 (-149)"
proof
  fix n :: nat assume "n < 2 ^ 24"
  then show "representable 24 (- 149) (of_nat n)"
    by (intro representable_mono [OF representable_nat]) simp_all
qed (simp_all add: round_at_mono round_at_id round_at_representable)

end
