(* ===== verification/Prelude.thy ===== *)
theory Prelude
  imports Main "HOL-Library.Word" "HOL-Library.Code_Target_Numeral"
begin

text \<open>
  The vocabulary every component shares: Go's fixed-width integers, errors as values, panics as
  the second outcome of a computation, and the \<open>for ... range\<close> loop over a slice.

  A Go function that may panic has a result of type \<open>'a go\<close>; one that returns \<open>(T, error)\<close> has
  the result \<open>'a \<times> error option\<close>, the value being kept even when the error is set, because the
  code does so too (it returns the partly filled struct beside the error).
\<close>

named_theorems go_simps \<open>unfolding rules of the panic monad and of its loops\<close>

type_synonym u64 = "64 word"

section \<open>Errors and panics\<close>

datatype num_cause = ErrSyntax | ErrRange

text \<open>\<open>strconv.NumError\<close>: the failing function, its input, the reason.\<close>

datatype num_error = NumError string string num_cause

text \<open>The values the modelled code panics with.\<close>

datatype panic_value =
    PanicErr num_error
  | IndexOutOfRange nat nat
  | SliceOutOfRange nat nat

datatype ctx_error = Canceled | DeadlineExceeded

datatype error =
    ErrorString string
  | NumErr num_error
  | OSError string
  | CtxErr ctx_error
  | Recovered panic_value
  | Wrapped string panic_value
  | Errorf string "string list" "error list"

text \<open>
  Names of the shape (constructor, path) are printed by Go; here the structure is kept. \<open>Errorf\<close> is
  \<open>fmt.Errorf\<close>: the format with its string and its error operands.
\<close>

datatype 'a go = Ok 'a | Panic panic_value

fun go_bind :: "'a go \<Rightarrow> ('a \<Rightarrow> 'b go) \<Rightarrow> 'b go" where
  "go_bind (Ok x) f = f x"
| "go_bind (Panic p) f = Panic p"

lemma go_bind_Ok_right [simp]: "go_bind m Ok = m"
  by (cases m) simp_all

lemma go_bind_assoc: "go_bind (go_bind m f) g = go_bind m (\<lambda>x. go_bind (f x) g)"
  by (cases m) simp_all

lemma go_bind_eq_Ok [go_simps]: "go_bind m f = Ok y \<longleftrightarrow> (\<exists>x. m = Ok x \<and> f x = Ok y)"
  by (cases m) simp_all

lemma go_bind_eq_Panic [go_simps]:
  "go_bind m f = Panic p \<longleftrightarrow> m = Panic p \<or> (\<exists>x. m = Ok x \<and> f x = Panic p)"
  by (cases m) simp_all

text \<open>The same for the two ways a call that returns an error can end.\<close>

lemma go_bind_sum:
  "go_bind m (\<lambda>r. case r of Inl e \<Rightarrow> f e | Inr x \<Rightarrow> g x) = Ok y
    \<longleftrightarrow> (\<exists>e. m = Ok (Inl e) \<and> f e = Ok y) \<or> (\<exists>x. m = Ok (Inr x) \<and> g x = Ok y)"
proof (cases m)
  case (Ok r)
  then show ?thesis by (cases r) simp_all
qed simp

lemma go_bind_cong [fundef_cong]:
  "m = m' \<Longrightarrow> (\<And>x. m' = Ok x \<Longrightarrow> f x = f' x) \<Longrightarrow> go_bind m f = go_bind m' f'"
  by (cases m') simp_all

text \<open>The indexing expression \<open>xs[i]\<close>.\<close>

definition index_go :: "'a list \<Rightarrow> nat \<Rightarrow> 'a go" where
  "index_go xs i = (if i < length xs then Ok (xs ! i) else Panic (IndexOutOfRange i (length xs)))"

lemma index_go_Ok [simp]: "i < length xs \<Longrightarrow> index_go xs i = Ok (xs ! i)"
  by (simp add: index_go_def)

lemma index_go_Panic [simp]:
  "\<not> i < length xs \<Longrightarrow> index_go xs i = Panic (IndexOutOfRange i (length xs))"
  by (simp add: index_go_def)

lemma index_go_eq_Ok [go_simps]: "index_go xs i = Ok x \<longleftrightarrow> i < length xs \<and> xs ! i = x"
  by (auto simp: index_go_def)

text \<open>A \<open>for _, x := range xs\<close> loop whose body updates the state \<open>s\<close> and may panic.\<close>

fun range_loop :: "('s \<Rightarrow> 'a \<Rightarrow> 's go) \<Rightarrow> 's \<Rightarrow> 'a list \<Rightarrow> 's go" where
  "range_loop f s [] = Ok s"
| "range_loop f s (x # xs) = go_bind (f s x) (\<lambda>s'. range_loop f s' xs)"

lemma range_loop_append [simp]:
  "range_loop f s (xs @ ys) = go_bind (range_loop f s xs) (\<lambda>s'. range_loop f s' ys)"
  by (induction xs arbitrary: s) (simp_all add: go_bind_assoc)

text \<open>A loop invariant: a predicate every non-panicking step keeps holds at the end.\<close>

lemma range_loop_invariant:
  assumes "range_loop f s xs = Ok t" and "P s"
    and "\<And>s x s'. x \<in> set xs \<Longrightarrow> P s \<Longrightarrow> f s x = Ok s' \<Longrightarrow> P s'"
  shows "P t"
  using assms by (induction xs arbitrary: s) (auto simp: go_simps)

lemma range_loop_skip:
  assumes "\<And>s x. x \<in> set xs \<Longrightarrow> f s x = Ok s"
  shows "range_loop f s xs = Ok s"
  using assms by (induction xs) auto

text \<open>When a step panics on the element alone, the loop panics exactly on a bad element.\<close>

lemma range_loop_panics_iff:
  assumes "\<And>s x. (\<exists>p. f s x = Panic p) \<longleftrightarrow> bad x"
  shows "(\<exists>p. range_loop f s xs = Panic p) \<longleftrightarrow> (\<exists>x \<in> set xs. bad x)"
proof (induction xs arbitrary: s)
  case (Cons x xs)
  show ?case
  proof (cases "f s x")
    case (Ok t)
    then have "\<not> bad x" using assms [of s x] by auto
    with Ok Cons.IH [of t] show ?thesis by simp
  next
    case (Panic p)
    then have "bad x" using assms [of s x] by auto
    with Panic show ?thesis by simp
  qed
qed simp

lemma go_not_Panic: "\<not> (\<exists>p. m = Panic p) \<Longrightarrow> \<exists>x. m = Ok x"
  by (cases m) auto

text \<open>A loop that never panics is a fold.\<close>

lemma range_loop_pure [simp]: "range_loop (\<lambda>s x. Ok (f s x)) s xs = Ok (foldl f s xs)"
  by (induction xs arbitrary: s) simp_all

lemma foldl_invariant:
  assumes "P s" and "\<And>s x. x \<in> set xs \<Longrightarrow> P s \<Longrightarrow> P (f s x)"
  shows "P (foldl f s xs)"
  using assms by (induction xs arbitrary: s) auto

lemma foldl_skip: "(\<And>s x. x \<in> set xs \<Longrightarrow> f s x = s) \<Longrightarrow> foldl f s xs = s"
  by (induction xs) auto

lemma map_filter_append: "List.map_filter f (xs @ ys) = List.map_filter f xs @ List.map_filter f ys"
  by (simp add: List.map_filter_def)

lemma drop_length_append: "drop (length xs + n) (xs @ ys) = drop n ys"
  by simp

section \<open>The recovery boundary\<close>

text \<open>
  \<open>zero\<close> is the zero value of the result type: the named result \<open>result\<close> of the Go function
  is never assigned when \<open>fn\<close> panics.
\<close>

definition withRecover :: "'a \<Rightarrow> ('a \<times> error option) go \<Rightarrow> 'a \<times> error option" where
  "withRecover zero fn = (case fn of Ok r \<Rightarrow> r | Panic p \<Rightarrow> (zero, Some (Recovered p)))"

lemma withRecover_simps [simp]:
  "withRecover z (Ok r) = r"
  "withRecover z (Panic p) = (z, Some (Recovered p))"
  by (simp_all add: withRecover_def)

section \<open>Words\<close>

lemma unat_sub_u64: "(b :: u64) \<le> a \<Longrightarrow> unat (a - b) = unat a - unat b"
  by (simp add: unat_sub)

lemma unat_u64_less [simp]: "unat (a :: u64) < 18446744073709551616"
  using unsigned_less [of a, where 'a = nat] by simp

lemma sint_small_u64:
  assumes "unat (w :: u64) < 2 ^ 63"
  shows "sint w = int (unat w)"
proof -
  have u: "uint w = int (unat w)" by simp
  have a: "unat w < 9223372036854775808" using assms by simp
  have "- (2 ^ 63) \<le> int (unat w)" by (rule order_trans [of _ 0]) simp_all
  moreover have "int (unat w) < 2 ^ 63"
  proof -
    have "(2 :: int) ^ 63 = 9223372036854775808" by simp
    with a show ?thesis by linarith
  qed
  moreover have "sint w = signed_take_bit 63 (int (unat w))" by (simp only: sint_uint u) simp
  ultimately show ?thesis by (simp only: signed_take_bit_int_eq_self)
qed

lemma unat_prod2:
  assumes "unat a * unat b < 2 ^ 64"
  shows "unat (a * b :: u64) = unat a * unat b"
  using assms by (simp add: unat_word_ariths)

lemma unat_sum2:
  assumes "unat a + unat b < 2 ^ 64"
  shows "unat (a + b :: u64) = unat a + unat b"
  using assms by (simp add: unat_word_ariths)

lemma unat_sum3:
  assumes "unat a + unat b + unat c < 2 ^ 64"
  shows "unat (a + b + c :: u64) = unat a + unat b + unat c"
proof -
  have "unat (a + b) = unat a + unat b" using assms by (intro unat_sum2) simp
  with assms show ?thesis by (simp add: unat_word_ariths)
qed

end
