(* ===== verification/GoStrings.thy ===== *)
theory GoStrings
  imports Prelude
begin

text \<open>
  Go strings are byte strings, so they are Isabelle's \<open>string\<close> (a list of 8-bit characters). This
  theory holds what the repository uses of the package \<open>strings\<close>, and the padded fields and lines
  that \<open>printf\<close> writes, from which the kernel's files are built. White space is \<open>unicode.IsSpace\<close> on the UTF-8 encoding: the six ASCII characters, two
  two-byte and seventeen three-byte sequences; a lead byte never occurs inside another rune, so
  scanning for the encodings from left to right finds what rune decoding finds.
\<close>

section \<open>White space\<close>

definition ascii_space :: "char \<Rightarrow> bool" where
  "ascii_space c = (c = CHR 0x09 \<or> c = CHR 0x0A \<or> c = CHR 0x0B \<or> c = CHR 0x0C \<or> c = CHR 0x0D
     \<or> c = CHR 0x20)"

lemma ascii_space_literals [simp]: "ascii_space CHR 0x20" "ascii_space CHR 0x0A" "ascii_space CHR 0x09"
  by (simp_all add: ascii_space_def)

definition space2 :: "char \<Rightarrow> char \<Rightarrow> bool" where
  "space2 a b = (a = CHR 0xC2 \<and> (b = CHR 0x85 \<or> b = CHR 0xA0))"

definition space3 :: "char \<Rightarrow> char \<Rightarrow> char \<Rightarrow> bool" where
  "space3 a b c =
    (a = CHR 0xE1 \<and> b = CHR 0x9A \<and> c = CHR 0x80
   \<or> a = CHR 0xE2 \<and> b = CHR 0x80 \<and>
       (c = CHR 0x80 \<or> c = CHR 0x81 \<or> c = CHR 0x82 \<or> c = CHR 0x83 \<or> c = CHR 0x84 \<or> c = CHR 0x85
      \<or> c = CHR 0x86 \<or> c = CHR 0x87 \<or> c = CHR 0x88 \<or> c = CHR 0x89 \<or> c = CHR 0x8A \<or> c = CHR 0xA8
      \<or> c = CHR 0xA9 \<or> c = CHR 0xAF)
   \<or> a = CHR 0xE2 \<and> b = CHR 0x81 \<and> c = CHR 0x9F
   \<or> a = CHR 0xE3 \<and> b = CHR 0x80 \<and> c = CHR 0x80)"

text \<open>Bytes of the white space rune at the start of \<open>s\<close>, 0 when there is none.\<close>

definition ws_len :: "string \<Rightarrow> nat" where
  "ws_len s = (case s of [] \<Rightarrow> 0 | a # r \<Rightarrow>
     if ascii_space a then 1 else
     (case r of [] \<Rightarrow> 0 | b # r' \<Rightarrow>
        if space2 a b then 2 else
        (case r' of [] \<Rightarrow> 0 | c # r'' \<Rightarrow> if space3 a b c then 3 else 0)))"

text \<open>The same at the end of a string, which is given reversed.\<close>

definition ws_len_rev :: "string \<Rightarrow> nat" where
  "ws_len_rev s = (case s of [] \<Rightarrow> 0 | a # r \<Rightarrow>
     if ascii_space a then 1 else
     (case r of [] \<Rightarrow> 0 | b # r' \<Rightarrow>
        if space2 b a then 2 else
        (case r' of [] \<Rightarrow> 0 | c # r'' \<Rightarrow> if space3 c b a then 3 else 0)))"

text \<open>A byte that neither is nor starts nor ends white space.\<close>

definition plain_char :: "char \<Rightarrow> bool" where
  "plain_char c = (\<not> ascii_space c \<and> (of_char c :: nat) < 128)"

definition plain :: "string \<Rightarrow> bool" where
  "plain s = list_all plain_char s"

lemma plain_simps [simp]: "plain []" "plain (c # s) \<longleftrightarrow> plain_char c \<and> plain s"
  "plain (s @ t) \<longleftrightarrow> plain s \<and> plain t"
  by (simp_all add: plain_def)

lemma plain_no_space: "plain s \<Longrightarrow> ascii_space c \<Longrightarrow> c \<notin> set s"
  by (auto simp: plain_def list_all_iff plain_char_def)

lemmas plain_eval = plain_char_def ascii_space_def

lemma ws_len_Nil [simp]: "ws_len [] = 0" "ws_len_rev [] = 0"
  by (simp_all add: ws_len_def ws_len_rev_def)

lemma ws_len_space [simp]: "ascii_space c \<Longrightarrow> ws_len (c # s) = 1"
  "ascii_space c \<Longrightarrow> ws_len_rev (c # s) = 1"
  by (simp_all add: ws_len_def ws_len_rev_def)

lemma plain_char_cases: "plain_char c \<Longrightarrow> \<not> ascii_space c \<and> \<not> space2 c b \<and> \<not> space3 c b d
    \<and> \<not> space2 b c \<and> \<not> space3 b d c"
  by (auto simp: plain_char_def space2_def space3_def)

lemma ws_len_plain [simp]: "plain_char c \<Longrightarrow> ws_len (c # s) = 0"
  "plain_char c \<Longrightarrow> ws_len_rev (c # s) = 0"
  by (auto simp: ws_len_def ws_len_rev_def plain_char_cases split: list.splits)

lemma ws_len_le: "ws_len s \<le> length s" "ws_len_rev s \<le> length s"
  by (auto simp: ws_len_def ws_len_rev_def split: list.splits)

section \<open>Fields, TrimSpace\<close>

function fields_from :: "string \<Rightarrow> string \<Rightarrow> string list" where
  "fields_from w [] = (if w = [] then [] else [w])"
| "fields_from w (c # cs) =
     (if ws_len (c # cs) = 0 then fields_from (w @ [c]) cs
      else (if w = [] then [] else [w]) @ fields_from [] (drop (ws_len (c # cs) - 1) cs))"
  by pat_completeness auto
termination
  by (relation "measure (\<lambda>(w, s). length s)") auto

definition Fields :: "string \<Rightarrow> string list" where
  "Fields s = fields_from [] s"

function trim_left :: "string \<Rightarrow> string" where
  "trim_left s = (if ws_len s = 0 then s else trim_left (drop (ws_len s) s))"
  by pat_completeness auto
termination
  by (relation "measure length") (auto simp: ws_len_def split: list.splits if_splits)

function trim_left_rev :: "string \<Rightarrow> string" where
  "trim_left_rev s = (if ws_len_rev s = 0 then s else trim_left_rev (drop (ws_len_rev s) s))"
  by pat_completeness auto
termination
  by (relation "measure length") (auto simp: ws_len_rev_def split: list.splits if_splits)

declare trim_left.simps [simp del] trim_left_rev.simps [simp del]

definition TrimSpace :: "string \<Rightarrow> string" where
  "TrimSpace s = rev (trim_left_rev (rev (trim_left s)))"

lemma trim_left_Nil [simp]: "trim_left [] = []" "trim_left_rev [] = []"
  by (simp_all add: trim_left.simps trim_left_rev.simps)

lemma trim_left_plain [simp]: "plain_char c \<Longrightarrow> trim_left (c # s) = c # s"
  "plain_char c \<Longrightarrow> trim_left_rev (c # s) = c # s"
  by (simp_all add: trim_left.simps trim_left_rev.simps)

lemma trim_left_space [simp]: "ascii_space c \<Longrightarrow> trim_left (c # s) = trim_left s"
  "ascii_space c \<Longrightarrow> trim_left_rev (c # s) = trim_left_rev s"
  by (simp_all add: trim_left.simps [of "c # s"] trim_left_rev.simps [of "c # s"])

lemma TrimSpace_plain [simp]: "plain s \<Longrightarrow> TrimSpace s = s"
proof (cases s)
  case (Cons c cs)
  moreover assume "plain s"
  ultimately have "trim_left s = s" and r: "plain (rev s)" by (auto simp: plain_def)
  moreover have "trim_left_rev (rev s) = rev s"
    using r by (cases "rev s") auto
  ultimately show ?thesis by (simp add: TrimSpace_def)
qed (simp add: TrimSpace_def)

text \<open>A trailing line feed, as the kernel writes it, is trimmed away.\<close>

lemma TrimSpace_plain_newline [simp]: "plain s \<Longrightarrow> TrimSpace (s @ [CHR 0x0A]) = s"
proof (cases s)
  case (Cons c cs)
  moreover assume "plain s"
  ultimately have "trim_left (s @ [CHR 0x0A]) = s @ [CHR 0x0A]" and r: "plain (rev s)"
    by (auto simp: plain_def)
  moreover have "trim_left_rev (rev s) = rev s"
    using r by (cases "rev s") auto
  ultimately show ?thesis by (simp add: TrimSpace_def ascii_space_def)
qed (simp add: TrimSpace_def ascii_space_def)

lemma fields_from_plain: "plain v \<Longrightarrow> fields_from w (v @ s) = fields_from (w @ v) s"
  by (induction v arbitrary: w) auto

lemma fields_from_space [simp]:
  "ascii_space c \<Longrightarrow> fields_from w (c # s) = (if w = [] then [] else [w]) @ fields_from [] s"
  by simp

lemma Fields_Nil [simp]: "Fields [] = []"
  by (simp add: Fields_def)

lemma Fields_space [simp]: "ascii_space c \<Longrightarrow> Fields (c # s) = Fields s"
  by (simp add: Fields_def)

lemma Fields_word [simp]: "plain w \<Longrightarrow> w \<noteq> [] \<Longrightarrow> Fields w = [w]"
  using fields_from_plain [of w "[]" "[]"] by (simp add: Fields_def)

lemma Fields_word_space [simp]:
  "plain w \<Longrightarrow> w \<noteq> [] \<Longrightarrow> ascii_space c \<Longrightarrow> Fields (w @ c # s) = w # Fields s"
  using fields_from_plain [of w "[]" "c # s"] by (simp add: Fields_def)

lemma fields_from_nonempty: "f \<in> set (fields_from w s) \<Longrightarrow> f \<noteq> []"
  by (induction w s rule: fields_from.induct) (auto split: if_splits)

lemma Fields_nonempty: "f \<in> set (Fields s) \<Longrightarrow> f \<noteq> []"
  by (auto simp: Fields_def dest: fields_from_nonempty)

section \<open>Split, SplitN, Cut, Join\<close>

text \<open>A character in front of the first piece.\<close>

definition push_char :: "char \<Rightarrow> string list \<Rightarrow> string list" where
  [simp]: "push_char x ss = (x # hd ss) # tl ss"

fun Split :: "char \<Rightarrow> string \<Rightarrow> string list" where
  "Split c [] = [[]]"
| "Split c (x # xs) =
     (if x = c then [] # Split c xs else push_char x (Split c xs))"

text \<open>\<open>strings.SplitN(s, sep, n)\<close> for \<open>n > 0\<close>: the last piece keeps its separators.\<close>

fun SplitN :: "nat \<Rightarrow> char \<Rightarrow> string \<Rightarrow> string list" where
  "SplitN 0 c s = []"
| "SplitN (Suc 0) c s = [s]"
| "SplitN (Suc (Suc n)) c [] = [[]]"
| "SplitN (Suc (Suc n)) c (x # xs) =
     (if x = c then [] # SplitN (Suc n) c xs
      else push_char x (SplitN (Suc (Suc n)) c xs))"

lemma SplitN_code [code]:
  "SplitN n c s = (if n = 0 then [] else if n = 1 then [s] else (case s of [] \<Rightarrow> [[]]
     | x # xs \<Rightarrow> if x = c then [] # SplitN (n - 1) c xs else push_char x (SplitN n c xs)))"
  by (cases "(n, c, s)" rule: SplitN.cases) simp_all

text \<open>\<open>strings.Cut\<close> at a single character; \<open>None\<close> is \<open>found == false\<close>.\<close>

fun Cut :: "char \<Rightarrow> string \<Rightarrow> (string \<times> string) option" where
  "Cut c [] = None"
| "Cut c (x # xs) = (if x = c then Some ([], xs)
     else (case Cut c xs of None \<Rightarrow> None | Some (a, b) \<Rightarrow> Some (x # a, b)))"

fun join_with :: "char \<Rightarrow> string list \<Rightarrow> string" where
  "join_with c [] = []"
| "join_with c [s] = s"
| "join_with c (s # ss) = s @ c # join_with c ss"

abbreviation lines :: "string \<Rightarrow> string list" where
  "lines s \<equiv> Split CHR 0x0A s"

lemma Split_not_Nil [simp]: "Split c s \<noteq> []"
  by (cases s) auto

lemma Split_no_sep [simp]: "c \<notin> set s \<Longrightarrow> Split c s = [s]"
  by (induction s) auto

lemma Split_append_sep [simp]: "c \<notin> set s \<Longrightarrow> Split c (s @ c # t) = s # Split c t"
  by (induction s) auto

lemma Split_parts: "p \<in> set (Split c s) \<Longrightarrow> c \<notin> set p"
proof (induction s arbitrary: p)
  case (Cons x xs)
  have "hd (Split c xs) \<in> set (Split c xs)" by simp
  with Cons show ?case by (auto split: if_splits dest: list.set_sel(2) [rotated])
qed simp

lemma join_with_Cons: "ss \<noteq> [] \<Longrightarrow> join_with c (s # ss) = s @ c # join_with c ss"
  by (cases ss) auto

lemma join_Split [simp]: "join_with c (Split c s) = s"
proof (induction s)
  case (Cons x xs)
  then show ?case
    by (cases "Split c xs") (auto simp: join_with_Cons split: if_splits, case_tac list, auto)
qed simp

lemma Split_join: "ss \<noteq> [] \<Longrightarrow> \<forall>s \<in> set ss. c \<notin> set s \<Longrightarrow> Split c (join_with c ss) = ss"
  by (induction c ss rule: join_with.induct) auto

lemma Cut_Some: "Cut c s = Some (a, b) \<Longrightarrow> s = a @ c # b \<and> c \<notin> set a"
  by (induction s arbitrary: a) (auto split: if_splits option.splits)

lemma Cut_append [simp]: "c \<notin> set a \<Longrightarrow> Cut c (a @ c # b) = Some (a, b)"
  by (induction a) auto

lemma Cut_None [simp]: "c \<notin> set s \<Longrightarrow> Cut c s = None"
  by (induction s) auto

lemma SplitN_no_sep [simp]: "c \<notin> set s \<Longrightarrow> SplitN (Suc n) c s = [s]"
  by (induction "Suc n" c s rule: SplitN.induct) auto

lemma SplitN_append_sep [simp]:
  "c \<notin> set s \<Longrightarrow> SplitN (Suc (Suc n)) c (s @ c # t) = s # SplitN (Suc n) c t"
  by (induction s) auto

lemma length_SplitN: "length (SplitN n c s) \<le> n"
proof (induction n c s rule: SplitN.induct)
  case (4 n c x xs)
  then show ?case by (auto split: if_splits)
qed auto

text \<open>Words joined by one blank are the fields of the result.\<close>

lemma Fields_join:
  "list_all (\<lambda>w. plain w \<and> w \<noteq> []) ws \<Longrightarrow> ascii_space c \<Longrightarrow> Fields (join_with c ws) = ws"
  by (induction c ws rule: join_with.induct) auto

lemma join_with_set: "set (join_with c ss) \<subseteq> insert c (\<Union> (set ` set ss))"
  by (induction c ss rule: join_with.induct) auto

section \<open>Prefixes, suffixes, substrings\<close>

definition HasPrefix :: "string \<Rightarrow> string \<Rightarrow> bool" where
  "HasPrefix s p = (take (length p) s = p)"

definition HasSuffix :: "string \<Rightarrow> string \<Rightarrow> bool" where
  "HasSuffix s p = (length p \<le> length s \<and> drop (length s - length p) s = p)"

definition TrimPrefix :: "string \<Rightarrow> string \<Rightarrow> string" where
  "TrimPrefix s p = (if HasPrefix s p then drop (length p) s else s)"

definition TrimSuffix :: "string \<Rightarrow> string \<Rightarrow> string" where
  "TrimSuffix s p = (if HasSuffix s p then take (length s - length p) s else s)"

lemma HasPrefix_append [simp]: "HasPrefix (p @ s) p"
  by (simp add: HasPrefix_def)

lemma HasPrefix_iff: "HasPrefix s p \<longleftrightarrow> (\<exists>t. s = p @ t)"
  by (metis HasPrefix_append HasPrefix_def append_take_drop_id)

lemma HasSuffix_append [simp]: "HasSuffix (s @ p) p"
  by (simp add: HasSuffix_def)

lemma HasSuffix_iff: "HasSuffix s p \<longleftrightarrow> (\<exists>t. s = t @ p)"
  by (metis HasSuffix_append HasSuffix_def append_take_drop_id)

lemma TrimSuffix_append [simp]: "TrimSuffix (s @ p) p = s"
  by (simp add: TrimSuffix_def)

lemma TrimPrefix_append [simp]: "TrimPrefix (p @ s) p = s"
  by (simp add: TrimPrefix_def)

text \<open>\<open>strings.Index\<close>: the first position of \<open>p\<close> in \<open>s\<close>.\<close>

fun Index_of :: "string \<Rightarrow> string \<Rightarrow> nat option" where
  "Index_of [] p = (if p = [] then Some 0 else None)"
| "Index_of (c # cs) p =
     (if HasPrefix (c # cs) p then Some 0 else map_option Suc (Index_of cs p))"

definition Contains :: "string \<Rightarrow> string \<Rightarrow> bool" where
  "Contains s p = (Index_of s p \<noteq> None)"

text \<open>\<open>strings.LastIndex\<close> of a single character.\<close>

fun LastIndex :: "string \<Rightarrow> char \<Rightarrow> nat option" where
  "LastIndex [] c = None"
| "LastIndex (x # xs) c =
     (case LastIndex xs c of Some i \<Rightarrow> Some (Suc i) | None \<Rightarrow> if x = c then Some 0 else None)"

lemma LastIndex_None [simp]: "LastIndex s c = None \<longleftrightarrow> c \<notin> set s"
  by (induction s) (auto split: option.splits)

lemma LastIndex_append [simp]: "c \<notin> set t \<Longrightarrow> LastIndex (s @ c # t) c = Some (length s)"
  by (induction s) (auto split: option.splits)

text \<open>Left to right, non-overlapping replacement of one non-empty substring.\<close>

function ReplaceAll :: "string \<Rightarrow> string \<Rightarrow> string \<Rightarrow> string" where
  "ReplaceAll old new [] = []"
| "ReplaceAll old new (c # cs) =
     (if old \<noteq> [] \<and> HasPrefix (c # cs) old
      then new @ ReplaceAll old new (drop (length old - 1) cs)
      else c # ReplaceAll old new cs)"
  by pat_completeness auto
termination
  by (relation "measure (\<lambda>(old, new, s). length s)") auto

text \<open>\<open>strings.ToUpper\<close> on ASCII, which is all its callers compare.\<close>

definition upper_char :: "char \<Rightarrow> char" where
  "upper_char c = (let n = of_char c :: nat in if 97 \<le> n \<and> n \<le> 122 then char_of (n - 32) else c)"

definition lower_char :: "char \<Rightarrow> char" where
  "lower_char c = (let n = of_char c :: nat in if 65 \<le> n \<and> n \<le> 90 then char_of (n + 32) else c)"

definition ToUpper :: "string \<Rightarrow> string" where
  "ToUpper s = map upper_char s"

section \<open>Text as printf writes it\<close>

text \<open>A field right-aligned as \<open>%*s\<close> writes it, one left-aligned as \<open>%-*s\<close> does (for ASCII text), and
  lines that each end in a line feed.\<close>

definition flush_right :: "nat \<Rightarrow> string \<Rightarrow> string" where
  "flush_right n s = replicate (n - length s) CHR 0x20 @ s"

definition flush_left :: "nat \<Rightarrow> string \<Rightarrow> string" where
  "flush_left n s = s @ replicate (n - length s) CHR 0x20"

definition text_lines :: "string list \<Rightarrow> string" where
  "text_lines ls = concat (map (\<lambda>l. l @ [CHR 0x0A]) ls)"

lemma lines_text_lines:
  "\<forall>l \<in> set ls. CHR 0x0A \<notin> set l \<Longrightarrow> lines (text_lines ls) = ls @ [[]]"
  by (induction ls) (simp_all add: text_lines_def)

lemma Fields_blanks [simp]: "Fields (replicate n CHR 0x20 @ s) = Fields s"
  by (induction n) simp_all

lemma trim_left_blanks [simp]: "trim_left (replicate n CHR 0x20 @ s) = trim_left s"
  by (induction n) simp_all

lemma Fields_flush_right [simp]: "Fields (flush_right n s) = Fields s"
  "Fields (flush_right n s @ t) = Fields (s @ t)"
  by (simp_all add: flush_right_def)

lemma TrimSpace_flush_right [simp]: "plain s \<Longrightarrow> TrimSpace (flush_right n s) = s"
  using TrimSpace_plain [of s] by (simp add: TrimSpace_def flush_right_def)

lemma Fields_flush_left:
  assumes "plain s" and "s \<noteq> []" and "length s < n"
  shows "Fields (flush_left n s @ t) = s # Fields t"
proof -
  have "replicate (n - length s) CHR 0x20 = CHR 0x20 # replicate (n - length s - 1) CHR 0x20"
    using assms(3) by (cases "n - length s") simp_all
  then show ?thesis using assms(1,2) by (simp add: flush_left_def)
qed

lemma in_set_flush [simp]:
  "c \<in> set (flush_right n s) \<longleftrightarrow> c \<in> set s \<or> c = CHR 0x20 \<and> length s < n"
  "c \<in> set (flush_left n s) \<longleftrightarrow> c \<in> set s \<or> c = CHR 0x20 \<and> length s < n"
  by (auto simp: flush_right_def flush_left_def)

end
