(* ===== verification/GoNumbers.thy ===== *)
theory GoNumbers
  imports GoStrings
begin

text \<open>
  The integer half of \<open>strconv\<close>: \<open>ParseUint(s, 10, 64)\<close>, \<open>ParseInt(s, 10, 64)\<close>, \<open>Atoi\<close>,
  \<open>Itoa\<close>. Each parser returns the value Go returns beside the error: 0 after a syntax error, the
  nearest bound after a range error. The callers that drop the error keep that value.
\<close>

section \<open>Digits\<close>

definition is_digit :: "char \<Rightarrow> bool" where
  "is_digit c = (let n = of_char c :: nat in 48 \<le> n \<and> n \<le> 57)"

definition digit_val :: "char \<Rightarrow> nat" where
  "digit_val c = of_char c - 48"

definition digit_char :: "nat \<Rightarrow> char" where
  "digit_char d = char_of (48 + d)"

lemma is_digit_digit_char [simp]: "d < 10 \<Longrightarrow> is_digit (digit_char d)"
  by (simp add: is_digit_def digit_char_def Let_def)

lemma digit_val_digit_char [simp]: "d < 10 \<Longrightarrow> digit_val (digit_char d) = d"
  by (simp add: digit_val_def digit_char_def)

lemma digit_val_less: "is_digit c \<Longrightarrow> digit_val c < 10"
  by (auto simp: is_digit_def digit_val_def Let_def)

lemma digit_char_digit_val [simp]: "is_digit c \<Longrightarrow> digit_char (digit_val c) = c"
  by (auto simp: is_digit_def digit_val_def digit_char_def Let_def)

lemma plain_char_digit [simp]: "is_digit c \<Longrightarrow> plain_char c"
  by (auto simp: is_digit_def plain_char_def ascii_space_def Let_def)

lemma plain_digits: "list_all is_digit s \<Longrightarrow> plain s"
  by (auto simp: plain_def list_all_iff)

section \<open>Unsigned\<close>

text \<open>The loop of \<open>ParseUint\<close>: it stops at the first bad character or at the overflow.\<close>

fun parse_uint_loop :: "nat \<Rightarrow> string \<Rightarrow> nat \<times> num_cause option" where
  "parse_uint_loop n [] = (n, None)"
| "parse_uint_loop n (c # cs) =
     (if \<not> is_digit c then (0, Some ErrSyntax)
      else let m = 10 * n + digit_val c in
        if 2 ^ 64 \<le> m then (2 ^ 64 - 1, Some ErrRange) else parse_uint_loop m cs)"

definition parse_uint_nat :: "string \<Rightarrow> nat \<times> num_cause option" where
  "parse_uint_nat s = (if s = [] then (0, Some ErrSyntax) else parse_uint_loop 0 s)"

definition ParseUint :: "string \<Rightarrow> u64 \<times> num_cause option" where
  "ParseUint s = (case parse_uint_nat s of (n, e) \<Rightarrow> (of_nat n, e))"

text \<open>\<open>v, err := strconv.ParseUint(...)\<close> used as an option: \<open>None\<close> when \<open>err\<close> is set.\<close>

definition parse_u64 :: "string \<Rightarrow> u64 option" where
  "parse_u64 s = (case ParseUint s of (v, None) \<Rightarrow> Some v | (v, Some e) \<Rightarrow> None)"

section \<open>Signed\<close>

definition ParseInt :: "string \<Rightarrow> int \<times> num_cause option" where
  "ParseInt s =
    (case s of [] \<Rightarrow> (0, Some ErrSyntax)
     | c # cs \<Rightarrow>
       let neg = (c = CHR ''-'');
           body = (if c = CHR ''-'' \<or> c = CHR ''+'' then cs else s)
       in case parse_uint_nat body of
            (un, Some ErrSyntax) \<Rightarrow> (0, Some ErrSyntax)
          | (un, _) \<Rightarrow>
              if \<not> neg \<and> 2 ^ 63 \<le> un then (2 ^ 63 - 1, Some ErrRange)
              else if neg \<and> 2 ^ 63 < un then (- (2 ^ 63), Some ErrRange)
              else if neg then (- int un, None) else (int un, None))"

definition parse_i64 :: "string \<Rightarrow> int option" where
  "parse_i64 s = (case ParseInt s of (v, None) \<Rightarrow> Some v | (v, Some e) \<Rightarrow> None)"

text \<open>On 64-bit platforms \<open>Atoi\<close> computes the same value and the same error.\<close>

definition Atoi :: "string \<Rightarrow> int \<times> num_cause option" where
  "Atoi s = ParseInt s"

definition atoi_ok :: "string \<Rightarrow> int option" where
  "atoi_ok s = (case Atoi s of (v, None) \<Rightarrow> Some v | (v, Some e) \<Rightarrow> None)"

section \<open>Printing\<close>

function show_nat :: "nat \<Rightarrow> string" where
  "show_nat n = (if n < 10 then [digit_char n] else show_nat (n div 10) @ [digit_char (n mod 10)])"
  by pat_completeness auto
termination
  by (relation "measure id") auto

declare show_nat.simps [simp del]

abbreviation show_u64 :: "u64 \<Rightarrow> string" where
  "show_u64 v \<equiv> show_nat (unat v)"

definition Itoa :: "int \<Rightarrow> string" where
  "Itoa i = (if i < 0 then CHR ''-'' # show_nat (nat (- i)) else show_nat (nat i))"

lemma show_nat_digits: "list_all is_digit (show_nat n)"
proof (induction n rule: show_nat.induct)
  case (1 n)
  then show ?case by (subst show_nat.simps) auto
qed

lemma show_nat_not_Nil [simp]: "show_nat n \<noteq> []"
  by (subst show_nat.simps) simp

lemma plain_show_nat [simp]: "plain (show_nat n)"
  by (rule plain_digits [OF show_nat_digits])

section \<open>Facts about the parsers\<close>

lemma parse_uint_loop_append:
  "snd (parse_uint_loop n s) = None \<Longrightarrow>
   parse_uint_loop n (s @ t) = parse_uint_loop (fst (parse_uint_loop n s)) t"
  by (induction s arbitrary: n) (auto simp: Let_def)

lemma parse_uint_loop_show:
  "n < 2 ^ 64 \<Longrightarrow> parse_uint_loop 0 (show_nat n) = (n, None)"
proof (induction n rule: show_nat.induct)
  case (1 n)
  show ?case
  proof (cases "n < 10")
    case True
    then show ?thesis by (subst show_nat.simps) (simp add: Let_def)
  next
    case False
    with 1 have "parse_uint_loop 0 (show_nat (n div 10)) = (n div 10, None)" by simp
    moreover have "show_nat n = show_nat (n div 10) @ [digit_char (n mod 10)]"
      using False show_nat.simps [of n] by simp
    moreover have "10 * (n div 10) + n mod 10 = n" by simp
    ultimately show ?thesis using "1.prems"
      by (simp add: parse_uint_loop_append Let_def del: power_numeral)
  qed
qed

lemma parse_uint_nat_show [simp]: "n < 2 ^ 64 \<Longrightarrow> parse_uint_nat (show_nat n) = (n, None)"
  by (simp add: parse_uint_nat_def parse_uint_loop_show del: power_numeral)

text \<open>Round trip: printing a counter and parsing it back.\<close>

lemma ParseUint_show [simp]: "ParseUint (show_nat (unat v)) = (v, None)"
proof -
  have "unat v < 2 ^ 64" using unat_u64_less [of v] by simp
  then show ?thesis by (simp add: ParseUint_def del: power_numeral)
qed

lemma parse_u64_show [simp]: "parse_u64 (show_nat (unat v)) = Some v"
  by (simp add: parse_u64_def)

lemma parse_uint_loop_bound: "n < 2 ^ 64 \<Longrightarrow> fst (parse_uint_loop n s) < 2 ^ 64"
proof (induction s arbitrary: n)
  case (Cons c cs)
  show ?case
  proof (cases "is_digit c \<and> 10 * n + digit_val c < 2 ^ 64")
    case True
    then show ?thesis using Cons.IH [of "10 * n + digit_val c"] by (auto simp: Let_def)
  qed (auto simp: Let_def)
qed simp

lemma parse_uint_nat_bound: "fst (parse_uint_nat s) < 2 ^ 64"
  using parse_uint_loop_bound [of 0 s] by (simp add: parse_uint_nat_def)

lemma parse_uint_loop_syntax:
  "snd (parse_uint_loop n s) = Some ErrSyntax \<Longrightarrow> fst (parse_uint_loop n s) = 0"
  by (induction s arbitrary: n) (auto simp: Let_def split: if_splits)

text \<open>What \<open>ParseUint\<close> accepts: a non-empty string of digits whose value fits 64 bits.\<close>

definition digits_val :: "nat \<Rightarrow> string \<Rightarrow> nat" where
  "digits_val n s = foldl (\<lambda>m c. 10 * m + digit_val c) n s"

lemma digits_val_ge: "n \<le> digits_val n s"
proof (induction s arbitrary: n)
  case (Cons c cs)
  have "n \<le> 10 * n + digit_val c" by simp
  also have "\<dots> \<le> digits_val (10 * n + digit_val c) cs" by (rule Cons.IH)
  finally show ?case by (simp add: digits_val_def)
qed (simp add: digits_val_def)

lemma parse_uint_loop_accepts:
  "parse_uint_loop n s = (m, None) \<longleftrightarrow>
     list_all is_digit s \<and> digits_val n s = m \<and> (s = [] \<or> m < 2 ^ 64)"
proof (induction s arbitrary: n)
  case Nil
  then show ?case by (auto simp: digits_val_def)
next
  case (Cons c cs)
  have "10 * n + digit_val c \<le> digits_val n (c # cs)"
    using digits_val_ge [of "10 * n + digit_val c" cs] by (simp add: digits_val_def)
  then show ?case using Cons.IH [of "10 * n + digit_val c"]
    by (auto simp: Let_def digits_val_def)
qed

lemma parse_uint_nat_accepts:
  "parse_uint_nat s = (m, None) \<longleftrightarrow>
     s \<noteq> [] \<and> list_all is_digit s \<and> digits_val 0 s = m \<and> m < 2 ^ 64"
  unfolding parse_uint_nat_def using parse_uint_loop_accepts [of 0 s m] by auto

lemma parse_u64_Some_iff:
  "parse_u64 s = Some v \<longleftrightarrow> (\<exists>m. parse_uint_nat s = (m, None) \<and> v = of_nat m)"
proof (cases "parse_uint_nat s")
  case (Pair m e)
  then show ?thesis by (cases e) (auto simp: parse_u64_def ParseUint_def)
qed

lemma parse_u64_accepts:
  "parse_u64 s = Some v \<longleftrightarrow>
     s \<noteq> [] \<and> list_all is_digit s \<and> digits_val 0 s < 2 ^ 64 \<and> v = of_nat (digits_val 0 s)"
  unfolding parse_u64_Some_iff parse_uint_nat_accepts by blast

lemma ParseInt_bounds: "- (2 ^ 63) \<le> fst (ParseInt s) \<and> fst (ParseInt s) < 2 ^ 63"
  by (cases s) (auto simp: ParseInt_def Let_def split: prod.splits option.splits num_cause.splits)

lemma is_digit_not_sign: "is_digit c \<Longrightarrow> c \<noteq> CHR ''-'' \<and> c \<noteq> CHR ''+''"
  by (auto simp: is_digit_def)

lemma ParseInt_Itoa: "- (2 ^ 63) \<le> i \<Longrightarrow> i < 2 ^ 63 \<Longrightarrow> ParseInt (Itoa i) = (i, None)"
proof (cases "i < 0")
  case True
  moreover assume "- (2 ^ 63) \<le> i"
  ultimately have "nat (- i) \<le> 2 ^ 63" by simp
  then have "parse_uint_nat (show_nat (nat (- i))) = (nat (- i), None)" by simp
  with True \<open>nat (- i) \<le> 2 ^ 63\<close> show ?thesis by (simp add: Itoa_def ParseInt_def)
next
  case False
  assume "i < 2 ^ 63"
  with False have b: "nat i < 2 ^ 63" by simp
  then have p: "parse_uint_nat (show_nat (nat i)) = (nat i, None)" by simp
  obtain c cs where s: "show_nat (nat i) = c # cs" by (cases "show_nat (nat i)") auto
  then have "is_digit c" using show_nat_digits [of "nat i"] by simp
  then have "c \<noteq> CHR ''-'' \<and> c \<noteq> CHR ''+''" by (rule is_digit_not_sign)
  then show ?thesis using False b p s by (simp add: Itoa_def ParseInt_def)
qed

end
