(* ===== verification/GoFloats.thy ===== *)
theory GoFloats
  imports Rounding GoNumbers
begin

text \<open>
  \<open>float64\<close> and \<open>float32\<close> as IEEE 754 values in sign-magnitude form, the operations the repository
  uses on them, and \<open>strconv.ParseFloat(s, 64)\<close>. A finite value is a sign and a non-negative
  rational; every operation computes exactly and rounds once (\<open>round_at 53 (-1074)\<close>), and a
  magnitude of \<open>2^1024\<close> or more after rounding is an infinity.
\<close>

section \<open>Values\<close>

datatype f64 = NaN | Inf bool | Fin bool rat

type_synonym f32 = f64 \<comment> \<open>the same values, rounded by \<open>mk32\<close>\<close>

definition mk64 :: "bool \<Rightarrow> rat \<Rightarrow> f64" where
  "mk64 neg mag = (let r = round_at 53 (-1074) mag in if 2 ^ 1024 \<le> r then Inf neg else Fin neg r)"

definition mk32 :: "bool \<Rightarrow> rat \<Rightarrow> f32" where
  "mk32 neg mag = (let r = round_at 24 (-149) mag in if 2 ^ 128 \<le> r then Inf neg else Fin neg r)"

fun f64_to_f32 :: "f64 \<Rightarrow> f32" where
  "f64_to_f32 (Fin s m) = mk32 s m"
| "f64_to_f32 x = x"

abbreviation f64_zero :: f64 where
  "f64_zero \<equiv> Fin False 0"

fun is_fin :: "f64 \<Rightarrow> bool" where
  "is_fin (Fin s m) = True"
| "is_fin x = False"

text \<open>The number a finite value stands for.\<close>

fun f64_val :: "f64 \<Rightarrow> rat" where
  "f64_val (Fin s m) = (if s then - m else m)"
| "f64_val x = 0"

text \<open>A rounded signed rational; \<open>zs\<close> is the sign an exact zero gets.\<close>

definition f64_of_rat :: "bool \<Rightarrow> rat \<Rightarrow> f64" where
  "f64_of_rat zs x = (if x = 0 then Fin zs 0 else mk64 (x < 0) \<bar>x\<bar>)"

text \<open>An integer constant of the source; all of them are exact.\<close>

definition f64_const :: "nat \<Rightarrow> f64" where
  "f64_const n = Fin False (of_nat n)"

section \<open>Conversions\<close>

definition f64_of_nat :: "nat \<Rightarrow> f64" where
  "f64_of_nat n = mk64 False (of_nat n)"

definition f64_of_u64 :: "u64 \<Rightarrow> f64" where
  "f64_of_u64 w = f64_of_nat (unat w)"

definition f64_of_int :: "int \<Rightarrow> f64" where
  "f64_of_int i = mk64 (i < 0) (of_int \<bar>i\<bar>)"

text \<open>
  \<open>int(x)\<close>: truncation towards zero. Go leaves the result of an unrepresentable conversion to
  the implementation, so it is the parameter \<open>oor\<close>.
\<close>

definition int_of_f64 :: "(f64 \<Rightarrow> int) \<Rightarrow> f64 \<Rightarrow> int" where
  "int_of_f64 oor x = (case x of
     Fin s m \<Rightarrow> let i = (if s then - \<lfloor>m\<rfloor> else \<lfloor>m\<rfloor>) in
       if - (2 ^ 63) \<le> i \<and> i < 2 ^ 63 then i else oor x
   | _ \<Rightarrow> oor x)"

section \<open>Arithmetic\<close>

fun f64_neg :: "f64 \<Rightarrow> f64" where
  "f64_neg NaN = NaN"
| "f64_neg (Inf s) = Inf (\<not> s)"
| "f64_neg (Fin s m) = Fin (\<not> s) m"

fun f64_add :: "f64 \<Rightarrow> f64 \<Rightarrow> f64" where
  "f64_add (Fin s a) (Fin t b) =
     f64_of_rat (s \<and> t) (f64_val (Fin s a) + f64_val (Fin t b))"
| "f64_add (Inf s) (Inf t) = (if s = t then Inf s else NaN)"
| "f64_add (Inf s) (Fin t b) = Inf s"
| "f64_add (Fin s a) (Inf t) = Inf t"
| "f64_add x y = NaN"

definition f64_sub :: "f64 \<Rightarrow> f64 \<Rightarrow> f64" where
  "f64_sub x y = f64_add x (f64_neg y)"

fun f64_mul :: "f64 \<Rightarrow> f64 \<Rightarrow> f64" where
  "f64_mul (Fin s a) (Fin t b) = mk64 (s \<noteq> t) (a * b)"
| "f64_mul (Inf s) (Inf t) = Inf (s \<noteq> t)"
| "f64_mul (Inf s) (Fin t b) = (if b = 0 then NaN else Inf (s \<noteq> t))"
| "f64_mul (Fin s a) (Inf t) = (if a = 0 then NaN else Inf (s \<noteq> t))"
| "f64_mul x y = NaN"

fun f64_div :: "f64 \<Rightarrow> f64 \<Rightarrow> f64" where
  "f64_div (Fin s a) (Fin t b) =
     (if b = 0 then (if a = 0 then NaN else Inf (s \<noteq> t)) else mk64 (s \<noteq> t) (a / b))"
| "f64_div (Inf s) (Fin t b) = Inf (s \<noteq> t)"
| "f64_div (Fin s a) (Inf t) = Fin (s \<noteq> t) 0"
| "f64_div x y = NaN"

section \<open>Comparisons\<close>

fun f64_less :: "f64 \<Rightarrow> f64 \<Rightarrow> bool" where
  "f64_less (Fin s a) (Fin t b) = (f64_val (Fin s a) < f64_val (Fin t b))"
| "f64_less (Inf s) (Inf t) = (s \<and> \<not> t)"
| "f64_less (Inf s) (Fin t b) = s"
| "f64_less (Fin s a) (Inf t) = (\<not> t)"
| "f64_less x y = False"

fun f64_le :: "f64 \<Rightarrow> f64 \<Rightarrow> bool" where
  "f64_le (Fin s a) (Fin t b) = (f64_val (Fin s a) \<le> f64_val (Fin t b))"
| "f64_le (Inf s) (Inf t) = (s \<or> \<not> t)"
| "f64_le (Inf s) (Fin t b) = s"
| "f64_le (Fin s a) (Inf t) = (\<not> t)"
| "f64_le x y = False"

text \<open>\<open>math.Ceil\<close>: exact on finite values, the sign of a zero result is the operand's.\<close>

fun f64_ceil :: "f64 \<Rightarrow> f64" where
  "f64_ceil (Fin s m) = (if s then Fin True (of_int \<lfloor>m\<rfloor>) else Fin False (of_int \<lceil>m\<rceil>))"
| "f64_ceil x = x"

section \<open>Facts\<close>

lemma f64_val_nonneg_mk: "0 \<le> f64_val (mk64 False m)"
  by (simp add: mk64_def Let_def)

lemma mk64_Fin: "round_at 53 (-1074) m < 2 ^ 1024 \<Longrightarrow> mk64 s m = Fin s (round_at 53 (-1074) m)"
  by (simp add: mk64_def Let_def)

lemma int_of_f64_of_int:
  "0 \<le> k \<Longrightarrow> k < 2 ^ 63 \<Longrightarrow> int_of_f64 oor (Fin False (of_int k)) = k"
  by (simp add: int_of_f64_def)

text \<open>Anything up to a representable bound below the overflow threshold stays finite.\<close>

lemma mk64_le:
  assumes "m \<le> pow2 k" and "k < 1024" and "-1074 \<le> k"
  shows "mk64 s m = Fin s (round_at 53 (-1074) m)"
proof (rule mk64_Fin)
  have "round_at 53 (-1074) m \<le> pow2 k"
    using assms by (intro b64.rnd_le representable_pow2) simp_all
  also have "\<dots> < pow2 1024" using assms by simp
  also have "\<dots> = 2 ^ 1024" using pow2_nat [of 1024] by simp
  finally show "round_at 53 (-1074) m < 2 ^ 1024" .
qed

lemma mk64_exact:
  assumes "representable 53 (-1074) m" and "m \<le> pow2 k" and "k < 1024" and "-1074 \<le> k"
  shows "mk64 s m = Fin s m"
  using mk64_le [OF assms(2-4)] b64.rep_id [OF assms(1)] by simp

lemma f64_of_nat_Fin: "n < 2 ^ 64 \<Longrightarrow>
  f64_of_nat n = Fin False (round_at 53 (-1074) (of_nat n))"
proof -
  assume "n < 2 ^ 64"
  then have "(of_nat n :: rat) \<le> of_nat (2 ^ 64)" by (simp only: of_nat_le_iff less_imp_le)
  also have "\<dots> = pow2 64" using pow2_nat [of 64] by simp
  finally show ?thesis unfolding f64_of_nat_def by (rule mk64_le) simp_all
qed

text \<open>The number a 64-bit counter stands for.\<close>

definition rat_of_u64 :: "u64 \<Rightarrow> rat" where
  "rat_of_u64 w = of_nat (unat w)"

lemma rat_of_u64_mono [simp]: "rat_of_u64 v \<le> rat_of_u64 w \<longleftrightarrow> v \<le> w"
  unfolding rat_of_u64_def of_nat_le_iff word_le_nat_alt ..

lemma rat_of_u64_nonneg [simp]: "0 \<le> rat_of_u64 w"
  unfolding rat_of_u64_def by (rule of_nat_0_le_iff)

lemma rat_of_u64_ge_1: "0 < w \<Longrightarrow> 1 \<le> rat_of_u64 w"
proof -
  assume "0 < w"
  then have "1 \<le> unat w" by (simp add: word_less_nat_alt)
  then have "of_nat 1 \<le> (of_nat (unat w) :: rat)" by (simp only: of_nat_le_iff)
  then show ?thesis unfolding rat_of_u64_def by (simp only: of_nat_1)
qed

lemma rat_of_u64_le: "rat_of_u64 w \<le> pow2 64"
proof -
  have "unat w \<le> 2 ^ 64" by (simp add: less_imp_le)
  then have "(of_nat (unat w) :: rat) \<le> of_nat (2 ^ 64)" by (simp only: of_nat_le_iff)
  also have "\<dots> = pow2 64" using pow2_nat [of 64] by simp
  finally show ?thesis unfolding rat_of_u64_def .
qed

lemma f64_of_u64_Fin: "f64_of_u64 w = Fin False (round_at 53 (-1074) (rat_of_u64 w))"
proof -
  have "unat w < 2 ^ 64" by simp
  then show ?thesis unfolding f64_of_u64_def rat_of_u64_def by (rule f64_of_nat_Fin)
qed

lemma f64_of_nat_exact: "n < 2 ^ 53 \<Longrightarrow> f64_of_nat n = Fin False (of_nat n)"
proof -
  assume n: "n < 2 ^ 53"
  then have "representable 53 (-1074) (of_nat n)"
    by (intro representable_mono [OF representable_nat]) simp_all
  then show ?thesis using n f64_of_nat_Fin [of n] by (simp add: b64.rep_id)
qed

lemma f64_of_u64_exact: "unat w < 2 ^ 53 \<Longrightarrow> f64_of_u64 w = Fin False (rat_of_u64 w)"
  unfolding f64_of_u64_def rat_of_u64_def by (rule f64_of_nat_exact)

lemma f64_of_u64_0 [simp]: "f64_of_u64 0 = f64_zero"
  using f64_of_u64_exact [of 0] by (simp add: rat_of_u64_def)

lemma is_fin_f64_of_u64 [simp]: "is_fin (f64_of_u64 w)"
  by (simp add: f64_of_u64_Fin)

lemma f64_of_u64_nonneg [simp]: "0 \<le> f64_val (f64_of_u64 w)"
  by (simp add: f64_of_u64_Fin)

lemma f64_of_u64_mono: "v \<le> w \<Longrightarrow> f64_val (f64_of_u64 v) \<le> f64_val (f64_of_u64 w)"
  by (simp add: f64_of_u64_Fin b64.mono)

lemma f64_of_u64_le: "f64_val (f64_of_u64 w) \<le> pow2 64"
  using b64.rnd_le [OF rat_of_u64_le [of w]] representable_pow2 [of 53 "-1074" 64]
  by (simp add: f64_of_u64_Fin)

lemma f64_of_u64_pos: "0 < w \<Longrightarrow> 1 \<le> f64_val (f64_of_u64 w)"
  using b64.le_rnd [OF rat_of_u64_ge_1 [of w]] b64.rep_small [of 1] by (simp add: f64_of_u64_Fin)

text \<open>A converted 64-bit integer keeps at most 53 significant bits and no fraction.\<close>

lemma f64_of_u64_integral: "representable 53 0 (f64_val (f64_of_u64 w))"
  unfolding f64_of_u64_Fin rat_of_u64_def by (simp only: f64_val.simps if_False)
    (rule round_at_nat_representable, simp_all)

lemma f64_le_refl_fin [simp]: "is_fin x \<Longrightarrow> f64_le x x"
  by (cases x) auto

lemma f64_le_iff: "is_fin x \<Longrightarrow> is_fin y \<Longrightarrow> f64_le x y \<longleftrightarrow> f64_val x \<le> f64_val y"
  by (cases x; cases y) auto

lemma f64_less_iff: "is_fin x \<Longrightarrow> is_fin y \<Longrightarrow> f64_less x y \<longleftrightarrow> f64_val x < f64_val y"
  by (cases x; cases y) auto

lemma f64_less_le_antisym: "is_fin x \<Longrightarrow> is_fin y \<Longrightarrow> \<not> f64_less x y \<longleftrightarrow> f64_le y x"
  by (auto simp: f64_le_iff f64_less_iff)

text \<open>A percentage computed as \<open>float64(a) / float64(b) * 100\<close>.\<close>

lemma f64_percent:
  assumes "a \<le> b" and "0 < (b :: u64)"
  shows "is_fin (f64_mul (f64_div (f64_of_u64 a) (f64_of_u64 b)) (f64_const 100))"
    and "0 \<le> f64_val (f64_mul (f64_div (f64_of_u64 a) (f64_of_u64 b)) (f64_const 100))"
    and "f64_val (f64_mul (f64_div (f64_of_u64 a) (f64_of_u64 b)) (f64_const 100)) \<le> 100"
proof -
  let ?r = "round_at 53 (-1074)"
  let ?a = "?r (rat_of_u64 a)" and ?b = "?r (rat_of_u64 b)"
  have ab: "?a \<le> ?b" using assms by (intro b64.mono) simp
  have b: "0 < ?b" using f64_of_u64_pos [OF assms(2)] by (simp add: f64_of_u64_Fin)
  then have "?a / ?b \<le> pow2 0" using ab by simp
  then have d: "f64_div (f64_of_u64 a) (f64_of_u64 b) = Fin False (?r (?a / ?b))"
    using b by (simp add: f64_of_u64_Fin mk64_le [where k = 0])
  have p: "0 \<le> ?r (?r (?a / ?b) * 100)" "?r (?r (?a / ?b) * 100) \<le> 100"
    using b64.percent_bounds [OF _ ab b] by simp_all
  have "(100 :: rat) < 2 ^ 1024"
  proof -
    have "(100 :: rat) < 2 ^ 7" by simp
    also have "\<dots> \<le> 2 ^ 1024" by (rule power_increasing) simp_all
    finally show ?thesis .
  qed
  then have m: "f64_mul (Fin False (?r (?a / ?b))) (f64_const 100)
      = Fin False (?r (?r (?a / ?b) * 100))"
    using p by (simp add: f64_const_def mk64_Fin)
  show "is_fin (f64_mul (f64_div (f64_of_u64 a) (f64_of_u64 b)) (f64_const 100))"
    and "0 \<le> f64_val (f64_mul (f64_div (f64_of_u64 a) (f64_of_u64 b)) (f64_const 100))"
    and "f64_val (f64_mul (f64_div (f64_of_u64 a) (f64_of_u64 b)) (f64_const 100)) \<le> 100"
    unfolding d m using p by simp_all
qed

end
