(* ===== verification/GoParseFloat.thy ===== *)
theory GoParseFloat
  imports GoFloats
begin

text \<open>
  \<open>strconv.ParseFloat(s, 64)\<close>: the special names, the decimal and hexadecimal syntaxes with their
  underscores and exponents, and the correctly rounded value. The exponent accumulator saturates
  (\<open>e < 10000\<close>) as the library's does; an overflow returns an infinity and \<open>ErrRange\<close>.
\<close>

definition special :: "string \<Rightarrow> f64 option" where
  "special s = (case s of [] \<Rightarrow> None | c # cs \<Rightarrow>
     if c = CHR ''+'' \<or> c = CHR ''-'' then
       (let u = map lower_char cs in
        if u = ''inf'' \<or> u = ''infinity'' then Some (Inf (c = CHR ''-'')) else None)
     else
       (let u = map lower_char s in
        if u = ''inf'' \<or> u = ''infinity'' then Some (Inf False)
        else if u = ''nan'' then Some NaN else None))"

definition is_hex_letter :: "char \<Rightarrow> bool" where
  "is_hex_letter c = (let n = of_char (lower_char c) :: nat in 97 \<le> n \<and> n \<le> 102)"

definition hex_letter_val :: "char \<Rightarrow> nat" where
  "hex_letter_val c = of_char (lower_char c) - 87"

text \<open>The mantissa: (saw a digit, value of the digits, digits after the dot, underscores, rest).\<close>

fun scan_mant :: "bool \<Rightarrow> bool \<Rightarrow> bool \<Rightarrow> nat \<Rightarrow> nat \<Rightarrow> bool \<Rightarrow> string
    \<Rightarrow> bool \<times> nat \<times> nat \<times> bool \<times> string" where
  "scan_mant hex dot dig m fr us [] = (dig, m, fr, us, [])"
| "scan_mant hex dot dig m fr us (c # cs) =
     (if c = CHR ''_'' then scan_mant hex dot dig m fr True cs
      else if c = CHR ''.'' then
        (if dot then (dig, m, fr, us, c # cs) else scan_mant hex True dig m fr us cs)
      else if is_digit c then
        scan_mant hex dot True ((if hex then 16 else 10) * m + digit_val c)
          (if dot then Suc fr else fr) us cs
      else if hex \<and> is_hex_letter c then
        scan_mant hex dot True (16 * m + hex_letter_val c) (if dot then Suc fr else fr) us cs
      else (dig, m, fr, us, c # cs))"

fun scan_exp :: "nat \<Rightarrow> bool \<Rightarrow> string \<Rightarrow> nat \<times> bool \<times> string" where
  "scan_exp e us [] = (e, us, [])"
| "scan_exp e us (c # cs) =
     (if c = CHR ''_'' then scan_exp e True cs
      else if is_digit c then scan_exp (if e < 10000 then 10 * e + digit_val c else e) us cs
      else (e, us, c # cs))"

text \<open>\<open>underscoreOK\<close>: \<open>saw\<close> is \<open>^\<close> at the start, \<open>0\<close> after a digit, \<open>_\<close>, or \<open>!\<close>.\<close>

fun underscore_loop :: "bool \<Rightarrow> char \<Rightarrow> string \<Rightarrow> bool" where
  "underscore_loop hex saw [] = (saw \<noteq> CHR ''_'')"
| "underscore_loop hex saw (c # cs) =
     (if is_digit c \<or> hex \<and> is_hex_letter c then underscore_loop hex CHR ''0'' cs
      else if c = CHR ''_'' then saw = CHR ''0'' \<and> underscore_loop hex CHR ''_'' cs
      else saw \<noteq> CHR ''_'' \<and> underscore_loop hex CHR ''!'' cs)"

definition strip_sign :: "string \<Rightarrow> string" where
  "strip_sign s = (case s of [] \<Rightarrow> []
     | c # cs \<Rightarrow> if c = CHR ''-'' \<or> c = CHR ''+'' then cs else s)"

definition underscoreOK :: "string \<Rightarrow> bool" where
  "underscoreOK s0 = (let s = strip_sign s0 in
     case s of a # b # r \<Rightarrow>
       let l = lower_char b in
       if a = CHR ''0'' \<and> (l = CHR ''b'' \<or> l = CHR ''o'' \<or> l = CHR ''x'')
       then underscore_loop (l = CHR ''x'') CHR ''0'' r
       else underscore_loop False CHR ''^'' s
     | _ \<Rightarrow> underscore_loop False CHR ''^'' s)"

text \<open>The exponent part: \<open>Some (exponent, underscores)\<close> when it is absent or well formed and the
  string ends with it.\<close>

definition scan_exponent :: "bool \<Rightarrow> bool \<Rightarrow> string \<Rightarrow> (int \<times> bool) option" where
  "scan_exponent hex us r = (case r of [] \<Rightarrow> if hex then None else Some (0, us)
     | c # cs \<Rightarrow>
       if lower_char c \<noteq> (if hex then CHR ''p'' else CHR ''e'') then None
       else let neg = (cs \<noteq> [] \<and> hd cs = CHR ''-''); ds = strip_sign cs in
         if ds = [] \<or> \<not> is_digit (hd ds) then None
         else (case scan_exp 0 us ds of (e, us', rest) \<Rightarrow>
           if rest = [] then Some (if neg then - int e else int e, us') else None))"

text \<open>\<open>readFloat\<close> on a whole string: sign, base, digits, fraction digits, exponent.\<close>

definition readFloat :: "string \<Rightarrow> (bool \<times> bool \<times> nat \<times> nat \<times> int) option" where
  "readFloat s =
    (let neg = (s \<noteq> [] \<and> hd s = CHR ''-''); b = strip_sign s;
         hex = (3 \<le> length b \<and> b ! 0 = CHR ''0'' \<and> lower_char (b ! 1) = CHR ''x'');
         b' = (if hex then drop 2 b else b)
     in case scan_mant hex False False 0 0 False b' of (dig, m, fr, us, r) \<Rightarrow>
       if \<not> dig then None
       else (case scan_exponent hex us r of None \<Rightarrow> None
         | Some (e, us') \<Rightarrow>
             if us' \<and> \<not> underscoreOK s then None else Some (neg, hex, m, fr, e)))"

definition ParseFloat :: "string \<Rightarrow> f64 \<times> num_cause option" where
  "ParseFloat s = (case special s of Some f \<Rightarrow> (f, None)
     | None \<Rightarrow> (case readFloat s of None \<Rightarrow> (f64_zero, Some ErrSyntax)
       | Some (neg, hex, m, fr, e) \<Rightarrow>
           let mag = (if hex then of_nat m / 16 ^ fr * 2 powi e else of_nat m / 10 ^ fr * 10 powi e);
               v = mk64 neg mag
           in (v, if v = Inf neg then Some ErrRange else None)))"

definition parse_f64 :: "string \<Rightarrow> f64 option" where
  "parse_f64 s = (case ParseFloat s of (v, None) \<Rightarrow> Some v | (v, Some e) \<Rightarrow> None)"

section \<open>Plain decimal integers\<close>

lemma is_digit_facts: "is_digit c \<Longrightarrow> c \<noteq> CHR ''_'' \<and> c \<noteq> CHR ''.'' \<and> c \<noteq> CHR ''-''
    \<and> c \<noteq> CHR ''+'' \<and> lower_char c = c \<and> c \<noteq> CHR ''i'' \<and> c \<noteq> CHR ''n'' \<and> c \<noteq> CHR ''x''"
  by (auto simp: is_digit_def lower_char_def Let_def)

lemma scan_mant_digits:
  "list_all is_digit s \<Longrightarrow>
   scan_mant False False dig m fr us s = (dig \<or> s \<noteq> [], digits_val m s, fr, us, [])"
  by (induction s arbitrary: dig m) (auto simp: digits_val_def is_digit_facts)

lemma special_digits: "list_all is_digit s \<Longrightarrow> special s = None"
  by (cases s) (auto simp: special_def Let_def is_digit_facts)

lemma readFloat_digits:
  assumes "list_all is_digit s" and "s \<noteq> []"
  shows "readFloat s = Some (False, False, digits_val 0 s, 0, 0)"
proof -
  from assms have h: "is_digit (hd s)" by (cases s) auto
  have st: "strip_sign s = s" using assms by (cases s) (auto simp: strip_sign_def is_digit_facts)
  have "3 \<le> length s \<Longrightarrow> is_digit (s ! 1)" using assms by (simp add: list_all_length)
  then have x: "\<not> (3 \<le> length s \<and> s ! 0 = CHR ''0'' \<and> lower_char (s ! 1) = CHR ''x'')"
    using is_digit_facts [of "s ! 1"] by auto
  show ?thesis using assms h
    by (simp add: readFloat_def st x scan_mant_digits scan_exponent_def is_digit_facts Let_def
        del: One_nat_def)
qed

text \<open>A decimal integer is read as the nearest double, \<open>float64(n)\<close>.\<close>

lemma ParseFloat_digits:
  assumes "list_all is_digit s" and "s \<noteq> []" and "digits_val 0 s < 2 ^ 64"
  shows "ParseFloat s = (f64_of_nat (digits_val 0 s), None)"
  using f64_of_nat_Fin [OF assms(3)]
  by (simp add: ParseFloat_def special_digits readFloat_digits assms f64_of_nat_def Let_def
      del: power_numeral)

lemma parse_f64_digits:
  "list_all is_digit s \<Longrightarrow> s \<noteq> [] \<Longrightarrow> digits_val 0 s < 2 ^ 64 \<Longrightarrow>
   parse_f64 s = Some (f64_of_nat (digits_val 0 s))"
  by (simp add: parse_f64_def ParseFloat_digits del: power_numeral)

lemma digits_val_show: "n < 2 ^ 64 \<Longrightarrow> digits_val 0 (show_nat n) = n"
  using parse_uint_loop_show [of n] parse_uint_loop_accepts [of 0 "show_nat n" n] by simp

lemma parse_f64_show: "n < 2 ^ 64 \<Longrightarrow> parse_f64 (show_nat n) = Some (f64_of_nat n)"
  by (simp add: parse_f64_digits show_nat_digits digits_val_show del: power_numeral)

text \<open>An accepted value that is not one of the special names is finite.\<close>

lemma parse_f64_fin: "parse_f64 s = Some v \<Longrightarrow> special s = None \<Longrightarrow> is_fin v"
  by (auto simp: parse_f64_def ParseFloat_def Let_def mk64_def
      split: option.splits prod.splits if_splits)

end
