(* ===== verification/Strops.thy ===== *)
theory Strops
  imports GoParseFloat
begin

text \<open>
  \<open>internal/strops\<close>: the parsers that panic on malformed content. Every caller runs under
  \<open>withRecover\<close> or under the \<open>recover\<close> of \<open>readContainerStats\<close>.
\<close>

definition ToUint64 :: "string \<Rightarrow> u64 go" where
  "ToUint64 s = (case ParseUint s of
     (v, None) \<Rightarrow> Ok v
   | (v, Some c) \<Rightarrow> Panic (PanicErr (NumError ''ParseUint'' s c)))"

definition ToFloat64 :: "string \<Rightarrow> f64 go" where
  "ToFloat64 s = (case ParseFloat s of
     (v, None) \<Rightarrow> Ok v
   | (v, Some c) \<Rightarrow> Panic (PanicErr (NumError ''ParseFloat'' s c)))"

text \<open>\<open>strops.ToUint64(f[i])\<close>.\<close>

definition field_u64 :: "string list \<Rightarrow> nat \<Rightarrow> u64 go" where
  "field_u64 f i = go_bind (index_go f i) ToUint64"

lemma ToUint64_eq_Ok [go_simps]: "ToUint64 s = Ok v \<longleftrightarrow> parse_u64 s = Some v"
  by (auto simp: ToUint64_def parse_u64_def split: prod.splits option.splits)

lemma ToUint64_show [simp]: "ToUint64 (show_nat (unat v)) = Ok v"
  by (simp add: ToUint64_def)

lemma ToFloat64_eq_Ok [go_simps]: "ToFloat64 s = Ok v \<longleftrightarrow> parse_f64 s = Some v"
  by (auto simp: ToFloat64_def parse_f64_def split: prod.splits option.splits)

lemma ToUint64_panics: "parse_u64 s = None \<Longrightarrow> \<exists>c. ToUint64 s = Panic (PanicErr (NumError ''ParseUint'' s c))"
  by (auto simp: ToUint64_def parse_u64_def split: prod.splits option.splits)

end
