(* ===== verification/Rates.thy ===== *)
theory Rates
  imports Strops
begin

text \<open>
  Rates from two samples of monotonic counters: the arithmetic \<open>RatesSince\<close> of the disk and of the
  container share, and the contract of a group of counters that is reported together or not at all.
\<close>

text \<open>\<open>float64(cur-prev) / elapsedSeconds\<close>, on the difference.\<close>

definition per_sec :: "u64 \<Rightarrow> f64 \<Rightarrow> f64" where
  "per_sec d elapsed = f64_div (f64_of_u64 d) elapsed"

text \<open>What \<open>time.Duration.Seconds\<close> yields for a positive duration lies well inside these bounds: a
  nanosecond is more than \<open>2^-30\<close> seconds and the longest duration less than \<open>2^34\<close>.\<close>

definition elapsed_ok :: "f64 \<Rightarrow> bool" where
  "elapsed_ok x = (case x of Fin False m \<Rightarrow> pow2 (-40) \<le> m \<and> m \<le> pow2 64 | _ \<Rightarrow> False)"

definition sane_rate :: "f64 \<Rightarrow> bool" where
  "sane_rate x \<longleftrightarrow> is_fin x \<and> 0 \<le> f64_val x"

lemma elapsed_okE:
  assumes "elapsed_ok x"
  obtains m where "x = Fin False m" "pow2 (-40) \<le> m" "m \<le> pow2 64" "0 < m"
  using assms less_le_trans [OF pow2_pos [of "-40"]]
  by (auto simp: elapsed_ok_def split: f64.splits bool.splits)

lemma elapsed_ok_positive: "elapsed_ok x \<Longrightarrow> \<not> f64_le x f64_zero"
  by (elim elapsed_okE) simp

lemma sane_rate_zero [simp]: "sane_rate f64_zero"
  by (simp add: sane_rate_def)

text \<open>Dividing by something of at least \<open>2^-k\<close> stays far from overflow.\<close>

lemma mk64_quot_sane:
  assumes "0 \<le> a" and "a \<le> pow2 j" and "pow2 (- k) \<le> b" and "j + k < 1024" and "-1074 \<le> j + k"
  shows "mk64 False (a / b) = Fin False (round_at 53 (-1074) (a / b))"
    and "round_at 53 (-1074) (a / b) \<le> pow2 (j + k)"
proof -
  have "0 < b" using less_le_trans [OF pow2_pos assms(3)] .
  then have "a / b \<le> pow2 j / pow2 (- k)"
    using assms by (intro frac_le) simp_all
  also have "\<dots> = pow2 (j + k)" using pow2_diff [of j "- k"] by simp
  finally have le: "a / b \<le> pow2 (j + k)" .
  then show "mk64 False (a / b) = Fin False (round_at 53 (-1074) (a / b))"
    using assms by (intro mk64_le)
  show "round_at 53 (-1074) (a / b) \<le> pow2 (j + k)"
    using le assms by (intro b64.rnd_le representable_pow2) simp_all
qed

lemma u64_val_le: "round_at 53 (-1074) (rat_of_u64 w) \<le> pow2 64"
  using f64_of_u64_le [of w] by (simp add: f64_of_u64_Fin)

lemma per_sec_sane:
  assumes "elapsed_ok el"
  shows "sane_rate (per_sec d el)"
proof -
  from assms obtain m where m: "el = Fin False m" "pow2 (-40) \<le> m" "0 < m"
    by (rule elapsed_okE)
  then show ?thesis
    using mk64_quot_sane [where j = 64 and k = 40 and b = m, OF _ u64_val_le [of d]]
    by (simp add: per_sec_def sane_rate_def f64_of_u64_Fin)
qed

lemma per_sec_0: "elapsed_ok el \<Longrightarrow> per_sec 0 el = f64_zero"
  by (elim elapsed_okE) (simp add: per_sec_def mk64_def)

section \<open>The contract of a counter group\<close>

text \<open>
  \<open>counters s\<close> are the guarded counters of a sample, \<open>figures\<close> the formula that turns each counter's
  growth into a rate, \<open>rates\<close> what the code reports for the group.
\<close>

locale counter_group =
  fixes counters :: "'s \<Rightarrow> u64 list"
    and figures :: "(u64 \<Rightarrow> f64 \<Rightarrow> f64) list"
    and rates :: "'s \<Rightarrow> 's \<Rightarrow> f64 \<Rightarrow> f64 list"
  assumes rates_forward: "list_all2 (\<le>) (counters prev) (counters cur) \<Longrightarrow>
      rates cur prev el = map2 (\<lambda>fg d. fg d el) figures (map2 (-) (counters cur) (counters prev))"
    and rates_backward: "\<not> list_all2 (\<le>) (counters prev) (counters cur) \<Longrightarrow>
      rates cur prev el = map (\<lambda>fg. f64_zero) figures"
    and figure_sane: "fg \<in> set figures \<Longrightarrow> elapsed_ok el \<Longrightarrow> sane_rate (fg d el)"
    and figure_0: "fg \<in> set figures \<Longrightarrow> elapsed_ok el \<Longrightarrow> fg 0 el = f64_zero"
begin

lemma group_sane:
  assumes "elapsed_ok el"
  shows "list_all sane_rate (rates cur prev el)"
proof (cases "list_all2 (\<le>) (counters prev) (counters cur)")
  case True
  then show ?thesis
    using assms figure_sane by (auto simp: rates_forward list_all_iff dest: set_zip_leftD)
qed (simp add: rates_backward list_all_iff)

text \<open>A group whose counters stood still, or went back, reports zeros only.\<close>

lemma group_still:
  assumes "elapsed_ok el" and "counters cur = counters prev"
  shows "set (rates cur prev el) \<subseteq> {f64_zero}"
proof -
  let ?ds = "map2 (-) (counters cur) (counters prev)"
  have fwd: "list_all2 (\<le>) (counters prev) (counters cur)"
    using assms by (simp add: list_all2_refl)
  show ?thesis
  proof
    fix x assume "x \<in> set (rates cur prev el)"
    then obtain fg d where x: "x = fg d el" and z: "(fg, d) \<in> set (zip figures ?ds)"
      unfolding rates_forward [OF fwd] by auto
    have "d \<in> set ?ds" and "fg \<in> set figures"
      using set_zip_rightD [OF z] set_zip_leftD [OF z] by simp_all
    then have "d = 0" by (auto simp: assms(2) zip_same_conv_map)
    then show "x \<in> {f64_zero}" using x figure_0 [OF \<open>fg \<in> set figures\<close> assms(1)] by simp
  qed
qed

lemma group_backward: "\<not> list_all2 (\<le>) (counters prev) (counters cur) \<Longrightarrow>
    set (rates cur prev el) \<subseteq> {f64_zero}"
  by (auto simp: rates_backward)

end

end
