(* ===== verification/GoPath.thy ===== *)
theory GoPath
  imports GoStrings
begin

text \<open>
  The package \<open>path\<close>: \<open>Clean\<close>, \<open>Join\<close>, \<open>Base\<close>, \<open>Dir\<close>. \<open>Clean\<close> works on the slash-separated
  components, as its documentation describes it: empty and \<open>.\<close> components vanish, \<open>..\<close> removes the
  component before it, is dropped at a root and kept at the front of a relative path.
\<close>

abbreviation slash :: char where "slash \<equiv> CHR ''/''"

definition clean_step :: "bool \<Rightarrow> string list \<Rightarrow> string \<Rightarrow> string list" where
  "clean_step rooted out k =
    (if k = [] \<or> k = ''.'' then out
     else if k = ''..'' then
       (if out \<noteq> [] \<and> last out \<noteq> ''..'' then butlast out
        else if rooted then out else out @ [''..''])
     else out @ [k])"

definition clean_comps :: "bool \<Rightarrow> string list \<Rightarrow> string list" where
  "clean_comps rooted cs = foldl (clean_step rooted) [] cs"

definition Clean :: "string \<Rightarrow> string" where
  "Clean p = (if p = [] then ''.'' else
     let rooted = (hd p = slash); body = join_with slash (clean_comps rooted (Split slash p)) in
     if rooted then slash # body else if body = [] then ''.'' else body)"

definition path_Join :: "string list \<Rightarrow> string" where
  "path_Join elems = (let es = filter (\<lambda>e. e \<noteq> []) elems in
     if es = [] then [] else Clean (join_with slash es))"

definition path_Base :: "string \<Rightarrow> string" where
  "path_Base p = (if p = [] then ''.'' else
     let q = rev (dropWhile (\<lambda>c. c = slash) (rev p)) in
     if q = [] then ''/'' else last (Split slash q))"

definition path_Dir :: "string \<Rightarrow> string" where
  "path_Dir p = Clean (case LastIndex p slash of None \<Rightarrow> [] | Some i \<Rightarrow> take (Suc i) p)"

section \<open>Ordinary components\<close>

text \<open>A directory entry as the file system names it.\<close>

definition entry_name :: "string \<Rightarrow> bool" where
  "entry_name c \<longleftrightarrow> c \<noteq> [] \<and> c \<noteq> ''.'' \<and> c \<noteq> ''..'' \<and> slash \<notin> set c"

text \<open>A rooted path made of the entry names \<open>cs\<close>.\<close>

definition abs_path :: "string list \<Rightarrow> string" where
  "abs_path cs = slash # join_with slash cs"

lemma clean_step_entry [simp]: "entry_name c \<Longrightarrow> clean_step r out c = out @ [c]"
  by (simp add: clean_step_def entry_name_def)

lemma clean_step_empty [simp]: "clean_step r out [] = out"
  by (simp add: clean_step_def)

lemma foldl_clean_entries:
  "\<forall>c \<in> set cs. entry_name c \<Longrightarrow> foldl (clean_step r) out cs = out @ cs"
  by (induction cs arbitrary: out) auto

lemma entry_name_no_slash: "entry_name c \<Longrightarrow> slash \<notin> set c"
  by (simp add: entry_name_def)

lemma Split_abs_path:
  "\<forall>c \<in> set cs. entry_name c \<Longrightarrow> cs \<noteq> [] \<Longrightarrow> Split slash (abs_path cs) = [] # cs"
  by (simp add: abs_path_def Split_join entry_name_no_slash)

lemma Clean_abs_path: "\<forall>c \<in> set cs. entry_name c \<Longrightarrow> Clean (abs_path cs) = abs_path cs"
proof (cases "cs = []")
  case False
  assume e: "\<forall>c \<in> set cs. entry_name c"
  then show ?thesis using False Split_abs_path [OF e False]
    by (simp add: Clean_def abs_path_def clean_comps_def Let_def foldl_clean_entries)
qed (simp add: Clean_def abs_path_def clean_comps_def Let_def)

lemma join_with_append:
  "xs \<noteq> [] \<Longrightarrow> ys \<noteq> [] \<Longrightarrow> join_with c (xs @ ys) = join_with c xs @ c # join_with c ys"
  by (induction c xs rule: join_with.induct) (auto simp: join_with_Cons)

text \<open>Joining entry names to a rooted path appends them.\<close>

lemma path_Join_entries:
  assumes "\<forall>c \<in> set cs. entry_name c" and "cs \<noteq> []" and "\<forall>e \<in> set es. entry_name e"
  shows "path_Join (abs_path cs # es) = abs_path (cs @ es)"
proof -
  have ne: "filter (\<lambda>e. e \<noteq> []) es = es"
    using assms(3) by (auto simp: filter_id_conv entry_name_def)
  have "join_with slash (abs_path cs # es) = abs_path (cs @ es)"
  proof (cases "es = []")
    case False
    then show ?thesis using assms(2)
      by (simp add: abs_path_def join_with_Cons join_with_append)
  qed simp
  moreover have "abs_path cs \<noteq> []" by (simp add: abs_path_def)
  moreover have "Clean (abs_path (cs @ es)) = abs_path (cs @ es)"
    using assms by (intro Clean_abs_path) auto
  ultimately show ?thesis by (simp add: path_Join_def ne)
qed

text \<open>A rooted relative path, as the cgroup walk builds it, is appended component by component.\<close>

lemma path_Join_abs:
  assumes "\<forall>c \<in> set cs. entry_name c" and "cs \<noteq> []" and "\<forall>e \<in> set es. entry_name e"
    and "es \<noteq> []"
  shows "path_Join [abs_path cs, abs_path es] = abs_path (cs @ es)"
proof -
  have j: "join_with slash [abs_path cs, abs_path es]
      = slash # join_with slash (cs @ [] # es)"
    using assms(2,4) by (simp add: abs_path_def join_with_append join_with_Cons)
  have "Split slash (join_with slash (cs @ [] # es)) = cs @ [] # es"
    using assms by (intro Split_join) (auto simp: entry_name_def)
  then have "Split slash (join_with slash [abs_path cs, abs_path es]) = [] # cs @ [] # es"
    unfolding j by simp
  moreover have "foldl (clean_step True) [] ([] # cs @ [] # es) = cs @ es"
    using assms by (simp add: foldl_clean_entries)
  ultimately have "Clean (join_with slash [abs_path cs, abs_path es]) = abs_path (cs @ es)"
    using j by (simp add: Clean_def clean_comps_def Let_def abs_path_def)
  then show ?thesis by (simp add: path_Join_def abs_path_def)
qed

lemma last_join: "cs \<noteq> [] \<Longrightarrow> \<forall>c \<in> set cs. c \<noteq> [] \<Longrightarrow> last (join_with x cs) = last (last cs)"
  by (induction x cs rule: join_with.induct) (auto simp: join_with_Cons)

lemma path_Base_abs:
  assumes "\<forall>c \<in> set cs. entry_name c" and "cs \<noteq> []"
  shows "path_Base (abs_path cs) = last cs"
proof -
  have j: "join_with slash cs \<noteq> []"
    using assms by (cases cs; cases "tl cs") (auto simp: entry_name_def)
  have "last (join_with slash cs) = last (last cs)"
    using assms by (intro last_join) (auto simp: entry_name_def)
  moreover have "last (last cs) \<noteq> slash"
    using assms by (metis entry_name_def last_in_set)
  ultimately have "hd (rev (abs_path cs)) \<noteq> slash"
    using j by (simp add: abs_path_def hd_rev)
  then have "dropWhile (\<lambda>c. c = slash) (rev (abs_path cs)) = rev (abs_path cs)"
    by (cases "rev (abs_path cs)") auto
  then show ?thesis using Split_abs_path [OF assms] assms(2)
    by (simp add: path_Base_def abs_path_def)
qed

lemma path_Dir_abs:
  assumes "\<forall>c \<in> set (cs @ [c]). entry_name c"
  shows "path_Dir (abs_path (cs @ [c])) = abs_path cs"
proof (cases "cs = []")
  case True
  then have "LastIndex (abs_path (cs @ [c])) slash = Some 0"
    using assms LastIndex_append [of slash c "[]"] by (simp add: abs_path_def entry_name_def)
  then show ?thesis using True
    by (simp add: path_Dir_def abs_path_def Clean_def clean_comps_def Let_def)
next
  case False
  have p: "abs_path (cs @ [c]) = abs_path cs @ slash # c"
    using False by (simp add: abs_path_def join_with_append)
  then have "LastIndex (abs_path (cs @ [c])) slash = Some (length (abs_path cs))"
    using assms by (simp add: entry_name_def)
  then have d: "path_Dir (abs_path (cs @ [c])) = Clean (abs_path cs @ [slash])"
    by (simp add: path_Dir_def p)
  have s: "abs_path cs @ [slash] = slash # join_with slash (cs @ [[]])"
    using False by (simp add: abs_path_def join_with_append)
  have "Split slash (join_with slash (cs @ [[]])) = cs @ [[]]"
    using assms by (intro Split_join) (auto simp: entry_name_def)
  then show ?thesis unfolding d s using assms
    by (simp add: Clean_def clean_comps_def Let_def foldl_clean_entries abs_path_def)
qed

end
