(* ===== verification/FileOps.thy ===== *)
theory FileOps
  imports GoPath
begin

text \<open>
  \<open>internal/fileops\<close> over an explicit snapshot of the file system. The snapshot answers the system
  calls the code makes; nothing relates its fields, so a file that \<open>Stat\<close> shows but \<open>ReadFile\<close> cannot
  read (permissions, or gone in between) is an ordinary snapshot. A call that reads twice with a sleep
  in between takes two snapshots.
\<close>

text \<open>What \<open>filepath.WalkDir\<close> meets: a non-directory with the facts \<open>lstat\<close> gives, or a directory
  with the entries \<open>ReadDir\<close> returned and whether it also returned an error.\<close>

record file_info =
  fi_regular :: bool
  fi_size :: u64
  fi_dev :: u64
  fi_ino :: u64
  fi_nlink :: u64

datatype dir_tree =
    FileNode "file_info option" bool
  | DirNode "(string \<times> dir_tree) list" bool

text \<open>In \<open>FileNode info r\<close>, \<open>r\<close> is the entry's regular-file type bit and \<open>info\<close> is \<open>None\<close> when
  \<open>d.Info()\<close> fails; in \<open>DirNode es bad\<close>, \<open>bad\<close> says that \<open>ReadDir\<close> failed.\<close>

text \<open>The fields of \<open>unix.Statfs_t\<close> the code reads.\<close>

record statfs =
  sf_blocks :: u64
  sf_bsize :: u64
  sf_bfree :: u64
  sf_bavail :: u64
  sf_files :: u64
  sf_ffree :: u64

record fs =
  fs_stat :: "string \<Rightarrow> bool option" \<comment> \<open>\<open>os.Stat\<close>: \<open>IsDir\<close>, \<open>None\<close> on error\<close>
  fs_read :: "string \<Rightarrow> string option" \<comment> \<open>\<open>os.ReadFile\<close>\<close>
  fs_dir :: "string \<Rightarrow> string list option" \<comment> \<open>\<open>os.ReadDir\<close>: the entries' names, sorted\<close>
  fs_link :: "string \<Rightarrow> string option" \<comment> \<open>\<open>os.Readlink\<close>\<close>
  fs_tree :: "string \<Rightarrow> dir_tree option" \<comment> \<open>what a walk rooted there meets\<close>
  fs_statfs :: "string \<Rightarrow> statfs option" \<comment> \<open>\<open>unix.Statfs\<close>\<close>

text \<open>A snapshot given by the contents of its regular files.\<close>

definition files_fs :: "(string \<times> string) list \<Rightarrow> fs" where
  "files_fs kvs = \<lparr>fs_stat = (\<lambda>p. map_option (\<lambda>_. False) (map_of kvs p)), fs_read = map_of kvs,
     fs_dir = (\<lambda>_. None), fs_link = (\<lambda>_. None), fs_tree = (\<lambda>_. None), fs_statfs = (\<lambda>_. None)\<rparr>"

definition ReadFile :: "fs \<Rightarrow> string \<Rightarrow> string" where
  "ReadFile f path = (case fs_read f path of None \<Rightarrow> [] | Some s \<Rightarrow> s)"

definition IsFile :: "fs \<Rightarrow> string \<Rightarrow> bool" where
  "IsFile f path = (case fs_stat f path of None \<Rightarrow> False | Some isdir \<Rightarrow> \<not> isdir)"

definition file_not_found :: "string \<Rightarrow> error" where
  "file_not_found path = ErrorString (path @ '' file not found'')"

definition ReadFileWithError :: "fs \<Rightarrow> string \<Rightarrow> error + string" where
  "ReadFileWithError f path =
    (if \<not> IsFile f path then Inl (file_not_found path) else Inr (ReadFile f path))"

definition FindFileWithNameLike :: "fs \<Rightarrow> string \<Rightarrow> string \<Rightarrow> error + string" where
  "FindFileWithNameLike f dir name = (case fs_dir f dir of
     None \<Rightarrow> Inl (OSError dir)
   | Some files \<Rightarrow> (case find (\<lambda>n. Contains n name) files of
       Some n \<Rightarrow> Inr (dir @ ''/'' @ n)
     | None \<Rightarrow> Inl (ErrorString (''file '' @ name @ '' not found in '' @ dir))))"

lemma ReadFileWithError_Inr:
  "ReadFileWithError f p = Inr s \<longleftrightarrow> IsFile f p \<and> s = ReadFile f p"
  by (auto simp: ReadFileWithError_def)

lemma ReadFileWithError_Inl:
  "ReadFileWithError f p = Inl e \<longleftrightarrow> \<not> IsFile f p \<and> e = file_not_found p"
  by (auto simp: ReadFileWithError_def)

section \<open>Readers of one file\<close>

text \<open>
  Many readers share one contract: the value depends on one file only, through a parser, and a missing
  file gives a default instead of an error.
\<close>

locale lenient_reader =
  fixes read :: "fs \<Rightarrow> string \<Rightarrow> 'a" and parse :: "string \<Rightarrow> 'a" and dflt :: 'a
  assumes read_present: "ReadFileWithError f p = Inr s \<Longrightarrow> read f p = parse s"
    and read_missing: "ReadFileWithError f p = Inl e \<Longrightarrow> read f p = dflt"
begin

lemma read_cases: "read f p = (if IsFile f p then parse (ReadFile f p) else dflt)"
  using read_present [of f p "ReadFile f p"] read_missing [of f p "file_not_found p"]
  by (auto simp: ReadFileWithError_def)

text \<open>Only the file named can change the result.\<close>

lemma read_frame:
  "fs_stat f p = fs_stat g p \<Longrightarrow> fs_read f p = fs_read g p \<Longrightarrow> read f p = read g p"
  by (simp add: read_cases IsFile_def ReadFile_def)

end

text \<open>\<open>readAsString\<close> of \<open>network.go\<close>, used by the network and temperature readers.\<close>

definition readAsString :: "fs \<Rightarrow> string \<Rightarrow> string" where
  "readAsString f path = (case ReadFileWithError f path of
     Inl e \<Rightarrow> [] | Inr result \<Rightarrow> TrimSpace result)"

interpretation as_string: lenient_reader readAsString TrimSpace "[]"
  by unfold_locales (simp_all add: readAsString_def)

end
