(* ===== verification/Config.thy ===== *)
theory Config
  imports Strops FileOps
begin

text \<open>
  The configuration half of \<open>systats.go\<close>: the \<open>SyStats\<close> struct, its defaults, the named constants
  (units, sort orders, CPU modes) and the sampling window. Durations are nanoseconds.
\<close>

section \<open>Constants\<close>

text \<open>\<open>Unit\<close>, \<open>SortOrder\<close> and \<open>CPUMode\<close> are string types in Go; any string can occur.\<close>

type_synonym unit_name = string
type_synonym sort_order = string
type_synonym cpu_mode = string

definition Byte :: unit_name where "Byte = ''B''"
definition Kilobyte :: unit_name where "Kilobyte = ''KB''"
definition Megabyte :: unit_name where "Megabyte = ''MB''"
definition Gigabyte :: unit_name where "Gigabyte = ''GB''"

definition SortByCPU :: sort_order where "SortByCPU = ''cpu''"
definition SortByMemory :: sort_order where "SortByMemory = ''memory''"

definition CPUUsageInstant :: cpu_mode where "CPUUsageInstant = ''instant''"
definition CPUUsageAverage :: cpu_mode where "CPUUsageAverage = ''average''"

lemmas unit_defs = Byte_def Kilobyte_def Megabyte_def Gigabyte_def

definition defaultCPUSampleWindow :: int where
  "defaultCPUSampleWindow = 300 * 1000000"

definition defaultContainerSocketTimeout :: int where
  "defaultContainerSocketTimeout = 2 * 1000000000"

section \<open>The configuration\<close>

record SyStats =
  MeminfoPath :: string
  ProcPath :: string
  StatFilePath :: string
  CPUinfoFilePath :: string
  VersionPath :: string
  EtcPath :: string
  UptimePath :: string
  MountsPath :: string
  LoadAvgPath :: string
  DiskStatsPath :: string
  NetTCPPath :: string
  NetTCP6Path :: string
  NetSNMPPath :: string
  NetNetstatPath :: string
  SysClassNetPath :: string
  PressurePath :: string
  HwmonPath :: string
  ProcessCPUMode :: cpu_mode
  ContainerAware :: bool
  CgroupRootPath :: string
  SelfCgroupPath :: string
  CPUSampleWindow :: int
  ContainerSocketPath :: string
  ContainerSocketTimeout :: int
  ContainerLayerSize :: bool

definition New :: SyStats where
  "New = \<lparr>
     MeminfoPath = ''/proc/meminfo'',
     ProcPath = ''/proc'',
     StatFilePath = ''/proc/stat'',
     CPUinfoFilePath = ''/proc/cpuinfo'',
     VersionPath = ''/proc/version'',
     EtcPath = ''/etc/'',
     UptimePath = ''/proc/uptime'',
     MountsPath = ''/proc/mounts'',
     LoadAvgPath = ''/proc/loadavg'',
     DiskStatsPath = ''/proc/diskstats'',
     NetTCPPath = ''/proc/net/tcp'',
     NetTCP6Path = ''/proc/net/tcp6'',
     NetSNMPPath = ''/proc/net/snmp'',
     NetNetstatPath = ''/proc/net/netstat'',
     SysClassNetPath = ''/sys/class/net'',
     PressurePath = ''/proc/pressure'',
     HwmonPath = ''/sys/class/hwmon'',
     ProcessCPUMode = CPUUsageInstant,
     ContainerAware = False,
     CgroupRootPath = ''/sys/fs/cgroup'',
     SelfCgroupPath = ''/proc/self/cgroup'',
     CPUSampleWindow = defaultCPUSampleWindow,
     ContainerSocketPath = ''/var/run/docker.sock'',
     ContainerSocketTimeout = defaultContainerSocketTimeout,
     ContainerLayerSize = False \<rparr>"

definition cpuSampleWindow :: "SyStats \<Rightarrow> int" where
  "cpuSampleWindow systats =
    (if CPUSampleWindow systats \<le> 0 then defaultCPUSampleWindow else CPUSampleWindow systats)"

lemma cpuSampleWindow_pos: "0 < cpuSampleWindow s"
  by (simp add: cpuSampleWindow_def defaultCPUSampleWindow_def)

section \<open>The interruptible sleep\<close>

text \<open>Which of the two channels of the \<open>select\<close> fires is decided by the environment.\<close>

datatype wake = TimerFired | CtxDone ctx_error

definition sleepCtx :: "wake \<Rightarrow> error option" where
  "sleepCtx w = (case w of TimerFired \<Rightarrow> None | CtxDone e \<Rightarrow> Some (CtxErr e))"

section \<open>Unit conversion\<close>

text \<open>\<open>internal/unitconv\<close>.\<close>

definition KibToBytes :: "u64 \<Rightarrow> f64" where
  "KibToBytes input = f64_mul (f64_of_u64 input) (f64_const 1024)"

definition KibToKB :: "u64 \<Rightarrow> f64" where
  "KibToKB input = f64_of_u64 input"

definition KibToMB :: "u64 \<Rightarrow> f64" where
  "KibToMB input = f64_div (f64_of_u64 input) (f64_const 1024)"

definition KibToGB :: "u64 \<Rightarrow> f64" where
  "KibToGB input = f64_div (f64_div (f64_of_u64 input) (f64_const 1024)) (f64_const 1024)"

definition not_supported :: "string \<Rightarrow> error" where
  "not_supported u = ErrorString (u @ '' is not supported'')"

definition kibConverter :: "unit_name \<Rightarrow> error + (u64 \<Rightarrow> f64)" where
  "kibConverter u =
    (if u = Byte then Inr KibToBytes
     else if u = Kilobyte then Inr KibToKB
     else if u = Megabyte then Inr KibToMB
     else if u = Gigabyte then Inr KibToGB
     else Inl (not_supported u))"

text \<open>\<open>bytesPerUnit\<close> of \<open>disk.go\<close>.\<close>

definition bytesPerUnit :: "unit_name \<Rightarrow> f64 option" where
  "bytesPerUnit u =
    (if u = Byte then Some (f64_const 1)
     else if u = Kilobyte then Some (f64_const 1024)
     else if u = Megabyte then Some (f64_const (1024 * 1024))
     else if u = Gigabyte then Some (f64_const (1024 * 1024 * 1024))
     else None)"

section \<open>Scaling by a power of two is exact\<close>

text \<open>
  A figure that came from a 64-bit integer is \<open>representable 53 (-k)\<close> after \<open>k\<close> halvings, far from
  the subnormal range, so every unit conversion is exact.
\<close>

definition scaled_int :: "int \<Rightarrow> f64 \<Rightarrow> bool" where
  "scaled_int e x \<longleftrightarrow> (\<exists>m. x = Fin False m \<and> representable 53 e m \<and> m \<le> pow2 200)"

lemma scaled_int_u64: "scaled_int 0 (f64_of_u64 w)"
proof -
  have "f64_val (f64_of_u64 w) \<le> pow2 200"
    by (rule order_trans [OF f64_of_u64_le]) simp
  then show ?thesis using f64_of_u64_integral [of w]
    by (simp add: scaled_int_def f64_of_u64_Fin)
qed

lemma mk64_scaled:
  assumes "representable 53 e m" and "-1074 \<le> e" and "m \<le> pow2 200"
  shows "mk64 False m = Fin False m"
  using assms by (intro mk64_exact [where k = 200] representable_mono [OF assms(1)]) simp_all

lemma f64_div_pow2:
  assumes "scaled_int e x" and "-1000 \<le> e" and "k \<le> 74"
  shows "f64_val (f64_div x (f64_const (2 ^ k))) = f64_val x / 2 ^ k"
    and "scaled_int (e - int k) (f64_div x (f64_const (2 ^ k)))"
proof -
  from assms(1) obtain m where x: "x = Fin False m" and r: "representable 53 e m"
    and m: "m \<le> pow2 200" by (auto simp: scaled_int_def)
  have m0: "0 \<le> m" by (rule representable_nonneg [OF r])
  have d: "m / 2 ^ k = m * pow2 (- int k)"
    using pow2_diff [of 0 "int k"] by (simp add: pow2_nat)
  have r': "representable 53 (e - int k) (m / 2 ^ k)"
    using representable_scale [OF r, of "- int k"] by (simp add: d)
  have "m / 2 ^ k \<le> m" using m0 by (simp add: divide_le_eq_1 mult_le_cancel_left1 divide_le_eq)
  with m have m': "m / 2 ^ k \<le> pow2 200" by simp
  have "f64_div x (f64_const (2 ^ k)) = Fin False (m / 2 ^ k)"
    using mk64_scaled [OF r' _ m'] assms(2,3) by (simp add: x f64_const_def)
  then show "f64_val (f64_div x (f64_const (2 ^ k))) = f64_val x / 2 ^ k"
    and "scaled_int (e - int k) (f64_div x (f64_const (2 ^ k)))"
    using r' m' by (simp_all add: x scaled_int_def)
qed

lemma f64_mul_1024:
  "f64_val (f64_mul (f64_of_u64 w) (f64_const 1024)) = f64_val (f64_of_u64 w) * 1024"
proof -
  let ?m = "round_at 53 (-1074) (rat_of_u64 w)"
  have "representable 53 0 ?m" and "?m \<le> pow2 64"
    using f64_of_u64_integral [of w] f64_of_u64_le [of w] by (simp_all add: f64_of_u64_Fin)
  moreover have p: "pow2 10 = 1024" using pow2_nat [of 10] by simp
  ultimately have r: "representable 53 10 (?m * 1024)" and "?m * 1024 \<le> pow2 74"
    using representable_scale [of 53 0 ?m 10] pow2_add [of 64 10] by simp_all
  then have "?m * 1024 \<le> pow2 200" by (elim order_trans) simp
  with r have "mk64 False (?m * 1024) = Fin False (?m * 1024)"
    by (intro mk64_scaled [where e = 10]) simp_all
  then show ?thesis by (simp add: f64_of_u64_Fin f64_const_def)
qed

lemma KibTo_values:
  "f64_val (KibToBytes n) = f64_val (KibToKB n) * 1024"
  "f64_val (KibToMB n) = f64_val (KibToKB n) / 1024"
  "f64_val (KibToGB n) = f64_val (KibToKB n) / 1048576"
proof -
  note mb = f64_div_pow2 [OF scaled_int_u64 [of n], of 10]
  then have s: "scaled_int (-10) (f64_div (f64_of_u64 n) (f64_const 1024))" by simp
  note gb = f64_div_pow2 [OF s, of 10]
  show "f64_val (KibToBytes n) = f64_val (KibToKB n) * 1024"
    by (simp add: KibToBytes_def KibToKB_def f64_mul_1024)
  show "f64_val (KibToMB n) = f64_val (KibToKB n) / 1024"
    using mb by (simp add: KibToMB_def KibToKB_def)
  show "f64_val (KibToGB n) = f64_val (KibToKB n) / 1048576"
    using mb gb by (simp add: KibToGB_def KibToKB_def)
qed

end
