(* ===== verification/Cgroup.thy ===== *)
theory Cgroup
  imports Config
begin

text \<open>
  \<open>cgroup.go\<close>: which cgroup layout is mounted, where the calling process's own cgroup and a
  container's cgroup are, and the \<open>key value\<close> files the controllers share.
\<close>

datatype cgroupVersion = cgroupNone | cgroupV1 | cgroupV2

definition detectCgroupVersion :: "fs \<Rightarrow> string \<Rightarrow> cgroupVersion" where
  "detectCgroupVersion f rootDir =
    (if IsFile f (path_Join [rootDir, ''cgroup.controllers'']) then cgroupV2
     else if IsFile f (path_Join [rootDir, ''memory'', ''memory.limit_in_bytes'']) then cgroupV1
     else cgroupNone)"

section \<open>/proc/self/cgroup\<close>

abbreviation colon :: char where "colon \<equiv> CHR '':''"

definition v2_format_error :: error where
  "v2_format_error = ErrorString ''unexpected v2 /proc/self/cgroup format''"

definition parseSelfCgroupV2 :: "string \<Rightarrow> error + string" where
  "parseSelfCgroupV2 content =
    (let parts = SplitN 3 colon (TrimSpace content) in
     if length parts \<noteq> 3 \<or> parts ! 0 \<noteq> ''0'' then Inl v2_format_error
     else Inr (parts ! 2))"

definition controller_not_found :: "string \<Rightarrow> error" where
  "controller_not_found controller =
    ErrorString (''controller '' @ controller @ '' not found in /proc/self/cgroup'')"

text \<open>One hierarchy line, \<open>id:controllers:path\<close>, as \<open>(controllers, path)\<close>.\<close>

definition hierarchy_line :: "string \<Rightarrow> (string \<times> string) option" where
  "hierarchy_line line =
    (let parts = SplitN 3 colon (TrimSpace line) in
     if length parts \<noteq> 3 then None else Some (parts ! 1, parts ! 2))"

fun find_controller :: "string \<Rightarrow> string list \<Rightarrow> (string \<times> string) option" where
  "find_controller controller [] = None"
| "find_controller controller (line # rest) =
     (case hierarchy_line line of
        None \<Rightarrow> find_controller controller rest
      | Some (names, cgPath) \<Rightarrow>
          if controller \<in> set (Split CHR '','' names) then Some (cgPath, names)
          else find_controller controller rest)"

definition parseSelfCgroupV1 :: "string \<Rightarrow> string \<Rightarrow> error + string \<times> string" where
  "parseSelfCgroupV1 content controller =
    (case find_controller controller (lines content) of
       Some r \<Rightarrow> Inr r
     | None \<Rightarrow> Inl (controller_not_found controller))"

definition resolveCgroupControllerPath ::
    "fs \<Rightarrow> SyStats \<Rightarrow> cgroupVersion \<Rightarrow> string \<Rightarrow> string option" where
  "resolveCgroupControllerPath f systats version controller =
    (case ReadFileWithError f (SelfCgroupPath systats) of
       Inl e \<Rightarrow> None
     | Inr selfCgroup \<Rightarrow>
         (case version of
            cgroupV2 \<Rightarrow>
              (case parseSelfCgroupV2 selfCgroup of
                 Inl e \<Rightarrow> None
               | Inr cgPath \<Rightarrow> Some (path_Join [CgroupRootPath systats, cgPath]))
          | cgroupV1 \<Rightarrow>
              (case parseSelfCgroupV1 selfCgroup controller of
                 Inl e \<Rightarrow> None
               | Inr (cgPath, controllerDir) \<Rightarrow>
                   Some (path_Join [CgroupRootPath systats, controllerDir, cgPath]))
          | cgroupNone \<Rightarrow> None))"

section \<open>Where each controller lives\<close>

definition defaultV1ControllerDirs :: "string \<rightharpoonup> string" where
  "defaultV1ControllerDirs = map_of
     [(''memory'', ''memory''), (''cpu'', ''cpu,cpuacct''), (''cpuacct'', ''cpu,cpuacct''),
      (''pids'', ''pids''), (''blkio'', ''blkio''), (''freezer'', ''freezer'')]"

definition set_known :: "string \<Rightarrow> (string \<rightharpoonup> string) \<Rightarrow> string \<Rightarrow> (string \<rightharpoonup> string)" where
  "set_known names m c = (if m c \<noteq> None then m(c \<mapsto> names) else m)"

definition v1_names_line :: "(string \<rightharpoonup> string) \<Rightarrow> string \<Rightarrow> (string \<rightharpoonup> string)" where
  "v1_names_line m line =
    (case hierarchy_line line of
       None \<Rightarrow> m
     | Some (names, cgPath) \<Rightarrow>
         if names = [] then m else foldl (set_known names) m (Split CHR '','' names))"

definition v1ControllerDirNames :: "string \<Rightarrow> (string \<rightharpoonup> string)" where
  "v1ControllerDirNames content = foldl v1_names_line defaultV1ControllerDirs (lines content)"

record cgroupDirs =
  cd_version :: cgroupVersion
  cd_memory :: string
  cd_cpu :: string
  cd_cpuacct :: string
  cd_pids :: string
  cd_blkio :: string
  cd_freezer :: string

text \<open>A missing key of a Go map reads as the zero value.\<close>

definition map_str :: "(string \<rightharpoonup> string) \<Rightarrow> string \<Rightarrow> string" where
  "map_str m k = (case m k of None \<Rightarrow> [] | Some v \<Rightarrow> v)"

definition cgroupDirsFor ::
    "cgroupVersion \<Rightarrow> string \<Rightarrow> string \<Rightarrow> (string \<rightharpoonup> string) \<Rightarrow> cgroupDirs" where
  "cgroupDirsFor version rootDir relPath v1Names =
    (if version = cgroupV2 then
       (let dir = path_Join [rootDir, relPath] in
        \<lparr>cd_version = version, cd_memory = dir, cd_cpu = dir, cd_cpuacct = dir, cd_pids = dir,
         cd_blkio = dir, cd_freezer = dir\<rparr>)
     else
       (let dirAt = (\<lambda>controller. path_Join [rootDir, map_str v1Names controller, relPath]) in
        \<lparr>cd_version = version, cd_memory = dirAt ''memory'', cd_cpu = dirAt ''cpu'',
         cd_cpuacct = dirAt ''cpuacct'', cd_pids = dirAt ''pids'', cd_blkio = dirAt ''blkio'',
         cd_freezer = dirAt ''freezer''\<rparr>))"

section \<open>Key/value files\<close>

text \<open>One line: exactly two fields, the second an unsigned integer.\<close>

definition kv_line :: "string \<Rightarrow> (string \<times> u64) option" where
  "kv_line line =
    (let fields = Fields line in
     if length fields \<noteq> 2 then None
     else map_option (Pair (fields ! 0)) (parse_u64 (fields ! 1)))"

definition kv_step :: "(string \<rightharpoonup> u64) \<Rightarrow> string \<Rightarrow> (string \<rightharpoonup> u64)" where
  "kv_step stats line = (case kv_line line of None \<Rightarrow> stats | Some (k, v) \<Rightarrow> stats(k \<mapsto> v))"

definition parseKeyValueStat :: "string \<Rightarrow> (string \<rightharpoonup> u64)" where
  "parseKeyValueStat content = foldl kv_step Map.empty (lines content)"

definition readKeyValueStat :: "fs \<Rightarrow> string \<Rightarrow> (string \<rightharpoonup> u64)" where
  "readKeyValueStat f file =
    (case ReadFileWithError f file of Inl e \<Rightarrow> Map.empty | Inr content \<Rightarrow> parseKeyValueStat content)"

definition map_u64 :: "(string \<rightharpoonup> u64) \<Rightarrow> string \<Rightarrow> u64" where
  "map_u64 m k = (case m k of None \<Rightarrow> 0 | Some v \<Rightarrow> v)"

interpretation kv_file: lenient_reader readKeyValueStat parseKeyValueStat Map.empty
  by unfold_locales (simp_all add: readKeyValueStat_def)

section \<open>Facts\<close>

lemma find_controller_Some:
  "find_controller c ls = Some (p, names) \<Longrightarrow>
   \<exists>pre line post. ls = pre @ line # post \<and> hierarchy_line line = Some (names, p)
     \<and> c \<in> set (Split CHR '','' names)
     \<and> (\<forall>l \<in> set pre. \<forall>n q. hierarchy_line l = Some (n, q) \<longrightarrow> c \<notin> set (Split CHR '','' n))"
proof (induction ls)
  case (Cons l ls)
  show ?case
  proof (cases "\<exists>n q. hierarchy_line l = Some (n, q) \<and> c \<in> set (Split CHR '','' n)")
    case True
    then show ?thesis using Cons.prems
      by (intro exI [of _ "[]"] exI [of _ l] exI [of _ ls]) auto
  next
    case False
    then have "find_controller c ls = Some (p, names)"
      using Cons.prems by (auto split: option.splits prod.splits if_splits)
    then obtain pre line post where "ls = pre @ line # post" "hierarchy_line line = Some (names, p)"
      "c \<in> set (Split CHR '','' names)"
      "\<forall>l \<in> set pre. \<forall>n q. hierarchy_line l = Some (n, q) \<longrightarrow> c \<notin> set (Split CHR '','' n)"
      using Cons.IH by blast
    with False show ?thesis
      by (intro exI [of _ "l # pre"] exI [of _ line] exI [of _ post]) auto
  qed
qed simp

lemma find_controller_None:
  "find_controller c ls = None \<longleftrightarrow>
   (\<forall>l \<in> set ls. \<forall>n q. hierarchy_line l = Some (n, q) \<longrightarrow> c \<notin> set (Split CHR '','' n))"
  by (induction ls) (auto split: option.splits prod.splits)

lemma set_known_dom [simp]: "dom (set_known names m c) = dom m"
  by (auto simp: set_known_def)

lemma foldl_set_known_dom [simp]: "dom (foldl (set_known names) m cs) = dom m"
  by (induction cs arbitrary: m) simp_all

lemma v1_names_line_dom [simp]: "dom (v1_names_line m line) = dom m"
  by (auto simp: v1_names_line_def split: option.splits prod.splits)

lemma foldl_v1_names_dom: "dom (foldl v1_names_line m ls) = dom m"
  by (induction ls arbitrary: m) simp_all

lemma foldl_set_known_at:
  "c \<in> dom m \<Longrightarrow> foldl (set_known names) m cs c = (if c \<in> set cs then Some names else m c)"
proof (induction cs arbitrary: m)
  case (Cons x xs)
  then have "c \<in> dom (set_known names m x)" by simp
  from Cons.IH [OF this] Cons.prems show ?case by (auto simp: set_known_def)
qed simp

lemma kv_step_None [simp]: "kv_line l = None \<Longrightarrow> kv_step m l = m"
  by (simp add: kv_step_def)

lemma foldl_kv_step:
  "foldl kv_step m ls = m ++ map_of (rev (List.map_filter kv_line ls))"
proof (induction ls arbitrary: m)
  case (Cons l ls)
  then show ?case by (auto simp: kv_step_def List.map_filter_simps split: option.splits prod.splits)
qed (simp add: List.map_filter_simps)

text \<open>The reference reading: the last valid line of a key decides.\<close>

lemma parseKeyValueStat_map_of:
  "parseKeyValueStat content = map_of (rev (List.map_filter kv_line (lines content)))"
  by (simp add: parseKeyValueStat_def foldl_kv_step)

lemma v1_names_line_at:
  "c \<in> dom m \<Longrightarrow> v1_names_line m l c = (case hierarchy_line l of None \<Rightarrow> m c
     | Some (names, p) \<Rightarrow> if names \<noteq> [] \<and> c \<in> set (Split CHR '','' names) then Some names else m c)"
  using foldl_set_known_at [of c m] by (auto simp: v1_names_line_def split: option.split)

lemma foldl_v1_names_at:
  assumes "c \<in> dom m"
  shows "foldl v1_names_line m ls c =
    (case find (\<lambda>(names, p). names \<noteq> [] \<and> c \<in> set (Split CHR '','' names))
            (rev (List.map_filter hierarchy_line ls)) of
       Some (names, p) \<Rightarrow> Some names | None \<Rightarrow> m c)"
proof (induction ls rule: rev_induct)
  case (snoc l ls)
  have "c \<in> dom (foldl v1_names_line m ls)" using assms by (simp only: foldl_v1_names_dom)
  from v1_names_line_at [OF this] snoc show ?case
    by (auto simp: map_filter_append List.map_filter_simps split: option.split prod.split)
qed (simp add: List.map_filter_simps)

section \<open>Properties\<close>

text \<open>
  C31: parseSelfCgroupV1 returns the path and the controller list of the first line of
  /proc/self/cgroup that names the controller as a whole element of its comma-separated list, and
  reports an error exactly when no line does; a controller whose name merely contains the one asked
  for never matches.
\<close>

theorem parseSelfCgroupV1_first:
  "case parseSelfCgroupV1 content c of
     Inr (p, names) \<Rightarrow> (\<exists>pre line post. lines content = pre @ line # post
       \<and> hierarchy_line line = Some (names, p) \<and> c \<in> set (Split CHR '','' names)
       \<and> list_all (\<lambda>l. case hierarchy_line l of None \<Rightarrow> True
            | Some (n, q) \<Rightarrow> c \<notin> set (Split CHR '','' n)) pre)
   | Inl e \<Rightarrow> e = controller_not_found c
       \<and> list_all (\<lambda>l. case hierarchy_line l of None \<Rightarrow> True
            | Some (n, q) \<Rightarrow> c \<notin> set (Split CHR '','' n)) (lines content)"
proof (cases "find_controller c (lines content)")
  case None
  from find_controller_None [THEN iffD1, OF None] show ?thesis
    unfolding parseSelfCgroupV1_def None by (auto simp: list_all_iff split: option.split)
next
  case (Some r)
  obtain p names where r: "r = (p, names)" by fastforce
  from find_controller_Some [OF Some [unfolded r]] show ?thesis
    unfolding parseSelfCgroupV1_def Some r
    by (fastforce simp: list_all_iff split: option.split)
qed

text \<open>
  V1ControllerDirNames always knows exactly the six controllers it starts from; each is mapped to
  the controller list of the last line of /proc/self/cgroup that mentions it, and to its
  conventional directory when no line does.
\<close>

theorem v1ControllerDirNames_last:
  "v1ControllerDirNames content c =
    (if c \<in> dom defaultV1ControllerDirs then
       (case find (\<lambda>(names, p). names \<noteq> [] \<and> c \<in> set (Split CHR '','' names))
               (rev (List.map_filter hierarchy_line (lines content))) of
          Some (names, p) \<Rightarrow> Some names | None \<Rightarrow> defaultV1ControllerDirs c)
     else None)"
proof (cases "c \<in> dom defaultV1ControllerDirs")
  case True
  then show ?thesis by (simp add: v1ControllerDirNames_def foldl_v1_names_at)
next
  case False
  then have "c \<notin> dom (foldl v1_names_line defaultV1ControllerDirs (lines content))"
    by (simp only: foldl_v1_names_dom) simp
  with False show ?thesis by (auto simp: v1ControllerDirNames_def)
qed


end
