(* ===== verification/Process.thy ===== *)
theory Process
  imports Rates Cgroup "HOL-Library.Multiset"
begin

text \<open>
  \<open>process.go\<close>: the process table, the ranking of processes by CPU or memory, and the lookup of one
  process. Two snapshots stand for the file system before and after the sampling sleep; \<open>ctxErr i\<close> is
  what the context answers at the \<open>i\<close>-th turn of a collecting loop, \<open>lookup\<close> the user database, and
  \<open>srt\<close> the library's sort, which promises a sorted permutation and nothing about ties.
\<close>

record ProcessIO =
  pio_ReadChars :: u64
  pio_WriteChars :: u64
  pio_ReadSyscalls :: u64
  pio_WriteSyscalls :: u64
  pio_ReadBytes :: u64
  pio_WriteBytes :: u64
  pio_CancelledWriteBytes :: u64
  pio_Accessible :: bool

definition ProcessIO_zero :: ProcessIO where
  "ProcessIO_zero = \<lparr>pio_ReadChars = 0, pio_WriteChars = 0, pio_ReadSyscalls = 0,
     pio_WriteSyscalls = 0, pio_ReadBytes = 0, pio_WriteBytes = 0, pio_CancelledWriteBytes = 0,
     pio_Accessible = False\<rparr>"

record Process =
  ps_Pid :: int
  ps_Name :: string
  ps_ExecPath :: string
  ps_User :: string
  ps_State :: string
  ps_StateName :: string
  ps_Threads :: int
  ps_CPUUsage :: f32
  ps_MemUsage :: f32
  ps_OpenFDs :: int
  ps_FDsAccessible :: bool
  ps_IO :: ProcessIO

definition Process_zero :: Process where
  "Process_zero = \<lparr>ps_Pid = 0, ps_Name = [], ps_ExecPath = [], ps_User = [], ps_State = [],
     ps_StateName = [], ps_Threads = 0, ps_CPUUsage = f64_zero, ps_MemUsage = f64_zero,
     ps_OpenFDs = 0, ps_FDsAccessible = False, ps_IO = ProcessIO_zero\<rparr>"

record procStat =
  st_comm :: string
  st_state :: string
  st_ppid :: int
  st_utime :: u64
  st_stime :: u64
  st_numThreads :: int
  st_starttime :: u64

record procCandidate =
  pc_pid :: int
  pc_uid :: string
  pc_cpuUsage :: f64
  pc_memUsage :: f64

definition clockTicksPerSec :: f64 where
  "clockTicksPerSec = f64_const 100"

section \<open>Paths and names\<close>

definition procFilePath :: "string \<Rightarrow> int \<Rightarrow> string \<Rightarrow> string" where
  "procFilePath procPath pid name = path_Join [procPath, Itoa pid, name]"

definition processStateName :: "string \<Rightarrow> string" where
  "processStateName state =
    (if state = ''R'' then ''running'' else if state = ''S'' then ''sleeping''
     else if state = ''D'' then ''disk-sleep'' else if state = ''Z'' then ''zombie''
     else if state = ''T'' then ''stopped'' else if state = ''t'' then ''tracing-stop''
     else if state = ''X'' \<or> state = ''x'' then ''dead'' else if state = ''K'' then ''wakekill''
     else if state = ''W'' then ''waking'' else if state = ''P'' then ''parked''
     else if state = ''I'' then ''idle'' else ''unknown'')"

definition parseCmdline :: "string \<Rightarrow> string" where
  "parseCmdline content = TrimSpace (ReplaceAll [CHR 0x00] '' '' content)"

definition countOpenFDs :: "fs \<Rightarrow> string \<Rightarrow> int \<Rightarrow> int \<times> bool" where
  "countOpenFDs f procPath pid = (case fs_dir f (path_Join [procPath, Itoa pid, ''fd'']) of
     None \<Rightarrow> (0, False) | Some entries \<Rightarrow> (int (length entries), True))"

section \<open>/proc/<pid>/io\<close>

definition io_line :: "ProcessIO \<Rightarrow> string \<Rightarrow> ProcessIO" where
  "io_line io line = (case kv_line line of None \<Rightarrow> io | Some (key, v) \<Rightarrow>
    let k = TrimSuffix key '':'' in
    if k = ''rchar'' then io\<lparr>pio_ReadChars := v\<rparr>
    else if k = ''wchar'' then io\<lparr>pio_WriteChars := v\<rparr>
    else if k = ''syscr'' then io\<lparr>pio_ReadSyscalls := v\<rparr>
    else if k = ''syscw'' then io\<lparr>pio_WriteSyscalls := v\<rparr>
    else if k = ''read_bytes'' then io\<lparr>pio_ReadBytes := v\<rparr>
    else if k = ''write_bytes'' then io\<lparr>pio_WriteBytes := v\<rparr>
    else if k = ''cancelled_write_bytes'' then io\<lparr>pio_CancelledWriteBytes := v\<rparr>
    else io)"

definition parseProcIO :: "string \<Rightarrow> ProcessIO" where
  "parseProcIO content =
    foldl io_line (ProcessIO_zero\<lparr>pio_Accessible := True\<rparr>) (lines content)"

definition readProcIO :: "fs \<Rightarrow> string \<Rightarrow> int \<Rightarrow> ProcessIO" where
  "readProcIO f procPath pid = (case ReadFileWithError f (procFilePath procPath pid ''io'') of
     Inl e \<Rightarrow> ProcessIO_zero | Inr content \<Rightarrow> parseProcIO content)"

section \<open>/proc/<pid>/stat and status\<close>

definition bad_stat :: error where
  "bad_stat = ErrorString ''unexpected /proc/<pid>/stat format''"

definition parseProcStat :: "string \<Rightarrow> (error + procStat) go" where
  "parseProcStat content = (case LastIndex content CHR '')'' of
     None \<Rightarrow> Ok (Inl bad_stat)
   | Some idx \<Rightarrow>
       if length content < idx + 2 then Ok (Inl bad_stat)
       else
         (let fields = Fields (drop (idx + 2) content) in
          if length fields < 20 then Ok (Inl bad_stat)
          else
            go_bind (field_u64 fields 11) (\<lambda>utime.
            go_bind (field_u64 fields 12) (\<lambda>stime.
            go_bind (field_u64 fields 19) (\<lambda>starttime.
              Ok (Inr \<lparr>
                st_comm = (case Index_of content ''('' of
                    Some left \<Rightarrow> if left < idx then drop (left + 1) (take idx content) else []
                  | None \<Rightarrow> []),
                st_state = fields ! 0, st_ppid = fst (Atoi (fields ! 1)), st_utime = utime,
                st_stime = stime, st_numThreads = fst (Atoi (fields ! 17)),
                st_starttime = starttime\<rparr>))))))"

definition readProcStat :: "fs \<Rightarrow> string \<Rightarrow> int \<Rightarrow> (error + procStat) go" where
  "readProcStat f procPath pid = (case ReadFileWithError f (procFilePath procPath pid ''stat'') of
     Inl e \<Rightarrow> Ok (Inl e) | Inr content \<Rightarrow> parseProcStat content)"

definition status_line :: "string \<times> u64 \<Rightarrow> string \<Rightarrow> (string \<times> u64) go" where
  "status_line acc line = (case acc of (uid, vmRSSKB) \<Rightarrow>
    let fields = Fields line in
    if length fields < 2 then Ok acc
    else
      (let uid' = (if fields ! 0 = ''Uid:'' then fields ! 1 else uid) in
       if fields ! 0 = ''VmRSS:'' then go_bind (ToUint64 (fields ! 1)) (\<lambda>v. Ok (uid', v))
       else Ok (uid', vmRSSKB)))"

definition parseProcStatus :: "string \<Rightarrow> (string \<times> u64) go" where
  "parseProcStatus content = range_loop status_line ([], 0) (lines content)"

definition readProcMemAndUID :: "fs \<Rightarrow> string \<Rightarrow> int \<Rightarrow> (error + string \<times> u64) go" where
  "readProcMemAndUID f procPath pid =
    (case ReadFileWithError f (procFilePath procPath pid ''status'') of
       Inl e \<Rightarrow> Ok (Inl e)
     | Inr content \<Rightarrow> go_bind (parseProcStatus content) (\<lambda>r. Ok (Inr r)))"

definition resolveUsername :: "(string \<Rightarrow> string option) \<Rightarrow> string \<Rightarrow> string" where
  "resolveUsername lookup uid = (case lookup uid of Some name \<Rightarrow> name | None \<Rightarrow> uid)"

fun find_MemTotal :: "string list \<Rightarrow> string option" where
  "find_MemTotal [] = None"
| "find_MemTotal (line # rest) =
     (let fields = Fields line in
      if 2 \<le> length fields \<and> fields ! 0 = ''MemTotal:'' then Some (fields ! 1)
      else find_MemTotal rest)"

definition totalMemoryKB :: "fs \<Rightarrow> string \<Rightarrow> (error + u64) go" where
  "totalMemoryKB f meminfoPath = (case ReadFileWithError f meminfoPath of
     Inl e \<Rightarrow> Ok (Inl e)
   | Inr content \<Rightarrow> (case find_MemTotal (lines content) of
       Some w \<Rightarrow> go_bind (ToUint64 w) (\<lambda>v. Ok (Inr v))
     | None \<Rightarrow> Ok (Inl (ErrorString (''MemTotal not found in '' @ meminfoPath)))))"

definition systemUptimeSeconds :: "fs \<Rightarrow> string \<Rightarrow> (error + f64) go" where
  "systemUptimeSeconds f uptimePath = (case ReadFileWithError f uptimePath of
     Inl e \<Rightarrow> Ok (Inl e)
   | Inr content \<Rightarrow>
       let fields = Fields content in
       if length fields < 1 then Ok (Inl (ErrorString (''unexpected '' @ uptimePath @ '' format'')))
       else go_bind (ToFloat64 (fields ! 0)) (\<lambda>v. Ok (Inr v)))"

definition listPids :: "fs \<Rightarrow> string \<Rightarrow> error + int list" where
  "listPids f procPath = (case fs_dir f procPath of
     None \<Rightarrow> Inl (OSError procPath) | Some entries \<Rightarrow> Inr (List.map_filter atoi_ok entries))"

section \<open>Usage\<close>

definition instantCPUPercent :: "u64 \<Rightarrow> u64 \<Rightarrow> f64 \<Rightarrow> f64" where
  "instantCPUPercent cpuTicks1 cpuTicks2 elapsedSeconds =
    (if f64_le elapsedSeconds f64_zero then f64_zero
     else f64_div (f64_mul (f64_const 100)
            (f64_div (f64_of_u64 (cpuTicks2 - cpuTicks1)) clockTicksPerSec)) elapsedSeconds)"

definition averageCPUPercent :: "u64 \<Rightarrow> u64 \<Rightarrow> f64 \<Rightarrow> f64" where
  "averageCPUPercent cpuTicks starttime uptimeSeconds =
    (let age = f64_sub uptimeSeconds (f64_div (f64_of_u64 starttime) clockTicksPerSec) in
     if f64_le age f64_zero then f64_zero
     else f64_div (f64_mul (f64_const 100) (f64_div (f64_of_u64 cpuTicks) clockTicksPerSec)) age)"

definition memPercent :: "u64 \<Rightarrow> u64 \<Rightarrow> f64" where
  "memPercent vmRSSKB totalMemKB =
    f64_div (f64_mul (f64_const 100) (f64_of_u64 vmRSSKB)) (f64_of_u64 totalMemKB)"

section \<open>Sampling\<close>

definition sample_step ::
    "fs \<Rightarrow> string \<Rightarrow> (int \<rightharpoonup> procStat) \<Rightarrow> int \<Rightarrow> (int \<rightharpoonup> procStat) go" where
  "sample_step f procPath out pid = go_bind (readProcStat f procPath pid) (\<lambda>r. case r of
     Inl e \<Rightarrow> Ok out | Inr s \<Rightarrow> Ok (out(pid \<mapsto> s)))"

definition sampleProcStats :: "fs \<Rightarrow> string \<Rightarrow> int list \<Rightarrow> (int \<rightharpoonup> procStat) go" where
  "sampleProcStats f procPath pids = range_loop (sample_step f procPath) Map.empty pids"

text \<open>The collecting loop; \<open>cpuOf pid\<close> is \<open>None\<close> where a sample is missing. The first error of the
  context ends the loop.\<close>

fun collect_candidates ::
    "fs \<Rightarrow> SyStats \<Rightarrow> (nat \<Rightarrow> ctx_error option) \<Rightarrow> (int \<Rightarrow> f64 option) \<Rightarrow> u64 \<Rightarrow> nat \<Rightarrow>
     procCandidate list \<Rightarrow> int list \<Rightarrow> (error + procCandidate list) go" where
  "collect_candidates f systats ctxErr cpuOf totalMemKB i acc [] = Ok (Inr acc)"
| "collect_candidates f systats ctxErr cpuOf totalMemKB i acc (pid # pids) =
     (case ctxErr i of
        Some e \<Rightarrow> Ok (Inl (CtxErr e))
      | None \<Rightarrow>
          (case cpuOf pid of
             None \<Rightarrow> collect_candidates f systats ctxErr cpuOf totalMemKB (Suc i) acc pids
           | Some cpu \<Rightarrow>
               go_bind (readProcMemAndUID f (ProcPath systats) pid) (\<lambda>r. case r of
                 Inl e \<Rightarrow> collect_candidates f systats ctxErr cpuOf totalMemKB (Suc i) acc pids
               | Inr (uid, vmRSSKB) \<Rightarrow>
                   collect_candidates f systats ctxErr cpuOf totalMemKB (Suc i)
                     (acc @ [\<lparr>pc_pid = pid, pc_uid = uid, pc_cpuUsage = cpu,
                        pc_memUsage = memPercent vmRSSKB totalMemKB\<rparr>]) pids)))"

definition instant_usage ::
    "(int \<rightharpoonup> procStat) \<Rightarrow> (int \<rightharpoonup> procStat) \<Rightarrow> f64 \<Rightarrow> int \<Rightarrow> f64 option" where
  "instant_usage sample1 sample2 elapsedSeconds pid = (case (sample2 pid, sample1 pid) of
     (Some s2, Some s1) \<Rightarrow> Some (instantCPUPercent (st_utime s1 + st_stime s1)
       (st_utime s2 + st_stime s2) elapsedSeconds)
   | _ \<Rightarrow> None)"

definition collectCandidatesInstant ::
    "fs \<Rightarrow> fs \<Rightarrow> wake \<Rightarrow> (nat \<Rightarrow> ctx_error option) \<Rightarrow> f64 \<Rightarrow> SyStats \<Rightarrow> int list \<Rightarrow> u64 \<Rightarrow>
     (error + procCandidate list) go" where
  "collectCandidatesInstant f1 f2 w ctxErr elapsedSeconds systats pids totalMemKB =
    go_bind (sampleProcStats f1 (ProcPath systats) pids) (\<lambda>sample1.
      case sleepCtx w of
        Some e \<Rightarrow> Ok (Inl e)
      | None \<Rightarrow>
          go_bind (sampleProcStats f2 (ProcPath systats) pids) (\<lambda>sample2.
            collect_candidates f2 systats ctxErr (instant_usage sample1 sample2 elapsedSeconds)
              totalMemKB 0 [] pids))"

definition average_usage :: "(int \<rightharpoonup> procStat) \<Rightarrow> f64 \<Rightarrow> int \<Rightarrow> f64 option" where
  "average_usage stats uptimeSeconds pid = map_option (\<lambda>s.
     averageCPUPercent (st_utime s + st_stime s) (st_starttime s) uptimeSeconds) (stats pid)"

definition collectCandidatesAverage ::
    "fs \<Rightarrow> (nat \<Rightarrow> ctx_error option) \<Rightarrow> SyStats \<Rightarrow> int list \<Rightarrow> u64 \<Rightarrow>
     (error + procCandidate list) go" where
  "collectCandidatesAverage f ctxErr systats pids totalMemKB =
    go_bind (systemUptimeSeconds f (UptimePath systats)) (\<lambda>r. case r of
      Inl e \<Rightarrow> Ok (Inl e)
    | Inr uptimeSeconds \<Rightarrow>
        go_bind (sampleProcStats f (ProcPath systats) pids) (\<lambda>stats.
          collect_candidates f systats ctxErr (average_usage stats uptimeSeconds)
            totalMemKB 0 [] pids))"

section \<open>Ranking\<close>

definition validateSortBy :: "sort_order \<Rightarrow> error option" where
  "validateSortBy sortBy =
    (if sortBy = [] \<or> sortBy = SortByCPU \<or> sortBy = SortByMemory then None
     else Some (ErrorString (sortBy @ '' is not a supported sort order, want '' @ SortByCPU
       @ '' or '' @ SortByMemory)))"

type_synonym 'a sorter = "('a \<Rightarrow> 'a \<Rightarrow> bool) \<Rightarrow> 'a list \<Rightarrow> 'a list"

definition rank_usage :: "sort_order \<Rightarrow> procCandidate \<Rightarrow> f64" where
  "rank_usage sortBy c = (if sortBy = SortByMemory then pc_memUsage c else pc_cpuUsage c)"

definition sortAndLimit ::
    "procCandidate sorter \<Rightarrow> procCandidate list \<Rightarrow> sort_order \<Rightarrow> int \<Rightarrow> procCandidate list go" where
  "sortAndLimit srt candidates sortBy limit =
    (let sorted = srt (\<lambda>a b. f64_less (rank_usage sortBy b) (rank_usage sortBy a)) candidates in
     if limit < int (length sorted) then
       (if limit < 0 then Panic (SliceOutOfRange 0 (length sorted)) else Ok (take (nat limit) sorted))
     else Ok sorted)"

section \<open>getTopProcesses and getProcess\<close>

definition enrichProcess :: "fs \<Rightarrow> SyStats \<Rightarrow> Process \<Rightarrow> (error + Process) go" where
  "enrichProcess f systats p =
    go_bind (readProcStat f (ProcPath systats) (ps_Pid p)) (\<lambda>r. case r of
      Inl e \<Rightarrow> Ok (Inl e)
    | Inr s \<Rightarrow>
        (let p1 = p\<lparr>ps_Name := st_comm s, ps_State := st_state s,
               ps_StateName := processStateName (st_state s), ps_Threads := st_numThreads s\<rparr>;
             p2 = (case ReadFileWithError f (procFilePath (ProcPath systats) (ps_Pid p) ''cmdline'') of
                 Inl e \<Rightarrow> p1 | Inr content \<Rightarrow> p1\<lparr>ps_ExecPath := parseCmdline content\<rparr>);
             fds = countOpenFDs f (ProcPath systats) (ps_Pid p) in
         Ok (Inr (p2\<lparr>ps_OpenFDs := fst fds, ps_FDsAccessible := snd fds,
           ps_IO := readProcIO f (ProcPath systats) (ps_Pid p)\<rparr>))))"

definition process_of :: "(string \<Rightarrow> string option) \<Rightarrow> procCandidate \<Rightarrow> Process" where
  "process_of lookup c = Process_zero\<lparr>ps_Pid := pc_pid c, ps_User := resolveUsername lookup (pc_uid c),
     ps_CPUUsage := f64_to_f32 (pc_cpuUsage c), ps_MemUsage := f64_to_f32 (pc_memUsage c)\<rparr>"

definition top_step ::
    "fs \<Rightarrow> SyStats \<Rightarrow> (string \<Rightarrow> string option) \<Rightarrow> Process list \<Rightarrow> procCandidate \<Rightarrow> Process list go" where
  "top_step f systats lookup out c =
    go_bind (enrichProcess f systats (process_of lookup c)) (\<lambda>r. case r of
      Inl e \<Rightarrow> Ok out | Inr p \<Rightarrow> Ok (out @ [p]))"

definition getTopProcesses ::
    "procCandidate sorter \<Rightarrow> (string \<Rightarrow> string option) \<Rightarrow> fs \<Rightarrow> fs \<Rightarrow> wake \<Rightarrow>
     (nat \<Rightarrow> ctx_error option) \<Rightarrow> f64 \<Rightarrow> SyStats \<Rightarrow> int \<Rightarrow> sort_order \<Rightarrow>
     (Process list \<times> error option) go" where
  "getTopProcesses srt lookup f1 f2 w ctxErr elapsedSeconds systats limit sortBy =
    (case validateSortBy sortBy of
       Some e \<Rightarrow> Ok ([], Some e)
     | None \<Rightarrow>
         (case listPids f1 (ProcPath systats) of
            Inl e \<Rightarrow> Ok ([], Some e)
          | Inr pids \<Rightarrow>
              go_bind (totalMemoryKB f1 (MeminfoPath systats)) (\<lambda>r. case r of
                Inl e \<Rightarrow> Ok ([], Some e)
              | Inr totalMemKB \<Rightarrow>
                  go_bind (if ProcessCPUMode systats = CPUUsageAverage
                      then collectCandidatesAverage f2 ctxErr systats pids totalMemKB
                      else collectCandidatesInstant f1 f2 w ctxErr elapsedSeconds systats pids
                             totalMemKB) (\<lambda>r. case r of
                    Inl e \<Rightarrow> Ok ([], Some e)
                  | Inr candidates0 \<Rightarrow>
                      go_bind (sortAndLimit srt candidates0 sortBy limit) (\<lambda>candidates.
                      go_bind (range_loop (top_step f2 systats lookup) [] candidates) (\<lambda>out.
                        Ok (out, None)))))))"

definition GetTopProcesses ::
    "procCandidate sorter \<Rightarrow> (string \<Rightarrow> string option) \<Rightarrow> fs \<Rightarrow> fs \<Rightarrow> wake \<Rightarrow>
     (nat \<Rightarrow> ctx_error option) \<Rightarrow> f64 \<Rightarrow> SyStats \<Rightarrow> int \<Rightarrow> sort_order \<Rightarrow> Process list \<times> error option" where
  "GetTopProcesses srt lookup f1 f2 w ctxErr elapsedSeconds systats limit sortBy =
    withRecover [] (getTopProcesses srt lookup f1 f2 w ctxErr elapsedSeconds systats limit sortBy)"

text \<open>The CPU figure of a single process.\<close>

definition process_cpu ::
    "fs \<Rightarrow> fs \<Rightarrow> wake \<Rightarrow> f64 \<Rightarrow> SyStats \<Rightarrow> int \<Rightarrow> (error + f64) go" where
  "process_cpu f1 f2 w elapsedSeconds systats pid =
    (if ProcessCPUMode systats = CPUUsageAverage then
       go_bind (systemUptimeSeconds f1 (UptimePath systats)) (\<lambda>r. case r of
         Inl e \<Rightarrow> Ok (Inl e)
       | Inr uptimeSeconds \<Rightarrow>
           go_bind (readProcStat f1 (ProcPath systats) pid) (\<lambda>r. case r of
             Inl e \<Rightarrow> Ok (Inl e)
           | Inr s \<Rightarrow> Ok (Inr (averageCPUPercent (st_utime s + st_stime s) (st_starttime s)
               uptimeSeconds))))
     else
       go_bind (readProcStat f1 (ProcPath systats) pid) (\<lambda>r. case r of
         Inl e \<Rightarrow> Ok (Inl e)
       | Inr s1 \<Rightarrow>
           (case sleepCtx w of
              Some e \<Rightarrow> Ok (Inl e)
            | None \<Rightarrow>
                go_bind (readProcStat f2 (ProcPath systats) pid) (\<lambda>r. case r of
                  Inl e \<Rightarrow> Ok (Inl e)
                | Inr s2 \<Rightarrow> Ok (Inr (instantCPUPercent (st_utime s1 + st_stime s1)
                    (st_utime s2 + st_stime s2) elapsedSeconds))))))"

definition getProcess ::
    "(string \<Rightarrow> string option) \<Rightarrow> fs \<Rightarrow> fs \<Rightarrow> wake \<Rightarrow> f64 \<Rightarrow> SyStats \<Rightarrow> int \<Rightarrow>
     (Process \<times> error option) go" where
  "getProcess lookup f1 f2 w elapsedSeconds systats pid =
    go_bind (totalMemoryKB f1 (MeminfoPath systats)) (\<lambda>r. case r of
      Inl e \<Rightarrow> Ok (Process_zero, Some e)
    | Inr totalMemKB \<Rightarrow>
        go_bind (process_cpu f1 f2 w elapsedSeconds systats pid) (\<lambda>r. case r of
          Inl e \<Rightarrow> Ok (Process_zero, Some e)
        | Inr cpuUsage \<Rightarrow>
            go_bind (readProcMemAndUID f2 (ProcPath systats) pid) (\<lambda>r. case r of
              Inl e \<Rightarrow> Ok (Process_zero, Some e)
            | Inr (uid, vmRSSKB) \<Rightarrow>
                go_bind (enrichProcess f2 systats (process_of lookup \<lparr>pc_pid = pid, pc_uid = uid,
                    pc_cpuUsage = cpuUsage, pc_memUsage = memPercent vmRSSKB totalMemKB\<rparr>))
                  (\<lambda>r. case r of Inl e \<Rightarrow> Ok (Process_zero, Some e) | Inr p \<Rightarrow> Ok (p, None)))))"

definition GetProcess ::
    "(string \<Rightarrow> string option) \<Rightarrow> fs \<Rightarrow> fs \<Rightarrow> wake \<Rightarrow> f64 \<Rightarrow> SyStats \<Rightarrow> int \<Rightarrow>
     Process \<times> error option" where
  "GetProcess lookup f1 f2 w elapsedSeconds systats pid =
    withRecover Process_zero (getProcess lookup f1 f2 w elapsedSeconds systats pid)"

section \<open>Sorting by a library sort\<close>

text \<open>
  A strict weak order, and what the library documents of its sort: the result is a permutation that
  the comparison does not contradict.
\<close>

definition weak_order :: "('a \<Rightarrow> 'a \<Rightarrow> bool) \<Rightarrow> 'a set \<Rightarrow> bool" where
  "weak_order lt A \<longleftrightarrow> (\<forall>x \<in> A. \<forall>y \<in> A. lt x y \<longrightarrow> \<not> lt y x)
     \<and> (\<forall>x \<in> A. \<forall>y \<in> A. \<forall>z \<in> A. \<not> lt y x \<longrightarrow> \<not> lt z y \<longrightarrow> \<not> lt z x)"

locale slice_sort =
  fixes srt :: "('a \<Rightarrow> 'a \<Rightarrow> bool) \<Rightarrow> 'a list \<Rightarrow> 'a list"
  assumes perm: "mset (srt lt xs) = mset xs"
    and ordered: "weak_order lt (set xs) \<Longrightarrow> sorted_wrt (\<lambda>x y. \<not> lt y x) (srt lt xs)"
begin

lemma srt_length [simp]: "length (srt lt xs) = length xs"
  using perm mset_eq_length by blast

lemma srt_set [simp]: "set (srt lt xs) = set xs"
  using perm mset_eq_setD by blast

text \<open>Nothing left out by a prefix of the sorted slice ranks before anything in it.\<close>

lemma top_k:
  assumes "weak_order lt (set xs)" and "x \<in> set (take k (srt lt xs))"
    and "y \<in> set (drop k (srt lt xs))"
  shows "\<not> lt y x"
proof -
  have "sorted_wrt (\<lambda>x y. \<not> lt y x) (take k (srt lt xs) @ drop k (srt lt xs))"
    using ordered [OF assms(1)] by simp
  with assms(2,3) show ?thesis unfolding sorted_wrt_append by blast
qed

lemma top_k_sorted:
  "weak_order lt (set xs) \<Longrightarrow> sorted_wrt (\<lambda>x y. \<not> lt y x) (take k (srt lt xs))"
  using ordered by (rule sorted_wrt_take)

lemma top_k_split: "mset (take k (srt lt xs)) + mset (drop k (srt lt xs)) = mset xs"
  using perm [of lt xs] by (metis append_take_drop_id mset_append)

end

text \<open>
  Insertion sort, which the library runs on slices of up to twelve elements: each element moves left
  past the elements it is less than. The accumulator is the sorted part, reversed.
\<close>

fun insert_back :: "('a \<Rightarrow> 'a \<Rightarrow> bool) \<Rightarrow> 'a \<Rightarrow> 'a list \<Rightarrow> 'a list" where
  "insert_back lt x [] = [x]"
| "insert_back lt x (y # ys) = (if lt x y then y # insert_back lt x ys else x # y # ys)"

definition insertionSort :: "('a \<Rightarrow> 'a \<Rightarrow> bool) \<Rightarrow> 'a list \<Rightarrow> 'a list" where
  "insertionSort lt xs = rev (foldl (\<lambda>out x. insert_back lt x out) [] xs)"

lemma mset_insert_back [simp]: "mset (insert_back lt x ys) = add_mset x (mset ys)"
  by (induction ys) simp_all

lemma set_insert_back [simp]: "set (insert_back lt x ys) = insert x (set ys)"
  by (induction ys) auto

lemma sorted_insert_back:
  assumes "weak_order lt A" and "x \<in> A" and "set ys \<subseteq> A"
    and "sorted_wrt (\<lambda>a b. \<not> lt a b) ys"
  shows "sorted_wrt (\<lambda>a b. \<not> lt a b) (insert_back lt x ys)"
  using assms(3,4)
proof (induction ys)
  case (Cons y ys)
  have yA: "y \<in> A" using Cons.prems by simp
  have "\<not> lt y x" if "lt x y"
    using assms(1) [unfolded weak_order_def, THEN conjunct1, rule_format, OF assms(2) yA that] .
  moreover have "\<not> lt x z" if "\<not> lt x y" "z \<in> set ys" for z
  proof -
    have "z \<in> A" "y \<in> A" "\<not> lt y z" using that Cons.prems by auto
    then show ?thesis
      using assms(1) [unfolded weak_order_def, THEN conjunct2, rule_format, of z y x] that assms(2)
      by simp
  qed
  ultimately show ?case using Cons by auto
qed simp

lemma insertionSort_mset: "mset (insertionSort lt xs) = mset xs"
proof -
  have "mset (foldl (\<lambda>out x. insert_back lt x out) out xs) = mset out + mset xs" for out
    by (induction xs arbitrary: out) simp_all
  then show ?thesis by (simp add: insertionSort_def)
qed

lemma insertionSort_sorted:
  assumes "weak_order lt (set xs)"
  shows "sorted_wrt (\<lambda>x y. \<not> lt y x) (insertionSort lt xs)"
proof -
  have "sorted_wrt (\<lambda>a b. \<not> lt a b) (foldl (\<lambda>out x. insert_back lt x out) out ys)"
    if "set out \<subseteq> set xs" "set ys \<subseteq> set xs" "sorted_wrt (\<lambda>a b. \<not> lt a b) out" for out ys
    using that
  proof (induction ys arbitrary: out)
    case (Cons y ys)
    then show ?case using sorted_insert_back [OF assms, of y out] by simp
  qed simp
  then show ?thesis by (simp add: insertionSort_def sorted_wrt_rev)
qed

interpretation go_sort: slice_sort insertionSort
  by unfold_locales (simp_all add: insertionSort_mset insertionSort_sorted)

section \<open>Facts\<close>

lemma weak_order_less:
  assumes "\<forall>c \<in> A. is_fin (u c)"
  shows "weak_order (\<lambda>a b. f64_less (u b) (u a)) A"
proof -
  have "f64_less (u a) (u b) \<longleftrightarrow> f64_val (u a) < f64_val (u b)" if "a \<in> A" "b \<in> A" for a b
    using that assms by (intro f64_less_iff) simp_all
  then show ?thesis by (auto simp: weak_order_def)
qed

lemma instantCPUPercent_sane:
  assumes "elapsed_ok el"
  shows "sane_rate (instantCPUPercent t1 t2 el)"
proof -
  from assms obtain m where m: "el = Fin False m" "pow2 (-40) \<le> m" "0 < m"
    by (rule elapsed_okE)
  let ?r = "round_at 53 (-1074)" and ?d = "t2 - t1"
  let ?q = "?r (?r (rat_of_u64 ?d) / 100)"
  have "?r (rat_of_u64 ?d) / 100 \<le> pow2 64"
    using u64_val_le [of ?d] round_at_nonneg [of 53 "-1074" "rat_of_u64 ?d"] by linarith
  then have q: "mk64 False (?r (rat_of_u64 ?d) / 100) = Fin False ?q" and q64: "?q \<le> pow2 64"
    by (simp_all add: mk64_le [where k = 64] b64.rnd_le representable_pow2)
  have "(100 :: rat) \<le> pow2 7" using pow2_nat [of 7] by simp
  then have "100 * ?q \<le> pow2 7 * pow2 64" using q64 by (intro mult_mono) simp_all
  then have "100 * ?q \<le> pow2 71" using pow2_add [of 7 64] by simp
  then have p: "mk64 False (100 * ?q) = Fin False (?r (100 * ?q))" and p71: "?r (100 * ?q) \<le> pow2 71"
    by (simp_all add: mk64_le [where k = 71] b64.rnd_le representable_pow2)
  show ?thesis
    using m mk64_quot_sane [where j = 71 and k = 40 and b = m, OF _ p71]
    by (simp add: instantCPUPercent_def clockTicksPerSec_def f64_const_def f64_of_u64_Fin q p
        sane_rate_def)
qed

lemma Index_of_char: "c \<notin> set s \<Longrightarrow> Index_of (s @ c # t) [c] = Some (length s)"
  by (induction s) (auto simp: HasPrefix_def)

lemma collect_candidates_pids:
  "collect_candidates f s ctxErr cpuOf tm i acc pids = Ok (Inr cs) \<Longrightarrow>
   pc_pid ` set cs \<subseteq> pc_pid ` set acc \<union> set pids"
proof (induction f s ctxErr cpuOf tm i acc pids rule: collect_candidates.induct)
  case (2 f s ctxErr cpuOf tm i acc pid pids)
  then show ?case
    by (fastforce simp: go_bind_sum split: option.splits prod.splits)
qed simp

lemma collectCandidates_pids:
  "collectCandidatesInstant f1 f2 w ctxErr el s pids tm = Ok (Inr cs) \<Longrightarrow> pc_pid ` set cs \<subseteq> set pids"
  "collectCandidatesAverage f ctxErr s pids tm = Ok (Inr cs) \<Longrightarrow> pc_pid ` set cs \<subseteq> set pids"
proof -
  assume "collectCandidatesInstant f1 f2 w ctxErr el s pids tm = Ok (Inr cs)"
  then obtain cpuOf where "collect_candidates f2 s ctxErr cpuOf tm 0 [] pids = Ok (Inr cs)"
    by (auto simp: collectCandidatesInstant_def go_simps split: option.splits)
  then show "pc_pid ` set cs \<subseteq> set pids" by (force dest: collect_candidates_pids)
next
  assume "collectCandidatesAverage f ctxErr s pids tm = Ok (Inr cs)"
  then obtain cpuOf where "collect_candidates f s ctxErr cpuOf tm 0 [] pids = Ok (Inr cs)"
    unfolding collectCandidatesAverage_def go_bind_sum by (auto simp: go_simps)
  then show "pc_pid ` set cs \<subseteq> set pids" by (force dest: collect_candidates_pids)
qed

lemma sortAndLimit_sub:
  assumes "slice_sort srt" and "0 \<le> limit" and "sortAndLimit srt cs0 sortBy limit = Ok cs"
  shows "length cs \<le> nat limit" and "set cs \<subseteq> set cs0"
  using assms(2,3) slice_sort.srt_length [OF assms(1)] slice_sort.srt_set [OF assms(1)]
    set_take_subset by (fastforce simp: sortAndLimit_def Let_def split: if_splits)+

lemma enrichProcess_pid: "enrichProcess f s p = Ok (Inr q) \<Longrightarrow> ps_Pid q = ps_Pid p"
  by (cases "ReadFileWithError f (procFilePath (ProcPath s) (ps_Pid p) ''cmdline'')")
    (auto simp: enrichProcess_def go_bind_sum Let_def)

lemma top_loop:
  assumes "range_loop (top_step f s lookup) [] cs = Ok ps"
  shows "length ps \<le> length cs" and "ps_Pid ` set ps \<subseteq> pc_pid ` set cs"
proof -
  have "length ps \<le> length out + length cs \<and> ps_Pid ` set ps \<subseteq> ps_Pid ` set out \<union> pc_pid ` set cs"
    if "range_loop (top_step f s lookup) out cs = Ok ps" for out
    using that
  proof (induction cs arbitrary: out)
    case (Cons c cs)
    then obtain out' where o: "top_step f s lookup out c = Ok out'"
      and r: "range_loop (top_step f s lookup) out' cs = Ok ps" by (auto simp: go_simps)
    have "out' = out \<or> (\<exists>p. out' = out @ [p] \<and> ps_Pid p = pc_pid c)"
      using o enrichProcess_pid by (fastforce simp: top_step_def go_bind_sum process_of_def)
    with Cons.IH [OF r] show ?case by (elim disjE exE) (simp_all, blast+)
  qed simp
  from this [OF assms] show "length ps \<le> length cs" and "ps_Pid ` set ps \<subseteq> pc_pid ` set cs" by simp_all
qed

lemma getTopProcesses_Ok:
  assumes "e = None" and "getTopProcesses srt lookup f1 f2 w ctxErr el s limit sortBy = Ok (ps, e)"
  obtains pids cs0 cs where "listPids f1 (ProcPath s) = Inr pids" and "pc_pid ` set cs0 \<subseteq> set pids"
    and "sortAndLimit srt cs0 sortBy limit = Ok cs"
    and "range_loop (top_step f2 s lookup) [] cs = Ok ps"
proof -
  obtain pids where p: "validateSortBy sortBy = None" "listPids f1 (ProcPath s) = Inr pids"
    using assms by (auto simp: getTopProcesses_def split: option.splits sum.splits)
  obtain tm where t: "totalMemoryKB f1 (MeminfoPath s) = Ok (Inr tm)"
    using assms p by (auto simp: getTopProcesses_def go_bind_sum)
  obtain cs0 where c: "(if ProcessCPUMode s = CPUUsageAverage
      then collectCandidatesAverage f2 ctxErr s pids tm
      else collectCandidatesInstant f1 f2 w ctxErr el s pids tm) = Ok (Inr cs0)"
    using assms p t by (auto simp: getTopProcesses_def go_bind_sum)
  obtain cs where s: "sortAndLimit srt cs0 sortBy limit = Ok cs"
    "range_loop (top_step f2 s lookup) [] cs = Ok ps"
    using assms unfolding getTopProcesses_def p t c by (auto simp: go_simps c)
  have "pc_pid ` set cs0 \<subseteq> set pids"
    using c collectCandidates_pids by (auto split: if_splits)
  with p s show ?thesis using that by blast
qed

lemma getTopProcesses_error:
  assumes "getTopProcesses srt lookup f1 f2 w ctxErr el s limit sortBy = Ok (ps, Some e)"
  shows "ps = []"
proof -
  have tail: "ps = []" if "go_bind m (\<lambda>cs. go_bind (g cs) (\<lambda>out. Ok (out, None))) = Ok (ps, Some e)"
    for m and g :: "'b \<Rightarrow> Process list go"
    using that by (auto simp: go_simps)
  show ?thesis
    using assms unfolding getTopProcesses_def
    by (auto simp: go_bind_sum dest: tail split: option.split_asm sum.split_asm)
qed

lemma mk64_range:
  assumes "pow2 j \<le> m" and "m \<le> pow2 k" and "-1074 \<le> j" and "k < 1024"
  obtains r where "mk64 False m = Fin False r" and "pow2 j \<le> r" and "r \<le> pow2 k"
proof -
  have "j \<le> k" using assms(1,2) order_trans pow2_le_iff by blast
  then have k: "-1074 \<le> k" using assms(3) by simp
  show ?thesis
  proof
    show "mk64 False m = Fin False (round_at 53 (-1074) m)" by (rule mk64_le [OF assms(2,4) k])
    show "pow2 j \<le> round_at 53 (-1074) m"
      using b64.le_rnd [OF assms(1) representable_pow2] assms(3) by simp
    show "round_at 53 (-1074) m \<le> pow2 k"
      using b64.rnd_le [OF assms(2) representable_pow2] k by simp
  qed
qed

lemma wrapped_ticks:
  assumes "c2 < (c1 :: u64)" and "c1 - c2 \<le> 2 ^ 63"
  shows "pow2 63 \<le> rat_of_u64 (c2 - c1)"
proof -
  have lt: "unat c2 < unat c1" and d: "unat (c1 - c2) \<le> 2 ^ 63"
    using assms by (simp_all add: word_le_nat_alt word_less_nat_alt)
  have "unat (c2 - c1) = unat c2 + 2 ^ 64 - unat c1"
    using lt unat_sub_if' [of c2 c1] by (simp add: not_le)
  moreover have "unat (c1 - c2) = unat c1 - unat c2"
    using assms(1) by (intro unat_sub_u64) simp
  ultimately have "2 ^ 63 \<le> unat (c2 - c1)" using d lt by simp
  then have "of_nat (2 ^ 63) \<le> rat_of_u64 (c2 - c1)"
    unfolding rat_of_u64_def by (simp only: of_nat_le_iff)
  then show ?thesis using pow2_nat [of 63] by simp
qed

section \<open>Properties\<close>

text \<open>
  C17: sortAndLimit keeps the requested number of candidates (all of them when there are fewer), in
  descending order of the chosen usage, and nothing it drops uses more than anything it keeps;
  candidates are neither invented nor lost. Only what the library promises of its sort is used.
\<close>

theorem sortAndLimit_top:
  assumes "slice_sort srt" and fin: "\<forall>c \<in> set cs. is_fin (rank_usage sortBy c)" and "0 \<le> limit"
  shows "\<exists>kept dropped. sortAndLimit srt cs sortBy limit = Ok kept
    \<and> mset kept + mset dropped = mset cs \<and> length kept = min (nat limit) (length cs)
    \<and> sorted_wrt (\<lambda>a b. f64_val (rank_usage sortBy b) \<le> f64_val (rank_usage sortBy a)) kept
    \<and> (\<forall>x \<in> set kept. \<forall>y \<in> set dropped.
         f64_val (rank_usage sortBy y) \<le> f64_val (rank_usage sortBy x))"
proof -
  let ?u = "rank_usage sortBy" and ?k = "nat limit"
  let ?lt = "\<lambda>a b. f64_less (?u b) (?u a)"
  note wo = weak_order_less [OF fin]
  have le: "f64_val (?u b) \<le> f64_val (?u a)" if "a \<in> set cs" "b \<in> set cs" "\<not> ?lt b a" for a b
    using that fin f64_less_iff [of "?u a" "?u b"] by auto
  let ?kept = "take ?k (srt ?lt cs)" and ?dropped = "drop ?k (srt ?lt cs)"
  have sub: "set ?kept \<subseteq> set cs" "set ?dropped \<subseteq> set cs"
    using slice_sort.srt_set [OF assms(1), of ?lt cs] set_take_subset set_drop_subset by fastforce+
  have "sorted_wrt (\<lambda>a b. f64_val (?u b) \<le> f64_val (?u a)) ?kept"
    using slice_sort.top_k_sorted [OF assms(1) wo, of ?k] sub le
    by (intro sorted_wrt_mono_rel [OF _ slice_sort.top_k_sorted [OF assms(1) wo]]) blast
  moreover have "\<forall>x \<in> set ?kept. \<forall>y \<in> set ?dropped. f64_val (?u y) \<le> f64_val (?u x)"
    using slice_sort.top_k [OF assms(1) wo] sub le by blast
  moreover have "sortAndLimit srt cs sortBy limit = Ok ?kept"
    using assms(3) slice_sort.srt_length [OF assms(1)] by (auto simp: sortAndLimit_def Let_def)
  moreover have "length ?kept = min ?k (length cs)"
    using slice_sort.srt_length [OF assms(1)] by simp
  ultimately show ?thesis using slice_sort.top_k_split [OF assms(1)] by blast
qed

theorem sortAndLimit_top_witness:
  "\<exists>kept. sortAndLimit insertionSort
      [\<lparr>pc_pid = 1, pc_uid = ''0'', pc_cpuUsage = f64_const 5, pc_memUsage = f64_const 1\<rparr>,
       \<lparr>pc_pid = 2, pc_uid = ''0'', pc_cpuUsage = f64_const 9, pc_memUsage = f64_const 0\<rparr>]
      SortByCPU 1 = Ok kept \<and> length kept = 1"
proof -
  let ?cs = "[\<lparr>pc_pid = 1, pc_uid = ''0'', pc_cpuUsage = f64_const 5, pc_memUsage = f64_const 1\<rparr>,
       \<lparr>pc_pid = 2, pc_uid = ''0'', pc_cpuUsage = f64_const 9, pc_memUsage = f64_const 0\<rparr>]"
  have "\<forall>c \<in> set ?cs. is_fin (rank_usage SortByCPU c)" by (simp add: rank_usage_def f64_const_def)
  from sortAndLimit_top [OF go_sort.slice_sort_axioms this, of 1] show ?thesis by auto
qed

text \<open>
  C25: parseProcStat recovers the process name exactly whatever bytes it holds, parentheses and
  blanks included, and reads the state, the parent, both tick counters, the thread count and the start
  time from their columns.
\<close>

theorem parseProcStat_any_comm:
  assumes ws: "list_all (\<lambda>w. plain w \<and> w \<noteq> [] \<and> CHR '')'' \<notin> set w) ws" and len: "20 \<le> length ws"
    and num: "ws ! 1 = Itoa ppid" "ws ! 11 = show_u64 ut" "ws ! 12 = show_u64 st"
      "ws ! 17 = Itoa threads" "ws ! 19 = show_u64 start"
    and rng: "ppid \<in> {- (2 ^ 63)..<2 ^ 63}" "threads \<in> {- (2 ^ 63)..<2 ^ 63}"
  shows "parseProcStat (show_nat pid @ '' ('' @ comm @ '') '' @ join_with CHR 0x20 ws) =
    Ok (Inr \<lparr>st_comm = comm, st_state = ws ! 0, st_ppid = ppid, st_utime = ut, st_stime = st,
      st_numThreads = threads, st_starttime = start\<rparr>)"
proof -
  let ?pre = "show_nat pid @ '' ('' @ comm" and ?post = "CHR 0x20 # join_with CHR 0x20 ws"
  let ?c = "?pre @ CHR '')'' # ?post"
  have np: "CHR '')'' \<notin> set (join_with CHR 0x20 ws)"
    using ws join_with_set [of "CHR 0x20" ws] by (fastforce simp: list_all_iff)
  have li: "LastIndex ?c CHR '')'' = Some (length ?pre)"
    using np by (intro LastIndex_append) simp
  have "CHR ''('' \<notin> set (show_nat pid)"
    using show_nat_digits [of pid] by (auto simp: list_all_iff is_digit_def Let_def)
  then have ix: "Index_of ?c ''('' = Some (length (show_nat pid) + 1)"
    using Index_of_char [of "CHR ''(''" "show_nat pid @ '' ''" "comm @ CHR '')'' # ?post"] by simp
  have F: "Fields (drop (length ?pre + 2) ?c) = ws"
  proof -
    have "drop (length ?pre + 2) ?c = drop 2 (CHR '')'' # ?post)" by (simp only: drop_length_append)
    then show ?thesis using ws by (simp add: Fields_join list_all_iff)
  qed
  have c: "drop (length (show_nat pid) + 1 + 1) (take (length ?pre) ?c) = comm" by simp
  have n: "field_u64 ws 11 = Ok ut" "field_u64 ws 12 = Ok st" "field_u64 ws 19 = Ok start"
    using len num by (simp_all add: field_u64_def)
  have a: "fst (Atoi (ws ! 1)) = ppid" "fst (Atoi (ws ! 17)) = threads"
    using num rng by (simp_all add: Atoi_def ParseInt_Itoa)
  have "parseProcStat ?c = Ok (Inr \<lparr>st_comm = comm, st_state = ws ! 0, st_ppid = ppid,
      st_utime = ut, st_stime = st, st_numThreads = threads, st_starttime = start\<rparr>)"
    unfolding parseProcStat_def li ix option.case Let_def F n a go_bind.simps c using len by simp
  then show ?thesis by simp
qed

theorem parseProcStat_any_comm_witness:
  "\<exists>s. parseProcStat (show_nat 42 @ '' ('' @ ''a) (b'' @ '') '' @ join_with CHR 0x20
      ([''S'', ''1''] @ replicate 9 ''0'' @ [''7'', ''5''] @ replicate 4 ''0'' @ [''3'', ''0'', ''99'']))
     = Ok (Inr s) \<and> st_comm s = ''a) (b''"
proof -
  let ?ws = "[''S'', ''1''] @ replicate 9 ''0'' @ [''7'', ''5''] @ replicate 4 ''0''
    @ [''3'', ''0'', ''99'']"
  have "list_all (\<lambda>w. plain w \<and> w \<noteq> [] \<and> CHR '')'' \<notin> set w) ?ws" by code_simp
  moreover have "20 \<le> length ?ws" by simp
  moreover have "?ws ! 1 = Itoa 1" "?ws ! 11 = show_u64 7" "?ws ! 12 = show_u64 5"
    "?ws ! 17 = Itoa 3" "?ws ! 19 = show_u64 99" by code_simp+
  moreover have "1 \<in> {- (2 ^ 63)..<2 ^ 63 :: int}" "3 \<in> {- (2 ^ 63)..<2 ^ 63 :: int}" by simp_all
  ultimately show ?thesis using parseProcStat_any_comm by fastforce
qed

text \<open>
  C10: whatever happens to the process table between the two samples, GetTopProcesses returns at most
  the requested number of processes, each of them with a pid that was listed when the call started, and
  no process at all beside an error.
\<close>

theorem GetTopProcesses_bounded:
  assumes "slice_sort srt" and "0 \<le> limit"
    and "GetTopProcesses srt lookup f1 f2 w ctxErr el s limit sortBy = (ps, e)"
  shows "length ps \<le> nat limit \<and> (e \<noteq> None \<longrightarrow> ps = [])
    \<and> (\<forall>p \<in> set ps. \<exists>pids. listPids f1 (ProcPath s) = Inr pids \<and> ps_Pid p \<in> set pids)"
proof (cases "getTopProcesses srt lookup f1 f2 w ctxErr el s limit sortBy")
  case (Panic p)
  then show ?thesis using assms(3) by (simp add: GetTopProcesses_def)
next
  case (Ok r)
  then have r: "r = (ps, e)" using assms(3) by (simp add: GetTopProcesses_def)
  show ?thesis
  proof (cases e)
    case (Some err)
    then have "ps = []" using getTopProcesses_error Ok unfolding r by blast
    then show ?thesis by simp
  next
    case None
    then obtain pids cs0 cs where p: "listPids f1 (ProcPath s) = Inr pids"
      and c0: "pc_pid ` set cs0 \<subseteq> set pids" and c: "sortAndLimit srt cs0 sortBy limit = Ok cs"
      and l: "range_loop (top_step f2 s lookup) [] cs = Ok ps"
      using Ok unfolding r by (rule getTopProcesses_Ok)
    note kept = sortAndLimit_sub [OF assms(1,2) c]
    have "ps_Pid ` set ps \<subseteq> set pids"
      using top_loop(2) [OF l] image_mono [OF kept(2), of pc_pid] c0 by blast
    then show ?thesis using p None top_loop(1) [OF l] kept(1) by auto
  qed
qed

theorem GetTopProcesses_bounded_witness:
  "length (fst (GetTopProcesses insertionSort (\<lambda>u. None) (files_fs []) (files_fs []) TimerFired
     (\<lambda>i. None) (f64_const 1) New 3 SortByCPU)) \<le> 3"
proof -
  let ?r = "GetTopProcesses insertionSort (\<lambda>u. None) (files_fs []) (files_fs []) TimerFired
     (\<lambda>i. None) (f64_const 1) New 3 SortByCPU"
  have "?r = (fst ?r, snd ?r)" by simp
  from GetTopProcesses_bounded [OF go_sort.slice_sort_axioms _ this] show ?thesis by simp
qed

text \<open>
  C39: the tick counters are subtracted without a guard, unlike the disk and container counters: when a
  process ends during the window and its number is given to a younger one whose ticks are fewer (by
  no more than 2^63), the difference wraps, and over any window of at most 2^k seconds the new process
  is reported at a finite figure of at least 2^(62 - k) percent.
\<close>

theorem instantCPUPercent_pid_reuse:
  assumes "c2 < c1" and "c1 - c2 \<le> 2 ^ 63" and el: "elapsed_ok el" "f64_val el \<le> pow2 k" and "k \<le> 64"
  shows "is_fin (instantCPUPercent c1 c2 el) \<and> pow2 (62 - k) \<le> f64_val (instantCPUPercent c1 c2 el)"
proof -
  obtain m where m: "el = Fin False m" "pow2 (-40) \<le> m" "0 < m" using el(1) by (rule elapsed_okE)
  then have mk: "m \<le> pow2 k" using el(2) by simp
  obtain r0 where r0: "f64_of_u64 (c2 - c1) = Fin False r0" "pow2 63 \<le> r0" "r0 \<le> pow2 64"
    unfolding f64_of_u64_def f64_of_nat_def
    by (rule mk64_range [OF wrapped_ticks [OF assms(1,2)] rat_of_u64_le, unfolded rat_of_u64_def]) simp_all
  have "pow2 56 \<le> r0 / 100" "r0 / 100 \<le> pow2 64"
    using r0(2,3) by (simp_all add: pow2_def)
  then obtain r1 where r1: "mk64 False (r0 / 100) = Fin False r1" "pow2 56 \<le> r1" "r1 \<le> pow2 64"
    by (rule mk64_range) simp_all
  have "pow2 62 \<le> 100 * r1" "100 * r1 \<le> pow2 71"
    using r1(2,3) by (simp_all add: pow2_def)
  then obtain r2 where r2: "mk64 False (100 * r1) = Fin False r2" "pow2 62 \<le> r2" "r2 \<le> pow2 71"
    by (rule mk64_range) simp_all
  have "0 \<le> r2" using r2(2) order_trans [OF pow2_nonneg] by blast
  then have "pow2 62 / pow2 k \<le> r2 / m" "r2 / m \<le> pow2 71 / pow2 (-40)"
    using frac_le [of r2 "pow2 62" m "pow2 k"] frac_le [of "pow2 71" r2 "pow2 (-40)" m] r2(2,3) m mk by simp_all
  then have "pow2 (62 - k) \<le> r2 / m" "r2 / m \<le> pow2 111"
    using pow2_diff [of 62 k] pow2_diff [of 71 "-40"] by simp_all
  then obtain r3 where "mk64 False (r2 / m) = Fin False r3" "pow2 (62 - k) \<le> r3"
    using assms(5) by (rule_tac mk64_range [of "62 - k" "r2 / m" 111]) simp_all
  then show ?thesis
    using m by (simp add: instantCPUPercent_def clockTicksPerSec_def f64_const_def r0(1) r1(1) r2(1))
qed

text \<open>The default window of 300 ms: \<open>0.3\<close> as a double.\<close>

theorem instantCPUPercent_pid_reuse_witness:
  "pow2 62 \<le> f64_val (instantCPUPercent 500 3 (Fin False (5404319552844595 / 2 ^ 54)))"
proof -
  have e: "elapsed_ok (Fin False (5404319552844595 / 2 ^ 54))"
    using pow2_diff [of 0 40] pow2_nat [of 40] pow2_nat [of 64] by (simp add: elapsed_ok_def)
  show ?thesis using instantCPUPercent_pid_reuse [of 3 500, OF _ _ e, of 0] by simp
qed

end
