(* ===== verification/Temperature.thy ===== *)
theory Temperature
  imports Process "HOL-Library.List_Lexorder" "HOL-Library.Char_ord"
begin

text \<open>
  \<open>temperature.go\<close>: the hwmon sensors. Go compares strings byte by byte, which is the lexicographic
  order of \<open>List_Lexorder\<close> over the character codes.
\<close>

record Temperature =
  tp_Name :: string
  tp_Label :: string
  tp_Celsius :: f64
  tp_High :: f64
  tp_HighAvailable :: bool
  tp_Critical :: f64
  tp_CriticalAvailable :: bool

definition tempInputPrefix :: "string \<Rightarrow> string option" where
  "tempInputPrefix fileName =
    (if \<not> HasPrefix fileName ''temp'' \<or> \<not> HasSuffix fileName ''_input'' then None
     else let pre = TrimSuffix fileName ''_input'' in
       if pre = ''temp'' then None else Some pre)"

definition readMilliDegrees :: "fs \<Rightarrow> string \<Rightarrow> string \<Rightarrow> f64 \<times> bool" where
  "readMilliDegrees f dir fileName =
    (let raw = readAsString f (path_Join [dir, fileName]) in
     if raw = [] then (f64_zero, False)
     else (case parse_f64 raw of
         None \<Rightarrow> (f64_zero, False) | Some milli \<Rightarrow> (f64_div milli (f64_const 1000), True)))"

definition read_sensor :: "fs \<Rightarrow> string \<Rightarrow> string \<Rightarrow> string \<Rightarrow> Temperature option" where
  "read_sensor f chipDir chipName entry = (case tempInputPrefix entry of
     None \<Rightarrow> None
   | Some pre \<Rightarrow>
       (case parse_f64 (readAsString f (path_Join [chipDir, entry])) of
          None \<Rightarrow> None
        | Some milli \<Rightarrow>
            let label = readAsString f (path_Join [chipDir, pre @ ''_label'']);
                high = readMilliDegrees f chipDir (pre @ ''_max'');
                crit = readMilliDegrees f chipDir (pre @ ''_crit'') in
            Some \<lparr>tp_Name = chipName, tp_Label = (if label \<noteq> [] then label else pre),
              tp_Celsius = f64_div milli (f64_const 1000),
              tp_High = fst high, tp_HighAvailable = snd high,
              tp_Critical = fst crit, tp_CriticalAvailable = snd crit\<rparr>))"

definition read_chip :: "fs \<Rightarrow> SyStats \<Rightarrow> string \<Rightarrow> Temperature list" where
  "read_chip f systats chip =
    (let chipDir = path_Join [HwmonPath systats, chip];
         chipName = readAsString f (path_Join [chipDir, ''name'']) in
     case fs_dir f chipDir of
       None \<Rightarrow> [] | Some entries \<Rightarrow> List.map_filter (read_sensor f chipDir chipName) entries)"

definition temp_less :: "Temperature \<Rightarrow> Temperature \<Rightarrow> bool" where
  "temp_less a b =
    (if tp_Name a \<noteq> tp_Name b then tp_Name a < tp_Name b else tp_Label a < tp_Label b)"

definition getTemperatures :: "Temperature sorter \<Rightarrow> fs \<Rightarrow> SyStats \<Rightarrow> Temperature list \<times> error option" where
  "getTemperatures srt f systats = (case fs_dir f (HwmonPath systats) of
     None \<Rightarrow> ([], None)
   | Some chips \<Rightarrow> (srt temp_less (concat (map (read_chip f systats) chips)), None))"

definition GetTemperatures :: "Temperature sorter \<Rightarrow> fs \<Rightarrow> SyStats \<Rightarrow> Temperature list \<times> error option" where
  "GetTemperatures srt f systats = withRecover [] (Ok (getTemperatures srt f systats))"

section \<open>The order of the readings\<close>

text \<open>What a reading is sorted by, as a linear order of its own.\<close>

datatype sensor_key = SensorKey (key_name: string) (key_label: string)

instantiation sensor_key :: linorder
begin

definition less_sensor_key :: "sensor_key \<Rightarrow> sensor_key \<Rightarrow> bool" where
  "less_sensor_key a b \<longleftrightarrow> key_name a < key_name b \<or> key_name a = key_name b \<and> key_label a < key_label b"

definition less_eq_sensor_key :: "sensor_key \<Rightarrow> sensor_key \<Rightarrow> bool" where
  "less_eq_sensor_key a b \<longleftrightarrow> key_name a < key_name b \<or> key_name a = key_name b \<and> key_label a \<le> key_label b"

instance
proof
  fix a b c :: sensor_key
  show "(a < b) = (a \<le> b \<and> \<not> b \<le> a)" by (auto simp: less_sensor_key_def less_eq_sensor_key_def)
  show "a \<le> a" by (simp add: less_eq_sensor_key_def)
  show "a \<le> b \<Longrightarrow> b \<le> c \<Longrightarrow> a \<le> c" by (auto simp: less_eq_sensor_key_def)
  show "a \<le> b \<Longrightarrow> b \<le> a \<Longrightarrow> a = b"
    by (auto simp: less_eq_sensor_key_def intro: sensor_key.expand)
  show "a \<le> b \<or> b \<le> a" by (auto simp: less_eq_sensor_key_def)
qed

end

definition temp_key :: "Temperature \<Rightarrow> sensor_key" where
  "temp_key t = SensorKey (tp_Name t) (tp_Label t)"

lemma temp_less_key: "temp_less a b \<longleftrightarrow> temp_key a < temp_key b"
  by (auto simp: temp_less_def temp_key_def less_sensor_key_def)

lemma weak_order_key: "weak_order (\<lambda>a b. (k a :: 'b :: linorder) < k b) A"
  by (auto simp: weak_order_def not_less)

text \<open>The readings, sensor by sensor: none when there is no hwmon.\<close>

definition sensor_readings :: "fs \<Rightarrow> SyStats \<Rightarrow> Temperature list" where
  "sensor_readings f systats = (case fs_dir f (HwmonPath systats) of
     None \<Rightarrow> [] | Some chips \<Rightarrow> concat (map (read_chip f systats) chips))"

text \<open>
  The temperatures come in the order of chip name and label, whatever order the chips were
  listed in, with exactly the readable sensors among them, and never with an error.
\<close>

theorem GetTemperatures_ordered:
  assumes "slice_sort srt"
  shows "sorted (map temp_key (fst (GetTemperatures srt f systats))) \<and>
    mset (fst (GetTemperatures srt f systats)) = mset (sensor_readings f systats) \<and>
    snd (GetTemperatures srt f systats) = None"
proof (cases "fs_dir f (HwmonPath systats)")
  case (Some chips)
  then show ?thesis
    using slice_sort.ordered [OF assms weak_order_key [of temp_key], of "sensor_readings f systats"]
      slice_sort.perm [OF assms, of temp_less "sensor_readings f systats"]
    by (simp add: GetTemperatures_def getTemperatures_def withRecover_def sensor_readings_def
        temp_less_key [abs_def] sorted_wrt_map not_less)
qed (simp add: GetTemperatures_def getTemperatures_def withRecover_def sensor_readings_def)

text \<open>One chip with two sensors, listed against their labels' order.\<close>

definition demo_hwmon :: fs where
  "demo_hwmon = (files_fs [
     (''/sys/class/hwmon/hwmon0/name'', ''coretemp''),
     (''/sys/class/hwmon/hwmon0/temp1_input'', ''0''),
     (''/sys/class/hwmon/hwmon0/temp1_label'', ''Package id 0''),
     (''/sys/class/hwmon/hwmon0/temp2_input'', ''0''),
     (''/sys/class/hwmon/hwmon0/temp2_label'', ''Core 0'')])
   \<lparr>fs_dir := map_of [(''/sys/class/hwmon'', [''hwmon0'']),
     (''/sys/class/hwmon/hwmon0'', [''name'', ''temp1_input'', ''temp1_label'', ''temp2_input'', ''temp2_label''])]\<rparr>"

theorem GetTemperatures_ordered_witness:
  "sorted (map temp_key (fst (GetTemperatures insertionSort demo_hwmon New))) \<and>
   mset (fst (GetTemperatures insertionSort demo_hwmon New)) = mset (sensor_readings demo_hwmon New) \<and>
   snd (GetTemperatures insertionSort demo_hwmon New) = None"
  by (rule GetTemperatures_ordered [OF go_sort.slice_sort_axioms])

end
