(* ===== verification/Render.thy ===== *)
theory Render
  imports Temperature
begin

text \<open>
  \<open>example/render.go\<close>: the dashboard's colours, gauges, bars and number texts. Printing with a fixed
  number of decimals rounds the exact binary value half to even, which is what \<open>strconv\<close> does for
  the verb \<open>f\<close>.
\<close>

section \<open>Numbers as text\<close>

text \<open>The decimal digits of \<open>n / 10^k\<close>, with a point when \<open>0 < k\<close>.\<close>

fun frac_digits :: "nat \<Rightarrow> nat \<Rightarrow> string" where
  "frac_digits 0 n = []"
| "frac_digits (Suc k) n = frac_digits k (n div 10) @ [digit_char (n mod 10)]"

lemma frac_digits_code [code]:
  "frac_digits k n = (if k = 0 then [] else frac_digits (k - 1) (n div 10) @ [digit_char (n mod 10)])"
  by (cases k) simp_all

definition fixed_text :: "nat \<Rightarrow> nat \<Rightarrow> string" where
  "fixed_text k n = show_nat (n div 10 ^ k) @ (if k = 0 then [] else CHR ''.'' # frac_digits k n)"

text \<open>\<open>strconv.FormatFloat(x, 'f', k, 64)\<close>, which is also the verb \<open>%.kf\<close>.\<close>

definition FormatFixed :: "nat \<Rightarrow> f64 \<Rightarrow> string" where
  "FormatFixed k x = (case x of
     NaN \<Rightarrow> ''NaN''
   | Inf s \<Rightarrow> if s then ''-Inf'' else ''+Inf''
   | Fin s m \<Rightarrow> (if s then ''-'' else []) @ fixed_text k (nat (rne (m * 10 ^ k))))"

definition TrimRight :: "char \<Rightarrow> string \<Rightarrow> string" where
  "TrimRight c s = rev (dropWhile (\<lambda>x. x = c) (rev s))"

definition fmtFloat :: "f64 \<Rightarrow> string" where
  "fmtFloat f = (if \<not> is_fin f then ''0''
     else TrimSuffix (TrimRight CHR ''0'' (FormatFixed 2 f)) ''.'')"

definition size_text :: "f64 \<Rightarrow> unit_name \<Rightarrow> string" where
  "size_text v u = FormatFixed 2 v @ '' '' @ u"

text \<open>The loop of \<open>bytesHuman\<close>: it stops at the last unit whatever is left.\<close>

fun human_loop :: "f64 \<Rightarrow> string \<Rightarrow> string list \<Rightarrow> f64 \<times> string" where
  "human_loop b u [] = (b, u)"
| "human_loop b u (v # vs) =
     (if f64_le (f64_const 1024) b then human_loop (f64_div b (f64_const 1024)) v vs else (b, u))"

definition bytesHuman :: "f64 \<Rightarrow> string" where
  "bytesHuman b = (case human_loop b ''B'' [''KB'', ''MB'', ''GB'', ''TB'', ''PB''] of (v, u) \<Rightarrow>
     FormatFixed (if u = ''B'' then 0 else 2) v @ '' '' @ u)"

definition rate_text :: "f64 \<Rightarrow> string" where
  "rate_text bytesPerSec = (if f64_le bytesPerSec f64_zero then ''idle'' else bytesHuman bytesPerSec @ ''/s'')"

section \<open>Colours\<close>

definition colorOK :: string where "colorOK = ''#2f9e44''"
definition colorWarn :: string where "colorWarn = ''#e8a317''"
definition colorCrit :: string where "colorCrit = ''#d64545''"
definition colorEstablished :: string where "colorEstablished = ''#2f9e44''"
definition colorListen :: string where "colorListen = ''#3b82c4''"
definition colorTimeWait :: string where "colorTimeWait = ''#e8a317''"
definition colorCloseWait :: string where "colorCloseWait = ''#d64545''"
definition colorOther :: string where "colorOther = ''#8a8f98''"
definition colorUnknown :: string where "colorUnknown = ''#6b4fa0''"

definition clampPercent :: "f64 \<Rightarrow> f64" where
  "clampPercent pct =
    (if pct = NaN \<or> f64_less pct f64_zero then f64_zero
     else if f64_less (f64_const 100) pct then f64_const 100
     else pct)"

definition levelColor :: "f64 \<Rightarrow> string" where
  "levelColor pct =
    (if f64_le (f64_const 85) (clampPercent pct) then colorCrit
     else if f64_le (f64_const 70) (clampPercent pct) then colorWarn
     else colorOK)"

definition tempColor :: "Temperature \<Rightarrow> string" where
  "tempColor t =
    (if tp_CriticalAvailable t \<and> f64_le (tp_Critical t) (tp_Celsius t) then colorCrit
     else if tp_HighAvailable t \<and> f64_le (tp_High t) (tp_Celsius t) then colorWarn
     else if \<not> tp_HighAvailable t \<and> \<not> tp_CriticalAvailable t then levelColor (tp_Celsius t)
     else colorOK)"

text \<open>The degree sign is two bytes.\<close>

definition degree :: string where
  "degree = [CHR 0xC2, CHR 0xB0]"

definition celsius_text :: "f64 \<Rightarrow> string" where
  "celsius_text x = FormatFixed 0 x @ degree @ ''C''"

text \<open>The ceiling of the scale and its caption.\<close>

definition temp_limits :: "Temperature \<Rightarrow> f64 \<times> string" where
  "temp_limits t =
    (if tp_CriticalAvailable t \<and> f64_less f64_zero (tp_Critical t) then
       (tp_Critical t,
        if tp_HighAvailable t \<and> f64_less f64_zero (tp_High t)
        then ''high '' @ celsius_text (tp_High t) @ '', crit '' @ celsius_text (tp_Critical t)
        else ''crit '' @ celsius_text (tp_Critical t))
     else if tp_HighAvailable t \<and> f64_less f64_zero (tp_High t) then
       (tp_High t, ''high '' @ celsius_text (tp_High t))
     else (f64_const 100, ''no thresholds published''))"

definition tempScale :: "Temperature \<Rightarrow> f64 \<times> string" where
  "tempScale t = (case temp_limits t of (ceiling0, limits) \<Rightarrow>
     let ceil = (if f64_le ceiling0 f64_zero then f64_const 100 else ceiling0) in
     (f64_div (f64_mul (f64_const 100) (tp_Celsius t)) ceil, limits))"

section \<open>Gauges and bars\<close>

record Gauge =
  ga_Percent :: f64
  ga_Dash :: string
  ga_Gap :: string
  ga_Circumference :: string
  ga_Color :: string
  ga_Label :: string
  ga_Caption :: string
  ga_Radius :: string
  ga_Center :: string
  ga_Size :: string

definition Gauge_zero :: Gauge where
  "Gauge_zero = \<lparr>ga_Percent = f64_zero, ga_Dash = [], ga_Gap = [], ga_Circumference = [],
     ga_Color = [], ga_Label = [], ga_Caption = [], ga_Radius = [], ga_Center = [], ga_Size = []\<rparr>"

record Bar =
  ba_Percent :: f64
  ba_Width :: string
  ba_Color :: string
  ba_Label :: string
  ba_Value :: string

definition Bar_zero :: Bar where
  "Bar_zero = \<lparr>ba_Percent = f64_zero, ba_Width = [], ba_Color = [], ba_Label = [], ba_Value = []\<rparr>"

record Segment =
  se_Label :: string
  se_Percent :: f64
  se_Width :: string
  se_Color :: string

text \<open>\<open>math.Pi\<close> as the package's constant, and as the double it converts to.\<close>

definition go_Pi :: rat where
  "go_Pi = 314159265358979323846264338327950288419716939937510582097494459 / 10 ^ 62"

definition two_Pi :: f64 where
  "two_Pi = mk64 False (2 * go_Pi)"

definition gaugeRadius :: nat where "gaugeRadius = 54"
definition gaugeSize :: nat where "gaugeSize = 140"

definition dashArray :: "f64 \<Rightarrow> f64 \<Rightarrow> f64 \<times> f64" where
  "dashArray pct radius =
    (let circumference = f64_mul two_Pi radius;
         dash = f64_div (f64_mul circumference (clampPercent pct)) (f64_const 100) in
     (dash, f64_sub circumference dash))"

definition newGaugeColored :: "f64 \<Rightarrow> string \<Rightarrow> string \<Rightarrow> string \<Rightarrow> Gauge" where
  "newGaugeColored pct label caption color =
    (case dashArray pct (f64_const gaugeRadius) of (dash, gap) \<Rightarrow>
     \<lparr>ga_Percent = clampPercent pct, ga_Dash = fmtFloat dash, ga_Gap = fmtFloat gap,
      ga_Circumference = fmtFloat (mk64 False (2 * go_Pi * of_nat gaugeRadius)),
      ga_Color = color, ga_Label = label, ga_Caption = caption,
      ga_Radius = fmtFloat (f64_const gaugeRadius),
      ga_Center = fmtFloat (f64_const (gaugeSize div 2)), ga_Size = fmtFloat (f64_const gaugeSize)\<rparr>)"

definition newGauge :: "f64 \<Rightarrow> string \<Rightarrow> string \<Rightarrow> Gauge" where
  "newGauge pct label caption = newGaugeColored pct label caption (levelColor pct)"

definition newBar :: "f64 \<Rightarrow> string \<Rightarrow> string \<Rightarrow> Bar" where
  "newBar pct label val = \<lparr>ba_Percent = clampPercent pct, ba_Width = fmtFloat (clampPercent pct),
     ba_Color = levelColor pct, ba_Label = label, ba_Value = val\<rparr>"

section \<open>Facts\<close>

definition percent_ok :: "f64 \<Rightarrow> bool" where
  "percent_ok x \<longleftrightarrow> is_fin x \<and> 0 \<le> f64_val x \<and> f64_val x \<le> 100"

lemma clampPercent_ok: "percent_ok (clampPercent x)"
proof (cases x)
  case (Fin s m)
  then show ?thesis
    by (auto simp: clampPercent_def percent_ok_def f64_const_def not_less)
qed (auto simp: clampPercent_def percent_ok_def f64_const_def)

lemma clampPercent_id: "percent_ok x \<Longrightarrow> clampPercent x = x"
  by (cases x) (auto simp: clampPercent_def percent_ok_def f64_const_def)

lemma clampPercent_idem [simp]: "clampPercent (clampPercent x) = clampPercent x"
  by (rule clampPercent_id [OF clampPercent_ok])

end
