(* ===== verification/System.thy ===== *)
theory System
  imports Config
begin

text \<open>
  \<open>exec/exec.go\<close>, \<open>service.go\<close> and \<open>system.go\<close>. Starting a process is the environment's answer: the
  parameter \<open>launch\<close> is given the remaining time of the context, the environment variables, the program
  and its arguments, and returns the standard output and the error, if any. A context is its
  remaining time and the error it would report.
\<close>

section \<open>Subprocesses\<close>

type_synonym launcher = "int option \<Rightarrow> string list \<Rightarrow> string \<Rightarrow> string list \<Rightarrow> string \<times> string option"

text \<open>The error of a command is its text, which is all \<open>Execute\<close> uses of it.\<close>

definition defaultExecTimeout :: int where
  "defaultExecTimeout = 5 * 1000000000"

definition withLocale :: "string list \<Rightarrow> string list" where
  "withLocale environ = environ @ [''LC_ALL=C'']"

text \<open>\<open>context.WithTimeout\<close>: the earlier deadline wins.\<close>

definition WithTimeout :: "int option \<Rightarrow> int \<Rightarrow> int option" where
  "WithTimeout ctx d = Some (case ctx of None \<Rightarrow> d | Some t \<Rightarrow> min t d)"

definition run_cmd ::
    "launcher \<Rightarrow> string list \<Rightarrow> int option \<Rightarrow> string \<Rightarrow> string list \<Rightarrow> string \<times> string option" where
  "run_cmd launch environ ctx name args =
    launch (WithTimeout ctx defaultExecTimeout) (withLocale environ) name args"

definition ExecuteWithContext ::
    "launcher \<Rightarrow> string list \<Rightarrow> int option \<Rightarrow> string \<Rightarrow> string list \<Rightarrow> string" where
  "ExecuteWithContext launch environ ctx command params =
    (case run_cmd launch environ ctx command params of
       (stdout, None) \<Rightarrow> stdout | (stdout, Some err) \<Rightarrow> err)"

definition Execute :: "launcher \<Rightarrow> string list \<Rightarrow> string \<Rightarrow> string list \<Rightarrow> string" where
  "Execute launch environ command params = ExecuteWithContext launch environ None command params"

definition ExecuteWithPipeAndContext ::
    "launcher \<Rightarrow> string list \<Rightarrow> int option \<Rightarrow> string \<Rightarrow> string" where
  "ExecuteWithPipeAndContext launch environ ctx command =
    (case run_cmd launch environ ctx ''bash'' [''-c'', command] of
       (stdout, None) \<Rightarrow> stdout | (stdout, Some err) \<Rightarrow> err)"

definition ExecuteWithPipe :: "launcher \<Rightarrow> string list \<Rightarrow> string \<Rightarrow> string" where
  "ExecuteWithPipe launch environ command = ExecuteWithPipeAndContext launch environ None command"

definition ExecuteWithErrorAndContext ::
    "launcher \<Rightarrow> string list \<Rightarrow> int option \<Rightarrow> string \<Rightarrow> string list \<Rightarrow> string \<times> string option" where
  "ExecuteWithErrorAndContext launch environ ctx command params =
    run_cmd launch environ ctx command params"

definition ExecuteWithError ::
    "launcher \<Rightarrow> string list \<Rightarrow> string \<Rightarrow> string list \<Rightarrow> string \<times> string option" where
  "ExecuteWithError launch environ command params =
    ExecuteWithErrorAndContext launch environ None command params"

definition ExecuteWithPipeAndErrorAndContext ::
    "launcher \<Rightarrow> string list \<Rightarrow> int option \<Rightarrow> string \<Rightarrow> string \<times> string option" where
  "ExecuteWithPipeAndErrorAndContext launch environ ctx command =
    run_cmd launch environ ctx ''bash'' [''-c'', command]"

definition ExecuteWithPipeAndError :: "launcher \<Rightarrow> string list \<Rightarrow> string \<Rightarrow> string \<times> string option" where
  "ExecuteWithPipeAndError launch environ command =
    ExecuteWithPipeAndErrorAndContext launch environ None command"

section \<open>Services\<close>

text \<open>\<open>ctxErr\<close> is \<open>ctx.Err()\<close> after both tools have failed.\<close>

definition status_unknown :: "string \<Rightarrow> string \<Rightarrow> string \<Rightarrow> error" where
  "status_unknown service err fallbackErr =
    Errorf ''systats: could not determine status of %q: systemctl: %v; service: %v'' [service]
      [ErrorString err, ErrorString fallbackErr]"

definition isServiceRunning ::
    "launcher \<Rightarrow> string list \<Rightarrow> int option \<Rightarrow> ctx_error option \<Rightarrow> string \<Rightarrow> bool \<times> error option" where
  "isServiceRunning launch environ ctx ctxErr service =
    (case ExecuteWithErrorAndContext launch environ ctx ''systemctl'' [''is-active'', service] of
       (out1, err) \<Rightarrow>
         if TrimSpace out1 \<noteq> [] then (TrimSpace out1 = ''active'', None)
         else (case err of
             None \<Rightarrow> (False, None)
           | Some e \<Rightarrow>
               (case ExecuteWithErrorAndContext launch environ ctx ''service'' [service, ''status''] of
                  (fallback, fallbackErr) \<Rightarrow>
                    if TrimSpace fallback \<noteq> [] then (Contains fallback ''Active: active'', None)
                    else (case fallbackErr of
                        None \<Rightarrow> (False, None)
                      | Some e2 \<Rightarrow>
                          (case ctxErr of
                             Some c \<Rightarrow> (False, Some (CtxErr c))
                           | None \<Rightarrow> (False, Some (status_unknown service e e2)))))))"

definition IsServiceRunningWithContext ::
    "launcher \<Rightarrow> string list \<Rightarrow> int option \<Rightarrow> ctx_error option \<Rightarrow> string \<Rightarrow> bool \<times> error option" where
  "IsServiceRunningWithContext launch environ ctx ctxErr service =
    isServiceRunning launch environ ctx ctxErr service"

definition IsServiceRunning :: "launcher \<Rightarrow> string list \<Rightarrow> string \<Rightarrow> bool" where
  "IsServiceRunning launch environ service =
    fst (IsServiceRunningWithContext launch environ None None service)"

text \<open>A tool that printed nothing and failed has not answered.\<close>

definition silent :: "string \<times> string option \<Rightarrow> bool" where
  "silent r \<longleftrightarrow> TrimSpace (fst r) = [] \<and> snd r \<noteq> None"

text \<open>
  A service check reports an error exactly when neither tool said anything and both failed, so
  a stopped service and a check that never ran are told apart, and it never reports an error and a
  running service together.
\<close>

theorem isServiceRunning_error:
  "(snd (IsServiceRunningWithContext launch environ ctx ctxErr service) \<noteq> None) =
     (silent (ExecuteWithErrorAndContext launch environ ctx ''systemctl'' [''is-active'', service]) \<and>
      silent (ExecuteWithErrorAndContext launch environ ctx ''service'' [service, ''status''])) \<and>
   \<not> (snd (IsServiceRunningWithContext launch environ ctx ctxErr service) \<noteq> None \<and>
      fst (IsServiceRunningWithContext launch environ ctx ctxErr service))"
  by (auto simp: IsServiceRunningWithContext_def isServiceRunning_def silent_def
      split: prod.splits option.splits)

section \<open>Durations and dates\<close>

text \<open>An \<open>int64\<close> result of the arithmetic.\<close>

definition wrap64 :: "int \<Rightarrow> int" where
  "wrap64 i = sint (word_of_int i :: u64)"

text \<open>\<open>fmtFrac\<close>: the \<open>prec\<close> low decimal digits without trailing zeros, after a point, and the rest.\<close>

fun low_digits :: "nat \<Rightarrow> nat \<Rightarrow> string" where
  "low_digits 0 u = []"
| "low_digits (Suc k) u = low_digits k (u div 10) @ [digit_char (u mod 10)]"

definition frac_text :: "nat \<Rightarrow> nat \<Rightarrow> string" where
  "frac_text prec u = (let ds = rev (dropWhile (\<lambda>c. c = CHR ''0'') (rev (low_digits prec u))) in
     if ds = [] then [] else CHR ''.'' # ds)"

text \<open>\<open>time.Duration.String\<close>; the micro sign is two bytes.\<close>

definition duration_magnitude :: "nat \<Rightarrow> string" where
  "duration_magnitude u =
    (let part = (\<lambda>prec suffix. show_nat (u div 10 ^ prec) @ frac_text prec u @ suffix);
         secs = u div 10 ^ 9; mins = secs div 60 in
     if u = 0 then ''0s''
     else if u < 10 ^ 3 then part 0 ''ns''
     else if u < 10 ^ 6 then part 3 ([CHR 0xC2, CHR 0xB5] @ ''s'')
     else if u < 10 ^ 9 then part 6 ''ms''
     else (if 60 \<le> mins then show_nat (mins div 60) @ ''h'' else []) @
       (if 0 < mins then show_nat (mins mod 60) @ ''m'' else []) @
       show_nat (secs mod 60) @ frac_text 9 u @ ''s'')"

definition Duration_String :: "int \<Rightarrow> string" where
  "Duration_String d =
    (if d < 0 then CHR ''-'' # duration_magnitude (nat (- d)) else duration_magnitude (nat d))"

text \<open>\<open>time.Time.Round(time.Second)\<close> on nanoseconds since the epoch, halves upwards.\<close>

definition round_second :: "int \<Rightarrow> int" where
  "round_second ns = (ns + 500000000) div 1000000000 * 1000000000"

text \<open>A wall-clock minute; \<open>time.Time\<close>'s zero value is the first of January of the year 1.\<close>

record civil_time =
  ct_year :: nat
  ct_month :: nat
  ct_day :: nat
  ct_hour :: nat
  ct_minute :: nat

definition civil_zero :: civil_time where
  "civil_zero = \<lparr>ct_year = 1, ct_month = 1, ct_day = 1, ct_hour = 0, ct_minute = 0\<rparr>"

definition leap_year :: "nat \<Rightarrow> bool" where
  "leap_year y = (y mod 4 = 0 \<and> (y mod 100 \<noteq> 0 \<or> y mod 400 = 0))"

definition days_in :: "nat \<Rightarrow> nat \<Rightarrow> nat" where
  "days_in m y = (if m = 2 then (if leap_year y then 29 else 28)
     else if m = 4 \<or> m = 6 \<or> m = 9 \<or> m = 11 then 30 else 31)"

text \<open>A field of one or two digits, always two when \<open>fixed\<close>.\<close>

definition getnum :: "bool \<Rightarrow> string \<Rightarrow> (nat \<times> string) option" where
  "getnum fixed s = (case s of
     [] \<Rightarrow> None
   | c # cs \<Rightarrow>
       if \<not> is_digit c then None
       else (case cs of
           d # rest \<Rightarrow> if is_digit d then Some (digit_val c * 10 + digit_val d, rest)
             else if fixed then None else Some (digit_val c, cs)
         | [] \<Rightarrow> if fixed then None else Some (digit_val c, cs)))"

definition after_char :: "char \<Rightarrow> string \<Rightarrow> string option" where
  "after_char c s = (case s of [] \<Rightarrow> None | x # rest \<Rightarrow> if x = c then Some rest else None)"

text \<open>\<open>time.Parse\<close> with the layout \<open>2006-01-02 15:04\<close>, given the two blank-separated halves.\<close>

definition parse_date :: "string \<Rightarrow> (nat \<times> nat \<times> nat) option" where
  "parse_date s =
    (if length s < 4 \<or> \<not> list_all is_digit (take 4 s) then None
     else let year = foldl (\<lambda>n c. n * 10 + digit_val c) 0 (take 4 s) in
       Option.bind (after_char CHR ''-'' (drop 4 s)) (\<lambda>s.
       Option.bind (getnum True s) (\<lambda>(month, s).
       if month < 1 \<or> 12 < month then None
       else Option.bind (after_char CHR ''-'' s) (\<lambda>s.
         Option.bind (getnum True s) (\<lambda>(day, s).
         if s \<noteq> [] \<or> day < 1 \<or> days_in month year < day then None
         else Some (year, month, day))))))"

definition parse_clock :: "string \<Rightarrow> (nat \<times> nat) option" where
  "parse_clock s =
    Option.bind (getnum False s) (\<lambda>(hour, s).
    if 24 \<le> hour then None
    else Option.bind (after_char CHR '':'' s) (\<lambda>s.
      Option.bind (getnum True s) (\<lambda>(minute, s).
      if s \<noteq> [] \<or> 60 \<le> minute then None else Some (hour, minute))))"

definition parse_minute :: "string \<Rightarrow> string \<Rightarrow> civil_time" where
  "parse_minute d c = (case (parse_date d, parse_clock c) of
     (Some (y, m, dd), Some (h, mi)) \<Rightarrow>
       \<lparr>ct_year = y, ct_month = m, ct_day = dd, ct_hour = h, ct_minute = mi\<rparr>
   | _ \<Rightarrow> civil_zero)"

section \<open>The system record\<close>

record User =
  us_Username :: string
  us_RemoteHost :: string
  us_LoggedInTime :: civil_time

text \<open>\<open>LastBootDate\<close> is in nanoseconds since the epoch, \<open>None\<close> for the zero time.\<close>

record System =
  sy_HostName :: string
  sy_OS :: string
  sy_Kernel :: string
  sy_UpTime :: string
  sy_UpTimeSeconds :: f64
  sy_LastBootDate :: "int option"
  sy_LoggedInUsers :: "User list"
  sy_Time :: int
  sy_TimeZone :: string

definition System_zero :: System where
  "System_zero = \<lparr>sy_HostName = [], sy_OS = [], sy_Kernel = [], sy_UpTime = [],
     sy_UpTimeSeconds = f64_zero, sy_LastBootDate = None, sy_LoggedInUsers = [], sy_Time = 0,
     sy_TimeZone = []\<rparr>"

text \<open>
  The submatch of \<open>^(PRETTY_NAME=")(.+)(")\<close>: the greedy middle ends before the last quote of the line
  and is not empty.
\<close>

definition dquote :: char where "dquote = CHR 0x22"

definition pretty_name :: "string \<Rightarrow> string option" where
  "pretty_name line =
    (let pre = ''PRETTY_NAME='' @ [dquote]; r = drop (length pre) line in
     if \<not> HasPrefix line pre then None
     else (case LastIndex r dquote of
         Some (Suc i) \<Rightarrow> Some (take (Suc i) r)
       | _ \<Rightarrow> None))"

definition os_line :: "System \<Rightarrow> string \<Rightarrow> System" where
  "os_line system line = (case pretty_name line of
     None \<Rightarrow> system | Some name \<Rightarrow> system\<lparr>sy_OS := name\<rparr>)"

definition getOperatingSystem :: "fs \<Rightarrow> SyStats \<Rightarrow> System \<Rightarrow> System \<times> error option" where
  "getOperatingSystem f systats system =
    (case (case ReadFileWithError f (EtcPath systats @ ''/os-release'') of
         Inr content \<Rightarrow> Inr content
       | Inl e \<Rightarrow> (case FindFileWithNameLike f (EtcPath systats) ''-release'' of
           Inl e \<Rightarrow> Inl e | Inr path \<Rightarrow> Inr (ReadFile f path))) of
       Inl e \<Rightarrow> (system, Some e)
     | Inr content \<Rightarrow> (foldl os_line system (lines content), None))"

definition time_zone :: "string list \<Rightarrow> string \<Rightarrow> string" where
  "time_zone parts old =
    (if length parts < 3 then old
     else if parts ! (length parts - 2) = ''zoneinfo'' then parts ! (length parts - 1)
     else parts ! (length parts - 2) @ ''/'' @ parts ! (length parts - 1))"

definition set_uptime :: "(f64 \<Rightarrow> int) \<Rightarrow> int \<Rightarrow> f64 \<Rightarrow> System \<Rightarrow> System" where
  "set_uptime oor now_ns uptimeSecsFloat system =
    (let uptime = wrap64 (int_of_f64 oor uptimeSecsFloat * 1000000000) in
     system\<lparr>sy_UpTime := TrimSpace (Duration_String uptime), sy_UpTimeSeconds := uptimeSecsFloat,
       sy_LastBootDate := Some (round_second (now_ns + wrap64 (- uptime)))\<rparr>)"

definition processSystemBootTimes ::
    "(f64 \<Rightarrow> int) \<Rightarrow> fs \<Rightarrow> int \<Rightarrow> SyStats \<Rightarrow> System \<Rightarrow> System \<times> error option" where
  "processSystemBootTimes oor f now_ns systats system =
    (let split = Fields (ReadFile f (UptimePath systats));
         zoned = (\<lambda>system. system\<lparr>sy_TimeZone := time_zone
           (Split CHR ''/'' (case fs_link f (EtcPath systats @ ''/localtime'') of
              None \<Rightarrow> [] | Some target \<Rightarrow> target)) (sy_TimeZone system)\<rparr>) in
     if split = [] then (zoned system, None)
     else (case ParseFloat (TrimSpace (split ! 0)) of
         (v, Some c) \<Rightarrow> (system, Some (NumErr (NumError ''ParseFloat'' (TrimSpace (split ! 0)) c)))
       | (v, None) \<Rightarrow> (zoned (set_uptime oor now_ns v system), None)))"

definition who_line :: "string \<Rightarrow> User option" where
  "who_line line = (let fields = Fields line in
     if length fields < 5 then None
     else Some \<lparr>us_Username = fields ! 0, us_RemoteHost = fields ! 4,
       us_LoggedInTime = parse_minute (fields ! 2) (fields ! 3)\<rparr>)"

definition parseWhoOutput :: "string \<Rightarrow> User list" where
  "parseWhoOutput output = List.map_filter who_line (lines output)"

definition processLoggedInUsers ::
    "launcher \<Rightarrow> string list \<Rightarrow> int option \<Rightarrow> System \<Rightarrow> System" where
  "processLoggedInUsers launch environ ctx system =
    (case ExecuteWithErrorAndContext launch environ ctx ''who'' [] of
       (output, Some e) \<Rightarrow> system\<lparr>sy_LoggedInUsers := []\<rparr>
     | (output, None) \<Rightarrow> system\<lparr>sy_LoggedInUsers := parseWhoOutput output\<rparr>)"

definition getSystem ::
    "(f64 \<Rightarrow> int) \<Rightarrow> launcher \<Rightarrow> string list \<Rightarrow> int option \<Rightarrow> fs \<Rightarrow> int \<Rightarrow> SyStats \<Rightarrow>
     System \<times> error option" where
  "getSystem oor launch environ ctx f now_ns systats =
    (case getOperatingSystem f systats System_zero of
       (output, Some e) \<Rightarrow> (output, Some e)
     | (output, None) \<Rightarrow>
         let output = output\<lparr>sy_HostName := TrimSpace (ReadFile f (EtcPath systats @ ''/hostname''))\<rparr>;
             split = Fields (ReadFile f (VersionPath systats));
             output = (if 3 \<le> length split then output\<lparr>sy_Kernel := TrimSpace (split ! 2)\<rparr> else output) in
         (case processSystemBootTimes oor f now_ns systats output of
            (output, Some e) \<Rightarrow> (output, Some e)
          | (output, None) \<Rightarrow>
              ((processLoggedInUsers launch environ ctx output)\<lparr>sy_Time := now_ns div 1000000000\<rparr>, None)))"

definition GetSystem ::
    "(f64 \<Rightarrow> int) \<Rightarrow> launcher \<Rightarrow> string list \<Rightarrow> int option \<Rightarrow> fs \<Rightarrow> int \<Rightarrow> SyStats \<Rightarrow>
     System \<times> error option" where
  "GetSystem oor launch environ ctx f now_ns systats =
    withRecover System_zero (Ok (getSystem oor launch environ ctx f now_ns systats))"

end
