(* ===== verification/Walk.thy ===== *)
theory Walk
  imports Config
begin

text \<open>
  \<open>filepath.WalkDir\<close> and \<open>filepath.Rel\<close>, which the container code is built on, and the contract under
  which a walk visits a fixed list of nodes.
\<close>

section \<open>filepath.Rel\<close>

fun strip_common :: "string list \<Rightarrow> string list \<Rightarrow> string list \<times> string list" where
  "strip_common (b # bs) (t # ts) = (if b = t then strip_common bs ts else (b # bs, t # ts))"
| "strip_common bs ts = (bs, ts)"

definition path_comps :: "string \<Rightarrow> string list" where
  "path_comps p = filter (\<lambda>c. c \<noteq> []) (Split slash p)"

definition rooted :: "string \<Rightarrow> bool" where
  "rooted p = (p \<noteq> [] \<and> hd p = slash)"

definition path_Rel :: "string \<Rightarrow> string \<Rightarrow> error + string" where
  "path_Rel basepath targpath =
    (let b = Clean basepath; t = Clean targpath; b' = (if b = ''.'' then [] else b);
         failed = Inl (ErrorString (''Rel: can't make '' @ targpath @ '' relative to '' @ basepath)) in
     if t = b then Inr ''.''
     else if rooted b' \<noteq> rooted t then failed
     else (case strip_common (path_comps b') (path_comps t) of
         ([], ts) \<Rightarrow> Inr (join_with slash ts)
       | (c # bs, ts) \<Rightarrow>
           if c = ''..'' \<and> ts \<noteq> [] then failed
           else Inr (join_with slash (map (\<lambda>_. ''..'') (c # bs) @ ts))))"

lemma strip_common_append [simp]: "strip_common bs (bs @ ts) = ([], ts)"
  by (induction bs) (cases ts, simp_all)

lemma path_comps_abs: "\<forall>c \<in> set cs. entry_name c \<Longrightarrow> cs \<noteq> [] \<Longrightarrow> path_comps (abs_path cs) = cs"
  by (simp add: path_comps_def Split_abs_path) (auto simp: entry_name_def filter_id_conv)

lemma rooted_abs [simp]: "rooted (abs_path cs)"
  by (simp add: rooted_def abs_path_def)

lemma abs_path_not_dot [simp]: "abs_path cs \<noteq> ''.''" "abs_path cs \<noteq> []"
  by (simp_all add: abs_path_def)

lemma abs_path_inject:
  assumes "\<forall>c \<in> set (xs @ ys). entry_name c" and "xs \<noteq> []" and "ys \<noteq> []"
  shows "abs_path xs = abs_path ys \<longleftrightarrow> xs = ys"
  using assms path_comps_abs [of xs] path_comps_abs [of ys] by (metis Un_iff set_append)

text \<open>Below a rooted base, the relative path is the remaining components.\<close>

lemma path_Rel_below:
  assumes "\<forall>c \<in> set (rs @ cs). entry_name c" and "rs \<noteq> []" and "cs \<noteq> []"
  shows "path_Rel (abs_path rs) (abs_path (rs @ cs)) = Inr (join_with slash cs)"
proof -
  have e: "\<forall>c \<in> set rs. entry_name c" using assms(1) by simp
  have "abs_path (rs @ cs) \<noteq> abs_path rs"
    using assms abs_path_inject [of "rs @ cs" rs] by auto
  then show ?thesis
    using assms by (simp add: path_Rel_def Clean_abs_path [OF e] Clean_abs_path [OF assms(1)]
        path_comps_abs [OF e] path_comps_abs [OF assms(1)] Let_def del: set_append)
qed

section \<open>filepath.WalkDir\<close>

text \<open>
  What the callback answers: go on, \<open>filepath.SkipDir\<close>, or another error. The callback gets the path,
  the entry (\<open>None\<close> when even \<open>Lstat\<close> of the walk's root failed) and whether there is an error.
\<close>

datatype walk_verdict = WalkOn | SkipDir | WalkStop error

type_synonym 's visitor = "'s \<Rightarrow> string \<Rightarrow> dir_tree option \<Rightarrow> bool \<Rightarrow> 's \<times> walk_verdict"

fun is_dir :: "dir_tree \<Rightarrow> bool" where
  "is_dir (DirNode es bad) = True"
| "is_dir (FileNode i r) = False"

fun walk_dir :: "'s visitor \<Rightarrow> 's \<Rightarrow> string \<Rightarrow> dir_tree \<Rightarrow> 's \<times> walk_verdict"
  and walk_entries :: "'s visitor \<Rightarrow> 's \<Rightarrow> string \<Rightarrow> (string \<times> dir_tree) list \<Rightarrow> 's \<times> walk_verdict" where
  "walk_dir visit s p (FileNode i r) = visit s p (Some (FileNode i r)) False"
| "walk_dir visit s p (DirNode es bad) =
     (case visit s p (Some (DirNode es bad)) False of
        (s1, SkipDir) \<Rightarrow> (s1, WalkOn)
      | (s1, WalkStop e) \<Rightarrow> (s1, WalkStop e)
      | (s1, WalkOn) \<Rightarrow>
          if bad then
            (case visit s1 p (Some (DirNode es bad)) True of
               (s2, SkipDir) \<Rightarrow> (s2, WalkOn)
             | (s2, WalkStop e) \<Rightarrow> (s2, WalkStop e)
             | (s2, WalkOn) \<Rightarrow> walk_entries visit s2 p es)
          else walk_entries visit s1 p es)"
| "walk_entries visit s p [] = (s, WalkOn)"
| "walk_entries visit s p ((n, t) # es) =
     (case walk_dir visit s (path_Join [p, n]) t of
        (s1, WalkOn) \<Rightarrow> walk_entries visit s1 p es
      | (s1, SkipDir) \<Rightarrow> (s1, WalkOn)
      | (s1, WalkStop e) \<Rightarrow> (s1, WalkStop e))"

definition WalkDir :: "'s visitor \<Rightarrow> 's \<Rightarrow> string \<Rightarrow> dir_tree option \<Rightarrow> 's \<times> error option" where
  "WalkDir visit s rootPath t =
    (case (case t of None \<Rightarrow> visit s rootPath None True | Some d \<Rightarrow> walk_dir visit s rootPath d) of
       (s1, WalkStop e) \<Rightarrow> (s1, Some e)
     | (s1, v) \<Rightarrow> (s1, None))"

section \<open>Walks that visit a fixed list of nodes\<close>

text \<open>Trees whose entries are named as directory entries are.\<close>

fun tree_ok :: "dir_tree \<Rightarrow> bool" where
  "tree_ok (FileNode i r) = True"
| "tree_ok (DirNode es bad) = list_all (\<lambda>(n, t). entry_name n \<and> tree_ok t) es"

text \<open>The nodes of a walk in its order: \<open>prune\<close> cuts a directory's entries off, and \<open>enter_bad\<close> says
  whether the entries read before an error of \<open>ReadDir\<close> are still walked.\<close>

fun walk_nodes :: "(string \<Rightarrow> dir_tree \<Rightarrow> bool) \<Rightarrow> bool \<Rightarrow> string \<Rightarrow> dir_tree \<Rightarrow> (string \<times> dir_tree) list" where
  "walk_nodes prune enter_bad p (FileNode i r) = [(p, FileNode i r)]"
| "walk_nodes prune enter_bad p (DirNode es bad) = (p, DirNode es bad) #
     (if prune p (DirNode es bad) \<or> bad \<and> \<not> enter_bad then []
      else concat (map (\<lambda>(n, t). walk_nodes prune enter_bad (path_Join [p, n]) t) es))"

text \<open>
  A visitor is steady where \<open>ok\<close> when its verdict does not depend on its state, it never stops the
  walk, and it skips directories only.
\<close>

locale steady_visitor =
  fixes visit :: "'s visitor" and ok :: "string \<Rightarrow> bool"
    and visit_step :: "'s \<Rightarrow> string \<Rightarrow> dir_tree \<Rightarrow> 's"
    and prune :: "string \<Rightarrow> dir_tree \<Rightarrow> bool" and enter_bad :: bool
  assumes at_file: "ok p \<Longrightarrow> visit s p (Some (FileNode i r)) False = (visit_step s p (FileNode i r), WalkOn)"
    and at_dir: "ok p \<Longrightarrow> visit s p (Some (DirNode es bad)) False =
      (visit_step s p (DirNode es bad), if prune p (DirNode es bad) then SkipDir else WalkOn)"
    and at_error: "ok p \<Longrightarrow> visit s p (Some (DirNode es bad)) True =
      (s, if enter_bad then WalkOn else SkipDir)"
    and ok_entry: "ok p \<Longrightarrow> entry_name n \<Longrightarrow> ok (path_Join [p, n])"
begin

abbreviation nodes :: "string \<Rightarrow> dir_tree \<Rightarrow> (string \<times> dir_tree) list" where
  "nodes \<equiv> walk_nodes prune enter_bad"

lemma walk_steady_aux:
  "v = visit \<Longrightarrow> ok p \<Longrightarrow> tree_ok t \<Longrightarrow>
     walk_dir v s p t = (foldl (\<lambda>s (q, d). visit_step s q d) s (nodes p t), WalkOn)"
  "v = visit \<Longrightarrow> list_all (\<lambda>(n, t). ok (path_Join [p, n]) \<and> tree_ok t) es \<Longrightarrow>
     walk_entries v s p es = (foldl (\<lambda>s (q, d). visit_step s q d) s
       (concat (map (\<lambda>(n, t). nodes (path_Join [p, n]) t) es)), WalkOn)"
proof (induction v s p t and v s p es rule: walk_dir_walk_entries.induct)
  case (2 v s p es bad)
  have "list_all (\<lambda>(n, t). ok (path_Join [p, n]) \<and> tree_ok t) es"
    using \<open>tree_ok (DirNode es bad)\<close> ok_entry [OF \<open>ok p\<close>] by (auto simp: list_all_iff)
  with 2 show ?case by (simp add: at_dir at_error)
qed (simp_all add: at_file foldl_append)

lemmas walk_steady = walk_steady_aux [OF refl]

end

section \<open>What a walk keeps\<close>

text \<open>A walk keeps every property of the state that the callback keeps.\<close>

lemma walk_invariant:
  assumes "\<And>s p d e. P s \<Longrightarrow> P (fst (visit s p d e))"
  shows "P s \<Longrightarrow> P (fst (walk_dir visit s p t))" and "P s \<Longrightarrow> P (fst (walk_entries visit s p es))"
proof -
  have step: "v = visit \<Longrightarrow> P s \<Longrightarrow> P (fst (v s p d e))" for v s p d e using assms by simp
  have "v = visit \<Longrightarrow> P s \<Longrightarrow> P (fst (walk_dir v s p t))"
    and "v = visit \<Longrightarrow> P s \<Longrightarrow> P (fst (walk_entries v s p es))" for v
  proof (induction v s p t and v s p es rule: walk_dir_walk_entries.induct)
    case (2 v s p es bad)
    have "P (fst (v s p (Some (DirNode es bad)) False))"
      and "P s' \<Longrightarrow> P (fst (v s' p (Some (DirNode es bad)) True))" for s'
      using step [OF "2.prems"(1)] "2.prems"(2) by blast+
    then show ?case using "2.IH" "2.prems"(1) by (fastforce split: prod.splits walk_verdict.splits)
  next
    case (4 v s p n t es)
    then show ?case by (auto split: prod.splits walk_verdict.splits)
  qed (auto intro: step)
  then show "P s \<Longrightarrow> P (fst (walk_dir visit s p t))" and "P s \<Longrightarrow> P (fst (walk_entries visit s p es))"
    by simp_all
qed

lemma WalkDir_state: "fst (WalkDir visit s p t) =
    fst (case t of None \<Rightarrow> visit s p None True | Some d \<Rightarrow> walk_dir visit s p d)"
  by (simp add: WalkDir_def split: prod.splits walk_verdict.splits)

lemma WalkDir_invariant:
  assumes "\<And>s p d e. P s \<Longrightarrow> P (fst (visit s p d e))" and "P s"
  shows "P (fst (WalkDir visit s p t))"
  using assms(1) [OF assms(2), of p None True] walk_invariant(1) [of P visit, OF assms]
  by (cases t) (simp_all add: WalkDir_state)

lemma foldl_concat_map:
  assumes "\<And>n t acc. (n, t) \<in> set es \<Longrightarrow> foldl S acc (g n t) = acc @ h n t"
  shows "foldl S acc (concat (map (\<lambda>(n, t). g n t) es)) = acc @ concat (map (\<lambda>(n, t). h n t) es)"
  using assms by (induction es arbitrary: acc) auto

end
