(* ===== verification/Disk.thy ===== *)
theory Disk
  imports Config
begin

text \<open>
  \<open>disk.go\<close>: the mounted file systems with their space and inode usage, and the in-place unit
  conversion. \<open>statfs\<close> is answered by the file-system snapshot.
\<close>

record DiskUsage =
  du_Size :: f64
  du_Used :: f64
  du_Available :: f64
  du_Usage :: string
  du_Unit :: unit_name

record InodeUsage =
  iu_Inodes :: u64
  iu_Available :: u64
  iu_Used :: u64
  iu_Usage :: string

record Disk =
  dk_FileSystem :: string
  dk_Type :: string
  dk_MountedOn :: string
  dk_Usage :: DiskUsage
  dk_Inodes :: InodeUsage
  dk_Time :: int

record mountEntry =
  me_device :: string
  me_mountPoint :: string
  me_fsType :: string

definition excludedFsTypes :: "string list" where
  "excludedFsTypes = [''tmpfs'', ''devtmpfs'', ''udev'']"

section \<open>/proc/mounts\<close>

abbreviation backslash :: char where "backslash \<equiv> CHR 0x5C"

text \<open>The replacer's table: each escape and the byte it stands for.\<close>

definition mountFieldEscapes :: "(string \<times> char) list" where
  "mountFieldEscapes = [(backslash # ''040'', CHR 0x20), (backslash # ''011'', CHR 0x09),
     (backslash # ''012'', CHR 0x0A), (backslash # ''134'', backslash)]"

text \<open>\<open>Replacer.Replace\<close>: from left to right, without looking at what was already replaced.\<close>

function unescapeMountField :: "string \<Rightarrow> string" where
  "unescapeMountField [] = []"
| "unescapeMountField (c # cs) =
     (case find (\<lambda>(old, new). HasPrefix (c # cs) old) mountFieldEscapes of
        Some (old, new) \<Rightarrow> new # unescapeMountField (drop 3 cs)
      | None \<Rightarrow> c # unescapeMountField cs)"
  by pat_completeness auto
termination
  by (relation "measure length") auto

definition mount_line :: "string \<Rightarrow> mountEntry option" where
  "mount_line line =
    (let fields = Fields line in
     if length fields < 3 then None
     else Some \<lparr>me_device = unescapeMountField (fields ! 0),
       me_mountPoint = unescapeMountField (fields ! 1), me_fsType = fields ! 2\<rparr>)"

definition parseMounts :: "string \<Rightarrow> mountEntry list" where
  "parseMounts content = List.map_filter mount_line (lines content)"

definition readMounts :: "fs \<Rightarrow> string \<Rightarrow> error + mountEntry list" where
  "readMounts f path = (case ReadFileWithError f path of
     Inl e \<Rightarrow> Inl e | Inr content \<Rightarrow> Inr (parseMounts content))"

section \<open>Usage\<close>

definition usagePercent :: "(f64 \<Rightarrow> int) \<Rightarrow> u64 \<Rightarrow> u64 \<Rightarrow> string" where
  "usagePercent oor used avail =
    (let denom = used + avail in
     if denom = 0 then ''0%''
     else Itoa (int_of_f64 oor (f64_ceil
       (f64_div (f64_mul (f64_const 100) (f64_of_u64 used)) (f64_of_u64 denom)))) @ ''%'')"

definition disk_of :: "(f64 \<Rightarrow> int) \<Rightarrow> int \<Rightarrow> mountEntry \<Rightarrow> statfs \<Rightarrow> Disk" where
  "disk_of oor now m stat =
    (let blockSize = sf_bsize stat; size = sf_blocks stat * blockSize;
         free = sf_bfree stat * blockSize; available = sf_bavail stat * blockSize;
         used = size - free;
         inodesTotal = sf_files stat; inodesFree = sf_ffree stat;
         inodesUsed = inodesTotal - inodesFree in
     \<lparr>dk_FileSystem = me_device m, dk_Type = me_fsType m, dk_MountedOn = me_mountPoint m,
      dk_Usage = \<lparr>du_Size = f64_of_u64 size, du_Used = f64_of_u64 used,
        du_Available = f64_of_u64 available, du_Usage = usagePercent oor used available,
        du_Unit = Byte\<rparr>,
      dk_Inodes = \<lparr>iu_Inodes = inodesTotal, iu_Available = inodesFree, iu_Used = inodesUsed,
        iu_Usage = usagePercent oor inodesUsed inodesFree\<rparr>,
      dk_Time = now\<rparr>)"

definition mount_disk :: "(f64 \<Rightarrow> int) \<Rightarrow> fs \<Rightarrow> int \<Rightarrow> mountEntry \<Rightarrow> Disk option" where
  "mount_disk oor f now m =
    (if me_fsType m \<in> set excludedFsTypes then None
     else (case fs_statfs f (me_mountPoint m) of
         None \<Rightarrow> None
       | Some stat \<Rightarrow> if sf_blocks stat = 0 then None else Some (disk_of oor now m stat)))"

definition getDisks ::
    "(f64 \<Rightarrow> int) \<Rightarrow> fs \<Rightarrow> int \<Rightarrow> SyStats \<Rightarrow> Disk list \<times> error option" where
  "getDisks oor f now systats = (case readMounts f (MountsPath systats) of
     Inl e \<Rightarrow> ([], Some e)
   | Inr mounts \<Rightarrow> (List.map_filter (mount_disk oor f now) mounts, None))"

definition GetDisks ::
    "(f64 \<Rightarrow> int) \<Rightarrow> fs \<Rightarrow> int \<Rightarrow> SyStats \<Rightarrow> Disk list \<times> error option" where
  "GetDisks oor f now systats = withRecover [] (Ok (getDisks oor f now systats))"

section \<open>Convert\<close>

definition Convert :: "Disk \<Rightarrow> unit_name \<Rightarrow> Disk \<times> error option" where
  "Convert d u =
    (case bytesPerUnit (du_Unit (dk_Usage d)) of
       None \<Rightarrow> (d, Some (ErrorString
         (du_Unit (dk_Usage d) @ '' is not a supported unit to convert from'')))
     | Some fromU \<Rightarrow>
         (case bytesPerUnit u of
            None \<Rightarrow> (d, Some (ErrorString (u @ '' is not a supported unit to convert to'')))
          | Some toU \<Rightarrow>
              let factor = f64_div fromU toU; us = dk_Usage d in
              (d\<lparr>dk_Usage := us\<lparr>du_Size := f64_mul (du_Size us) factor,
                 du_Used := f64_mul (du_Used us) factor,
                 du_Available := f64_mul (du_Available us) factor, du_Unit := u\<rparr>\<rparr>, None)))"

section \<open>Facts on conversion\<close>

text \<open>The power of two a unit stands for.\<close>

definition unit_exp :: "unit_name \<Rightarrow> nat" where
  "unit_exp u = (if u = Kilobyte then 10 else if u = Megabyte then 20 else if u = Gigabyte then 30
     else 0)"

definition supported :: "unit_name \<Rightarrow> bool" where
  "supported u \<longleftrightarrow> u = Byte \<or> u = Kilobyte \<or> u = Megabyte \<or> u = Gigabyte"

lemma unit_exp_le: "unit_exp u \<le> 30"
  by (simp add: unit_exp_def)

lemma bytesPerUnit_pow2:
  "bytesPerUnit u = (if supported u then Some (Fin False (pow2 (int (unit_exp u)))) else None)"
  by (auto simp: bytesPerUnit_def supported_def unit_exp_def unit_defs f64_const_def
      pow2_nat [of 10, simplified] pow2_nat [of 20, simplified] pow2_nat [of 30, simplified])

lemma f64_div_pow2_pow2:
  assumes "a \<le> 30" and "b \<le> 30"
  shows "mk64 False (pow2 (int a) / pow2 (int b)) = Fin False (pow2 (int a - int b))"
proof -
  have "mk64 False (pow2 (int a - int b)) = Fin False (pow2 (int a - int b))"
    using assms by (intro mk64_exact [where k = 200] representable_pow2) simp_all
  then show ?thesis by (simp add: pow2_diff)
qed

text \<open>A byte count expressed in a unit, exactly.\<close>

definition in_unit :: "u64 \<Rightarrow> unit_name \<Rightarrow> f64" where
  "in_unit w u = Fin False (f64_val (f64_of_u64 w) * pow2 (- int (unit_exp u)))"

lemma in_unit_convert:
  "f64_mul (in_unit w u) (Fin False (pow2 (int (unit_exp u) - int (unit_exp v)))) = in_unit w v"
proof -
  let ?m = "f64_val (f64_of_u64 w)" and ?e = "- int (unit_exp v)"
  have "?m * pow2 (- int (unit_exp u)) * pow2 (int (unit_exp u) - int (unit_exp v)) = ?m * pow2 ?e"
    using pow2_add [of "- int (unit_exp u)" "int (unit_exp u) - int (unit_exp v)"] by simp
  moreover have "mk64 False (?m * pow2 ?e) = Fin False (?m * pow2 ?e)"
  proof (rule mk64_exact [where k = 64])
    have "representable 53 (0 + ?e) (?m * pow2 ?e)"
      by (rule representable_scale [OF f64_of_u64_integral])
    then show "representable 53 (-1074) (?m * pow2 ?e)"
      using unit_exp_le [of v] by (elim representable_mono) simp
    have "pow2 ?e \<le> pow2 0" by (simp only: pow2_le_iff)
    then have "?m * pow2 ?e \<le> ?m * 1" by (intro mult_left_mono) simp_all
    with f64_of_u64_le [of w] show "?m * pow2 ?e \<le> pow2 64" by simp
  qed simp_all
  ultimately show ?thesis unfolding in_unit_def f64_mul.simps by (simp only: simp_thms)
qed

lemma in_unit_Byte: "in_unit w Byte = f64_of_u64 w"
  by (simp add: in_unit_def unit_exp_def unit_defs f64_of_u64_Fin)

text \<open>A disk whose figures are the byte counts \<open>sz\<close>, \<open>used\<close>, \<open>avail\<close>, shown in the unit \<open>u\<close>.\<close>

definition shows_bytes :: "u64 \<Rightarrow> u64 \<Rightarrow> u64 \<Rightarrow> unit_name \<Rightarrow> Disk \<Rightarrow> bool" where
  "shows_bytes sz used avail u d \<longleftrightarrow> supported u \<and> du_Unit (dk_Usage d) = u
     \<and> du_Size (dk_Usage d) = in_unit sz u \<and> du_Used (dk_Usage d) = in_unit used u
     \<and> du_Available (dk_Usage d) = in_unit avail u"

text \<open>The disk with its figures shown in another unit.\<close>

definition rescaled :: "u64 \<Rightarrow> u64 \<Rightarrow> u64 \<Rightarrow> unit_name \<Rightarrow> Disk \<Rightarrow> Disk" where
  "rescaled sz used avail u d = d\<lparr>dk_Usage := (dk_Usage d)\<lparr>du_Size := in_unit sz u,
     du_Used := in_unit used u, du_Available := in_unit avail u, du_Unit := u\<rparr>\<rparr>"

lemma Convert_shows:
  assumes "shows_bytes sz used avail u d" and "supported v"
  shows "Convert d v = (rescaled sz used avail v d, None)"
proof -
  have "supported u" using assms by (simp add: shows_bytes_def)
  then show ?thesis
    using assms by (simp add: Convert_def shows_bytes_def bytesPerUnit_pow2 rescaled_def
        f64_div_pow2_pow2 unit_exp_le in_unit_convert Let_def)
qed

lemma rescaled_shows: "supported v \<Longrightarrow> shows_bytes sz used avail v (rescaled sz used avail v d)"
  by (simp add: rescaled_def shows_bytes_def)

lemma rescaled_rescaled [simp]:
  "rescaled sz used avail v (rescaled sz used avail u d) = rescaled sz used avail v d"
  by (simp add: rescaled_def)

lemma rescaled_same: "shows_bytes sz used avail u d \<Longrightarrow> rescaled sz used avail u d = d"
  by (simp add: rescaled_def shows_bytes_def)

text \<open>A whole sequence of conversions.\<close>

definition convert_all :: "Disk \<Rightarrow> unit_name list \<Rightarrow> Disk" where
  "convert_all d us = foldl (\<lambda>d u. fst (Convert d u)) d us"

lemma convert_all_shows:
  assumes "list_all supported us" and "shows_bytes sz used avail u d"
  shows "convert_all d us = rescaled sz used avail (last (u # us)) d"
  using assms
proof (induction us arbitrary: u d)
  case Nil
  then show ?case by (simp add: convert_all_def rescaled_same)
next
  case (Cons v us)
  then have v: "supported v" "list_all supported us" by simp_all
  have "convert_all d (v # us) = convert_all (rescaled sz used avail v d) us"
    using Convert_shows [OF Cons.prems(2) v(1)] by (simp add: convert_all_def)
  also have "\<dots> = rescaled sz used avail (last (v # us)) d"
    using Cons.IH [OF v(2) rescaled_shows [OF v(1)]] by simp
  finally show ?case by simp
qed

section \<open>Facts on the usage percentage\<close>

text \<open>
  Up to 100, a double is within \<open>2^-47\<close> of the number it rounds; a quotient with a denominator below
  \<open>2^46\<close> is further than that above the integer before it, so rounding never moves the ceiling.
\<close>

lemma ceiling_round:
  assumes q: "0 < q" "q \<le> 100" and gap: "pow2 (-46) < q - of_int (\<lceil>q\<rceil> - 1)"
  shows "\<lceil>round_at 53 (-1074) q\<rceil> = \<lceil>q\<rceil>"
proof (rule ceiling_unique)
  let ?r = "round_at 53 (-1074) q"
  have "(100 :: rat) < pow2 7" using pow2_nat [of 7] by simp
  then have "floor_log2 q < 7" using q by (intro floor_log2_less) simp_all
  then have "ulp_exp 53 (-1074) q \<le> -46" by (simp add: ulp_exp_def)
  then have "pow2 (ulp_exp 53 (-1074) q) \<le> pow2 (-46)" by (simp only: pow2_le_iff)
  moreover have "0 < pow2 (ulp_exp 53 (-1074) q)" by (rule pow2_pos)
  ultimately have "q - ?r \<le> pow2 (-46)"
    using round_at_error [OF q(1), of 53 "-1074"] by linarith
  with gap show "of_int \<lceil>q\<rceil> - 1 < ?r" by simp
  have "0 < \<lceil>q\<rceil>" and "\<lceil>q\<rceil> \<le> 100" using q by (simp_all add: ceiling_le_iff)
  then have "nat \<lceil>q\<rceil> \<le> 100" by linarith
  then have "representable 53 0 (of_nat (nat \<lceil>q\<rceil>))" by (intro representable_nat) simp
  moreover have "(of_nat (nat \<lceil>q\<rceil>) :: rat) = of_int \<lceil>q\<rceil>"
    using \<open>0 < \<lceil>q\<rceil>\<close> of_int_of_nat_eq [of "nat \<lceil>q\<rceil>", where 'a = rat] by simp
  ultimately have "representable 53 (-1074) (of_int \<lceil>q\<rceil>)"
    by (auto intro: representable_mono)
  then show "?r \<le> of_int \<lceil>q\<rceil>" by (intro b64.rnd_le le_of_int_ceiling)
qed

text \<open>A multiple of a power of two with few significant bits converts exactly.\<close>

lemma f64_of_u64_scaled:
  assumes "unat w = n * 2 ^ s" and "n < 2 ^ 53"
  shows "f64_of_u64 w = Fin False (of_nat n * pow2 (int s))"
proof -
  have "representable 53 (0 + int s) (of_nat n * pow2 (int s))"
    by (rule representable_scale [OF representable_nat [OF assms(2)]])
  then have "representable 53 (-1074) (of_nat n * pow2 (int s))"
    by (rule representable_mono) simp
  moreover have "rat_of_u64 w = of_nat n * pow2 (int s)"
    unfolding rat_of_u64_def assms(1) by (simp add: pow2_nat)
  ultimately show ?thesis by (simp add: f64_of_u64_Fin b64.rep_id)
qed

lemma percent_gap:
  assumes "0 < u" and "u \<le> d" and "d < 2 ^ 46"
  defines "q \<equiv> of_nat (100 * u) / of_nat d :: rat"
  shows "0 < q" and "q \<le> 100" and "pow2 (-46) < q - of_int (\<lceil>q\<rceil> - 1)"
proof -
  have d: "(0 :: rat) < of_nat d" using assms by simp
  show "0 < q" using assms by (simp add: q_def)
  have "of_nat (100 * u) \<le> (of_nat (100 * d) :: rat)" using assms by (simp only: of_nat_le_iff)
  then show "q \<le> 100" using d by (simp add: q_def divide_le_eq)
  let ?k = "\<lceil>q\<rceil> - 1"
  have "of_int ?k < q" by linarith
  then have "of_int (?k * int d) < (of_int (int (100 * u)) :: rat)"
    using d by (simp add: q_def less_divide_eq)
  then have "?k * int d + 1 \<le> int (100 * u)" by (simp only: of_int_less_iff zless_imp_add1_zle)
  then have "of_int (?k * int d + 1) \<le> (of_int (int (100 * u)) :: rat)" by (simp only: of_int_le_iff)
  then have "of_int ?k * of_nat d + 1 \<le> (of_nat (100 * u) :: rat)" by simp
  then have "(of_int ?k * of_nat d + 1) / of_nat d \<le> q"
    unfolding q_def using d by (intro divide_right_mono) simp_all
  then have "1 / of_nat d \<le> q - of_int ?k" using d by (simp add: add_divide_distrib)
  moreover have "of_nat d < (of_nat (2 ^ 46) :: rat)" using assms(3) by (simp only: of_nat_less_iff)
  then have "of_nat d < pow2 46" using pow2_nat [of 46] by simp
  then have "1 / pow2 46 < 1 / of_nat d" using d by (intro divide_strict_left_mono) simp_all
  then have "pow2 (-46) < 1 / of_nat d" using pow2_diff [of 0 46] by simp
  ultimately show "pow2 (-46) < q - of_int ?k" by simp
qed

text \<open>Beyond that bound every rounding is still within a thousandth.\<close>

lemma round_near:
  assumes "pow2 (-100) \<le> x"
  shows "999 / 1000 * x \<le> round_at 53 (-1074) x" and "round_at 53 (-1074) x \<le> 1001 / 1000 * x"
proof -
  have x: "0 < x" using less_le_trans [OF pow2_pos assms] .
  have "-100 \<le> floor_log2 x" by (rule floor_log2_ge [OF x assms])
  then have "pow2 (ulp_exp 53 (-1074) x) = pow2 (floor_log2 x) * pow2 (-52)"
    by (simp add: ulp_exp_def pow2_add [symmetric])
  also have "\<dots> \<le> x * pow2 (-10)"
    using floor_log2_bounds(1) [OF x] x by (intro mult_mono) simp_all
  also have "\<dots> \<le> x / 1000" using x pow2_diff [of 0 10] pow2_nat [of 10] by simp
  finally have "\<bar>round_at 53 (-1074) x - x\<bar> \<le> x / 1000"
    using round_at_error [OF x, of 53 "-1074"] x by linarith
  then show "999 / 1000 * x \<le> round_at 53 (-1074) x" and "round_at 53 (-1074) x \<le> 1001 / 1000 * x"
    by linarith+
qed

lemma round_near_ge_1:
  assumes "1 \<le> x"
  shows "999 / 1000 * x \<le> round_at 53 (-1074) x" and "round_at 53 (-1074) x \<le> 1001 / 1000 * x"
proof -
  have "pow2 (-100) \<le> pow2 0" by (simp only: pow2_le_iff)
  with assms have "pow2 (-100) \<le> x" by simp
  then show "999 / 1000 * x \<le> round_at 53 (-1074) x" and "round_at 53 (-1074) x \<le> 1001 / 1000 * x"
    by (rule round_near)+
qed

text \<open>The double that usagePercent rounds up, and the quotient it stands for.\<close>

lemma percent_quotient_near:
  fixes u d :: rat
  assumes u: "1 \<le> u" and ud: "u \<le> d" and d64: "d \<le> pow2 64"
  defines "y \<equiv> round_at 53 (-1074)
    (round_at 53 (-1074) (100 * round_at 53 (-1074) u) / round_at 53 (-1074) d)"
  shows "100 * u / d - 1 < y" and "y < 100 * u / d + 1"
    and "mk64 False (round_at 53 (-1074) (100 * round_at 53 (-1074) u) / round_at 53 (-1074) d) = Fin False y"
proof -
  define a b where "a = round_at 53 (-1074) u" and "b = round_at 53 (-1074) d"
  define p where "p = round_at 53 (-1074) (100 * a)"
  define q where "q = 100 * u / d"
  have d: "1 \<le> d" using u ud by simp
  note a = round_near_ge_1 [OF u, folded a_def] and b = round_near_ge_1 [OF d, folded b_def]
  have "1 \<le> 100 * a" using a(1) u by linarith
  note p = round_near_ge_1 [OF this, folded p_def]
  have qd: "q * d = 100 * u" using d by (simp add: q_def)
  have q: "0 < q" "q \<le> 100" using u ud d by (simp_all add: q_def divide_le_eq)
  have bpos: "0 < b" using b(1) d by linarith
  have "q * (999 / 1000 * d) \<le> q * b" "q * b \<le> q * (1001 / 1000 * d)"
    using b q by (simp_all add: mult_left_mono)
  then have qb: "999 / 10 * u \<le> q * b" "q * b \<le> 1001 / 10 * u" using qd by (simp_all add: algebra_simps)
  have hi: "p / b \<le> 10031 / 10000 * q"
    using p(2) a(2) qb(1) u bpos by (simp add: divide_le_eq)
  have lo: "997 / 1000 * q \<le> p / b"
    using p(1) a(1) qb(2) u bpos by (simp add: le_divide_eq)
  have "pow2 (-64) \<le> q"
  proof -
    have "pow2 (-64) * d \<le> 1" using d64 pow2_add [of "-64" 64] mult_left_mono [OF d64, of "pow2 (-64)"] by simp
    then have "pow2 (-64) \<le> 1 / d" using d by (simp add: le_divide_eq)
    also have "\<dots> \<le> q" using u d by (simp add: q_def divide_right_mono)
    finally show ?thesis .
  qed
  moreover have "pow2 (-100) \<le> pow2 (-65)" "pow2 (-65) = pow2 (-64) / 2"
    using pow2_add [of "-65" 1] pow2_nat [of 1] by simp_all
  ultimately have "pow2 (-100) \<le> p / b" using lo q by linarith
  note y = round_near [OF this]
  show "100 * u / d - 1 < y" "y < 100 * u / d + 1"
    using y lo hi q by (simp_all add: y_def a_def [symmetric] b_def [symmetric] p_def [symmetric] q_def [symmetric])
  have "p / b \<le> 128" using hi q by linarith
  then have "p / b \<le> pow2 7" using pow2_nat [of 7] by simp
  then show "mk64 False (round_at 53 (-1074) (100 * round_at 53 (-1074) u) / round_at 53 (-1074) d) = Fin False y"
    unfolding y_def a_def [symmetric] b_def [symmetric] p_def [symmetric] by (rule mk64_le) simp_all
qed

section \<open>Facts on the mount table\<close>

text \<open>How the kernel writes a field of \<open>/proc/mounts\<close>: four bytes become octal escapes.\<close>

fun mount_escape :: "string \<Rightarrow> string" where
  "mount_escape [] = []"
| "mount_escape (c # cs) =
     (if c = CHR 0x20 then backslash # ''040''
      else if c = CHR 0x09 then backslash # ''011''
      else if c = CHR 0x0A then backslash # ''012''
      else if c = backslash then backslash # ''134''
      else [c]) @ mount_escape cs"

lemma unescape_escape: "unescapeMountField (mount_escape s) = s"
proof (induction s)
  case (Cons c cs)
  then show ?case by (auto simp: mountFieldEscapes_def HasPrefix_def)
qed simp

lemma mount_escape_Nil [simp]: "mount_escape s = [] \<longleftrightarrow> s = []"
  by (cases s) auto

text \<open>A line of the table: device, mount point, type and the fields after them.\<close>

type_synonym mount_text = "string \<times> string \<times> string \<times> string list"

fun mount_words :: "mount_text \<Rightarrow> string list" where
  "mount_words (dev, mp, typ, rest) = mount_escape dev # mount_escape mp # typ # rest"

definition mount_text_ok :: "mount_text \<Rightarrow> bool" where
  "mount_text_ok m \<longleftrightarrow> list_all (\<lambda>w. plain w \<and> w \<noteq> []) (mount_words m)"

fun mount_entry_of :: "mount_text \<Rightarrow> mountEntry" where
  "mount_entry_of (dev, mp, typ, rest) = \<lparr>me_device = dev, me_mountPoint = mp, me_fsType = typ\<rparr>"

definition mounts_file :: "mount_text list \<Rightarrow> string" where
  "mounts_file ms = join_with CHR 0x0A (map (\<lambda>m. join_with CHR 0x20 (mount_words m)) ms)"

lemma mount_line_text:
  assumes "mount_text_ok m"
  shows "mount_line (join_with CHR 0x20 (mount_words m)) = Some (mount_entry_of m)"
proof -
  have "Fields (join_with CHR 0x20 (mount_words m)) = mount_words m"
    using assms unfolding mount_text_ok_def by (rule Fields_join) simp
  then show ?thesis by (cases m) (simp add: mount_line_def unescape_escape)
qed

section \<open>Properties\<close>

text \<open>
  C21: usagePercent is exactly df's rounded-up percentage: for every pair of counts whose sum, after
  dropping a common power of two such as the block size, is below 2^46, the string is the ceiling of
  100 * used / (used + avail) followed by a percent sign, whatever the platform does with float-to-int
  conversions that are out of range.
\<close>

theorem usagePercent_df:
  assumes u: "unat used = u * 2 ^ s" and a: "unat avail = a * 2 ^ s"
    and pos: "0 < u + a" and few: "u + a < 2 ^ 46" and fit: "unat used + unat avail < 2 ^ 64"
  shows "usagePercent oor used avail
    = Itoa \<lceil>of_nat (100 * u) / of_nat (u + a) :: rat\<rceil> @ ''%''"
proof -
  let ?q = "of_nat (100 * u) / of_nat (u + a) :: rat" and ?p = "pow2 (int s)"
  have d: "unat (used + avail) = (u + a) * 2 ^ s"
    using unat_sum2 [OF fit] u a by (simp add: add_mult_distrib)
  then have nz: "used + avail \<noteq> 0" using pos by (auto simp: unat_eq_zero [symmetric])
  have fu: "f64_of_u64 used = Fin False (of_nat u * ?p)"
    using few by (intro f64_of_u64_scaled [OF u]) simp
  have fd: "f64_of_u64 (used + avail) = Fin False (of_nat (u + a) * ?p)"
    using few by (intro f64_of_u64_scaled [OF d]) simp
  have le: "of_nat u * ?p \<le> pow2 64" using f64_of_u64_le [of used] by (simp add: fu)
  have "representable 53 (0 + int s) (of_nat (100 * u) * ?p)"
    using few by (intro representable_scale representable_nat) simp
  then have r: "representable 53 (-1074) (of_nat (100 * u) * ?p)" by (rule representable_mono) simp
  have "100 * (of_nat u * ?p) \<le> pow2 7 * pow2 64"
    using le pow2_nat [of 7] by (intro mult_mono) simp_all
  then have "of_nat (100 * u) * ?p \<le> pow2 71" using pow2_add [of 7 64] by simp
  then have m: "f64_mul (f64_const 100) (f64_of_u64 used) = Fin False (of_nat (100 * u) * ?p)"
    using mk64_exact [OF r, of 71] by (simp add: fu f64_const_def mult.assoc)
  have q: "of_nat (100 * u) * ?p / (of_nat (u + a) * ?p) = ?q" by simp
  have "?q \<le> 100 \<and> \<lceil>round_at 53 (-1074) ?q\<rceil> = \<lceil>?q\<rceil>"
  proof (cases "u = 0")
    case False
    note gap = percent_gap [of u "u + a"]
    show ?thesis using False few gap ceiling_round [OF gap] by simp
  qed simp
  then have c: "?q \<le> 100" "\<lceil>round_at 53 (-1074) ?q\<rceil> = \<lceil>?q\<rceil>" by simp_all
  have nz': "(of_nat (u + a) * ?p :: rat) \<noteq> 0" using pos by (simp del: of_nat_add)
  have "?q \<le> pow2 7" using c(1) pow2_nat [of 7] by simp
  then have "mk64 False ?q = Fin False (round_at 53 (-1074) ?q)" by (rule mk64_le) simp_all
  then have "f64_div (f64_mul (f64_const 100) (f64_of_u64 used)) (f64_of_u64 (used + avail))
      = Fin False (round_at 53 (-1074) ?q)"
    unfolding m fd f64_div.simps q using nz' by simp
  moreover have "\<lceil>0 :: rat\<rceil> \<le> \<lceil>?q\<rceil>" by (rule ceiling_mono) simp
  then have "0 \<le> \<lceil>?q\<rceil>" by simp
  moreover have "\<lceil>?q\<rceil> \<le> 100" using c(1) by (simp add: ceiling_le_iff)
  ultimately have "int_of_f64 oor (f64_ceil (f64_div (f64_mul (f64_const 100) (f64_of_u64 used))
      (f64_of_u64 (used + avail)))) = \<lceil>?q\<rceil>"
    by (simp only: f64_ceil.simps if_False c(2)) (rule int_of_f64_of_int; simp)
  then show ?thesis using nz by (simp add: usagePercent_def Let_def)
qed

theorem usagePercent_df_witness:
  "usagePercent (\<lambda>x. 0) (3 * 4096) (97 * 4096) = ''3%''"
proof -
  have "unat (3 * 4096 :: u64) = 3 * 2 ^ 12" "unat (97 * 4096 :: u64) = 97 * 2 ^ 12"
    "unat (3 * 4096 :: u64) + unat (97 * 4096 :: u64) < 2 ^ 64" by simp_all
  from usagePercent_df [OF this(1,2) _ _ this(3), of "\<lambda>x. 0"]
  have "usagePercent (\<lambda>x. 0) (3 * 4096) (97 * 4096) = Itoa \<lceil>3 :: rat\<rceil> @ ''%''" by simp
  moreover have "Itoa 3 @ ''%'' = ''3%''" by code_simp
  ultimately show ?thesis by simp
qed

text \<open>Both errors occur, just above the bound and without a common factor.\<close>

lemma usagePercent_one_low:
  "usagePercent oor 140737488354937 1421590791464 = ''99%''
   \<and> \<lceil>of_nat (100 * 140737488354937) / of_nat (140737488354937 + 1421590791464) :: rat\<rceil> = 100"
proof -
  have f: "f64_of_u64 140737488354937 = Fin False 140737488354937"
    "f64_of_u64 142159079146401 = Fin False 142159079146401"
    using f64_of_u64_exact [of 140737488354937] f64_of_u64_exact [of 142159079146401]
    by (simp_all add: rat_of_u64_def)
  have "representable 53 0 (14073748835493700 :: rat)"
    by (rule representableI [of 3518437208873425 _ _ 2]) (simp_all add: pow2_nat [of 2, simplified])
  then have "representable 53 (-1074) (14073748835493700 :: rat)" by (rule representable_mono) simp
  moreover have "(14073748835493700 :: rat) \<le> pow2 60" using pow2_nat [of 60] by simp
  ultimately have m: "mk64 False 14073748835493700 = Fin False 14073748835493700"
    by (rule mk64_exact) simp_all
  let ?q = "14073748835493700 / 142159079146401 :: rat"
  have p: "pow2 6 = 64" "pow2 7 = 128" using pow2_nat [of 6] pow2_nat [of 7] by simp_all
  have "floor_log2 ?q < 7" "6 \<le> floor_log2 ?q"
    by (rule floor_log2_less floor_log2_ge; simp add: p)+
  then have u: "ulp_exp 53 (-1074) ?q = -46" by (simp add: ulp_exp_def)
  have h: "pow2 (-46) = 1 / 2 ^ 46" using pow2_diff [of 0 46] pow2_nat [of 46] by simp
  have "\<lfloor>?q * 2 ^ 46\<rfloor> = 99 * 2 ^ 46" by (rule floor_unique) simp_all
  then have "rne (?q * 2 ^ 46) = 99 * 2 ^ 46" by (simp add: rne_def Let_def)
  then have "round_at 53 (-1074) ?q = 99" by (simp add: round_at_def u h Let_def)
  moreover have "?q \<le> pow2 7" unfolding p by simp
  then have "mk64 False ?q = Fin False (round_at 53 (-1074) ?q)" by (rule mk64_le) simp_all
  ultimately have "mk64 False ?q = Fin False 99" by simp
  moreover have "Itoa 99 @ ''%'' = ''99%''" by code_simp
  ultimately have "usagePercent oor 140737488354937 1421590791464 = ''99%''"
    by (simp add: usagePercent_def f f64_const_def m int_of_f64_def)
  moreover have "\<lceil>14073748835493700 / 142159079146401 :: rat\<rceil> = 100"
    by (rule ceiling_unique) simp_all
  ultimately show ?thesis by simp
qed

lemma usagePercent_one_high:
  "usagePercent oor 360288089656123 0 = ''101%''
   \<and> \<lceil>of_nat (100 * 360288089656123) / of_nat (360288089656123 + 0) :: rat\<rceil> = 100"
proof -
  have f: "f64_of_u64 360288089656123 = Fin False 360288089656123"
    using f64_of_u64_exact [of 360288089656123] by (simp add: rat_of_u64_def)
  let ?x = "36028808965612300 :: rat"
  have p: "pow2 3 = 8" "pow2 6 = 64" "pow2 7 = 128" "pow2 55 = 2 ^ 55" "pow2 56 = 2 ^ 56"
    using pow2_nat [of 3] pow2_nat [of 6] pow2_nat [of 7] pow2_nat [of 55] pow2_nat [of 56] by simp_all
  have "floor_log2 ?x < 56" "55 \<le> floor_log2 ?x" by (rule floor_log2_less floor_log2_ge; simp add: p)+
  then have ux: "ulp_exp 53 (-1074) ?x = 3" by (simp add: ulp_exp_def)
  have "\<lfloor>?x / 8\<rfloor> = 4503601120701537" by (rule floor_unique) simp_all
  then have "rne (?x / 8) = 4503601120701538" by (simp add: rne_def Let_def)
  then have "round_at 53 (-1074) ?x = 36028808965612304" by (simp add: round_at_def ux p Let_def)
  moreover have "?x \<le> pow2 56" by (simp add: p)
  then have "mk64 False ?x = Fin False (round_at 53 (-1074) ?x)" by (rule mk64_le) simp_all
  ultimately have m: "mk64 False ?x = Fin False 36028808965612304" by simp
  let ?q = "36028808965612304 / 360288089656123 :: rat"
  have "floor_log2 ?q < 7" "6 \<le> floor_log2 ?q" by (rule floor_log2_less floor_log2_ge; simp add: p)+
  then have u: "ulp_exp 53 (-1074) ?q = -46" by (simp add: ulp_exp_def)
  have h: "pow2 (-46) = 1 / 2 ^ 46" using pow2_diff [of 0 46] pow2_nat [of 46] by simp
  have "\<lfloor>?q * 2 ^ 46\<rfloor> = 100 * 2 ^ 46" by (rule floor_unique) simp_all
  then have "rne (?q * 2 ^ 46) = 100 * 2 ^ 46 + 1" by (simp add: rne_def Let_def)
  then have r: "round_at 53 (-1074) ?q = (100 * 2 ^ 46 + 1) / 2 ^ 46" by (simp add: round_at_def u h Let_def)
  have "?q \<le> pow2 7" unfolding p by simp
  then have "mk64 False ?q = Fin False (round_at 53 (-1074) ?q)" by (rule mk64_le) simp_all
  moreover have "\<lceil>(100 * 2 ^ 46 + 1) / 2 ^ 46 :: rat\<rceil> = 101" by (rule ceiling_unique) simp_all
  moreover have "Itoa 101 @ ''%'' = ''101%''" by code_simp
  ultimately have "usagePercent oor 360288089656123 0 = ''101%''"
    by (simp add: usagePercent_def f f64_const_def m r int_of_f64_def)
  then show ?thesis by simp
qed

text \<open>
  C40: beyond the bound of the property above usagePercent is never off by more than one: for all
  counts whose sum does not wrap, the string is a non-negative integer and a percent sign, and the
  integer differs from the exact ceiling of 100 * used / (used + avail) by at most one.
\<close>

theorem usagePercent_within_one:
  assumes pos: "0 < unat used + unat avail" and fit: "unat used + unat avail < 2 ^ 64"
  shows "\<exists>k. usagePercent oor used avail = Itoa k @ ''%'' \<and> 0 \<le> k
    \<and> \<bar>k - \<lceil>of_nat (100 * unat used) / of_nat (unat used + unat avail) :: rat\<rceil>\<bar> \<le> 1"
proof (cases "used = 0")
  case True
  then have nz: "0 < avail" using pos by (simp add: word_less_nat_alt)
  then obtain m where m: "f64_of_u64 avail = Fin False m" "1 \<le> m"
    using f64_of_u64_pos [OF nz] by (simp add: f64_of_u64_Fin)
  have "mk64 False 0 = Fin False 0" using mk64_exact [of 0 0] by (simp add: b64.rep_small [of 0, simplified])
  then have "usagePercent oor used avail = Itoa 0 @ ''%''"
    using True word_gt_0 [THEN iffD1, OF nz] m by (simp add: usagePercent_def f64_const_def int_of_f64_def)
  then show ?thesis using True by (intro exI [of _ 0]) simp
next
  case False
  let ?u = "rat_of_u64 used" and ?d = "rat_of_u64 (used + avail)"
  let ?a = "round_at 53 (-1074) ?u" and ?b = "round_at 53 (-1074) ?d"
  define y where "y = round_at 53 (-1074) (round_at 53 (-1074) (100 * ?a) / ?b)"
  have d: "unat (used + avail) = unat used + unat avail" using unat_sum2 [OF fit] .
  then have nz: "used + avail \<noteq> 0" using pos by (auto simp: unat_eq_zero [symmetric])
  have u1: "1 \<le> ?u" using rat_of_u64_ge_1 [of used] False by (simp add: word_neq_0_conv)
  have ud: "?u \<le> ?d" by (simp add: word_le_nat_alt d)
  note near = percent_quotient_near [OF u1 ud rat_of_u64_le, folded y_def]
  have q: "100 * ?u / ?d = of_nat (100 * unat used) / of_nat (unat used + unat avail)"
    by (simp add: rat_of_u64_def d)
  have "?b \<noteq> 0" using round_near_ge_1(1) [of ?d] u1 ud by linarith
  moreover have "100 * ?a \<le> pow2 71"
    using mult_mono [of 100 "pow2 7" ?a "pow2 64"] f64_of_u64_le [of used, unfolded f64_of_u64_Fin f64_val.simps] pow2_nat [of 7] pow2_add [of 7 64] by simp
  then have "mk64 False (100 * ?a) = Fin False (round_at 53 (-1074) (100 * ?a))" by (rule mk64_le) simp_all
  ultimately have f: "f64_div (f64_mul (f64_const 100) (f64_of_u64 used)) (f64_of_u64 (used + avail)) = Fin False y"
    by (simp add: f64_of_u64_Fin f64_const_def near(3))
  have "0 \<le> y" by (simp add: y_def)
  then have c0: "0 \<le> \<lceil>y\<rceil>" by simp
  have "0 < ?d" using u1 ud by linarith
  then have "?u / ?d \<le> 1" using ud by (simp only: divide_le_eq_1_pos)
  then have "y \<le> 101" using near(2) by simp
  then have c1: "\<lceil>y\<rceil> < 2 ^ 63" by (simp add: ceiling_less_iff)
  have "usagePercent oor used avail = Itoa \<lceil>y\<rceil> @ ''%''"
    using nz int_of_f64_of_int [OF c0 c1] by (simp add: usagePercent_def Let_def f)
  moreover have "\<bar>\<lceil>y\<rceil> - \<lceil>100 * ?u / ?d\<rceil>\<bar> \<le> 1" using near(1,2) by linarith
  ultimately show ?thesis using c0 unfolding q by blast
qed

theorem usagePercent_within_one_witness:
  "\<exists>k. usagePercent (\<lambda>x. 0) 360288089656123 0 = Itoa k @ ''%'' \<and> 0 \<le> k \<and> \<bar>k - 100\<bar> \<le> 1"
  using usagePercent_within_one [of 360288089656123 0 "\<lambda>x. 0"] by simp

text \<open>
  C22: Convert is exact and loses nothing: on a disk as GetDisks returns it, any sequence of
  conversions between supported units shows the size, the used and the available space, each as
  precisely its byte count divided by the unit, and leaves everything else alone, so that converting
  back to bytes, after any detour, gives the very same disk; an unknown unit is an error that leaves
  the disk untouched.
\<close>

theorem Convert_exact:
  fixes stat :: statfs
  defines "sz \<equiv> sf_blocks stat * sf_bsize stat"
  defines "used \<equiv> sz - sf_bfree stat * sf_bsize stat" and "avail \<equiv> sf_bavail stat * sf_bsize stat"
  assumes "list_all supported us"
  shows "convert_all (disk_of oor now m stat) (us @ [Byte]) = disk_of oor now m stat
    \<and> (if supported u
       then Convert (convert_all (disk_of oor now m stat) us) u = ((disk_of oor now m stat)
           \<lparr>dk_Usage := (dk_Usage (disk_of oor now m stat))\<lparr>du_Size := in_unit sz u, du_Used := in_unit used u,
              du_Available := in_unit avail u, du_Unit := u\<rparr>\<rparr>, None)
         \<and> (\<forall>w. is_fin (in_unit w u) \<and> f64_val (in_unit w u) * 2 ^ unit_exp u = f64_val (f64_of_u64 w))
       else fst (Convert (disk_of oor now m stat) u) = disk_of oor now m stat
         \<and> snd (Convert (disk_of oor now m stat) u) \<noteq> None)"
proof -
  let ?d = "disk_of oor now m stat"
  have b: "supported Byte" by (simp add: supported_def)
  have d: "shows_bytes sz used avail Byte ?d"
    by (simp add: shows_bytes_def b disk_of_def Let_def in_unit_Byte sz_def used_def avail_def)
  have all: "convert_all ?d us = rescaled sz used avail (last (Byte # us)) ?d"
    "convert_all ?d (us @ [Byte]) = rescaled sz used avail Byte ?d"
    using convert_all_shows [OF assms(4) d] convert_all_shows [OF _ d, of "us @ [Byte]"] assms(4) b
    by simp_all
  have l: "supported (last (Byte # us))"
    using assms(4) b last_in_set [of us] by (auto simp: list_all_iff)
  have v: "is_fin (in_unit w u) \<and> f64_val (in_unit w u) * 2 ^ unit_exp u = f64_val (f64_of_u64 w)" for w
    using pow2_add [of "- int (unit_exp u)" "int (unit_exp u)"]
    by (simp add: in_unit_def pow2_nat mult.assoc)
  have "Convert (convert_all ?d us) u = (rescaled sz used avail u ?d, None)" if "supported u"
    unfolding all Convert_shows [OF rescaled_shows [OF l] that] by simp
  moreover have "convert_all ?d (us @ [Byte]) = ?d"
    using all rescaled_same [OF d] by simp
  moreover have "fst (Convert ?d u) = ?d \<and> snd (Convert ?d u) \<noteq> None" if "\<not> supported u"
    using that by (simp add: Convert_def bytesPerUnit_pow2 split: option.splits)
  ultimately show ?thesis using v by (simp add: rescaled_def)
qed

theorem Convert_exact_witness:
  "let d = disk_of (\<lambda>x. 0) 0 \<lparr>me_device = ''/dev/sda1'', me_mountPoint = ''/'', me_fsType = ''ext4''\<rparr>
         \<lparr>sf_blocks = 1000, sf_bsize = 4096, sf_bfree = 400, sf_bavail = 300, sf_files = 10, sf_ffree = 5\<rparr>
   in convert_all d [Gigabyte, Kilobyte, Megabyte, Byte] = d"
  unfolding Let_def using Convert_exact [of "[Gigabyte, Kilobyte, Megabyte]"] by (simp add: supported_def)

text \<open>
  C26: parseMounts reads back, line by line, the device, mount point and type the kernel wrote,
  whatever blanks, tabs, line feeds and backslashes the names contain, and never mistakes an escape
  sequence that is itself part of a name.
\<close>

theorem parseMounts_kernel_file:
  assumes "list_all mount_text_ok ms"
  shows "parseMounts (mounts_file ms) = map mount_entry_of ms"
proof (cases "ms = []")
  case False
  have n: "CHR 0x0A \<notin> set (join_with CHR 0x20 (mount_words m))" if "m \<in> set ms" for m
  proof -
    have "\<forall>w \<in> set (mount_words m). plain w"
      using assms that by (auto simp: list_all_iff mount_text_ok_def)
    then show ?thesis using join_with_set [of "CHR 0x20" "mount_words m"]
        plain_no_space [of _ "CHR 0x0A"] by fastforce
  qed
  have "List.map_filter mount_line (map (\<lambda>m. join_with CHR 0x20 (mount_words m)) ms)
      = map mount_entry_of ms"
    using assms by (induction ms) (simp_all add: List.map_filter_simps mount_line_text)
  with False n show ?thesis by (simp add: parseMounts_def mounts_file_def Split_join)
qed (simp add: parseMounts_def mounts_file_def List.map_filter_simps mount_line_def)

theorem parseMounts_kernel_file_witness:
  "parseMounts (mounts_file [(''/dev/sda1'', ''/mnt/my disk'', ''ext4'', [''rw''])])
    = [\<lparr>me_device = ''/dev/sda1'', me_mountPoint = ''/mnt/my disk'', me_fsType = ''ext4''\<rparr>]"
proof -
  have "list_all mount_text_ok [(''/dev/sda1'', ''/mnt/my disk'', ''ext4'', [''rw''])]"
    by code_simp
  then show ?thesis using parseMounts_kernel_file by simp
qed

end
