(* ===== verification/ContainerDiscover.thy ===== *)
theory ContainerDiscover
  imports Walk Cgroup Disk
begin

text \<open>
  \<open>container_discover.go\<close>: finding containers in the cgroup tree. The regular expressions are anchored,
  so each is a prefix, a suffix and the shape of what is between them; \<open>.\<close> excludes the newline.
\<close>

section \<open>Recognising a container's cgroup\<close>

definition maxContainerCgroupDepth :: nat where
  "maxContainerCgroupDepth = 10"

definition is_hex :: "char \<Rightarrow> bool" where
  "is_hex c = (let n = of_char c :: nat in 48 \<le> n \<and> n \<le> 57 \<or> 97 \<le> n \<and> n \<le> 102)"

definition hex64 :: "string \<Rightarrow> bool" where
  "hex64 s = (length s = 64 \<and> list_all is_hex s)"

definition any_name :: "string \<Rightarrow> bool" where
  "any_name s = (s \<noteq> [] \<and> CHR 0x0A \<notin> set s)"

record containerCgroupPattern =
  cp_before :: string
  cp_after :: "string list"
  cp_shape :: "string \<Rightarrow> bool"
  cp_runtime :: string
  cp_parent :: string

definition containerCgroupPatterns :: "containerCgroupPattern list" where
  "containerCgroupPatterns =
    [\<lparr>cp_before = ''docker-'', cp_after = [''.scope''], cp_shape = hex64, cp_runtime = ''docker'', cp_parent = []\<rparr>,
     \<lparr>cp_before = [], cp_after = [[]], cp_shape = hex64, cp_runtime = ''docker'', cp_parent = ''docker''\<rparr>,
     \<lparr>cp_before = ''libpod-'', cp_after = [''.scope'', []], cp_shape = hex64, cp_runtime = ''podman'', cp_parent = []\<rparr>,
     \<lparr>cp_before = ''cri-containerd-'', cp_after = [''.scope''], cp_shape = hex64, cp_runtime = ''containerd'', cp_parent = []\<rparr>,
     \<lparr>cp_before = ''crio-'', cp_after = [''.scope''], cp_shape = hex64, cp_runtime = ''cri-o'', cp_parent = []\<rparr>,
     \<lparr>cp_before = ''lxc.payload.'', cp_after = [[]], cp_shape = any_name, cp_runtime = ''lxc'', cp_parent = []\<rparr>,
     \<lparr>cp_before = ''machine-'', cp_after = [''.scope''], cp_shape = any_name, cp_runtime = ''machined'', cp_parent = ''machine.slice''\<rparr>]"

text \<open>The first capture group.\<close>

definition submatch :: "containerCgroupPattern \<Rightarrow> string \<Rightarrow> string option" where
  "submatch p name =
    (case find (\<lambda>a. HasPrefix name (cp_before p) \<and> HasSuffix name a \<and>
         length (cp_before p) + length a \<le> length name \<and>
         cp_shape p (drop (length (cp_before p)) (TrimSuffix name a))) (cp_after p) of
       None \<Rightarrow> None
     | Some a \<Rightarrow> Some (drop (length (cp_before p)) (TrimSuffix name a)))"

definition unescapeSystemdUnitName :: "string \<Rightarrow> string" where
  "unescapeSystemdUnitName s = ReplaceAll (backslash # ''x2d'') ''-'' s"

fun match_patterns :: "string \<Rightarrow> string \<Rightarrow> containerCgroupPattern list \<Rightarrow> (string \<times> string) option" where
  "match_patterns name parent [] = None"
| "match_patterns name parent (p # ps) =
     (if cp_parent p \<noteq> [] \<and> cp_parent p \<noteq> parent then match_patterns name parent ps
      else (case submatch p name of
          Some m \<Rightarrow> Some (unescapeSystemdUnitName m, cp_runtime p)
        | None \<Rightarrow> match_patterns name parent ps))"

definition matchContainerCgroup :: "string \<Rightarrow> (string \<times> string) option" where
  "matchContainerCgroup relPath =
    (let name = path_Base relPath; parent = path_Base (path_Dir relPath) in
     case match_patterns name parent containerCgroupPatterns of
       Some r \<Rightarrow> Some r
     | None \<Rightarrow> if hex64 name \<and> Contains relPath ''kubepods'' then Some (name, ''kubernetes'') else None)"

text \<open>The pod UID: 32 hexadecimal digits with four separators, the first such text after \<open>pod\<close>.\<close>

definition pod_uid :: "string \<Rightarrow> bool" where
  "pod_uid u = (length u = 36 \<and> list_all (\<lambda>i. if i \<in> {8, 13, 18, 23} then u ! i = CHR ''-'' \<or> u ! i = CHR ''_''
     else is_hex (u ! i)) [0..<36])"

fun find_pod_uid :: "string \<Rightarrow> string option" where
  "find_pod_uid [] = None"
| "find_pod_uid (c # cs) =
     (if HasPrefix (c # cs) ''pod'' \<and> pod_uid (take 36 (drop 3 (c # cs)))
      then Some (take 36 (drop 3 (c # cs))) else find_pod_uid cs)"

definition podUIDFromCgroupPath :: "string \<Rightarrow> string" where
  "podUIDFromCgroupPath relPath = (case find_pod_uid relPath of
     None \<Rightarrow> [] | Some m \<Rightarrow> ReplaceAll ''_'' ''-'' m)"

section \<open>The processes of a cgroup\<close>

definition pid_of_line :: "string \<Rightarrow> int option" where
  "pid_of_line line = (case atoi_ok (TrimSpace line) of
     None \<Rightarrow> None | Some pid \<Rightarrow> if 0 < pid then Some pid else None)"

definition firstPid :: "fs \<Rightarrow> string \<Rightarrow> int option" where
  "firstPid f procsFile = (case fs_read f procsFile of
     None \<Rightarrow> None
   | Some content \<Rightarrow> (case List.map_filter pid_of_line (lines content) of [] \<Rightarrow> None | pid # _ \<Rightarrow> Some pid))"

definition pid_visit :: "fs \<Rightarrow> int visitor" where
  "pid_visit f pid p d err =
    (if err \<or> pid \<noteq> 0 then (pid, SkipDir)
     else (case d of
         None \<Rightarrow> (pid, SkipDir)
       | Some t \<Rightarrow>
           if \<not> is_dir t then (pid, WalkOn)
           else (case firstPid f (path_Join [p, ''cgroup.procs'']) of
               Some first \<Rightarrow> (first, SkipDir) | None \<Rightarrow> (pid, WalkOn))))"

definition firstPidInSubtree :: "fs \<Rightarrow> string \<Rightarrow> int option" where
  "firstPidInSubtree f dir =
    (let pid = fst (WalkDir (pid_visit f) 0 dir (fs_tree f dir)) in if pid \<noteq> 0 then Some pid else None)"

section \<open>The walk\<close>

record containerRef =
  cr_id :: string
  cr_runtime :: string
  cr_podUID :: string
  cr_relPath :: string
  cr_dirs :: cgroupDirs
  cr_pid :: int

definition container_refs ::
    "fs \<Rightarrow> cgroupVersion \<Rightarrow> string \<Rightarrow> (string \<rightharpoonup> string) \<Rightarrow> string \<Rightarrow> string \<Rightarrow> string \<times> string \<Rightarrow> containerRef list" where
  "container_refs f version rootDir v1Names p rel ir = (case firstPidInSubtree f p of
     None \<Rightarrow> []
   | Some pid \<Rightarrow> [\<lparr>cr_id = fst ir, cr_runtime = snd ir, cr_podUID = podUIDFromCgroupPath rel,
       cr_relPath = rel, cr_dirs = cgroupDirsFor version rootDir rel v1Names, cr_pid = pid\<rparr>])"

definition discover_visit ::
    "fs \<Rightarrow> cgroupVersion \<Rightarrow> string \<Rightarrow> (string \<rightharpoonup> string) \<Rightarrow> string \<Rightarrow> containerRef list visitor" where
  "discover_visit f version rootDir v1Names walkRoot refs p d err =
    (if err then (refs, if d \<noteq> None \<and> is_dir (the d) \<and> p \<noteq> walkRoot then SkipDir else WalkOn)
     else (case d of
         None \<Rightarrow> (refs, WalkOn)
       | Some t \<Rightarrow>
           if \<not> is_dir t \<or> p = walkRoot then (refs, WalkOn)
           else (case path_Rel walkRoot p of
               Inl e \<Rightarrow> (refs, SkipDir)
             | Inr r \<Rightarrow>
                 let rel = slash # r in
                 if maxContainerCgroupDepth < length (filter (\<lambda>c. c = slash) rel) then (refs, SkipDir)
                 else (case matchContainerCgroup rel of
                     None \<Rightarrow> (refs, WalkOn)
                   | Some ir \<Rightarrow> (refs @ container_refs f version rootDir v1Names p rel ir, SkipDir)))))"

definition v1_names :: "fs \<Rightarrow> SyStats \<Rightarrow> cgroupVersion \<Rightarrow> (string \<rightharpoonup> string)" where
  "v1_names f systats version = (if version = cgroupV1
     then v1ControllerDirNames (ReadFile f (SelfCgroupPath systats)) else Map.empty)"

definition walk_root :: "fs \<Rightarrow> SyStats \<Rightarrow> cgroupVersion \<Rightarrow> string" where
  "walk_root f systats version = (if version = cgroupV1
     then path_Join [CgroupRootPath systats, map_str (v1_names f systats version) ''memory'']
     else CgroupRootPath systats)"

definition discoverContainers :: "fs \<Rightarrow> SyStats \<Rightarrow> cgroupVersion \<Rightarrow> containerRef list" where
  "discoverContainers f systats version =
    (let v1Names = v1_names f systats version; walkRoot = walk_root f systats version in
     fst (WalkDir (discover_visit f version (CgroupRootPath systats) v1Names walkRoot) [] walkRoot
       (fs_tree f walkRoot)))"

section \<open>What discovery finds\<close>

text \<open>
  The reference: the outermost directories that match, at most ten levels down, with a process in
  them; nothing below an unreadable directory. \<open>cs\<close> are the components below the walk's root \<open>rs\<close>.
\<close>

fun containers_in ::
    "fs \<Rightarrow> cgroupVersion \<Rightarrow> string \<Rightarrow> (string \<rightharpoonup> string) \<Rightarrow> string list \<Rightarrow> string list \<Rightarrow> dir_tree \<Rightarrow> containerRef list" where
  "containers_in f version rootDir v1Names rs cs (FileNode i r) = []"
| "containers_in f version rootDir v1Names rs cs (DirNode es bad) =
     (if maxContainerCgroupDepth < length cs then []
      else (case matchContainerCgroup (abs_path cs) of
          Some ir \<Rightarrow> container_refs f version rootDir v1Names (abs_path (rs @ cs)) (abs_path cs) ir
        | None \<Rightarrow> if bad then []
            else concat (map (\<lambda>(n, t). containers_in f version rootDir v1Names rs (cs @ [n]) t) es)))"

text \<open>The paths below the root \<open>rs\<close>.\<close>

definition below :: "string list \<Rightarrow> string \<Rightarrow> bool" where
  "below rs p \<longleftrightarrow> rs \<noteq> [] \<and> (\<exists>cs. cs \<noteq> [] \<and> (\<forall>c \<in> set (rs @ cs). entry_name c) \<and> p = abs_path (rs @ cs))"

lemma belowI: "rs \<noteq> [] \<Longrightarrow> cs \<noteq> [] \<Longrightarrow> \<forall>c \<in> set (rs @ cs). entry_name c \<Longrightarrow> below rs (abs_path (rs @ cs))"
  unfolding below_def by blast

lemma belowE:
  assumes "below rs p"
  obtains cs where "rs \<noteq> []" "cs \<noteq> []" "\<forall>c \<in> set (rs @ cs). entry_name c" "p = abs_path (rs @ cs)"
  using assms unfolding below_def by blast

lemma path_Join_entry:
  assumes "rs \<noteq> []" and "\<forall>c \<in> set (rs @ cs). entry_name c" and "entry_name n"
  shows "path_Join [abs_path (rs @ cs), n] = abs_path (rs @ cs @ [n])"
  using path_Join_entries [of "rs @ cs" "[n]"] assms by simp

lemma below_entry: "below rs p \<Longrightarrow> entry_name n \<Longrightarrow> below rs (path_Join [p, n])"
proof (erule belowE)
  fix cs assume n: "entry_name n" and c: "rs \<noteq> []" "\<forall>c \<in> set (rs @ cs). entry_name c"
    and p: "p = abs_path (rs @ cs)"
  have "below rs (abs_path (rs @ (cs @ [n])))"
    by (rule belowI [OF c(1)]) (use c(2) n in auto)
  then show "below rs (path_Join [p, n])" by (simp only: p path_Join_entry [OF c n])
qed

lemma slashes_in_entry: "entry_name c \<Longrightarrow> filter (\<lambda>x. x = slash) c = []"
  by (auto simp: entry_name_def filter_empty_conv)

lemma slashes_in_join:
  "\<forall>c \<in> set cs. entry_name c \<Longrightarrow>
     length (filter (\<lambda>x. x = slash) (join_with slash (c # cs))) =
       length (filter (\<lambda>x. x = slash) c) + length cs"
proof (induction cs arbitrary: c)
  case (Cons d cs)
  then show ?case by (simp add: join_with_Cons slashes_in_entry del: join_with.simps)
qed simp

lemma slashes_in_abs:
  "\<forall>c \<in> set cs. entry_name c \<Longrightarrow> cs \<noteq> [] \<Longrightarrow>
     length (filter (\<lambda>x. x = slash) (abs_path cs)) = length cs"
  by (cases cs) (simp_all add: abs_path_def slashes_in_join slashes_in_entry)

lemma below_not_root: "below rs p \<Longrightarrow> p \<noteq> abs_path rs"
proof (erule belowE)
  fix cs assume c: "rs \<noteq> []" "cs \<noteq> []" "\<forall>c \<in> set (rs @ cs). entry_name c" "p = abs_path (rs @ cs)"
  have "(abs_path (rs @ cs) = abs_path rs) = (rs @ cs = rs)"
    by (rule abs_path_inject) (use c in auto)
  then show "p \<noteq> abs_path rs" using c by simp
qed

text \<open>One step of the walk below the root, and where it turns back.\<close>

definition rel_path :: "string list \<Rightarrow> string \<Rightarrow> string" where
  "rel_path rs p = abs_path (drop (length rs) (path_comps p))"

definition turn_back :: "string list \<Rightarrow> string \<Rightarrow> dir_tree \<Rightarrow> bool" where
  "turn_back rs p d = (is_dir d \<and> (maxContainerCgroupDepth < length (path_comps p) - length rs \<or>
     matchContainerCgroup (rel_path rs p) \<noteq> None))"

definition discover_step ::
    "fs \<Rightarrow> cgroupVersion \<Rightarrow> string \<Rightarrow> (string \<rightharpoonup> string) \<Rightarrow> string list \<Rightarrow> containerRef list \<Rightarrow> string \<Rightarrow> dir_tree \<Rightarrow> containerRef list" where
  "discover_step f version rootDir v1Names rs refs p d = refs @
    (if \<not> is_dir d \<or> maxContainerCgroupDepth < length (path_comps p) - length rs then []
     else (case matchContainerCgroup (rel_path rs p) of
         None \<Rightarrow> [] | Some ir \<Rightarrow> container_refs f version rootDir v1Names p (rel_path rs p) ir))"

lemma discover_visit_dir:
  assumes "below rs p" and "is_dir d"
  shows "discover_visit f version rootDir v1Names (abs_path rs) refs p (Some d) False =
    (discover_step f version rootDir v1Names rs refs p d,
     if turn_back rs p d then SkipDir else WalkOn)"
proof -
  from assms(1) obtain cs where rs: "rs \<noteq> []" and cs: "cs \<noteq> []"
    and e: "\<forall>c \<in> set (rs @ cs). entry_name c" and p: "p = abs_path (rs @ cs)"
    by (rule belowE)
  have "p \<noteq> abs_path rs" by (rule below_not_root [OF assms(1)])
  moreover have "path_Rel (abs_path rs) p = Inr (join_with slash cs)"
    using path_Rel_below [OF e rs cs] by (simp only: p)
  moreover have "path_comps p = rs @ cs" using path_comps_abs [OF e] rs by (simp add: p)
  moreover have "length (filter (\<lambda>c. c = slash) (slash # join_with slash cs)) = length cs"
    using slashes_in_abs [of cs] cs e by (simp add: abs_path_def)
  ultimately show ?thesis using assms(2)
    by (simp add: discover_visit_def discover_step_def turn_back_def rel_path_def abs_path_def Let_def
        split: option.splits)
qed

interpretation discover: steady_visitor "discover_visit f version rootDir v1Names (abs_path rs)"
  "below rs" "discover_step f version rootDir v1Names rs" "turn_back rs" False
  for f version rootDir v1Names rs
proof unfold_locales
  fix p s i r es bad n
  assume b: "below rs p"
  show "discover_visit f version rootDir v1Names (abs_path rs) s p (Some (FileNode i r)) False =
      (discover_step f version rootDir v1Names rs s p (FileNode i r), WalkOn)"
    by (simp add: discover_visit_def discover_step_def)
  show "discover_visit f version rootDir v1Names (abs_path rs) s p (Some (DirNode es bad)) False =
      (discover_step f version rootDir v1Names rs s p (DirNode es bad),
       if turn_back rs p (DirNode es bad) then SkipDir else WalkOn)"
    by (rule discover_visit_dir [OF b]) simp
  show "discover_visit f version rootDir v1Names (abs_path rs) s p (Some (DirNode es bad)) True =
      (s, if False then WalkOn else SkipDir)"
    using below_not_root [OF b] by (simp add: discover_visit_def)
  show "entry_name n \<Longrightarrow> below rs (path_Join [p, n])" by (rule below_entry [OF b])
qed

section \<open>Discovery meets its reference\<close>

lemma rel_path_below:
  assumes "rs \<noteq> []" and "\<forall>c \<in> set (rs @ cs). entry_name c"
  shows "rel_path rs (abs_path (rs @ cs)) = abs_path cs"
    and "length (path_comps (abs_path (rs @ cs))) - length rs = length cs"
  using path_comps_abs [OF assms(2)] assms(1) by (simp_all add: rel_path_def)

lemma nodes_containers:
  assumes "rs \<noteq> []" and "cs \<noteq> []" and "\<forall>c \<in> set (rs @ cs). entry_name c" and "tree_ok t"
  shows "foldl (\<lambda>s (q, d). discover_step f version rootDir v1Names rs s q d) acc
      (walk_nodes (turn_back rs) False (abs_path (rs @ cs)) t) =
    acc @ containers_in f version rootDir v1Names rs cs t"
  using assms
proof (induction f version rootDir v1Names rs cs t arbitrary: acc rule: containers_in.induct)
  case (2 f version rootDir v1Names rs cs es bad)
  note rel = rel_path_below [OF "2.prems"(1,3)]
  show ?case
  proof (cases "length cs \<le> maxContainerCgroupDepth \<and> matchContainerCgroup (abs_path cs) = None \<and> \<not> bad")
    case True
    have "foldl (\<lambda>s (q, d). discover_step f version rootDir v1Names rs s q d) acc
        (walk_nodes (turn_back rs) False (path_Join [abs_path (rs @ cs), n]) t) =
        acc @ containers_in f version rootDir v1Names rs (cs @ [n]) t" if m: "(n, t) \<in> set es" for n t acc
    proof -
      have n: "entry_name n" and t: "tree_ok t" using m "2.prems"(4) by (auto simp: list_all_iff)
      have e: "\<forall>c \<in> set (rs @ cs @ [n]). entry_name c" using "2.prems"(3) n by auto
      have "foldl (\<lambda>s (q, d). discover_step f version rootDir v1Names rs s q d) acc
        (walk_nodes (turn_back rs) False (abs_path (rs @ cs @ [n])) t) =
        acc @ containers_in f version rootDir v1Names rs (cs @ [n]) t"
        using "2.IH" [OF _ _ _ m refl] True "2.prems"(1) e t by simp
      then show ?thesis by (simp only: path_Join_entry [OF "2.prems"(1,3) n])
    qed
    note sub = foldl_concat_map [OF this]
    have "\<not> turn_back rs (abs_path (rs @ cs)) (DirNode es bad)"
      and "discover_step f version rootDir v1Names rs acc (abs_path (rs @ cs)) (DirNode es bad) = acc"
      using True by (simp_all add: turn_back_def discover_step_def rel)
    then show ?thesis using True by (simp add: sub)
  next
    case False
    then show ?thesis
      by (auto simp: turn_back_def discover_step_def rel split: option.splits)
  qed
qed (simp add: discover_step_def)

lemma discover_meets_reference:
  assumes "walk_root f systats version = abs_path rs" and "rs \<noteq> []" and "list_all entry_name rs"
    and "fs_tree f (abs_path rs) = Some (DirNode es bad)" and "tree_ok (DirNode es bad)"
  shows "discoverContainers f systats version = concat (map (\<lambda>(n, t).
    containers_in f version (CgroupRootPath systats) (v1_names f systats version) rs [n] t) es)"
proof -
  let ?v = "discover_visit f version (CgroupRootPath systats) (v1_names f systats version) (abs_path rs)"
  let ?step = "\<lambda>s (q, d). discover_step f version (CgroupRootPath systats) (v1_names f systats version) rs s q d"
  have rs: "\<forall>c \<in> set rs. entry_name c" using assms(3) by (simp add: list_all_iff)
  have entry: "path_Join [abs_path rs, n] = abs_path (rs @ [n])" "below rs (abs_path (rs @ [n]))"
    "tree_ok t" "\<forall>c \<in> set (rs @ [n]). entry_name c" if "(n, t) \<in> set es" for n t
    using that assms(2,5) rs path_Join_entry [of rs "[]" n] belowI [of rs "[n]"]
    by (auto simp: list_all_iff)
  have "walk_entries ?v [] (abs_path rs) es = (foldl ?step []
      (concat (map (\<lambda>(n, t). walk_nodes (turn_back rs) False (path_Join [abs_path rs, n]) t) es)), WalkOn)"
    by (rule discover.walk_steady(2)) (auto simp: list_all_iff entry)
  also have "foldl ?step [] (concat (map (\<lambda>(n, t).
      walk_nodes (turn_back rs) False (path_Join [abs_path rs, n]) t) es)) =
    [] @ concat (map (\<lambda>(n, t).
      containers_in f version (CgroupRootPath systats) (v1_names f systats version) rs [n] t) es)"
    by (rule foldl_concat_map) (simp add: entry nodes_containers [OF assms(2)] del: set_append)
  finally have "walk_entries ?v [] (abs_path rs) es = (concat (map (\<lambda>(n, t).
      containers_in f version (CgroupRootPath systats) (v1_names f systats version) rs [n] t) es), WalkOn)"
    by simp
  moreover have "?v [] (abs_path rs) (Some (DirNode es b)) e = ([], WalkOn)" for b e
    by (simp add: discover_visit_def)
  ultimately show ?thesis
    using assms(4) by (simp add: discoverContainers_def assms(1) WalkDir_def Let_def)
qed

text \<open>
  C1: discovery is the reference search. Started on a readable tree whose entries are named as
  directory entries are, the walk with its path arithmetic, its depth bound and its SkipDir
  answers returns exactly the outermost matching cgroups with a process, in directory order; an
  unreadable directory hides its own subtree only.
\<close>

theorem discoverContainers_reference:
  assumes "walk_root f systats version = abs_path rs" and "rs \<noteq> []" and "list_all entry_name rs"
    and "fs_tree f (abs_path rs) = Some (DirNode es bad)" and "tree_ok (DirNode es bad)"
  shows "discoverContainers f systats version = concat (map (\<lambda>(n, t).
    containers_in f version (CgroupRootPath systats) (v1_names f systats version) rs [n] t) es)"
  by (rule discover_meets_reference [OF assms])

section \<open>Which directories are containers\<close>

text \<open>The nodes below a node, reached through readable directories.\<close>

fun node_below :: "dir_tree \<Rightarrow> string list \<Rightarrow> dir_tree \<Rightarrow> bool" where
  "node_below t [] t' \<longleftrightarrow> t' = t"
| "node_below (FileNode i r) (n # cs) t' \<longleftrightarrow> False"
| "node_below (DirNode es bad) (n # cs) t' \<longleftrightarrow> \<not> bad \<and> (\<exists>t. (n, t) \<in> set es \<and> node_below t cs t')"

text \<open>The processes that a file records, and those of every cgroup.procs in a subtree, in the order of
  the directories.\<close>

definition pids_of :: "fs \<Rightarrow> string \<Rightarrow> int list" where
  "pids_of f p = (case fs_read f p of
     None \<Rightarrow> [] | Some content \<Rightarrow> List.map_filter pid_of_line (lines content))"

fun procs_in :: "fs \<Rightarrow> string list \<Rightarrow> dir_tree \<Rightarrow> int list" where
  "procs_in f cs (FileNode i r) = []"
| "procs_in f cs (DirNode es bad) =
     pids_of f (abs_path (cs @ [''cgroup.procs''])) @
     (if bad then [] else concat (map (\<lambda>(n, t). procs_in f (cs @ [n]) t) es))"

definition head_or_0 :: "int \<Rightarrow> int list \<Rightarrow> int" where
  "head_or_0 s pids = (if s \<noteq> 0 then s else case pids of [] \<Rightarrow> 0 | pid # _ \<Rightarrow> pid)"

lemma firstPid_pids: "firstPid f p = (case pids_of f p of [] \<Rightarrow> None | pid # _ \<Rightarrow> Some pid)"
  by (simp add: firstPid_def pids_of_def split: option.split)

lemma pids_of_pos: "pid \<in> set (pids_of f p) \<Longrightarrow> 0 < pid"
  by (auto simp: pids_of_def List.map_filter_def pid_of_line_def split: option.splits if_splits)

lemma procs_in_pos: "pid \<in> set (procs_in f cs t) \<Longrightarrow> 0 < pid"
  by (induction f cs t rule: procs_in.induct) (auto dest: pids_of_pos split: if_splits)

lemma head_or_0_append:
  "\<forall>pid \<in> set xs. 0 < pid \<Longrightarrow> head_or_0 (head_or_0 s xs) ys = head_or_0 s (xs @ ys)"
  by (cases xs) (auto simp: head_or_0_def)

lemma pid_walk_found:
  "pid \<noteq> 0 \<Longrightarrow> \<exists>v. walk_dir (pid_visit f) pid p t = (pid, v) \<and> (v = WalkOn \<or> v = SkipDir)"
  by (cases t) (auto simp: pid_visit_def)

lemma pid_entries_found: "pid \<noteq> 0 \<Longrightarrow> walk_entries (pid_visit f) pid p es = (pid, WalkOn)"
proof (induction es)
  case (Cons e es)
  obtain n t where e: "e = (n, t)" by fastforce
  show ?case using pid_walk_found [OF Cons.prems, of f "path_Join [p, n]" t] Cons by (auto simp: e)
qed simp

lemma pid_walk:
  "v = pid_visit f \<Longrightarrow> p = abs_path cs \<Longrightarrow> cs \<noteq> [] \<Longrightarrow> \<forall>c \<in> set cs. entry_name c \<Longrightarrow> tree_ok t \<Longrightarrow>
     fst (walk_dir v s p t) = head_or_0 s (procs_in f cs t) \<and>
     (s = 0 \<longrightarrow> snd (walk_dir v s p t) = WalkOn)"
  "v = pid_visit f \<Longrightarrow> p = abs_path cs \<Longrightarrow> cs \<noteq> [] \<Longrightarrow> \<forall>c \<in> set cs. entry_name c \<Longrightarrow>
     list_all (\<lambda>(n, t). entry_name n \<and> tree_ok t) es \<Longrightarrow>
     walk_entries v s p es = (head_or_0 s (concat (map (\<lambda>(n, t). procs_in f (cs @ [n]) t) es)), WalkOn)"
proof (induction v s p t and v s p es arbitrary: cs and cs rule: walk_dir_walk_entries.induct)
  case (1 v s p i r)
  then show ?case by (simp add: pid_visit_def head_or_0_def)
next
  case (2 v s p es bad)
  have "entry_name ''cgroup.procs''" by code_simp
  then have j: "path_Join [abs_path cs, ''cgroup.procs''] = abs_path (cs @ [''cgroup.procs''])"
    using path_Join_entries [of cs "[''cgroup.procs'']"] "2.prems" by simp
  show ?case
  proof (cases "s = 0")
    case True
    show ?thesis
    proof (cases "pids_of f (abs_path (cs @ [''cgroup.procs'']))")
      case Nil
      then show ?thesis using 2 True by (auto simp: pid_visit_def j firstPid_pids head_or_0_def)
    next
      case (Cons pid pids)
      then have "0 < pid" using pids_of_pos [of pid f "abs_path (cs @ [''cgroup.procs''])"] by simp
      then show ?thesis using 2 True Cons by (simp add: pid_visit_def j firstPid_pids head_or_0_def)
    qed
  qed (use "2.prems" in \<open>simp add: pid_visit_def head_or_0_def\<close>)
next
  case (4 v s p n t es)
  then have e: "entry_name n" "tree_ok t" "list_all (\<lambda>(n, t). entry_name n \<and> tree_ok t) es" by simp_all
  have q: "path_Join [p, n] = abs_path (cs @ [n])"
    using path_Join_entries [of cs "[n]"] "4.prems" e(1) by simp
  show ?case
  proof (cases "s = 0")
    case True
    have "fst (walk_dir v s (path_Join [p, n]) t) = head_or_0 s (procs_in f (cs @ [n]) t) \<and>
        snd (walk_dir v s (path_Join [p, n]) t) = WalkOn"
      using "4.IH"(1) [OF "4.prems"(1) q _ _ e(2)] "4.prems"(4) e(1) True by simp
    then obtain s1 where s1: "walk_dir v s (path_Join [p, n]) t = (s1, WalkOn)"
      "s1 = head_or_0 s (procs_in f (cs @ [n]) t)" by (metis prod.collapse)
    have "walk_entries v s1 p es = (head_or_0 s1 (concat (map (\<lambda>(n, t). procs_in f (cs @ [n]) t) es)), WalkOn)"
      using "4.IH"(2) [OF s1(1) [symmetric] refl "4.prems"(1-4) e(3)] .
    then show ?thesis
      using procs_in_pos [of _ f "cs @ [n]" t] by (simp add: s1 head_or_0_append)
  next
    case False
    then show ?thesis using pid_entries_found [OF False, of f p "(n, t) # es"] "4.prems"(1)
      by (simp add: head_or_0_def)
  qed
qed (simp add: head_or_0_def)

lemma firstPidInSubtree_procs:
  assumes "fs_tree f (abs_path cs) = Some t" and "cs \<noteq> []" and "\<forall>c \<in> set cs. entry_name c" and "tree_ok t"
  shows "firstPidInSubtree f (abs_path cs) = (case procs_in f cs t of [] \<Rightarrow> None | pid # _ \<Rightarrow> Some pid)"
proof -
  have "fst (WalkDir (pid_visit f) 0 (abs_path cs) (fs_tree f (abs_path cs))) = head_or_0 0 (procs_in f cs t)"
    using pid_walk(1) [OF refl refl assms(2-4)] by (simp add: WalkDir_state assms(1))
  moreover have "\<forall>pid \<in> set (procs_in f cs t). 0 < pid" using procs_in_pos by blast
  ultimately show ?thesis
    by (cases "procs_in f cs t") (simp_all add: firstPidInSubtree_def head_or_0_def)
qed

text \<open>The search of the reference, as a condition on the path \<open>ds\<close> below the node \<open>t\<close> at \<open>cs\<close>.\<close>

definition found_at ::
    "fs \<Rightarrow> cgroupVersion \<Rightarrow> string \<Rightarrow> (string \<rightharpoonup> string) \<Rightarrow> string list \<Rightarrow> string list \<Rightarrow> dir_tree \<Rightarrow>
     string list \<Rightarrow> containerRef \<Rightarrow> bool" where
  "found_at f version rootDir v1Names rs cs t ds r \<longleftrightarrow> (\<exists>t' ir. node_below t ds t' \<and> is_dir t' \<and>
     length (cs @ ds) \<le> maxContainerCgroupDepth \<and>
     (\<forall>k < length ds. matchContainerCgroup (abs_path (cs @ take k ds)) = None) \<and>
     matchContainerCgroup (abs_path (cs @ ds)) = Some ir \<and>
     r \<in> set (container_refs f version rootDir v1Names (abs_path (rs @ cs @ ds)) (abs_path (cs @ ds)) ir))"

lemma found_at_match:
  assumes "matchContainerCgroup (abs_path cs) = Some ir"
  shows "found_at f version rootDir v1Names rs cs (DirNode es bad) ds r \<longleftrightarrow> ds = [] \<and>
    length cs \<le> maxContainerCgroupDepth \<and>
    r \<in> set (container_refs f version rootDir v1Names (abs_path (rs @ cs)) (abs_path cs) ir)"
proof (cases ds)
  case (Cons n ds')
  have "\<not> (\<forall>k < length ds. matchContainerCgroup (abs_path (cs @ take k ds)) = None)"
    using assms Cons by (auto intro!: exI [of _ 0])
  then show ?thesis using Cons by (auto simp: found_at_def)
qed (use assms in \<open>simp add: found_at_def\<close>)

lemma found_at_below:
  assumes "matchContainerCgroup (abs_path cs) = None"
  shows "found_at f version rootDir v1Names rs cs (DirNode es bad) ds r \<longleftrightarrow> \<not> bad \<and>
    (\<exists>n t ds'. ds = n # ds' \<and> (n, t) \<in> set es \<and> found_at f version rootDir v1Names rs (cs @ [n]) t ds' r)"
proof (cases ds)
  case (Cons n ds')
  have "(\<forall>k < length ds. matchContainerCgroup (abs_path (cs @ take k ds)) = None) \<longleftrightarrow>
      (\<forall>k < length ds'. matchContainerCgroup (abs_path (cs @ n # take k ds')) = None)"
    using assms by (simp add: Cons All_less_Suc2)
  then show ?thesis by (auto simp: found_at_def Cons)
qed (use assms in \<open>simp add: found_at_def\<close>)

lemma found_at_depth: "found_at f version rootDir v1Names rs cs t ds r \<Longrightarrow> length cs \<le> maxContainerCgroupDepth"
  by (auto simp: found_at_def)

lemma in_containers_in:
  "r \<in> set (containers_in f version rootDir v1Names rs cs t) \<longleftrightarrow>
    (\<exists>ds. found_at f version rootDir v1Names rs cs t ds r)"
proof (induction f version rootDir v1Names rs cs t rule: containers_in.induct)
  case (1 f version rootDir v1Names rs cs i r)
  show ?case by (auto simp: found_at_def elim: node_below.elims)
next
  case (2 f version rootDir v1Names rs cs es bad)
  show ?case
  proof (cases "matchContainerCgroup (abs_path cs)")
    case (Some ir)
    then show ?thesis by (simp add: found_at_match not_less)
  next
    case None
    then have "r \<in> set (containers_in f version rootDir v1Names rs cs (DirNode es bad)) \<longleftrightarrow>
        \<not> maxContainerCgroupDepth < length cs \<and> \<not> bad \<and>
        (\<exists>n t. (n, t) \<in> set es \<and> r \<in> set (containers_in f version rootDir v1Names rs (cs @ [n]) t))" by auto
    also have "\<dots> \<longleftrightarrow> \<not> maxContainerCgroupDepth < length cs \<and> \<not> bad \<and>
        (\<exists>n t ds. (n, t) \<in> set es \<and> found_at f version rootDir v1Names rs (cs @ [n]) t ds r)"
      using "2.IH" [OF _ None _ _ refl] by blast
    also have "\<dots> \<longleftrightarrow> (\<exists>ds. found_at f version rootDir v1Names rs cs (DirNode es bad) ds r)"
      using found_at_below [OF None] found_at_depth by (fastforce simp: not_less)
    finally show ?thesis .
  qed
qed

text \<open>Directory listings without repetitions, and a file system that shows a directory the same way
  from above and on its own.\<close>

fun unique_names :: "dir_tree \<Rightarrow> bool" where
  "unique_names (FileNode i r) = True"
| "unique_names (DirNode es bad) = (distinct (map fst es) \<and> list_all (\<lambda>(n, t). unique_names t) es)"

definition coherent :: "fs \<Rightarrow> string list \<Rightarrow> dir_tree \<Rightarrow> bool" where
  "coherent f rs d \<longleftrightarrow>
     (\<forall>cs t. node_below d cs t \<and> is_dir t \<longrightarrow> fs_tree f (abs_path (rs @ cs)) = Some t)"

lemma node_below_ok: "node_below t cs t' \<Longrightarrow> tree_ok t \<Longrightarrow> tree_ok t' \<and> (\<forall>c \<in> set cs. entry_name c)"
  by (induction t cs t' rule: node_below.induct) (auto simp: list_all_iff)

lemma distinct_concat_map:
  assumes "distinct (map k xs)" and "\<And>x. x \<in> set xs \<Longrightarrow> distinct (g x)"
    and "\<And>x y. x \<in> set xs \<Longrightarrow> y \<in> set xs \<Longrightarrow> k x \<noteq> k y \<Longrightarrow> set (g x) \<inter> set (g y) = {}"
  shows "distinct (concat (map g xs))"
  using assms
proof (induction xs)
  case (Cons x xs)
  have "set (g x) \<inter> set (g y) = {}" if "y \<in> set xs" for y
    using Cons.prems(1) that by (intro Cons.prems(3)) auto
  moreover have "distinct (concat (map g xs))"
    by (rule Cons.IH) (use Cons.prems in \<open>auto\<close>)
  ultimately show ?case using Cons.prems(2) by auto
qed simp

lemma containers_in_paths:
  assumes "r \<in> set (containers_in f version rootDir v1Names rs cs t)" and "tree_ok t"
  shows "\<exists>ds. cr_relPath r = abs_path (cs @ ds) \<and> (\<forall>c \<in> set ds. entry_name c)"
  using assms node_below_ok
  by (fastforce simp: in_containers_in found_at_def container_refs_def split: option.splits)

lemma sibling_containers:
  assumes "tree_ok t" and "tree_ok u" and "\<forall>c \<in> set (cs @ [n, m]). entry_name c" and "n \<noteq> m"
  shows "cr_relPath ` set (containers_in f version rootDir v1Names rs (cs @ [n]) t) \<inter>
    cr_relPath ` set (containers_in f version rootDir v1Names rs (cs @ [m]) u) = {}"
proof -
  have "abs_path ((cs @ [n]) @ ds) \<noteq> abs_path ((cs @ [m]) @ ds')"
    if "\<forall>c \<in> set ds. entry_name c" "\<forall>c \<in> set ds'. entry_name c" for ds ds'
    using abs_path_inject [of "cs @ n # ds" "cs @ m # ds'"] that assms(3,4) by auto
  then show ?thesis
    using containers_in_paths [of _ f version rootDir v1Names rs _ t] assms(1)
      containers_in_paths [of _ f version rootDir v1Names rs _ u] assms(2)
    unfolding disjoint_iff image_iff by metis
qed

lemma distinct_containers_in:
  assumes "tree_ok t" and "unique_names t" and "\<forall>c \<in> set cs. entry_name c"
  shows "distinct (map cr_relPath (containers_in f version rootDir v1Names rs cs t))"
  using assms
proof (induction f version rootDir v1Names rs cs t rule: containers_in.induct)
  case (2 f version rootDir v1Names rs cs es bad)
  show ?case
  proof (cases "maxContainerCgroupDepth < length cs \<or> matchContainerCgroup (abs_path cs) \<noteq> None \<or> bad")
    case False
    let ?sub = "\<lambda>(n, t). map cr_relPath (containers_in f version rootDir v1Names rs (cs @ [n]) t)"
    have sub_ok: "entry_name n \<and> tree_ok t \<and> unique_names t" if "(n, t) \<in> set es" for n t
      using that "2.prems"(1,2) by (auto simp: list_all_iff)
    have m: "matchContainerCgroup (abs_path cs) = None"
      using False by (cases "matchContainerCgroup (abs_path cs)") auto
    have one: "distinct (?sub e)" if "e \<in> set es" for e
      using "2.IH" [OF _ m _ that, of "fst e" "snd e"] False that sub_ok [of "fst e" "snd e"] "2.prems"(3)
      by (cases e) (auto simp del: containers_in.simps)
    have two: "set (?sub e) \<inter> set (?sub e') = {}"
      if "e \<in> set es" "e' \<in> set es" "fst e \<noteq> fst e'" for e e'
      using sibling_containers [of "snd e" "snd e'" cs "fst e" "fst e'"] that "2.prems"(3)
        sub_ok [of "fst e" "snd e"] sub_ok [of "fst e'" "snd e'"] by (simp add: case_prod_unfold)
    have "distinct (map fst es)" using "2.prems"(2) by simp
    then have "distinct (concat (map ?sub es))" by (rule distinct_concat_map [OF _ one two])
    then show ?thesis using False m by (simp add: map_concat comp_def case_prod_unfold)
  qed (auto simp: container_refs_def split: option.splits)
qed simp

text \<open>
  The container at a path below the root: a recognised directory at most ten levels down and none of
  the directories above it recognised, reported under its own identity, runtime and path, with the
  first process recorded in its subtree.
\<close>

definition outermost :: "fs \<Rightarrow> string list \<Rightarrow> dir_tree \<Rightarrow> string list \<Rightarrow> containerRef \<Rightarrow> bool" where
  "outermost f rs d cs r \<longleftrightarrow> cs \<noteq> [] \<and> length cs \<le> 10 \<and> cr_relPath r = abs_path cs \<and>
     matchContainerCgroup (abs_path cs) = Some (cr_id r, cr_runtime r) \<and>
     list_all (\<lambda>k. matchContainerCgroup (abs_path (take k cs)) = None) [1..<length cs] \<and>
     (\<exists>t pids. node_below d cs t \<and> is_dir t \<and> procs_in f (rs @ cs) t = cr_pid r # pids)"

lemma in_container_refs:
  assumes "coherent f rs d" and "node_below d cs t" and "is_dir t" and "tree_ok t" and "rs \<noteq> []"
    and "\<forall>c \<in> set (rs @ cs). entry_name c"
  shows "r \<in> set (container_refs f version rootDir v1Names (abs_path (rs @ cs)) (abs_path cs) ir) \<longleftrightarrow>
    ir = (cr_id r, cr_runtime r) \<and> cr_relPath r = abs_path cs \<and> (\<exists>pids. procs_in f (rs @ cs) t = cr_pid r # pids) \<and>
    cr_podUID r = podUIDFromCgroupPath (cr_relPath r) \<and>
    cr_dirs r = cgroupDirsFor version rootDir (cr_relPath r) v1Names"
proof -
  have "fs_tree f (abs_path (rs @ cs)) = Some t" using assms(1-3) by (simp add: coherent_def)
  from firstPidInSubtree_procs [OF this _ assms(6,4)] assms(5)
  have "firstPidInSubtree f (abs_path (rs @ cs)) = (case procs_in f (rs @ cs) t of [] \<Rightarrow> None | pid # _ \<Rightarrow> Some pid)"
    by simp
  then show ?thesis
    by (cases "procs_in f (rs @ cs) t"; cases ir; cases r) (auto simp: container_refs_def)
qed

text \<open>
  C24: discovery returns exactly the outermost containers, each once: a container is returned if and
  only if it lies at a path below the root, through readable directories and at most ten levels down,
  that is recognised with its identity and runtime while no directory above it is, and its process is
  the first one that a cgroup.procs file of its subtree records, a subtree without any being left
  out; and no two of the containers have the same path.
\<close>

theorem discoverContainers_outermost:
  assumes "walk_root f systats version = abs_path rs" and "rs \<noteq> []" and "list_all entry_name rs"
    and "fs_tree f (abs_path rs) = Some (DirNode es bad)" and "tree_ok (DirNode es bad)"
    and "unique_names (DirNode es bad)" and "coherent f rs (DirNode es False)"
  shows "(r \<in> set (discoverContainers f systats version) \<longleftrightarrow>
      (\<exists>cs. outermost f rs (DirNode es False) cs r) \<and> cr_podUID r = podUIDFromCgroupPath (cr_relPath r) \<and>
      cr_dirs r = cgroupDirsFor version (CgroupRootPath systats) (cr_relPath r) (v1_names f systats version))
    \<and> distinct (map cr_relPath (discoverContainers f systats version))"
proof -
  let ?in = "\<lambda>n t. containers_in f version (CgroupRootPath systats) (v1_names f systats version) rs [n] t"
  have ref: "discoverContainers f systats version = containers_in f version (CgroupRootPath systats)
      (v1_names f systats version) rs [] (DirNode es False)" if "matchContainerCgroup (abs_path []) = None"
    using that by (simp add: discover_meets_reference [OF assms(1-5)])
  have root: "matchContainerCgroup (abs_path []) = None" by code_simp
  note in_d = in_containers_in [of r f version "CgroupRootPath systats" "v1_names f systats version" rs "[]"
      "DirNode es False", unfolded found_at_def append_Nil, folded ref [OF root]]
  have ok: "tree_ok (DirNode es False)" "unique_names (DirNode es False)" using assms(5,6) by simp_all
  have below: "tree_ok t \<and> (\<forall>c \<in> set (rs @ cs). entry_name c)" if "node_below (DirNode es False) cs t" for cs t
    using node_below_ok [OF that ok(1)] assms(3) by (auto simp: list_all_iff)
  have "r \<in> set (discoverContainers f systats version) \<longleftrightarrow> (\<exists>cs t ir. node_below (DirNode es False) cs t \<and> is_dir t \<and>
      length cs \<le> maxContainerCgroupDepth \<and>
      (\<forall>k < length cs. matchContainerCgroup (abs_path (take k cs)) = None) \<and>
      matchContainerCgroup (abs_path cs) = Some ir \<and> ir = (cr_id r, cr_runtime r) \<and> cr_relPath r = abs_path cs \<and>
      (\<exists>pids. procs_in f (rs @ cs) t = cr_pid r # pids) \<and> cr_podUID r = podUIDFromCgroupPath (cr_relPath r) \<and>
      cr_dirs r = cgroupDirsFor version (CgroupRootPath systats) (cr_relPath r) (v1_names f systats version))"
    unfolding in_d
  proof (intro ex_cong1)
    fix cs t ir
    note refs = in_container_refs [OF assms(7) _ _ _ assms(2), of cs t r version "CgroupRootPath systats"
        "v1_names f systats version" ir]
    show "(node_below (DirNode es False) cs t \<and> is_dir t \<and> length cs \<le> maxContainerCgroupDepth \<and>
        (\<forall>k < length cs. matchContainerCgroup (abs_path (take k cs)) = None) \<and>
        matchContainerCgroup (abs_path cs) = Some ir \<and>
        r \<in> set (container_refs f version (CgroupRootPath systats) (v1_names f systats version)
          (abs_path (rs @ cs)) (abs_path cs) ir)) \<longleftrightarrow>
      (node_below (DirNode es False) cs t \<and> is_dir t \<and> length cs \<le> maxContainerCgroupDepth \<and>
        (\<forall>k < length cs. matchContainerCgroup (abs_path (take k cs)) = None) \<and>
        matchContainerCgroup (abs_path cs) = Some ir \<and> ir = (cr_id r, cr_runtime r) \<and> cr_relPath r = abs_path cs \<and>
        (\<exists>pids. procs_in f (rs @ cs) t = cr_pid r # pids) \<and> cr_podUID r = podUIDFromCgroupPath (cr_relPath r) \<and>
        cr_dirs r = cgroupDirsFor version (CgroupRootPath systats) (cr_relPath r) (v1_names f systats version))"
      by (intro conj_cong refl) (use refs below in blast)
  qed
  also have "\<dots> \<longleftrightarrow> (\<exists>cs. outermost f rs (DirNode es False) cs r) \<and> cr_podUID r = podUIDFromCgroupPath (cr_relPath r) \<and>
      cr_dirs r = cgroupDirsFor version (CgroupRootPath systats) (cr_relPath r) (v1_names f systats version)"
  proof -
    have "(\<forall>k < length cs. matchContainerCgroup (abs_path (take k cs)) = None) \<longleftrightarrow>
        list_all (\<lambda>k. matchContainerCgroup (abs_path (take k cs)) = None) [1..<length cs]" for cs
    proof -
      have "matchContainerCgroup (abs_path (take k cs)) = None"
        if "list_all (\<lambda>k. matchContainerCgroup (abs_path (take k cs)) = None) [1..<length cs]" "k < length cs" for k
        using that root by (cases k) (simp_all add: list_all_iff)
      then show ?thesis by (auto simp: list_all_iff)
    qed
    moreover have "cs \<noteq> []" if "matchContainerCgroup (abs_path cs) = Some ir" for cs ir using root that by auto
    ultimately show ?thesis by (auto simp: outermost_def maxContainerCgroupDepth_def) blast+
  qed
  finally have "r \<in> set (discoverContainers f systats version) \<longleftrightarrow>
      (\<exists>cs. outermost f rs (DirNode es False) cs r) \<and> cr_podUID r = podUIDFromCgroupPath (cr_relPath r) \<and>
      cr_dirs r = cgroupDirsFor version (CgroupRootPath systats) (cr_relPath r) (v1_names f systats version)" .
  moreover have "distinct (map cr_relPath (discoverContainers f systats version))"
    unfolding ref [OF root] by (rule distinct_containers_in [OF ok]) simp
  ultimately show ?thesis by blast
qed

text \<open>A cgroup tree with one container, and a cgroup of the same shape inside it.\<close>

definition demo_id :: string where
  "demo_id = replicate 64 CHR ''a''"

definition demo_scope :: string where
  "demo_scope = ''docker-'' @ demo_id @ ''.scope''"

definition demo_inner :: dir_tree where
  "demo_inner = DirNode [(''cgroup.procs'', FileNode None True), (demo_scope, DirNode [] False)] False"

definition demo_top :: dir_tree where
  "demo_top = DirNode [(''system.slice'', DirNode [(demo_scope, demo_inner)] False)] False"

definition demo_cgroups :: fs where
  "demo_cgroups = (files_fs [(''/sys/fs/cgroup/system.slice/'' @ demo_scope @ ''/cgroup.procs'',
       ''4711'' @ [CHR 0x0A])])
     \<lparr>fs_tree := map_of [(''/sys/fs/cgroup'', demo_top),
       (''/sys/fs/cgroup/system.slice'', DirNode [(demo_scope, demo_inner)] False),
       (''/sys/fs/cgroup/system.slice/'' @ demo_scope, demo_inner),
       (''/sys/fs/cgroup/system.slice/'' @ demo_scope @ ''/'' @ demo_scope, DirNode [] False)]\<rparr>"

lemma demo_setting:
  "walk_root demo_cgroups New cgroupV2 = abs_path [''sys'', ''fs'', ''cgroup'']"
  "list_all entry_name [''sys'', ''fs'', ''cgroup'']"
  "fs_tree demo_cgroups (abs_path [''sys'', ''fs'', ''cgroup'']) =
     Some (DirNode [(''system.slice'', DirNode [(demo_scope, demo_inner)] False)] False)"
  "tree_ok (DirNode [(''system.slice'', DirNode [(demo_scope, demo_inner)] False)] False)"
  by code_simp+

theorem discoverContainers_reference_witness:
  "map (\<lambda>r. (cr_id r, cr_runtime r, cr_pid r)) (discoverContainers demo_cgroups New cgroupV2) =
     [(demo_id, ''docker'', 4711)]"
  unfolding discoverContainers_reference [OF demo_setting(1) list.distinct(2) demo_setting(2-4)]
  by code_simp

lemma node_below_iff:
  "node_below (FileNode i r) cs t \<longleftrightarrow> cs = [] \<and> t = FileNode i r"
  "node_below (DirNode es bad) cs t \<longleftrightarrow> cs = [] \<and> t = DirNode es bad \<or>
     \<not> bad \<and> (\<exists>n u ds. cs = n # ds \<and> (n, u) \<in> set es \<and> node_below u ds t)"
  by (cases cs; auto)+

lemma demo_coherent: "coherent demo_cgroups [''sys'', ''fs'', ''cgroup''] demo_top"
proof -
  let ?at = "\<lambda>cs. fs_tree demo_cgroups (abs_path ([''sys'', ''fs'', ''cgroup''] @ cs))"
  have "?at [] = Some demo_top" "?at [''system.slice''] = Some (DirNode [(demo_scope, demo_inner)] False)"
    "?at [''system.slice'', demo_scope] = Some demo_inner"
    "?at [''system.slice'', demo_scope, demo_scope] = Some (DirNode [] False)"
    by code_simp+
  then show ?thesis by (auto simp: coherent_def demo_top_def demo_inner_def node_below_iff)
qed

theorem discoverContainers_outermost_witness:
  "\<exists>cs. outermost demo_cgroups [''sys'', ''fs'', ''cgroup''] demo_top cs
     (hd (discoverContainers demo_cgroups New cgroupV2))
   \<and> distinct (map cr_relPath (discoverContainers demo_cgroups New cgroupV2))"
proof -
  have "unique_names demo_top" by code_simp
  note exact = discoverContainers_outermost [OF demo_setting(1) list.distinct(2) demo_setting(2-4)
      this [unfolded demo_top_def] demo_coherent [unfolded demo_top_def]]
  have "discoverContainers demo_cgroups New cgroupV2 \<noteq> []"
    unfolding discover_meets_reference [OF demo_setting(1) list.distinct(2) demo_setting(2-4)]
    by code_simp
  then have "hd (discoverContainers demo_cgroups New cgroupV2) \<in> set (discoverContainers demo_cgroups New cgroupV2)"
    by simp
  then show ?thesis using exact unfolding demo_top_def by blast
qed

end
