(* ===== verification/ContainerLayer.thy ===== *)
theory ContainerLayer
  imports ContainerDiscover
begin

text \<open>
  \<open>container_layer.go\<close>: the size of a container's writable layer. The context is its state of error at
  each entry of the walk and after it.
\<close>

record ContainerLayer =
  cl_Size :: f64
  cl_Unit :: unit_name
  cl_Files :: u64
  cl_Path :: string
  cl_Available :: bool

definition ContainerLayer_zero :: "unit_name \<Rightarrow> ContainerLayer" where
  "ContainerLayer_zero u = \<lparr>cl_Size = f64_zero, cl_Unit = u, cl_Files = 0, cl_Path = [], cl_Available = False\<rparr>"

record layer_ctx =
  lx_at :: "string \<Rightarrow> ctx_error option"
  lx_after :: "ctx_error option"

section \<open>The upper directory\<close>

fun find_upperdir :: "string list \<Rightarrow> string option" where
  "find_upperdir [] = None"
| "find_upperdir (line # rest) =
     (let fields = Fields line in
      if length fields < 4 \<or> fields ! 1 \<noteq> ''/'' \<or> fields ! 2 \<noteq> ''overlay'' then find_upperdir rest
      else (case find (\<lambda>opt. HasPrefix opt ''upperdir='') (Split CHR '','' (fields ! 3)) of
          Some opt \<Rightarrow> Some (unescapeMountField (TrimPrefix opt ''upperdir=''))
        | None \<Rightarrow> find_upperdir rest))"

definition overlayUpperDir :: "string \<Rightarrow> string" where
  "overlayUpperDir mounts = (case find_upperdir (lines mounts) of None \<Rightarrow> [] | Some d \<Rightarrow> d)"

section \<open>Summing the layer\<close>

record layer_state =
  ls_seen :: "(u64 \<times> u64) list"
  ls_size :: u64
  ls_files :: u64

definition layer_zero :: layer_state where
  "layer_zero = \<lparr>ls_seen = [], ls_size = 0, ls_files = 0\<rparr>"

definition layer_add :: "layer_state \<Rightarrow> file_info \<Rightarrow> layer_state" where
  "layer_add st i = st\<lparr>ls_size := ls_size st + fi_size i, ls_files := ls_files st + 1\<rparr>"

definition layer_file :: "layer_state \<Rightarrow> file_info \<Rightarrow> layer_state" where
  "layer_file st i =
    (if 1 < fi_nlink i then
       (let key = (fi_dev i, fi_ino i) in
        if key \<in> set (ls_seen st) then st
        else layer_add (st\<lparr>ls_seen := key # ls_seen st\<rparr>) i)
     else layer_add st i)"

fun layer_entry :: "layer_state \<Rightarrow> dir_tree \<Rightarrow> layer_state" where
  "layer_entry st (FileNode info regular) =
     (if \<not> regular then st else (case info of None \<Rightarrow> st | Some i \<Rightarrow> layer_file st i))"
| "layer_entry st (DirNode es bad) = st"

definition layer_visit :: "(string \<Rightarrow> ctx_error option) \<Rightarrow> string \<Rightarrow> layer_state visitor" where
  "layer_visit ctxAt dir st p d err =
    (if err then (if p = dir then (st, WalkStop (OSError p)) else (st, WalkOn))
     else (case ctxAt p of
         Some e \<Rightarrow> (st, WalkStop (CtxErr e))
       | None \<Rightarrow> (case d of None \<Rightarrow> (st, WalkOn) | Some t \<Rightarrow> (layer_entry st t, WalkOn))))"

definition layerSize :: "fs \<Rightarrow> (string \<Rightarrow> ctx_error option) \<Rightarrow> string \<Rightarrow> layer_state \<times> error option" where
  "layerSize f ctxAt dir = WalkDir (layer_visit ctxAt dir) layer_zero dir (fs_tree f dir)"

definition readContainerLayer ::
    "fs \<Rightarrow> layer_ctx \<Rightarrow> string \<Rightarrow> int \<Rightarrow> unit_name \<Rightarrow> f64 \<Rightarrow> ContainerLayer \<times> error option" where
  "readContainerLayer f ctx procPath pid u bytesPer =
    (let out = ContainerLayer_zero u in
     case ReadFileWithError f (path_Join [procPath, Itoa pid, ''mounts'']) of
       Inl e \<Rightarrow> (out, None)
     | Inr mounts \<Rightarrow>
         (let upper = overlayUpperDir mounts in
          if upper = [] then (out, None)
          else
            (let out = out\<lparr>cl_Path := upper\<rparr> in
             case layerSize f (lx_at ctx) (path_Join [procPath, ''1'', ''root'', upper]) of
               (st, Some e) \<Rightarrow> (out, map_option CtxErr (lx_after ctx))
             | (st, None) \<Rightarrow>
                 (out\<lparr>cl_Size := f64_div (f64_of_u64 (ls_size st)) bytesPer, cl_Files := ls_files st,
                   cl_Available := True\<rparr>, None))))"

section \<open>Each file once\<close>

text \<open>The regular files of a tree in the order of the walk.\<close>

fun tree_files :: "dir_tree \<Rightarrow> file_info list" where
  "tree_files (FileNode info regular) = (if regular then case_option [] (\<lambda>i. [i]) info else [])"
| "tree_files (DirNode es bad) = concat (map (\<lambda>(n, t). tree_files t) es)"

text \<open>The reference: of the links to a file that has several, the first one only.\<close>

definition same_file :: "file_info \<Rightarrow> file_info \<Rightarrow> bool" where
  "same_file i j \<longleftrightarrow> 1 < fi_nlink i \<and> 1 < fi_nlink j \<and> fi_dev i = fi_dev j \<and> fi_ino i = fi_ino j"

fun count_once :: "file_info list \<Rightarrow> file_info list \<Rightarrow> file_info list" where
  "count_once prior [] = []"
| "count_once prior (i # is) =
     (if list_ex (same_file i) prior then count_once (i # prior) is
      else i # count_once (i # prior) is)"

definition seen_agrees :: "layer_state \<Rightarrow> file_info list \<Rightarrow> bool" where
  "seen_agrees st prior \<longleftrightarrow> (\<forall>i. 1 < fi_nlink i \<longrightarrow>
     ((fi_dev i, fi_ino i) \<in> set (ls_seen st) \<longleftrightarrow> list_ex (same_file i) prior))"

lemma same_file_single: "fi_nlink i \<le> 1 \<Longrightarrow> \<not> same_file i j" "fi_nlink i \<le> 1 \<Longrightarrow> \<not> same_file j i"
  by (auto simp: same_file_def dest: leD)

lemma seen_agrees_file: "seen_agrees st prior \<Longrightarrow> seen_agrees (layer_file st i) (i # prior)"
  by (fastforce simp: seen_agrees_def layer_file_def layer_add_def same_file_def Let_def list_ex_iff)

lemma layer_file_counts:
  "seen_agrees st prior \<Longrightarrow>
     layer_file st i = (if list_ex (same_file i) prior then st
       else (layer_add st i)\<lparr>ls_seen := ls_seen (layer_file st i)\<rparr>)"
proof (cases "1 < fi_nlink i")
  case True
  then show "seen_agrees st prior \<Longrightarrow> ?thesis"
    by (simp add: seen_agrees_def layer_file_def layer_add_def Let_def)
next
  case False
  then show ?thesis
    by (simp add: layer_file_def layer_add_def same_file_single list_ex_iff)
qed

lemma layer_files_once:
  assumes "seen_agrees st prior"
  shows "ls_size (foldl layer_file st is) = ls_size st + sum_list (map fi_size (count_once prior is)) \<and>
    ls_files (foldl layer_file st is) = ls_files st + of_nat (length (count_once prior is))"
  using assms
proof (induction "is" arbitrary: st prior)
  case (Cons i "is")
  note ih = Cons.IH [OF seen_agrees_file [OF Cons.prems, of i]]
  have "ls_size (layer_file st i) = (if list_ex (same_file i) prior then ls_size st else ls_size st + fi_size i)"
    and "ls_files (layer_file st i) = (if list_ex (same_file i) prior then ls_files st else ls_files st + 1)"
    by (subst layer_file_counts [OF Cons.prems], simp add: layer_add_def)+
  then show ?case using ih by simp
qed simp

interpretation layer: steady_visitor "layer_visit (\<lambda>p. None) (abs_path rs)" "below rs"
  "\<lambda>st p d. layer_entry st d" "\<lambda>p d. False" True
  for rs
  by unfold_locales (simp_all add: layer_visit_def below_not_root below_entry)

lemma nodes_files:
  "foldl (\<lambda>st (q, d). layer_entry st d) st (walk_nodes (\<lambda>p d. False) True p t) =
     foldl layer_file st (tree_files t)"
proof -
  have step: "foldl (\<lambda>st (q, d). layer_entry st d) st (concat (map (\<lambda>(n, t). g n t) es)) =
      foldl layer_file st (concat (map (\<lambda>(n, t). tree_files t) es))"
    if "\<And>n t st. (n, t) \<in> set es \<Longrightarrow> foldl (\<lambda>st (q, d). layer_entry st d) st (g n t) =
      foldl layer_file st (tree_files t)"
    for g :: "string \<Rightarrow> dir_tree \<Rightarrow> (string \<times> dir_tree) list" and es st
    using that by (induction es arbitrary: st) auto
  show ?thesis
  proof (induction "\<lambda>(p :: string) (d :: dir_tree). False" True p t arbitrary: st rule: walk_nodes.induct)
    case (1 p i r)
    then show ?case by (cases i) simp_all
  next
    case (2 p es bad)
    then show ?case by (simp add: step)
  qed
qed

text \<open>
  C8: the layer's size counts every regular file of the upper directory once: of the links to a
  file with several names only the first one met is added, whatever directories were unreadable on
  the way, and the figures are the sums of 64-bit sizes and the number of those files.
\<close>

theorem layerSize_counts_once:
  assumes "rs \<noteq> []" and "list_all entry_name rs"
    and "fs_tree f (abs_path rs) = Some (DirNode es False)" and "tree_ok (DirNode es False)"
  shows "(case layerSize f (\<lambda>p. None) (abs_path rs) of (st, err) \<Rightarrow> err = None \<and>
     ls_size st = sum_list (map fi_size (count_once [] (tree_files (DirNode es False)))) \<and>
     ls_files st = of_nat (length (count_once [] (tree_files (DirNode es False)))))"
proof -
  let ?v = "layer_visit (\<lambda>p. None) (abs_path rs)"
  have entry: "below rs (path_Join [abs_path rs, n])" "tree_ok t" if "(n, t) \<in> set es" for n t
    using that assms(1,2,4) path_Join_entry [of rs "[]" n] belowI [of rs "[n]"]
    by (auto simp: list_all_iff)
  have "walk_entries ?v layer_zero (abs_path rs) es = (foldl (\<lambda>st (q, d). layer_entry st d) layer_zero
      (concat (map (\<lambda>(n, t). walk_nodes (\<lambda>p d. False) True (path_Join [abs_path rs, n]) t) es)), WalkOn)"
    by (rule layer.walk_steady(2)) (auto simp: list_all_iff entry)
  also have "foldl (\<lambda>st (q, d). layer_entry st d) layer_zero
      (concat (map (\<lambda>(n, t). walk_nodes (\<lambda>p d. False) True (path_Join [abs_path rs, n]) t) es)) =
      foldl layer_file layer_zero (tree_files (DirNode es False))"
    using nodes_files [of layer_zero "abs_path rs" "DirNode es False"] by simp
  finally have walked: "walk_entries ?v layer_zero (abs_path rs) es =
    (foldl layer_file layer_zero (tree_files (DirNode es False)), WalkOn)" .
  have visit_root: "?v layer_zero (abs_path rs) (Some (DirNode es False)) False = (layer_zero, WalkOn)"
    by (simp add: layer_visit_def)
  then have "layerSize f (\<lambda>p. None) (abs_path rs) =
      (foldl layer_file layer_zero (tree_files (DirNode es False)), None)"
    using walked by (simp add: layerSize_def WalkDir_def assms(3))
  moreover have "seen_agrees layer_zero []" by (simp add: seen_agrees_def layer_zero_def)
  ultimately show ?thesis
    using layer_files_once [of layer_zero "[]" "tree_files (DirNode es False)"]
    by (simp add: layer_zero_def)
qed

text \<open>Two names of one file, another file, and a whiteout.\<close>

definition demo_layer :: "(string \<times> dir_tree) list" where
  "demo_layer =
    [(''a'', FileNode (Some \<lparr>fi_regular = True, fi_size = 100, fi_dev = 1, fi_ino = 7, fi_nlink = 2\<rparr>) True),
     (''d'', DirNode [(''b'', FileNode (Some \<lparr>fi_regular = True, fi_size = 100, fi_dev = 1, fi_ino = 7, fi_nlink = 2\<rparr>) True),
       (''c'', FileNode (Some \<lparr>fi_regular = True, fi_size = 11, fi_dev = 1, fi_ino = 8, fi_nlink = 1\<rparr>) True)] True),
     (''gone'', FileNode (Some \<lparr>fi_regular = False, fi_size = 0, fi_dev = 1, fi_ino = 9, fi_nlink = 1\<rparr>) False)]"

theorem layerSize_counts_once_witness:
  "(case layerSize ((files_fs [])\<lparr>fs_tree := map_of [(''/up'', DirNode demo_layer False)]\<rparr>) (\<lambda>p. None) ''/up'' of
     (st, err) \<Rightarrow> err = None \<and> ls_size st = 111 \<and> ls_files st = 2)"
proof -
  have "''/up'' = abs_path [''up'']" by code_simp
  moreover have "list_all entry_name [''up'']" by code_simp
  moreover have "tree_ok (DirNode demo_layer False)" by code_simp
  moreover have "sum_list (map fi_size (count_once [] (tree_files (DirNode demo_layer False)))) = 111"
    by (simp add: demo_layer_def same_file_def)
  moreover have "length (count_once [] (tree_files (DirNode demo_layer False))) = 2"
    by (simp add: demo_layer_def same_file_def)
  ultimately show ?thesis
    using layerSize_counts_once [of "[''up'']" "(files_fs [])\<lparr>fs_tree := map_of [(''/up'', DirNode demo_layer False)]\<rparr>"
        demo_layer] by simp
qed

end
