(* ===== verification/Memory.thy ===== *)
theory Memory
  imports Cgroup
begin

text \<open>
  \<open>memory.go\<close> and \<open>swap.go\<close>: host memory and swap from \<open>/proc/meminfo\<close>, the override by the
  calling process's cgroup limit, and the cgroup memory readers the container code shares. Counters are
  64-bit words and wrap as Go's \<open>uint64\<close> does.
\<close>

section \<open>/proc/meminfo\<close>

record memoryKiB =
  mk_total :: u64
  mk_free :: u64
  mk_available :: u64
  mk_used :: u64
  mk_percentageUsed :: f64
  mk_limited :: bool

definition memoryKiB_zero :: memoryKiB where
  "memoryKiB_zero = \<lparr>mk_total = 0, mk_free = 0, mk_available = 0, mk_used = 0,
     mk_percentageUsed = f64_zero, mk_limited = False\<rparr>"

type_synonym meminfo_acc = "memoryKiB \<times> u64 \<times> u64" \<comment> \<open>with \<open>buffers\<close> and \<open>cached\<close>\<close>

definition meminfo_line :: "meminfo_acc \<Rightarrow> string \<Rightarrow> meminfo_acc go" where
  "meminfo_line acc line = (case acc of (m, buffers, cached) \<Rightarrow>
    let lineArr = Fields line in
    if lineArr = [] then Ok acc
    else if lineArr ! 0 = ''MemTotal:'' then
      go_bind (field_u64 lineArr 1) (\<lambda>v. Ok (m\<lparr>mk_total := v\<rparr>, buffers, cached))
    else if lineArr ! 0 = ''MemFree:'' then
      go_bind (field_u64 lineArr 1) (\<lambda>v. Ok (m\<lparr>mk_free := v\<rparr>, buffers, cached))
    else if lineArr ! 0 = ''MemAvailable:'' then
      go_bind (field_u64 lineArr 1) (\<lambda>v. Ok (m\<lparr>mk_available := v\<rparr>, buffers, cached))
    else if lineArr ! 0 = ''Buffers:'' then
      go_bind (field_u64 lineArr 1) (\<lambda>v. Ok (m, v, cached))
    else if lineArr ! 0 = ''Cached:'' then
      go_bind (field_u64 lineArr 1) (\<lambda>v. Ok (m, buffers, v))
    else Ok acc)"

definition meminfo_scan :: "string \<Rightarrow> meminfo_acc go" where
  "meminfo_scan content = range_loop meminfo_line (memoryKiB_zero, 0, 0) (lines content)"

text \<open>\<open>float64(used) / float64(total) * 100\<close>.\<close>

definition share_percent :: "u64 \<Rightarrow> u64 \<Rightarrow> f64" where
  "share_percent used tot = f64_mul (f64_div (f64_of_u64 used) (f64_of_u64 tot)) (f64_const 100)"

definition meminfo_finish :: "meminfo_acc \<Rightarrow> memoryKiB" where
  "meminfo_finish acc = (case acc of (m, buffers, cached) \<Rightarrow>
    if 0 < mk_total m then
      (let used = mk_total m - (mk_free m + buffers + cached) in
       m\<lparr>mk_used := used, mk_percentageUsed := share_percent used (mk_total m)\<rparr>)
    else m)"

definition parseMeminfo :: "string \<Rightarrow> memoryKiB go" where
  "parseMeminfo content = go_bind (meminfo_scan content) (\<lambda>acc. Ok (meminfo_finish acc))"

section \<open>The cgroup memory files\<close>

definition unknown_version :: error where
  "unknown_version = ErrorString ''unknown cgroup version''"

text \<open>\<open>(limitBytes, limited)\<close>; the value of a panicking parse is not returned at all.\<close>

definition readCgroupMemoryLimit ::
    "fs \<Rightarrow> cgroupVersion \<Rightarrow> string \<Rightarrow> (error + u64 \<times> bool) go" where
  "readCgroupMemoryLimit f version dir =
    (case version of
       cgroupV2 \<Rightarrow>
         (case ReadFileWithError f (path_Join [dir, ''memory.max'']) of
            Inl e \<Rightarrow> Ok (Inl e)
          | Inr content0 \<Rightarrow>
              let content = TrimSpace content0 in
              if content = ''max'' then Ok (Inr (0, False))
              else go_bind (ToUint64 content) (\<lambda>v. Ok (Inr (v, True))))
     | cgroupV1 \<Rightarrow>
         (case ReadFileWithError f (path_Join [dir, ''memory.limit_in_bytes'']) of
            Inl e \<Rightarrow> Ok (Inl e)
          | Inr content \<Rightarrow>
              go_bind (ToUint64 (TrimSpace content)) (\<lambda>v.
                if 4611686018427387904 < v then Ok (Inr (0, False)) else Ok (Inr (v, True))))
     | cgroupNone \<Rightarrow> Ok (Inl unknown_version))"

definition readCgroupMemoryUsage :: "fs \<Rightarrow> cgroupVersion \<Rightarrow> string \<Rightarrow> (error + u64) go" where
  "readCgroupMemoryUsage f version dir =
    (let filename = (if version = cgroupV2 then ''memory.current'' else ''memory.usage_in_bytes'') in
     case ReadFileWithError f (path_Join [dir, filename]) of
       Inl e \<Rightarrow> Ok (Inl e)
     | Inr content \<Rightarrow> go_bind (ToUint64 (TrimSpace content)) (\<lambda>v. Ok (Inr v)))"

definition readCgroupMemoryInactiveFileBytes :: "fs \<Rightarrow> cgroupVersion \<Rightarrow> string \<Rightarrow> u64" where
  "readCgroupMemoryInactiveFileBytes f version dir =
    (case ReadFileWithError f (path_Join [dir, ''memory.stat'']) of
       Inl e \<Rightarrow> 0
     | Inr content \<Rightarrow>
         let stats = parseKeyValueStat content in
         (case (if version = cgroupV1 then stats ''total_inactive_file'' else None) of
            Some v \<Rightarrow> v
          | None \<Rightarrow> map_u64 stats ''inactive_file''))"

text \<open>The working set: usage minus the inactive file cache, when that leaves something.\<close>

definition working_set :: "u64 \<Rightarrow> u64 \<Rightarrow> u64" where
  "working_set usageBytes inactiveFileBytes =
    (if inactiveFileBytes < usageBytes then usageBytes - inactiveFileBytes else usageBytes)"

definition readCgroupMemoryBytes ::
    "fs \<Rightarrow> cgroupVersion \<Rightarrow> string \<Rightarrow> (error + u64 \<times> bool \<times> u64) go" where
  "readCgroupMemoryBytes f version dir =
    go_bind (readCgroupMemoryLimit f version dir) (\<lambda>r. case r of
      Inl e \<Rightarrow> Ok (Inl e)
    | Inr (limitBytes, limited) \<Rightarrow>
        go_bind (readCgroupMemoryUsage f version dir) (\<lambda>r. case r of
          Inl e \<Rightarrow> Ok (Inl e)
        | Inr usageBytes \<Rightarrow>
            Ok (Inr (limitBytes, limited,
              working_set usageBytes (readCgroupMemoryInactiveFileBytes f version dir)))))"

section \<open>The override by the process's own cgroup\<close>

definition cgroup_memory :: "memoryKiB \<Rightarrow> u64 \<Rightarrow> u64 \<Rightarrow> memoryKiB" where
  "cgroup_memory m limitBytes usedBytes =
    (let totalKiB = limitBytes div 1024; usedKiB = usedBytes div 1024;
         availableKiB = (if usedKiB < totalKiB then totalKiB - usedKiB else 0) in
     \<lparr>mk_total = totalKiB, mk_free = availableKiB, mk_available = availableKiB, mk_used = usedKiB,
      mk_percentageUsed =
        (if 0 < totalKiB then share_percent usedKiB totalKiB else mk_percentageUsed m),
      mk_limited = True\<rparr>)"

definition applyCgroupMemory :: "fs \<Rightarrow> SyStats \<Rightarrow> memoryKiB \<Rightarrow> memoryKiB go" where
  "applyCgroupMemory f systats m =
    (if \<not> ContainerAware systats then Ok m
     else
       (let version = detectCgroupVersion f (CgroupRootPath systats) in
        case resolveCgroupControllerPath f systats version ''memory'' of
          None \<Rightarrow> Ok m
        | Some dir \<Rightarrow>
            go_bind (readCgroupMemoryBytes f version dir) (\<lambda>r. case r of
              Inl e \<Rightarrow> Ok m
            | Inr (limitBytes, limited, usedBytes) \<Rightarrow>
                if \<not> limited then Ok m else Ok (cgroup_memory m limitBytes usedBytes))))"

section \<open>GetMemory\<close>

record Memory =
  mem_PercentageUsed :: f64
  mem_Available :: f64
  mem_Free :: f64
  mem_Used :: f64
  mem_Time :: int
  mem_Total :: f64
  mem_Unit :: unit_name
  mem_Limited :: bool

definition Memory_zero :: "unit_name \<Rightarrow> Memory" where
  "Memory_zero u = \<lparr>mem_PercentageUsed = f64_zero, mem_Available = f64_zero, mem_Free = f64_zero,
     mem_Used = f64_zero, mem_Time = 0, mem_Total = f64_zero, mem_Unit = u, mem_Limited = False\<rparr>"

definition getMemory :: "fs \<Rightarrow> int \<Rightarrow> SyStats \<Rightarrow> unit_name \<Rightarrow> (Memory \<times> error option) go" where
  "getMemory f now systats u =
    (let output = Memory_zero u in
     case kibConverter u of
       Inl e \<Rightarrow> Ok (output, Some e)
     | Inr convert \<Rightarrow>
         (case ReadFileWithError f (MeminfoPath systats) of
            Inl e \<Rightarrow> Ok (output, Some e)
          | Inr meminfoStr \<Rightarrow>
              go_bind (parseMeminfo meminfoStr) (\<lambda>m0.
              go_bind (applyCgroupMemory f systats m0) (\<lambda>m.
                Ok (\<lparr>mem_PercentageUsed = mk_percentageUsed m,
                     mem_Available = convert (mk_available m),
                     mem_Free = convert (mk_free m),
                     mem_Used = convert (mk_used m),
                     mem_Time = now,
                     mem_Total = convert (mk_total m),
                     mem_Unit = u,
                     mem_Limited = mk_limited m\<rparr>, None)))))"

definition GetMemory :: "fs \<Rightarrow> int \<Rightarrow> SyStats \<Rightarrow> unit_name \<Rightarrow> Memory \<times> error option" where
  "GetMemory f now systats u = withRecover (Memory_zero []) (getMemory f now systats u)"

section \<open>Swap\<close>

record Swap =
  sw_PercentageUsed :: f64
  sw_Free :: f64
  sw_Used :: f64
  sw_Time :: int
  sw_Total :: f64
  sw_Unit :: unit_name

definition Swap_zero :: "unit_name \<Rightarrow> Swap" where
  "Swap_zero u = \<lparr>sw_PercentageUsed = f64_zero, sw_Free = f64_zero, sw_Used = f64_zero, sw_Time = 0,
     sw_Total = f64_zero, sw_Unit = u\<rparr>"

definition swap_line :: "u64 \<times> u64 \<Rightarrow> string \<Rightarrow> (u64 \<times> u64) go" where
  "swap_line acc line = (case acc of (totalKiB, freeKiB) \<Rightarrow>
    let lineArr = Fields line in
    if lineArr = [] then Ok acc
    else if lineArr ! 0 = ''SwapTotal:'' then
      go_bind (field_u64 lineArr 1) (\<lambda>v. Ok (v, freeKiB))
    else if lineArr ! 0 = ''SwapFree:'' then
      go_bind (field_u64 lineArr 1) (\<lambda>v. Ok (totalKiB, v))
    else Ok acc)"

definition parseSwapMeminfo :: "string \<Rightarrow> (u64 \<times> u64) go" where
  "parseSwapMeminfo content = range_loop swap_line (0, 0) (lines content)"

definition getSwap :: "fs \<Rightarrow> int \<Rightarrow> SyStats \<Rightarrow> unit_name \<Rightarrow> (Swap \<times> error option) go" where
  "getSwap f now systats u =
    (let output = Swap_zero u in
     case kibConverter u of
       Inl e \<Rightarrow> Ok (output, Some e)
     | Inr convert \<Rightarrow>
         (case ReadFileWithError f (MeminfoPath systats) of
            Inl e \<Rightarrow> Ok (output, Some e)
          | Inr meminfoStr \<Rightarrow>
              go_bind (parseSwapMeminfo meminfoStr) (\<lambda>(totalKiB, freeKiB).
                let usedKiB = (if 0 < totalKiB then totalKiB - freeKiB else 0);
                    pct = (if 0 < totalKiB then share_percent usedKiB totalKiB else f64_zero) in
                Ok (\<lparr>sw_PercentageUsed = pct, sw_Free = convert freeKiB, sw_Used = convert usedKiB,
                     sw_Time = now, sw_Total = convert totalKiB, sw_Unit = u\<rparr>, None))))"

definition GetSwap :: "fs \<Rightarrow> int \<Rightarrow> SyStats \<Rightarrow> unit_name \<Rightarrow> Swap \<times> error option" where
  "GetSwap f now systats u = withRecover (Swap_zero []) (getSwap f now systats u)"

section \<open>Files as the kernel prints them\<close>

text \<open>
  One line of \<open>/proc/meminfo\<close> as the kernel prints it: the key with its colon in a left-aligned label
  field that leaves at least one blank after it, the value right-aligned in a number field, and
  \<open>kB\<close> unless the value is a count of pages; then a file of such lines.
\<close>

type_synonym meminfo_entry = "string \<times> nat \<times> nat \<times> u64 \<times> bool"

fun meminfo_text :: "meminfo_entry \<Rightarrow> string" where
  "meminfo_text (k, lw, vw, v, kb) =
     flush_left lw k @ flush_right vw (show_nat (unat v)) @ (if kb then '' kB'' else [])"

fun meminfo_entry_ok :: "meminfo_entry \<Rightarrow> bool" where
  "meminfo_entry_ok (k, lw, vw, v, kb) \<longleftrightarrow> plain k \<and> k \<noteq> [] \<and> length k < lw"

fun meminfo_pair :: "meminfo_entry \<Rightarrow> string \<times> u64" where
  "meminfo_pair (k, lw, vw, v, kb) = (k, v)"

definition meminfo_file :: "meminfo_entry list \<Rightarrow> string" where
  "meminfo_file es = text_lines (map meminfo_text es)"

text \<open>The value a key has in such a file: its last line, 0 when there is none.\<close>

definition meminfo_value :: "meminfo_entry list \<Rightarrow> string \<Rightarrow> u64" where
  "meminfo_value es = map_u64 (map_of (rev (map meminfo_pair es)))"

lemma meminfo_Fields:
  assumes "meminfo_entry_ok e" and "meminfo_pair e = (k, v)"
  shows "\<exists>us. Fields (meminfo_text e) = k # show_nat (unat v) # us"
  using assms by (cases e rule: meminfo_text.cases) (auto simp: Fields_flush_left plain_eval)

lemma meminfo_text_no_newline: "meminfo_entry_ok e \<Longrightarrow> CHR 0x0A \<notin> set (meminfo_text e)"
proof (cases e rule: meminfo_text.cases)
  case (1 k lw vw v kb)
  assume "meminfo_entry_ok e"
  then have "CHR 0x0A \<notin> set k" "CHR 0x0A \<notin> set (show_nat (unat v))"
    using 1 plain_no_space [of _ "CHR 0x0A"] by auto
  then show ?thesis
    using 1 by auto
qed

lemma lines_meminfo_file:
  "list_all meminfo_entry_ok es \<Longrightarrow> lines (meminfo_file es) = map meminfo_text es @ [[]]"
  using meminfo_text_no_newline unfolding meminfo_file_def
  by (intro lines_text_lines) (auto simp: list_all_iff)

text \<open>A line scanner that only looks at the two leading fields of a line, and keeps a view \<open>st\<close> of a
  finite map, reads a kernel file as that map.\<close>

lemma map_u64_empty [simp]: "map_u64 Map.empty = (\<lambda>k. 0)"
  by (simp add: map_u64_def fun_eq_iff)

lemma map_u64_upd: "map_u64 (M(k \<mapsto> v)) = (map_u64 M)(k := v)"
  by (simp add: map_u64_def fun_eq_iff)

lemma map_u64_add: "map_u64 (M ++ N) = (\<lambda>k. case N k of None \<Rightarrow> map_u64 M k | Some v \<Rightarrow> v)"
  by (auto simp: map_u64_def fun_eq_iff map_add_def split: option.splits)

lemma scan_meminfo_file:
  assumes step: "\<And>g k v us line. Fields line = k # show_nat (unat v) # us \<Longrightarrow>
      f (st g) line = Ok (st (g(k := v)))"
    and blank: "\<And>s. f s [] = Ok s"
    and ok: "list_all meminfo_entry_ok es"
  shows "range_loop f (st (\<lambda>k. 0)) (lines (meminfo_file es)) = Ok (st (meminfo_value es))"
proof -
  have "range_loop f (st (map_u64 M)) (map meminfo_text es)
      = Ok (st (map_u64 (M ++ map_of (rev (map meminfo_pair es)))))"
    if "list_all meminfo_entry_ok es" for M using that
  proof (induction es arbitrary: M)
    case (Cons e es)
    obtain k v where kv: "meminfo_pair e = (k, v)" by fastforce
    have ok: "meminfo_entry_ok e" "list_all meminfo_entry_ok es" using Cons.prems by simp_all
    from meminfo_Fields [OF ok(1) kv] obtain us
      where "Fields (meminfo_text e) = k # show_nat (unat v) # us" ..
    from step [OF this] Cons.IH [OF ok(2), of "M(k \<mapsto> v)"] show ?case
      by (simp add: kv map_u64_upd del: fun_upd_apply)
  qed simp
  from this [OF ok, of Map.empty] blank show ?thesis
    by (simp add: lines_meminfo_file [OF ok] meminfo_value_def)
qed

definition meminfo_view :: "(string \<Rightarrow> u64) \<Rightarrow> meminfo_acc" where
  "meminfo_view g = (memoryKiB_zero\<lparr>mk_total := g ''MemTotal:'', mk_free := g ''MemFree:'',
     mk_available := g ''MemAvailable:''\<rparr>, g ''Buffers:'', g ''Cached:'')"

lemma field1_shown [simp]: "field_u64 (k # show_nat (unat v) # us) 1 = Ok v"
  by (simp add: field_u64_def)

text \<open>The body of a scanner loop on a kernel line, as a case distinction on the key.\<close>

lemma meminfo_line_shown:
  assumes "Fields line = k # show_nat (unat v) # us"
  shows "meminfo_line (meminfo_view g) line = Ok (meminfo_view (g(k := v)))"
  unfolding meminfo_line_def assms meminfo_view_def Let_def prod.case
  by (simp only: nth_Cons_0 list.distinct if_False field1_shown go_bind.simps fun_upd_apply)
    (simp split: if_split)

lemma meminfo_scan_file:
  assumes "list_all meminfo_entry_ok es"
  shows "meminfo_scan (meminfo_file es) = Ok (meminfo_view (meminfo_value es))"
proof -
  have "range_loop meminfo_line (meminfo_view (\<lambda>k. 0)) (lines (meminfo_file es))
      = Ok (meminfo_view (meminfo_value es))"
    by (rule scan_meminfo_file [where st = meminfo_view])
      (simp_all add: assms meminfo_line_shown, simp add: meminfo_line_def split: prod.split)
  moreover have "meminfo_view (\<lambda>k. 0) = (memoryKiB_zero, 0, 0)"
    by (simp add: meminfo_view_def memoryKiB_zero_def)
  ultimately show ?thesis by (simp add: meminfo_scan_def)
qed

definition swap_view :: "(string \<Rightarrow> u64) \<Rightarrow> u64 \<times> u64" where
  "swap_view g = (g ''SwapTotal:'', g ''SwapFree:'')"

lemma swap_line_shown:
  assumes "Fields line = k # show_nat (unat v) # us"
  shows "swap_line (swap_view g) line = Ok (swap_view (g(k := v)))"
  unfolding swap_line_def assms swap_view_def Let_def prod.case
  by (simp only: nth_Cons_0 list.distinct if_False field1_shown go_bind.simps fun_upd_apply)
    (simp split: if_split)

lemma parseSwap_file:
  assumes "list_all meminfo_entry_ok es"
  shows "parseSwapMeminfo (meminfo_file es) = Ok (swap_view (meminfo_value es))"
proof -
  have "range_loop swap_line (swap_view (\<lambda>k. 0)) (lines (meminfo_file es)) = Ok (swap_view (meminfo_value es))"
    by (rule scan_meminfo_file [where st = swap_view])
      (simp_all add: assms swap_line_shown, simp add: swap_line_def split: prod.split)
  then show ?thesis by (simp add: parseSwapMeminfo_def swap_view_def)
qed

section \<open>Used memory\<close>

lemma share_percent_bounds:
  assumes "used \<le> tot" and "0 < tot"
  shows "is_fin (share_percent used tot)" and "0 \<le> f64_val (share_percent used tot)"
    and "f64_val (share_percent used tot) \<le> 100"
  unfolding share_percent_def by (rule f64_percent [OF assms])+

lemma working_set_le: "working_set usage inactive \<le> usage"
  by (auto simp: working_set_def word_le_nat_alt word_less_nat_alt unat_sub)

lemma working_set_value:
  "unat (working_set usage inactive)
     = (if unat inactive < unat usage then unat usage - unat inactive else unat usage)"
  by (simp add: working_set_def word_less_nat_alt unat_sub_u64 word_le_nat_alt)

text \<open>What the override promises: a share of the limit, room that adds up.\<close>

definition memory_consistent :: "memoryKiB \<Rightarrow> bool" where
  "memory_consistent m \<longleftrightarrow> mk_free m = mk_available m
     \<and> (mk_used m \<le> mk_total m \<longrightarrow> unat (mk_used m) + unat (mk_available m) = unat (mk_total m))
     \<and> (mk_total m < mk_used m \<longrightarrow> mk_available m = 0)"

lemma cgroup_memory_consistent: "memory_consistent (cgroup_memory m limit used)"
  by (auto simp: memory_consistent_def cgroup_memory_def Let_def unat_sub_u64 word_le_nat_alt
      word_less_nat_alt not_less)

section \<open>Which files panic\<close>

definition meminfo_keys :: "string list" where
  "meminfo_keys = [''MemTotal:'', ''MemFree:'', ''MemAvailable:'', ''Buffers:'', ''Cached:'']"

text \<open>A line with one of the keys whose value is missing or is not an unsigned integer.\<close>

definition bad_meminfo_line :: "string \<Rightarrow> bool" where
  "bad_meminfo_line line = (let fs = Fields line in
     fs \<noteq> [] \<and> fs ! 0 \<in> set meminfo_keys \<and> (length fs < 2 \<or> parse_u64 (fs ! 1) = None))"

lemma field1_u64_panics:
  "(\<exists>p. field_u64 fs (Suc 0) = Panic p) \<longleftrightarrow> length fs < 2 \<or> parse_u64 (fs ! 1) = None"
proof (cases "length fs < 2")
  case False
  then show ?thesis
    by (auto simp: field_u64_def ToUint64_def parse_u64_def split: prod.splits option.splits)
qed (simp add: field_u64_def)

lemma go_bind_Ok_panics: "(\<exists>p. go_bind m (\<lambda>v. Ok (h v)) = Panic p) \<longleftrightarrow> (\<exists>p. m = Panic p)"
  by (cases m) auto

lemma meminfo_line_panics: "(\<exists>p. meminfo_line acc line = Panic p) \<longleftrightarrow> bad_meminfo_line line"
  by (cases acc) (auto simp: meminfo_line_def bad_meminfo_line_def meminfo_keys_def Let_def
      go_bind_Ok_panics field1_u64_panics)

lemma meminfo_scan_panics:
  "(\<exists>p. meminfo_scan content = Panic p) \<longleftrightarrow> (\<exists>line \<in> set (lines content). bad_meminfo_line line)"
  unfolding meminfo_scan_def by (rule range_loop_panics_iff [OF meminfo_line_panics])

lemma parseMeminfo_panics:
  "(\<exists>p. parseMeminfo content = Panic p) \<longleftrightarrow> (\<exists>line \<in> set (lines content). bad_meminfo_line line)"
  unfolding parseMeminfo_def go_bind_Ok_panics by (rule meminfo_scan_panics)

text \<open>A counter file that is there and is not a number, and the cgroup whose override panics on one.\<close>

definition bad_counter :: "fs \<Rightarrow> string \<Rightarrow> bool" where
  "bad_counter f p \<longleftrightarrow> IsFile f p \<and> parse_u64 (TrimSpace (ReadFile f p)) = None"

definition bad_memory_files :: "fs \<Rightarrow> cgroupVersion \<Rightarrow> string \<Rightarrow> bool" where
  "bad_memory_files f version dir = (case version of
     cgroupV2 \<Rightarrow> let limit = path_Join [dir, ''memory.max''] in
       bad_counter f limit \<and> TrimSpace (ReadFile f limit) \<noteq> ''max''
       \<or> IsFile f limit \<and> bad_counter f (path_Join [dir, ''memory.current''])
   | cgroupV1 \<Rightarrow> let limit = path_Join [dir, ''memory.limit_in_bytes''] in
       bad_counter f limit \<or> IsFile f limit \<and> bad_counter f (path_Join [dir, ''memory.usage_in_bytes''])
   | cgroupNone \<Rightarrow> False)"

definition bad_cgroup_memory :: "fs \<Rightarrow> SyStats \<Rightarrow> bool" where
  "bad_cgroup_memory f s =
    (let version = detectCgroupVersion f (CgroupRootPath s) in
     case resolveCgroupControllerPath f s version ''memory'' of
       None \<Rightarrow> False | Some dir \<Rightarrow> bad_memory_files f version dir)"

lemma ToUint64_cases: "ToUint64 x = (case parse_u64 x of Some v \<Rightarrow> Ok v | None \<Rightarrow> Panic (PanicErr
    (NumError ''ParseUint'' x (the (snd (ParseUint x))))))"
  by (auto simp: ToUint64_def parse_u64_def split: prod.splits option.splits)

lemma readCgroupMemoryBytes_panics:
  "(\<exists>p. readCgroupMemoryBytes f version dir = Panic p) \<longleftrightarrow> bad_memory_files f version dir"
  by (cases version) (auto simp: readCgroupMemoryBytes_def readCgroupMemoryLimit_def readCgroupMemoryUsage_def
      ReadFileWithError_def bad_counter_def bad_memory_files_def ToUint64_cases Let_def split: option.split)

lemma applyCgroupMemory_panics:
  "(\<exists>p. applyCgroupMemory f s m = Panic p) \<longleftrightarrow> ContainerAware s \<and> bad_cgroup_memory f s"
proof (cases "resolveCgroupControllerPath f s (detectCgroupVersion f (CgroupRootPath s)) ''memory''")
  case (Some dir)
  then show ?thesis
    using readCgroupMemoryBytes_panics [of f "detectCgroupVersion f (CgroupRootPath s)" dir]
    by (cases "readCgroupMemoryBytes f (detectCgroupVersion f (CgroupRootPath s)) dir")
      (auto simp: applyCgroupMemory_def bad_cgroup_memory_def Let_def split: sum.split)
qed (simp add: applyCgroupMemory_def bad_cgroup_memory_def Let_def)

section \<open>Properties\<close>

text \<open>
  C5: on a /proc/meminfo as the kernel prints it (any keys in any order, padded to their columns, with
  or without kB, every line ended by a line feed) whose free, buffer and cache figures fit in the
  total, parseMeminfo returns the file's figures, used memory is the exact difference, and the
  percentage is a finite double between 0 and 100.
\<close>

theorem parseMeminfo_kernel_file:
  assumes ok: "list_all meminfo_entry_ok es" and g: "g = meminfo_value es" and pos: "0 < g ''MemTotal:''"
    and fit: "unat (g ''MemFree:'') + unat (g ''Buffers:'') + unat (g ''Cached:'')
      \<le> unat (g ''MemTotal:'')"
  shows "\<exists>m. parseMeminfo (meminfo_file es) = Ok m \<and> mk_total m = g ''MemTotal:''
      \<and> mk_free m = g ''MemFree:'' \<and> mk_available m = g ''MemAvailable:'' \<and> \<not> mk_limited m
      \<and> unat (mk_used m) = unat (g ''MemTotal:'')
          - (unat (g ''MemFree:'') + unat (g ''Buffers:'') + unat (g ''Cached:''))
      \<and> is_fin (mk_percentageUsed m) \<and> 0 \<le> f64_val (mk_percentageUsed m)
      \<and> f64_val (mk_percentageUsed m) \<le> 100"
proof -
  let ?s = "g ''MemFree:'' + g ''Buffers:'' + g ''Cached:''"
  have s: "unat ?s = unat (g ''MemFree:'') + unat (g ''Buffers:'') + unat (g ''Cached:'')"
    using fit le_less_trans [OF fit unat_u64_less] by (intro unat_sum3) simp
  with fit have le: "?s \<le> g ''MemTotal:''" by (simp add: word_le_nat_alt)
  then have u: "g ''MemTotal:'' - ?s \<le> g ''MemTotal:''"
    by (simp add: word_le_nat_alt unat_sub_u64)
  show ?thesis
    using share_percent_bounds [OF u pos] pos s unat_sub_u64 [OF le]
    by (simp add: parseMeminfo_def meminfo_scan_file [OF ok] g [symmetric] meminfo_finish_def
        meminfo_view_def memoryKiB_zero_def Let_def)
qed

text \<open>Lines of a real file, in the kernel's columns.\<close>

definition sample_meminfo :: "meminfo_entry list" where
  "sample_meminfo = [(''MemTotal:'', 16, 8, 16315340, True), (''MemFree:'', 16, 8, 3829260, True),
     (''MemAvailable:'', 16, 8, 8018336, True), (''Buffers:'', 16, 8, 591116, True),
     (''Cached:'', 16, 8, 3155264, True), (''SwapCached:'', 16, 8, 0, True),
     (''VmallocTotal:'', 16, 8, 34359738367, True), (''HardwareCorrupted:'', 19, 5, 0, True),
     (''HugePages_Total:'', 19, 5, 0, False)]"

lemma sample_meminfo_text:
  "lines (meminfo_file sample_meminfo) =
     [''MemTotal:       16315340 kB'', ''MemFree:         3829260 kB'', ''MemAvailable:    8018336 kB'',
      ''Buffers:          591116 kB'', ''Cached:          3155264 kB'', ''SwapCached:            0 kB'',
      ''VmallocTotal:   34359738367 kB'', ''HardwareCorrupted:     0 kB'', ''HugePages_Total:       0'', []]"
  by code_simp

theorem parseMeminfo_kernel_file_witness:
  "\<exists>m. parseMeminfo (meminfo_file sample_meminfo) = Ok m \<and> mk_total m = 16315340
     \<and> mk_available m = 8018336 \<and> unat (mk_used m) = 8739700"
proof -
  have ok: "list_all meminfo_entry_ok sample_meminfo" by code_simp
  have v: "meminfo_value sample_meminfo ''MemTotal:'' = 16315340"
    "meminfo_value sample_meminfo ''MemFree:'' = 3829260"
    "meminfo_value sample_meminfo ''MemAvailable:'' = 8018336"
    "meminfo_value sample_meminfo ''Buffers:'' = 591116"
    "meminfo_value sample_meminfo ''Cached:'' = 3155264"
    by (simp_all add: meminfo_value_def sample_meminfo_def map_u64_def)
  show ?thesis using parseMeminfo_kernel_file [OF ok refl] unfolding v by auto
qed

text \<open>
  C18: the override by the process's own cgroup either leaves the host figures alone, or runs only for
  a container-aware configuration whose resolved memory controller reports a real limit; then total
  and used are the cgroup's limit and working set in KiB, the view is flagged as limited, and free and
  available are exactly what is left of the limit (nothing when usage exceeds it).
\<close>

theorem applyCgroupMemory_effect:
  assumes "applyCgroupMemory f systats m = Ok m'" and "m' \<noteq> m"
  shows "ContainerAware systats \<and> mk_limited m' \<and> memory_consistent m'
    \<and> (\<exists>dir limit used. resolveCgroupControllerPath f systats
            (detectCgroupVersion f (CgroupRootPath systats)) ''memory'' = Some dir
          \<and> readCgroupMemoryBytes f (detectCgroupVersion f (CgroupRootPath systats)) dir
            = Ok (Inr (limit, True, used))
          \<and> mk_total m' = limit div 1024 \<and> mk_used m' = used div 1024)"
proof -
  let ?v = "detectCgroupVersion f (CgroupRootPath systats)"
  have "ContainerAware systats" 
    using assms by (cases "ContainerAware systats") (simp_all add: applyCgroupMemory_def)
  with assms obtain dir where d: "resolveCgroupControllerPath f systats ?v ''memory'' = Some dir"
    by (auto simp: applyCgroupMemory_def Let_def split: option.splits)
  with assms \<open>ContainerAware systats\<close> obtain r where r: "readCgroupMemoryBytes f ?v dir = Ok r"
    by (cases "readCgroupMemoryBytes f ?v dir") (auto simp: applyCgroupMemory_def Let_def)
  with assms d \<open>ContainerAware systats\<close> obtain limit used where
    "readCgroupMemoryBytes f ?v dir = Ok (Inr (limit, True, used))" "m' = cgroup_memory m limit used"
    by (cases r) (auto simp: applyCgroupMemory_def Let_def split: if_splits)
  with d \<open>ContainerAware systats\<close>
  show ?thesis using cgroup_memory_consistent [of m limit used]
    by (auto simp: cgroup_memory_def Let_def)
qed

theorem applyCgroupMemory_effect_witness:
  "memory_consistent (cgroup_memory memoryKiB_zero 10485760 4194304)
    \<and> mk_total (cgroup_memory memoryKiB_zero 10485760 4194304) = 10240"
proof -
  let ?f = "files_fs [(''/c/cgroup.controllers'', ''memory''), (''/c/memory.max'', ''10485760''),
    (''/c/memory.current'', ''4194304''), (''/self'', ''0::/'')]"
  let ?s = "New\<lparr>ContainerAware := True, CgroupRootPath := ''/c'', SelfCgroupPath := ''/self''\<rparr>"
  have v: "detectCgroupVersion ?f (CgroupRootPath ?s) = cgroupV2" by code_simp
  have d: "resolveCgroupControllerPath ?f ?s cgroupV2 ''memory'' = Some ''/c''" by code_simp
  have r: "readCgroupMemoryBytes ?f cgroupV2 ''/c'' = Ok (Inr (10485760, True, 4194304))" by code_simp
  have "applyCgroupMemory ?f ?s memoryKiB_zero
      = Ok (cgroup_memory memoryKiB_zero 10485760 4194304)"
    unfolding applyCgroupMemory_def Let_def v d option.case r by simp
  moreover have "cgroup_memory memoryKiB_zero 10485760 4194304 \<noteq> memoryKiB_zero"
    by (simp add: cgroup_memory_def Let_def memoryKiB_zero_def)
  ultimately have "memory_consistent (cgroup_memory memoryKiB_zero 10485760 4194304)"
    using applyCgroupMemory_effect by blast
  then show ?thesis by (simp add: cgroup_memory_def Let_def)
qed

text \<open>
  C20: every outcome of GetMemory. An unsupported unit is refused before any file is read, and a meminfo
  file that is not there is reported by name, both beside a Memory of the unit asked for. Otherwise
  the call fails exactly when the parsing panics, which the recovery boundary turns into an error
  beside a zero Memory: on a meminfo line with a recognised key and a missing or malformed value, or,
  container-aware, on a memory limit or usage file of the resolved cgroup that is there and is not a
  number. In every other case it succeeds, with the figures of the parsed file, overridden by the
  cgroup, converted to the unit.
\<close>

theorem GetMemory_errors:
  "case kibConverter u of
     Inl e \<Rightarrow> GetMemory f now s u = (Memory_zero u, Some e)
   | Inr c \<Rightarrow>
       (if \<not> IsFile f (MeminfoPath s) then
          GetMemory f now s u = (Memory_zero u, Some (file_not_found (MeminfoPath s)))
        else if (\<exists>line \<in> set (lines (ReadFile f (MeminfoPath s))). bad_meminfo_line line)
            \<or> ContainerAware s \<and> bad_cgroup_memory f s then
          \<exists>p. GetMemory f now s u = (Memory_zero [], Some (Recovered p))
        else \<exists>m0 m. parseMeminfo (ReadFile f (MeminfoPath s)) = Ok m0 \<and> applyCgroupMemory f s m0 = Ok m
          \<and> GetMemory f now s u = (\<lparr>mem_PercentageUsed = mk_percentageUsed m,
              mem_Available = c (mk_available m), mem_Free = c (mk_free m), mem_Used = c (mk_used m),
              mem_Time = now, mem_Total = c (mk_total m), mem_Unit = u, mem_Limited = mk_limited m\<rparr>, None))"
proof (cases "\<exists>c. kibConverter u = Inr c \<and> IsFile f (MeminfoPath s)")
  case True
  then obtain c where c: "kibConverter u = Inr c" "IsFile f (MeminfoPath s)" by blast
  show ?thesis
  proof (cases "parseMeminfo (ReadFile f (MeminfoPath s))")
    case (Ok m0)
    then have l: "\<not> (\<exists>line \<in> set (lines (ReadFile f (MeminfoPath s))). bad_meminfo_line line)"
      using parseMeminfo_panics [of "ReadFile f (MeminfoPath s)"] by simp
    show ?thesis using c Ok l applyCgroupMemory_panics [of f s m0]
      by (cases "applyCgroupMemory f s m0")
        (simp_all add: GetMemory_def getMemory_def ReadFileWithError_def)
  next
    case (Panic p)
    then show ?thesis using c parseMeminfo_panics [of "ReadFile f (MeminfoPath s)"]
      by (simp add: GetMemory_def getMemory_def ReadFileWithError_def)
  qed
qed (auto simp: GetMemory_def getMemory_def ReadFileWithError_def split: sum.split)

theorem GetMemory_errors_witness:
  "\<exists>f s p. GetMemory f 0 s ''MB'' = (Memory_zero [], Some (Recovered p))
     \<and> (\<forall>line. line \<notin> set (lines (ReadFile f (MeminfoPath s))) \<or> \<not> bad_meminfo_line line)"
proof -
  let ?f = "files_fs [(''/c/cgroup.controllers'', ''memory''), (''/c/memory.max'', ''1024''),
    (''/c/memory.current'', ''x''), (''/m'', ''MemTotal: 7 kB''), (''/self'', ''0::/'')]"
  let ?s = "New\<lparr>ContainerAware := True, CgroupRootPath := ''/c'', SelfCgroupPath := ''/self'',
    MeminfoPath := ''/m''\<rparr>"
  have "kibConverter ''MB'' = Inr KibToMB" by (simp add: kibConverter_def unit_defs)
  moreover have c: "IsFile ?f (MeminfoPath ?s)" "ContainerAware ?s" "bad_cgroup_memory ?f ?s"
    "list_all (\<lambda>line. \<not> bad_meminfo_line line) (lines (ReadFile ?f (MeminfoPath ?s)))"
    by code_simp+
  ultimately have "\<exists>p. GetMemory ?f 0 ?s ''MB'' = (Memory_zero [], Some (Recovered p))"
    using GetMemory_errors [of ?f 0 ?s "''MB''"]
    by (simp only: sum.case if_True if_False not_True_eq_False simp_thms)
  then show ?thesis using c(4) unfolding list_all_iff by blast
qed

text \<open>
  C35: a memory.max file that exists but cannot be read makes the override panic (the reader turns
  the failed read into an empty string, which is not a number), so that GetMemory fails as a whole
  instead of keeping the host-wide figures.
\<close>

theorem unreadable_limit_fails:
  assumes "ContainerAware s" and "IsFile f (MeminfoPath s)" and "kibConverter u = Inr c"
    and "parseMeminfo (ReadFile f (MeminfoPath s)) = Ok m"
    and "detectCgroupVersion f (CgroupRootPath s) = cgroupV2"
    and "resolveCgroupControllerPath f s cgroupV2 ''memory'' = Some dir"
    and "IsFile f (path_Join [dir, ''memory.max''])"
    and "fs_read f (path_Join [dir, ''memory.max'']) = None"
  shows "\<exists>p. GetMemory f now s u = (Memory_zero [], Some (Recovered p))"
proof -
  have "ToUint64 [] = Panic (PanicErr (NumError ''ParseUint'' [] ErrSyntax))"
    by (simp add: ToUint64_def ParseUint_def parse_uint_nat_def)
  moreover have "ReadFile f (path_Join [dir, ''memory.max'']) = []"
    using assms by (simp add: ReadFile_def)
  moreover have "TrimSpace [] = []" by simp
  ultimately have "readCgroupMemoryLimit f cgroupV2 dir
      = Panic (PanicErr (NumError ''ParseUint'' [] ErrSyntax))"
    using assms by (simp add: readCgroupMemoryLimit_def ReadFileWithError_def)
  with assms show ?thesis
    by (simp add: GetMemory_def getMemory_def ReadFileWithError_def applyCgroupMemory_def Let_def
        readCgroupMemoryBytes_def)
qed

theorem unreadable_limit_fails_witness:
  "\<exists>f s p. GetMemory f 0 s ''MB'' = (Memory_zero [], Some (Recovered p))
     \<and> parseMeminfo (ReadFile f (MeminfoPath s)) = Ok memoryKiB_zero"
proof -
  let ?f0 = "files_fs [(''/c/cgroup.controllers'', ''memory''), (''/c/memory.max'', ''1''),
    (''/m'', []), (''/self'', ''0::/'')]"
  let ?f = "?f0\<lparr>fs_read := (fs_read ?f0)(''/c/memory.max'' := None)\<rparr>"
  let ?s = "New\<lparr>ContainerAware := True, CgroupRootPath := ''/c'', SelfCgroupPath := ''/self'',
    MeminfoPath := ''/m''\<rparr>"
  have u: "kibConverter ''MB'' = Inr KibToMB" by (simp add: kibConverter_def unit_defs)
  have h: "ContainerAware ?s" "IsFile ?f (MeminfoPath ?s)"
    "IsFile ?f (path_Join [''/c'', ''memory.max''])"
    "fs_read ?f (path_Join [''/c'', ''memory.max'']) = None"
    "detectCgroupVersion ?f (CgroupRootPath ?s) = cgroupV2"
    "resolveCgroupControllerPath ?f ?s cgroupV2 ''memory'' = Some ''/c''"
    by code_simp+
  have m: "parseMeminfo (ReadFile ?f (MeminfoPath ?s)) = Ok memoryKiB_zero"
    by (simp add: ReadFile_def files_fs_def parseMeminfo_def meminfo_scan_def meminfo_line_def
        meminfo_finish_def memoryKiB_zero_def)
  have "\<exists>p. GetMemory ?f 0 ?s ''MB'' = (Memory_zero [], Some (Recovered p))"
    by (rule unreadable_limit_fails [OF h(1,2) u m h(5,6,3,4)])
  with m show ?thesis by blast
qed

end
