(* ===== verification/Cpu.thy ===== *)
theory Cpu
  imports Memory
begin

text \<open>
  \<open>cpu.go\<close>: utilisation from two samples of \<open>/proc/stat\<close>, the override by the process's own cgroup CPU
  quota, and the descriptive fields and core counts of \<open>/proc/cpuinfo\<close>. A nil \<open>CoreAvg\<close> is the empty
  list. \<open>oor\<close> is what the platform makes of a float-to-int conversion that is out of range, which Go
  leaves to the implementation.
\<close>

record CPU =
  cpu_LoadAvg :: int
  cpu_CoreAvg :: "int list"
  cpu_Load1 :: f64
  cpu_Load5 :: f64
  cpu_Load15 :: f64
  cpu_Model :: string
  cpu_NoOfCores :: int
  cpu_PhysicalCores :: int
  cpu_Sockets :: int
  cpu_Freq :: string
  cpu_Cache :: string
  cpu_Time :: int
  cpu_Limited :: bool
  cpu_AllocatedCores :: f64

definition CPU_zero :: CPU where
  "CPU_zero = \<lparr>cpu_LoadAvg = 0, cpu_CoreAvg = [], cpu_Load1 = f64_zero, cpu_Load5 = f64_zero,
     cpu_Load15 = f64_zero, cpu_Model = [], cpu_NoOfCores = 0, cpu_PhysicalCores = 0,
     cpu_Sockets = 0, cpu_Freq = [], cpu_Cache = [], cpu_Time = 0, cpu_Limited = False,
     cpu_AllocatedCores = f64_zero\<rparr>"

section \<open>/proc/stat\<close>

text \<open>User, system and idle jiffies of one line.\<close>

type_synonym stat_row = "u64 \<times> u64 \<times> u64"

definition stat_line :: "stat_row list \<Rightarrow> string \<Rightarrow> stat_row list go" where
  "stat_line output line =
    (let lineArr = Fields line in
     if lineArr \<noteq> [] \<and> HasPrefix (lineArr ! 0) ''cpu'' then
       go_bind (field_u64 lineArr 1) (\<lambda>user.
       go_bind (field_u64 lineArr 3) (\<lambda>system.
       go_bind (field_u64 lineArr 4) (\<lambda>idle.
         Ok (output @ [(user, system, idle)]))))
     else Ok output)"

definition processStatFile :: "string \<Rightarrow> stat_row list go" where
  "processStatFile content = range_loop stat_line [] (lines content)"

text \<open>The loop body for row \<open>i\<close>; \<open>int(usage)\<close> reads the word as signed.\<close>

definition stat_step :: "stat_row list \<Rightarrow> stat_row list \<Rightarrow> CPU \<Rightarrow> nat \<Rightarrow> CPU go" where
  "stat_step statArr1 statArr2 output i =
    go_bind (index_go statArr1 i) (\<lambda>(u1, s1, i1).
    go_bind (index_go statArr2 i) (\<lambda>(u2, s2, i2).
      let a1 = u1 + s1; a2 = u1 + s1 + i1; b = u2 + s2 + i2 - a2 in
      if 0 < b then
        (let usage = 100 * (u2 + s2 - a1) div b in
         if i = 0 then Ok (output\<lparr>cpu_LoadAvg := sint usage\<rparr>)
         else Ok (output\<lparr>cpu_CoreAvg := cpu_CoreAvg output @ [sint usage]\<rparr>))
      else Ok (output\<lparr>cpu_CoreAvg := cpu_CoreAvg output @ [0]\<rparr>)))"

definition processStatFileContents :: "CPU \<Rightarrow> string \<Rightarrow> string \<Rightarrow> CPU go" where
  "processStatFileContents output statStr1 statStr2 =
    go_bind (processStatFile statStr1) (\<lambda>statArr1.
    go_bind (processStatFile statStr2) (\<lambda>statArr2.
      range_loop (stat_step statArr1 statArr2) output [0..<length statArr1]))"

section \<open>The cgroup quota\<close>

record cgroupCPUInfo =
  cc_ok :: bool
  cc_limited :: bool
  cc_cores :: f64
  cc_version :: cgroupVersion
  cc_usageDir :: string

definition cgroupCPUInfo_zero :: cgroupCPUInfo where
  "cgroupCPUInfo_zero = \<lparr>cc_ok = False, cc_limited = False, cc_cores = f64_zero,
     cc_version = cgroupNone, cc_usageDir = []\<rparr>"

text \<open>\<open>(cores, limited)\<close>.\<close>

definition readCgroupCPUQuota ::
    "fs \<Rightarrow> cgroupVersion \<Rightarrow> string \<Rightarrow> (error + f64 \<times> bool) go" where
  "readCgroupCPUQuota f version dir =
    (case version of
       cgroupV2 \<Rightarrow>
         (case ReadFileWithError f (path_Join [dir, ''cpu.max'']) of
            Inl e \<Rightarrow> Ok (Inl e)
          | Inr content \<Rightarrow>
              let fields = Fields content in
              if length fields < 2 then Ok (Inl (ErrorString ''unexpected cpu.max format''))
              else if fields ! 0 = ''max'' then Ok (Inr (f64_zero, False))
              else go_bind (ToFloat64 (fields ! 1)) (\<lambda>period.
                if f64_le period f64_zero then Ok (Inr (f64_zero, False))
                else go_bind (ToFloat64 (fields ! 0)) (\<lambda>quota.
                  Ok (Inr (f64_div quota period, True)))))
     | cgroupV1 \<Rightarrow>
         (case ReadFileWithError f (path_Join [dir, ''cpu.cfs_quota_us'']) of
            Inl e \<Rightarrow> Ok (Inl e)
          | Inr quotaContent \<Rightarrow>
              (case ParseInt (TrimSpace quotaContent) of
                 (v, Some c) \<Rightarrow>
                   Ok (Inl (NumErr (NumError ''ParseInt'' (TrimSpace quotaContent) c)))
               | (quota, None) \<Rightarrow>
                   if quota \<le> 0 then Ok (Inr (f64_zero, False))
                   else (case ReadFileWithError f (path_Join [dir, ''cpu.cfs_period_us'']) of
                       Inl e \<Rightarrow> Ok (Inl e)
                     | Inr periodContent \<Rightarrow>
                         go_bind (ToFloat64 (TrimSpace periodContent)) (\<lambda>period.
                           if f64_le period f64_zero then Ok (Inr (f64_zero, False))
                           else Ok (Inr (f64_div (f64_of_int quota) period, True))))))
     | cgroupNone \<Rightarrow> Ok (Inl unknown_version))"

text \<open>\<open>(quotaDir, usageDir)\<close>, \<open>None\<close> where the code returns the zero info.\<close>

definition cgroupCPUDirs :: "fs \<Rightarrow> SyStats \<Rightarrow> cgroupVersion \<Rightarrow> (string \<times> string) option" where
  "cgroupCPUDirs f systats version =
    (if version = cgroupV2 then
       map_option (\<lambda>dir. (dir, dir)) (resolveCgroupControllerPath f systats version [])
     else (case (resolveCgroupControllerPath f systats version ''cpu'',
                 resolveCgroupControllerPath f systats version ''cpuacct'') of
         (Some cpuDir, Some cpuacctDir) \<Rightarrow> Some (cpuDir, cpuacctDir)
       | _ \<Rightarrow> None))"

definition resolveCgroupCPU :: "fs \<Rightarrow> SyStats \<Rightarrow> cgroupCPUInfo go" where
  "resolveCgroupCPU f systats =
    (let version = detectCgroupVersion f (CgroupRootPath systats) in
     if version = cgroupNone then Ok cgroupCPUInfo_zero
     else (case cgroupCPUDirs f systats version of
         None \<Rightarrow> Ok cgroupCPUInfo_zero
       | Some (quotaDir, usageDir) \<Rightarrow>
           go_bind (readCgroupCPUQuota f version quotaDir) (\<lambda>r. case r of
             Inl e \<Rightarrow> Ok cgroupCPUInfo_zero
           | Inr (cores, limited) \<Rightarrow>
               Ok \<lparr>cc_ok = True, cc_limited = limited, cc_cores = cores, cc_version = version,
                   cc_usageDir = usageDir\<rparr>)))"

text \<open>The first \<open>usage_usec\<close> line with exactly two fields decides, even when its value is bad.\<close>

fun find_usage_usec :: "string list \<Rightarrow> u64 option" where
  "find_usage_usec [] = None"
| "find_usage_usec (line # rest) =
     (let fields = Fields line in
      if length fields = 2 \<and> fields ! 0 = ''usage_usec'' then parse_u64 (fields ! 1)
      else find_usage_usec rest)"

definition parseCPUStatUsageUsec :: "string \<Rightarrow> u64 option" where
  "parseCPUStatUsageUsec content = find_usage_usec (lines content)"

text \<open>\<open>None\<close> is \<open>(0, false)\<close>.\<close>

definition sampleCgroupCPUUsageSeconds :: "fs \<Rightarrow> cgroupCPUInfo \<Rightarrow> f64 option go" where
  "sampleCgroupCPUUsageSeconds f info =
    (if \<not> cc_ok info then Ok None
     else case cc_version info of
       cgroupV2 \<Rightarrow>
         (case ReadFileWithError f (path_Join [cc_usageDir info, ''cpu.stat'']) of
            Inl e \<Rightarrow> Ok None
          | Inr content \<Rightarrow> Ok (map_option (\<lambda>usec. f64_div (f64_of_u64 usec) (f64_const 1000000))
              (parseCPUStatUsageUsec content)))
     | cgroupV1 \<Rightarrow>
         (case ReadFileWithError f (path_Join [cc_usageDir info, ''cpuacct.usage'']) of
            Inl e \<Rightarrow> Ok None
          | Inr content \<Rightarrow> go_bind (ToUint64 (TrimSpace content)) (\<lambda>v.
              Ok (Some (f64_div (f64_of_u64 v) (f64_const 1000000000)))))
     | cgroupNone \<Rightarrow> Ok None)"

text \<open>The samples are \<open>None\<close> where the code has \<open>ok == false\<close>.\<close>

definition applyCgroupCPU ::
    "(f64 \<Rightarrow> int) \<Rightarrow> CPU \<Rightarrow> cgroupCPUInfo \<Rightarrow> f64 option \<Rightarrow> f64 option \<Rightarrow> f64 \<Rightarrow> CPU" where
  "applyCgroupCPU oor output0 info sample1 sample2 elapsedSeconds =
    (if \<not> cc_ok info then output0
     else
       (let output = output0\<lparr>cpu_Limited := cc_limited info, cpu_AllocatedCores := cc_cores info\<rparr> in
        case (sample1, sample2) of
          (Some usage1, Some usage2) \<Rightarrow>
            if \<not> cc_limited info \<or> f64_le elapsedSeconds f64_zero then output
            else
              (let coresUsed = f64_div (f64_sub usage2 usage1) elapsedSeconds in
               output\<lparr>cpu_LoadAvg :=
                   int_of_f64 oor (f64_div (f64_mul (f64_const 100) coresUsed) (cc_cores info)),
                 cpu_CoreAvg := []\<rparr>)
        | _ \<Rightarrow> output))"

section \<open>/proc/loadavg and /proc/cpuinfo\<close>

definition processLoadAvgFileContent :: "CPU \<Rightarrow> string \<Rightarrow> (CPU \<times> error option) go" where
  "processLoadAvgFileContent output content =
    (let fields = Fields content in
     if length fields < 3 then Ok (output, Some (ErrorString ''unexpected loadavg format''))
     else
       go_bind (ToFloat64 (fields ! 0)) (\<lambda>l1.
       go_bind (ToFloat64 (fields ! 1)) (\<lambda>l5.
       go_bind (ToFloat64 (fields ! 2)) (\<lambda>l15.
         Ok (output\<lparr>cpu_Load1 := l1, cpu_Load5 := l5, cpu_Load15 := l15\<rparr>, None)))))"

text \<open>The fields from the fourth on, joined by blanks.\<close>

definition cpuinfo_words :: "string list \<Rightarrow> string" where
  "cpuinfo_words lineArr = TrimSpace (concat (map (\<lambda>w. w @ '' '') (drop 3 lineArr)))"

definition cpuinfo_describe :: "CPU \<Rightarrow> string \<Rightarrow> CPU" where
  "cpuinfo_describe output line =
    (let lineArr = Fields line in
     if length lineArr \<le> 3 then output
     else if lineArr ! 0 @ lineArr ! 1 = ''modelname'' then
       output\<lparr>cpu_Model := cpuinfo_words lineArr\<rparr>
     else if lineArr ! 0 @ lineArr ! 1 = ''cpuMHz'' then
       output\<lparr>cpu_Freq := TrimSpace (lineArr ! 3) @ '' MHz''\<rparr>
     else if lineArr ! 0 @ lineArr ! 1 = ''cachesize'' then
       output\<lparr>cpu_Cache := cpuinfo_words lineArr\<rparr>
     else output)"

record cpuTopology =
  ct_logical :: int
  ct_physicalCores :: int
  ct_sockets :: int

text \<open>The closure's variables: the two sets, the counter, and the block being read.\<close>

record topo_state =
  ts_seenCores :: "(string \<times> string) set"
  ts_seenPkgs :: "string set"
  ts_logical :: nat
  ts_pkg :: string
  ts_core :: string
  ts_havePkg :: bool
  ts_haveCore :: bool

definition topo_init :: topo_state where
  "topo_init = \<lparr>ts_seenCores = {}, ts_seenPkgs = {}, ts_logical = 0, ts_pkg = [], ts_core = [],
     ts_havePkg = False, ts_haveCore = False\<rparr>"

definition topo_flush :: "topo_state \<Rightarrow> topo_state" where
  "topo_flush st = st\<lparr>
     ts_seenPkgs := (if ts_havePkg st then insert (ts_pkg st) (ts_seenPkgs st) else ts_seenPkgs st),
     ts_seenCores := (if ts_havePkg st \<and> ts_haveCore st
        then insert (ts_pkg st, ts_core st) (ts_seenCores st) else ts_seenCores st),
     ts_pkg := [], ts_core := [], ts_havePkg := False, ts_haveCore := False\<rparr>"

definition topo_kv :: "topo_state \<Rightarrow> string \<times> string \<Rightarrow> topo_state" where
  "topo_kv st kv = (case kv of (k, v) \<Rightarrow>
    if k = ''processor'' then (topo_flush st)\<lparr>ts_logical := Suc (ts_logical (topo_flush st))\<rparr>
    else if k = ''physical id'' then st\<lparr>ts_pkg := v, ts_havePkg := True\<rparr>
    else if k = ''core id'' then st\<lparr>ts_core := v, ts_haveCore := True\<rparr>
    else st)"

definition topo_line :: "topo_state \<Rightarrow> string \<Rightarrow> topo_state" where
  "topo_line st line = (case Cut colon line of
     None \<Rightarrow> st
   | Some (k, v) \<Rightarrow> topo_kv st (TrimSpace k, TrimSpace v))"

definition topo_result :: "topo_state \<Rightarrow> cpuTopology" where
  "topo_result st =
    (let cores = card (ts_seenCores st); pkgs = card (ts_seenPkgs st); logical = ts_logical st in
     \<lparr>ct_logical = int logical,
      ct_physicalCores = int (if cores = 0 then logical else cores),
      ct_sockets = int (if pkgs = 0 \<and> 0 < logical then 1 else pkgs)\<rparr>)"

definition parseCPUTopology :: "string \<Rightarrow> cpuTopology" where
  "parseCPUTopology content =
    topo_result (topo_flush (foldl topo_line topo_init (lines content)))"

definition processCPUInfoFileContent :: "int \<Rightarrow> CPU \<Rightarrow> string \<Rightarrow> int \<Rightarrow> CPU" where
  "processCPUInfoFileContent now output0 content logicalFallback =
    (let output = foldl cpuinfo_describe output0 (lines content);
         topo0 = parseCPUTopology content;
         topo = (if ct_logical topo0 = 0
           then \<lparr>ct_logical = logicalFallback, ct_physicalCores = logicalFallback, ct_sockets = 1\<rparr>
           else topo0) in
     output\<lparr>cpu_NoOfCores := ct_logical topo, cpu_PhysicalCores := ct_physicalCores topo,
       cpu_Sockets := ct_sockets topo, cpu_Time := now\<rparr>)"

section \<open>getCPU\<close>

text \<open>What follows the two samples: the override, then the descriptive files.\<close>

definition finishCPU ::
    "(f64 \<Rightarrow> int) \<Rightarrow> fs \<Rightarrow> int \<Rightarrow> SyStats \<Rightarrow> CPU \<Rightarrow> cgroupCPUInfo \<Rightarrow> f64 option \<Rightarrow> f64 option
     \<Rightarrow> f64 \<Rightarrow> (CPU \<times> error option) go" where
  "finishCPU oor f now systats output1 cgInfo sample1 sample2 elapsedSeconds =
    (let logicalFromStat = int (length (cpu_CoreAvg output1));
         output2 = (if ContainerAware systats
           then applyCgroupCPU oor output1 cgInfo sample1 sample2 elapsedSeconds else output1) in
     case ReadFileWithError f (CPUinfoFilePath systats) of
       Inl e \<Rightarrow> Ok (output2, Some e)
     | Inr cpuinfoStr \<Rightarrow>
         (let output3 = processCPUInfoFileContent now output2 cpuinfoStr logicalFromStat in
          case ReadFileWithError f (LoadAvgPath systats) of
            Inl e \<Rightarrow> Ok (output3, Some e)
          | Inr loadAvgStr \<Rightarrow> processLoadAvgFileContent output3 loadAvgStr))"

text \<open>\<open>f1\<close> and \<open>f2\<close> are the file system before and after the sleep, \<open>w\<close> how the sleep ended.\<close>

definition getCPU ::
    "(f64 \<Rightarrow> int) \<Rightarrow> fs \<Rightarrow> fs \<Rightarrow> wake \<Rightarrow> f64 \<Rightarrow> int \<Rightarrow> SyStats \<Rightarrow> (CPU \<times> error option) go" where
  "getCPU oor f1 f2 w elapsedSeconds now systats =
    (case ReadFileWithError f1 (StatFilePath systats) of
       Inl e \<Rightarrow> Ok (CPU_zero, Some e)
     | Inr statStr1 \<Rightarrow>
         go_bind (if ContainerAware systats then resolveCgroupCPU f1 systats
                  else Ok cgroupCPUInfo_zero) (\<lambda>cgInfo.
         go_bind (sampleCgroupCPUUsageSeconds f1 cgInfo) (\<lambda>sample1.
           case sleepCtx w of
             Some e \<Rightarrow> Ok (CPU_zero, Some e)
           | None \<Rightarrow>
               (case ReadFileWithError f2 (StatFilePath systats) of
                  Inl e \<Rightarrow> Ok (CPU_zero, Some e)
                | Inr statStr2 \<Rightarrow>
                    go_bind (sampleCgroupCPUUsageSeconds f2 cgInfo) (\<lambda>sample2.
                    go_bind (processStatFileContents CPU_zero statStr1 statStr2) (\<lambda>output1.
                      finishCPU oor f2 now systats output1 cgInfo sample1 sample2
                        elapsedSeconds))))))"

definition GetCPU ::
    "(f64 \<Rightarrow> int) \<Rightarrow> fs \<Rightarrow> fs \<Rightarrow> wake \<Rightarrow> f64 \<Rightarrow> int \<Rightarrow> SyStats \<Rightarrow> CPU \<times> error option" where
  "GetCPU oor f1 f2 w elapsedSeconds now systats =
    withRecover CPU_zero (getCPU oor f1 f2 w elapsedSeconds now systats)"

section \<open>Facts on the utilisation loop\<close>

text \<open>A second sample whose counters did not go back, far from overflow.\<close>

fun row_advances :: "stat_row \<Rightarrow> stat_row \<Rightarrow> bool" where
  "row_advances (u1, s1, i1) (u2, s2, i2) \<longleftrightarrow> u1 \<le> u2 \<and> s1 \<le> s2 \<and> i1 \<le> i2
     \<and> 100 * (unat u2 + unat s2 + unat i2) < 2 ^ 64"

fun row_busy :: "stat_row \<Rightarrow> nat" where
  "row_busy (u, s, i) = unat u + unat s"

fun row_total :: "stat_row \<Rightarrow> nat" where
  "row_total (u, s, i) = unat u + unat s + unat i"

text \<open>The share of the elapsed jiffies that was busy, in whole percent, rounded down.\<close>

definition row_usage :: "stat_row \<Rightarrow> stat_row \<Rightarrow> nat" where
  "row_usage r1 r2 = 100 * (row_busy r2 - row_busy r1) div (row_total r2 - row_total r1)"

lemma row_diffs:
  assumes "row_advances (u1, s1, i1) (u2, s2, i2)"
  shows "unat (u2 + s2 - (u1 + s1)) = row_busy (u2, s2, i2) - row_busy (u1, s1, i1)"
    and "unat (u2 + s2 + i2 - (u1 + s1 + i1)) = row_total (u2, s2, i2) - row_total (u1, s1, i1)"
proof -
  have le: "unat u1 \<le> unat u2" "unat s1 \<le> unat s2" "unat i1 \<le> unat i2"
    and b: "100 * (unat u2 + unat s2 + unat i2) < 2 ^ 64"
    using assms by (simp_all add: word_le_nat_alt)
  then have s: "unat (u2 + s2) = unat u2 + unat s2" "unat (u1 + s1) = unat u1 + unat s1"
    "unat (u2 + s2 + i2) = unat u2 + unat s2 + unat i2"
    "unat (u1 + s1 + i1) = unat u1 + unat s1 + unat i1"
    by (simp_all add: unat_sum2 unat_sum3)
  then show "unat (u2 + s2 - (u1 + s1)) = row_busy (u2, s2, i2) - row_busy (u1, s1, i1)"
    and "unat (u2 + s2 + i2 - (u1 + s1 + i1)) = row_total (u2, s2, i2) - row_total (u1, s1, i1)"
    using le by (simp_all add: unat_sub_u64 word_le_nat_alt)
qed

lemma row_busy_le_total:
  "row_advances r1 r2 \<Longrightarrow> row_busy r2 - row_busy r1 \<le> row_total r2 - row_total r1"
  by (cases r1; cases r2) (auto simp: word_le_nat_alt)

lemma row_usage_le_100:
  assumes "row_advances r1 r2"
  shows "row_usage r1 r2 \<le> 100"
proof (cases "row_total r2 - row_total r1 = 0")
  case False
  have "row_usage r1 r2 \<le> 100 * (row_total r2 - row_total r1) div (row_total r2 - row_total r1)"
    unfolding row_usage_def using row_busy_le_total [OF assms] by (intro div_le_mono) simp
  with False show ?thesis by simp
qed (simp add: row_usage_def)

lemma row_usage_word:
  assumes a: "row_advances (u1, s1, i1) (u2, s2, i2)"
  shows "sint (100 * (u2 + s2 - (u1 + s1)) div (u2 + s2 + i2 - (u1 + s1 + i1)))
    = int (row_usage (u1, s1, i1) (u2, s2, i2))"
proof -
  let ?d = "u2 + s2 - (u1 + s1)" and ?b = "u2 + s2 + i2 - (u1 + s1 + i1)"
  have "unat ?d \<le> unat u2 + unat s2" unfolding row_diffs(1) [OF a] by simp
  moreover have "100 * (unat u2 + unat s2 + unat i2) < 2 ^ 64" using a by simp
  ultimately have "100 * unat ?d < 2 ^ 64"
    by (elim le_less_trans [rotated] mult_le_mono2 [THEN order_trans]) simp
  then have "unat (100 * ?d) = 100 * unat ?d" using unat_prod2 [of 100 ?d]
    by (simp del: right_diff_distrib_numeral distrib_left_numeral)
  then have u: "unat (100 * ?d div ?b) = row_usage (u1, s1, i1) (u2, s2, i2)"
    by (simp only: unat_div row_diffs [OF a] row_usage_def)
  then have "unat (100 * ?d div ?b) < 2 ^ 63"
    using row_usage_le_100 [OF a] by simp
  then show ?thesis by (simp only: sint_small_u64 u)
qed

text \<open>One iteration on advancing rows: the figure is appended, except the aggregate's.\<close>

lemma stat_step_advances:
  assumes i: "i < length a" "i < length b" and adv: "row_advances (a ! i) (b ! i)"
  shows "stat_step a b out i = Ok
    (if row_total (b ! i) \<le> row_total (a ! i)
       then out\<lparr>cpu_CoreAvg := cpu_CoreAvg out @ [0]\<rparr>
     else if i = 0 then out\<lparr>cpu_LoadAvg := int (row_usage (a ! i) (b ! i))\<rparr>
     else out\<lparr>cpu_CoreAvg := cpu_CoreAvg out @ [int (row_usage (a ! i) (b ! i))]\<rparr>)"
proof -
  obtain u1 s1 i1 u2 s2 i2 where r: "a ! i = (u1, s1, i1)" "b ! i = (u2, s2, i2)"
    by (metis prod_cases3)
  note adv' = adv [unfolded r]
  have "0 < u2 + s2 + i2 - (u1 + s1 + i1) \<longleftrightarrow> \<not> row_total (b ! i) \<le> row_total (a ! i)"
    unfolding word_less_nat_alt row_diffs(2) [OF adv'] r by (simp add: not_le)
  moreover have "index_go a i = Ok (u1, s1, i1)" "index_go b i = Ok (u2, s2, i2)"
    using i r by simp_all
  ultimately show ?thesis
    unfolding stat_step_def r
    by (simp add: Let_def row_usage_word [OF adv']
        del: right_diff_distrib_numeral distrib_left_numeral row_total.simps)
qed

text \<open>The whole loop: the aggregate's figure, then one figure per further row.\<close>

definition core_figures :: "stat_row list \<Rightarrow> stat_row list \<Rightarrow> int list" where
  "core_figures a b = map (\<lambda>(r1, r2). int (row_usage r1 r2)) (zip a b)"

lemma row_usage_idle: "row_total r2 \<le> row_total r1 \<Longrightarrow> row_usage r1 r2 = 0"
  by (simp add: row_usage_def)

lemma stat_loop_advances:
  assumes len: "length a \<le> length b" and adv: "\<forall>i < length a. row_advances (a ! i) (b ! i)"
    and n: "n < length a"
  shows "range_loop (stat_step a b) out [0..<Suc n] = Ok
    (if row_total (b ! 0) \<le> row_total (a ! 0)
     then out\<lparr>cpu_CoreAvg := cpu_CoreAvg out @ take (Suc n) (core_figures a b)\<rparr>
     else out\<lparr>cpu_LoadAvg := int (row_usage (a ! 0) (b ! 0)),
       cpu_CoreAvg := cpu_CoreAvg out @ tl (take (Suc n) (core_figures a b))\<rparr>)"
  using n
proof (induction n)
  case 0
  then have t: "take (Suc 0) (core_figures a b) = [int (row_usage (a ! 0) (b ! 0))]"
    using len by (cases a; cases b) (simp_all add: core_figures_def)
  have "0 < length a" "0 < length b" using 0 len by auto
  then show ?case using stat_step_advances [of 0 a b out] adv
    by (simp add: t row_usage_idle)
next
  case (Suc n)
  have t: "take (Suc (Suc n)) (core_figures a b)
      = take (Suc n) (core_figures a b) @ [int (row_usage (a ! Suc n) (b ! Suc n))]"
    using Suc.prems len by (simp add: take_Suc_conv_app_nth [of "Suc n"] core_figures_def)
  have ne: "take (Suc n) (core_figures a b) \<noteq> []"
    using Suc.prems len by (auto simp: core_figures_def)
  have "[0..<Suc (Suc n)] = [0..<Suc n] @ [Suc n]" by simp
  then show ?case
    using Suc adv len ne
    by (simp add: stat_step_advances t row_usage_idle del: upt_Suc)
qed

section \<open>Facts on the topology count\<close>

text \<open>
  A \<open>/proc/cpuinfo\<close> made of blocks: a \<open>processor\<close> line, any further \<open>key : value\<close> lines, a blank line.
\<close>

type_synonym cpu_block = "string \<times> (string \<times> string) list"

definition cpuinfo_kv :: "string \<times> string \<Rightarrow> string" where
  "cpuinfo_kv kv = fst kv @ CHR 0x09 # colon # CHR 0x20 # snd kv"

definition cpuinfo_kv_ok :: "string \<times> string \<Rightarrow> bool" where
  "cpuinfo_kv_ok kv \<longleftrightarrow> TrimSpace (fst kv @ [CHR 0x09]) = fst kv
     \<and> TrimSpace (CHR 0x20 # snd kv) = snd kv \<and> colon \<notin> set (fst kv)
     \<and> CHR 0x0A \<notin> set (fst kv) \<and> CHR 0x0A \<notin> set (snd kv)"

definition block_kvs :: "cpu_block \<Rightarrow> (string \<times> string) list" where
  "block_kvs b = (''processor'', fst b) # snd b"

definition block_ok :: "cpu_block \<Rightarrow> bool" where
  "block_ok b \<longleftrightarrow> list_all cpuinfo_kv_ok (block_kvs b) \<and> ''processor'' \<notin> fst ` set (snd b)"

definition block_lines :: "cpu_block \<Rightarrow> string list" where
  "block_lines b = map cpuinfo_kv (block_kvs b) @ [[]]"

definition cpuinfo_file :: "cpu_block list \<Rightarrow> string" where
  "cpuinfo_file bs = join_with CHR 0x0A (concat (map block_lines bs))"

definition block_pkg :: "cpu_block \<Rightarrow> string option" where
  "block_pkg b = map_of (rev (snd b)) ''physical id''"

definition block_core :: "cpu_block \<Rightarrow> string option" where
  "block_core b = map_of (rev (snd b)) ''core id''"

definition pkgs_of :: "cpu_block set \<Rightarrow> string set" where
  "pkgs_of B = {p. \<exists>b \<in> B. block_pkg b = Some p}"

definition cores_of :: "cpu_block set \<Rightarrow> (string \<times> string) set" where
  "cores_of B = {(p, c). \<exists>b \<in> B. block_pkg b = Some p \<and> block_core b = Some c}"

definition opt_str :: "string option \<Rightarrow> string" where
  "opt_str x = (case x of None \<Rightarrow> [] | Some v \<Rightarrow> v)"

text \<open>The state once the blocks \<open>bs\<close> are closed, and the state inside a block that follows them.\<close>

definition topo_closed :: "cpu_block list \<Rightarrow> topo_state" where
  "topo_closed bs = \<lparr>ts_seenCores = cores_of (set bs), ts_seenPkgs = pkgs_of (set bs),
     ts_logical = length bs, ts_pkg = [], ts_core = [], ts_havePkg = False, ts_haveCore = False\<rparr>"

definition topo_within :: "cpu_block list \<Rightarrow> cpu_block \<Rightarrow> topo_state" where
  "topo_within bs b = \<lparr>ts_seenCores = cores_of (set bs), ts_seenPkgs = pkgs_of (set bs),
     ts_logical = Suc (length bs), ts_pkg = opt_str (block_pkg b), ts_core = opt_str (block_core b),
     ts_havePkg = (block_pkg b \<noteq> None), ts_haveCore = (block_core b \<noteq> None)\<rparr>"

lemma topo_line_kv: "cpuinfo_kv_ok kv \<Longrightarrow> topo_line st (cpuinfo_kv kv) = topo_kv st kv"
proof -
  assume ok: "cpuinfo_kv_ok kv"
  then have "Cut colon (cpuinfo_kv kv) = Some (fst kv @ [CHR 0x09], CHR 0x20 # snd kv)"
    using Cut_append [of colon "fst kv @ [CHR 0x09]" "CHR 0x20 # snd kv"]
    by (simp add: cpuinfo_kv_def cpuinfo_kv_ok_def)
  with ok show ?thesis by (simp add: topo_line_def cpuinfo_kv_ok_def)
qed

lemma topo_line_Nil [simp]: "topo_line st [] = st"
  by (simp add: topo_line_def)

lemma topo_block_lines:
  assumes "block_ok b"
  shows "foldl topo_line st (block_lines b) = foldl topo_kv st (block_kvs b)"
proof -
  have "foldl topo_line st (map cpuinfo_kv kvs) = foldl topo_kv st kvs"
    if "list_all cpuinfo_kv_ok kvs" for kvs st
    using that by (induction kvs arbitrary: st) (simp_all add: topo_line_kv)
  with assms show ?thesis by (simp add: block_lines_def block_ok_def)
qed

lemma topo_block_fields:
  assumes "''processor'' \<notin> fst ` set kvs"
  shows "foldl topo_kv (topo_within bs (n, [])) kvs = topo_within bs (n, kvs)"
  using assms
proof (induction kvs rule: rev_induct)
  case (snoc kv kvs)
  then have "fst kv \<noteq> ''processor''" and
    IH: "foldl topo_kv (topo_within bs (n, [])) kvs = topo_within bs (n, kvs)" by auto
  have "topo_kv (topo_within bs (n, kvs)) kv = topo_within bs (n, kvs @ [kv])"
    using \<open>fst kv \<noteq> ''processor''\<close>
    by (cases kv) (simp add: topo_kv_def topo_within_def block_pkg_def block_core_def opt_str_def)
  then show ?case by (simp add: IH)
qed simp

lemma topo_flush_within: "topo_flush (topo_within bs b) = topo_closed (bs @ [b])"
  by (auto simp: topo_flush_def topo_within_def topo_closed_def cores_of_def pkgs_of_def opt_str_def
      split: option.splits)

lemma topo_block:
  assumes "block_ok b" and "topo_flush st = topo_closed bs"
  shows "topo_flush (foldl topo_line st (block_lines b)) = topo_closed (bs @ [b])"
proof -
  obtain n kvs where b: "b = (n, kvs)" by fastforce
  have "topo_kv st (''processor'', n) = topo_within bs (n, [])"
    using assms(2) by (simp add: topo_kv_def topo_closed_def topo_within_def block_pkg_def
        block_core_def opt_str_def)
  then have "foldl topo_kv st (block_kvs b) = topo_within bs b"
    using assms(1) topo_block_fields [of kvs bs n] by (simp add: b block_kvs_def block_ok_def)
  then show ?thesis by (simp add: topo_block_lines [OF assms(1)] topo_flush_within)
qed

lemma topo_blocks:
  assumes "list_all block_ok bs" and "topo_flush st = topo_closed pre"
  shows "topo_flush (foldl topo_line st (concat (map block_lines bs))) = topo_closed (pre @ bs)"
  using assms
proof (induction bs arbitrary: st pre)
  case (Cons b bs)
  then show ?case using topo_block [of b st pre] Cons.IH [of _ "pre @ [b]"] by simp
qed simp

lemma block_line_no_newline:
  "block_ok b \<Longrightarrow> l \<in> set (block_lines b) \<Longrightarrow> CHR 0x0A \<notin> set l"
  by (auto simp: block_ok_def block_lines_def list_all_iff cpuinfo_kv_ok_def cpuinfo_kv_def)

lemma parseCPUTopology_blocks:
  assumes "list_all block_ok bs"
  shows "parseCPUTopology (cpuinfo_file bs) = topo_result (topo_closed bs)"
proof -
  have i: "topo_flush topo_init = topo_closed []"
    by (simp add: topo_flush_def topo_init_def topo_closed_def cores_of_def pkgs_of_def)
  have "foldl topo_line topo_init (lines (cpuinfo_file bs))
      = foldl topo_line topo_init (concat (map block_lines bs))"
  proof (cases "bs = []")
    case False
    then have "concat (map block_lines bs) \<noteq> []" by (cases bs) (auto simp: block_lines_def)
    moreover have "\<forall>l \<in> set (concat (map block_lines bs)). CHR 0x0A \<notin> set l"
      using assms block_line_no_newline by (fastforce simp: list_all_iff)
    ultimately show ?thesis by (simp add: cpuinfo_file_def Split_join)
  qed (simp add: cpuinfo_file_def)
  then show ?thesis using topo_blocks [OF assms i] by (simp add: parseCPUTopology_def)
qed

section \<open>Properties\<close>

text \<open>
  C4: when no counter of the second /proc/stat sample went back, processStatFileContents succeeds
  and every figure is a percentage between 0 and 100: LoadAvg is the aggregate line's busy share of the
  elapsed jiffies, rounded down, and CoreAvg holds one such share per cpuN line. If no jiffy passed at
  all between the samples, the aggregate line adds a figure of its own to CoreAvg.
\<close>

theorem processStatFileContents_figures:
  assumes "processStatFile s1 = Ok a" and "processStatFile s2 = Ok b" and "a \<noteq> []"
    and len: "length a \<le> length b" and adv: "\<forall>i < length a. row_advances (a ! i) (b ! i)"
  shows "\<exists>out. processStatFileContents CPU_zero s1 s2 = Ok out
    \<and> cpu_LoadAvg out = int (row_usage (a ! 0) (b ! 0))
    \<and> cpu_CoreAvg out = (if row_total (b ! 0) \<le> row_total (a ! 0) then core_figures a b
                         else tl (core_figures a b))
    \<and> 0 \<le> cpu_LoadAvg out \<and> cpu_LoadAvg out \<le> 100 \<and> set (cpu_CoreAvg out) \<subseteq> {0..100}"
proof -
  obtain n where n: "length a = Suc n" using \<open>a \<noteq> []\<close> by (cases a) auto
  have t: "take (Suc n) (core_figures a b) = core_figures a b" by (simp add: core_figures_def n)
  have "set (core_figures a b) \<subseteq> {0..100}"
  proof
    fix x assume "x \<in> set (core_figures a b)"
    then obtain i where "i < length a" "x = int (row_usage (a ! i) (b ! i))"
      using len by (auto simp: core_figures_def set_zip)
    with adv row_usage_le_100 [of "a ! i" "b ! i"] show "x \<in> {0..100}" by simp
  qed
  then have c: "set (core_figures a b) \<subseteq> {0..100}" "set (tl (core_figures a b)) \<subseteq> {0..100}"
    by (simp, cases "core_figures a b") auto
  have "row_usage (a ! 0) (b ! 0) \<le> 100" using adv \<open>a \<noteq> []\<close> row_usage_le_100 by simp
  then show ?thesis
    using c stat_loop_advances [OF len adv, of n CPU_zero]
    unfolding processStatFileContents_def assms(1,2) go_bind.simps n t
    by (simp add: CPU_zero_def row_usage_idle del: upt_Suc)
qed

theorem processStatFileContents_figures_witness:
  "\<exists>out. processStatFileContents CPU_zero
       (''cpu  100 0 50 850 0'' @ CHR 0x0A # ''cpu0 100 0 50 850 0'')
       (''cpu  130 0 60 910 0'' @ CHR 0x0A # ''cpu0 130 0 60 910 0'') = Ok out
     \<and> cpu_LoadAvg out = 40 \<and> cpu_CoreAvg out = [40]"
proof -
  let ?a = "[(100, 50, 850), (100, 50, 850)] :: stat_row list"
  let ?b = "[(130, 60, 910), (130, 60, 910)] :: stat_row list"
  have a: "processStatFile (''cpu  100 0 50 850 0'' @ CHR 0x0A # ''cpu0 100 0 50 850 0'') = Ok ?a"
    by code_simp
  have b: "processStatFile (''cpu  130 0 60 910 0'' @ CHR 0x0A # ''cpu0 130 0 60 910 0'') = Ok ?b"
    by code_simp
  have r: "row_advances (?a ! i) (?b ! i)" if "i < length ?a" for i
    using that by (cases i) (auto simp: less_Suc_eq)
  show ?thesis
    using processStatFileContents_figures [OF a b] r
    by (auto simp: core_figures_def row_usage_def)
qed

text \<open>
  C34: CoreAvg and the core count disagree when the sampling window is shorter than a jiffy: on two
  identical samples the result has one CoreAvg entry per line whose name starts with "cpu", the
  aggregate line included, although only the lines after it are cores.
\<close>

theorem idle_sample_extra_core:
  assumes "processStatFile s = Ok a"
  shows "\<exists>out. processStatFileContents CPU_zero s s = Ok out
    \<and> length (cpu_CoreAvg out) = length a"
proof -
  have step: "stat_step a a out i = Ok (out\<lparr>cpu_CoreAvg := cpu_CoreAvg out @ [0]\<rparr>)"
    if "i < length a" for out i
  proof -
    obtain u s i' where "a ! i = (u, s, i')" by (metis prod_cases3)
    with that show ?thesis by (simp add: stat_step_def)
  qed
  have "\<exists>out. range_loop (stat_step a a) CPU_zero [0..<n] = Ok out \<and> length (cpu_CoreAvg out) = n"
    if "n \<le> length a" for n
    using that by (induction n) (auto simp: CPU_zero_def step)
  then show ?thesis using assms by (simp add: processStatFileContents_def)
qed

theorem idle_sample_extra_core_witness:
  "\<exists>out. processStatFileContents CPU_zero
       (''cpu  100 0 50 850 0'' @ CHR 0x0A # ''cpu0 100 0 50 850 0'')
       (''cpu  100 0 50 850 0'' @ CHR 0x0A # ''cpu0 100 0 50 850 0'') = Ok out
     \<and> length (cpu_CoreAvg out) = 2"
proof -
  have a: "processStatFile (''cpu  100 0 50 850 0'' @ CHR 0x0A # ''cpu0 100 0 50 850 0'')
      = Ok [(100, 50, 850), (100, 50, 850)]"
    by code_simp
  show ?thesis using idle_sample_extra_core [OF a] by (simp add: numeral_2_eq_2)
qed

text \<open>
  C19: on any /proc/cpuinfo made of processor blocks, parseCPUTopology counts the blocks, the distinct
  (physical id, core id) pairs and the distinct physical ids, each block contributing the values it
  holds itself (never those of a neighbour); where nothing publishes a topology, every logical CPU is
  a core and there is one socket.
\<close>

theorem parseCPUTopology_counts:
  assumes "list_all block_ok bs"
  shows "parseCPUTopology (cpuinfo_file bs) =
    \<lparr>ct_logical = int (length bs),
     ct_physicalCores =
       (if cores_of (set bs) = {} then int (length bs) else int (card (cores_of (set bs)))),
     ct_sockets =
       (if pkgs_of (set bs) = {} \<and> bs \<noteq> [] then 1 else int (card (pkgs_of (set bs))))\<rparr>"
proof -
  have p: "pkgs_of B \<subseteq> (\<lambda>b. opt_str (block_pkg b)) ` B" for B
    by (force simp: pkgs_of_def opt_str_def)
  have c: "cores_of B \<subseteq> (\<lambda>b. (opt_str (block_pkg b), opt_str (block_core b))) ` B" for B
    by (force simp: cores_of_def opt_str_def)
  have "finite (pkgs_of (set bs))" "finite (cores_of (set bs))"
    using finite_subset [OF p] finite_subset [OF c] by simp_all
  then show ?thesis
    by (simp add: parseCPUTopology_blocks [OF assms] topo_result_def topo_closed_def Let_def)
qed

theorem parseCPUTopology_counts_witness:
  "parseCPUTopology (cpuinfo_file
     [(''0'', [(''physical id'', ''0''), (''core id'', ''4'')]),
      (''1'', [(''physical id'', ''0''), (''core id'', ''4'')]),
      (''2'', [(''physical id'', ''1''), (''core id'', ''4'')])])
   = \<lparr>ct_logical = 3, ct_physicalCores = 2, ct_sockets = 2\<rparr>"
proof -
  let ?bs = "[(''0'', [(''physical id'', ''0''), (''core id'', ''4'')]),
      (''1'', [(''physical id'', ''0''), (''core id'', ''4'')]),
      (''2'', [(''physical id'', ''1''), (''core id'', ''4'')])]"
  have ok: "list_all block_ok ?bs" by code_simp
  have "pkgs_of (set ?bs) = {''0'', ''1''}"
    by (auto simp: pkgs_of_def block_pkg_def)
  moreover have "cores_of (set ?bs) = {(''0'', ''4''), (''1'', ''4'')}"
    by (auto simp: cores_of_def block_pkg_def block_core_def)
  ultimately show ?thesis using parseCPUTopology_counts [OF ok] by simp
qed

end
