(* ===== verification/Pressure.thy ===== *)
theory Pressure
  imports Cgroup
begin

text \<open>
  \<open>pressure.go\<close>: pressure stall information, host-wide from \<open>/proc/pressure\<close> or from the calling
  process's own cgroup.
\<close>

record PressureMetric =
  psi_Avg10 :: f64
  psi_Avg60 :: f64
  psi_Avg300 :: f64
  psi_Total :: u64

record ResourcePressure =
  rp_Some :: PressureMetric
  rp_Full :: PressureMetric
  rp_FullAvailable :: bool

record Pressure =
  pr_CPU :: ResourcePressure
  pr_Memory :: ResourcePressure
  pr_IO :: ResourcePressure
  pr_Available :: bool
  pr_Limited :: bool
  pr_Time :: int

definition PressureMetric_zero :: PressureMetric where
  "PressureMetric_zero = \<lparr>psi_Avg10 = f64_zero, psi_Avg60 = f64_zero, psi_Avg300 = f64_zero,
     psi_Total = 0\<rparr>"

definition ResourcePressure_zero :: ResourcePressure where
  "ResourcePressure_zero =
     \<lparr>rp_Some = PressureMetric_zero, rp_Full = PressureMetric_zero, rp_FullAvailable = False\<rparr>"

definition Pressure_zero :: "int \<Rightarrow> Pressure" where
  "Pressure_zero now = \<lparr>pr_CPU = ResourcePressure_zero, pr_Memory = ResourcePressure_zero,
     pr_IO = ResourcePressure_zero, pr_Available = False, pr_Limited = False, pr_Time = now\<rparr>"

section \<open>Parsing\<close>

definition parseFloatOrZero :: "string \<Rightarrow> f64" where
  "parseFloatOrZero s = (case parse_f64 s of None \<Rightarrow> f64_zero | Some v \<Rightarrow> v)"

text \<open>The inner loop's body: one \<open>key=value\<close> field. A rejected \<open>total\<close> still stores what
  \<open>ParseUint\<close> returned beside its error.\<close>

definition psi_field :: "PressureMetric \<Rightarrow> string \<Rightarrow> PressureMetric" where
  "psi_field target field =
    (case Cut CHR ''='' field of
       None \<Rightarrow> target
     | Some (key, value) \<Rightarrow>
         if key = ''avg10'' then target\<lparr>psi_Avg10 := parseFloatOrZero value\<rparr>
         else if key = ''avg60'' then target\<lparr>psi_Avg60 := parseFloatOrZero value\<rparr>
         else if key = ''avg300'' then target\<lparr>psi_Avg300 := parseFloatOrZero value\<rparr>
         else if key = ''total'' then target\<lparr>psi_Total := fst (ParseUint value)\<rparr>
         else target)"

definition psi_line :: "ResourcePressure \<Rightarrow> string \<Rightarrow> ResourcePressure" where
  "psi_line out line =
    (let fields = Fields line in
     if length fields < 2 then out
     else if fields ! 0 = ''some'' then
       out\<lparr>rp_Some := foldl psi_field (rp_Some out) (tl fields)\<rparr>
     else if fields ! 0 = ''full'' then
       out\<lparr>rp_Full := foldl psi_field (rp_Full out) (tl fields), rp_FullAvailable := True\<rparr>
     else out)"

definition parsePressure :: "string \<Rightarrow> ResourcePressure" where
  "parsePressure content = foldl psi_line ResourcePressure_zero (lines content)"

section \<open>Where the files are\<close>

definition pressureDir :: "fs \<Rightarrow> SyStats \<Rightarrow> string \<times> bool" where
  "pressureDir f systats =
    (if \<not> ContainerAware systats then (PressurePath systats, False)
     else if detectCgroupVersion f (CgroupRootPath systats) \<noteq> cgroupV2 then
       (PressurePath systats, False)
     else (case resolveCgroupControllerPath f systats cgroupV2 [] of
         None \<Rightarrow> (PressurePath systats, False)
       | Some cgDir \<Rightarrow>
           if \<not> IsFile f (path_Join [cgDir, ''cpu.pressure'']) then (PressurePath systats, False)
           else (cgDir, True)))"

definition pressureFilePath :: "string \<Rightarrow> string \<Rightarrow> bool \<Rightarrow> string" where
  "pressureFilePath dir resource cgroupScoped =
    (if cgroupScoped then path_Join [dir, resource @ ''.pressure''] else path_Join [dir, resource])"

text \<open>The loop over the three resources; \<open>psiResource\<close> pairs a name with the field it fills.\<close>

definition set_CPU :: "ResourcePressure \<Rightarrow> Pressure \<Rightarrow> Pressure" where
  "set_CPU r out = out\<lparr>pr_CPU := r\<rparr>"

definition set_Memory :: "ResourcePressure \<Rightarrow> Pressure \<Rightarrow> Pressure" where
  "set_Memory r out = out\<lparr>pr_Memory := r\<rparr>"

definition set_IO :: "ResourcePressure \<Rightarrow> Pressure \<Rightarrow> Pressure" where
  "set_IO r out = out\<lparr>pr_IO := r\<rparr>"

definition psiResources :: "(string \<times> (ResourcePressure \<Rightarrow> Pressure \<Rightarrow> Pressure)) list" where
  "psiResources = [(''cpu'', set_CPU), (''memory'', set_Memory), (''io'', set_IO)]"

definition psi_resource ::
    "fs \<Rightarrow> string \<Rightarrow> bool \<Rightarrow> Pressure \<Rightarrow>
     string \<times> (ResourcePressure \<Rightarrow> Pressure \<Rightarrow> Pressure) \<Rightarrow> Pressure" where
  "psi_resource f dir cgroupScoped output r = (case r of (name, target) \<Rightarrow>
    (case ReadFileWithError f (pressureFilePath dir name cgroupScoped) of
       Inl e \<Rightarrow> output
     | Inr content \<Rightarrow> (target (parsePressure content) output)\<lparr>pr_Available := True\<rparr>))"

definition getPressure :: "fs \<Rightarrow> int \<Rightarrow> SyStats \<Rightarrow> Pressure \<times> error option" where
  "getPressure f now systats =
    (case pressureDir f systats of (dir, cgroupScoped) \<Rightarrow>
      let output = foldl (psi_resource f dir cgroupScoped) (Pressure_zero now) psiResources in
      (output\<lparr>pr_Limited := pr_Available output \<and> cgroupScoped\<rparr>, None))"

definition GetPressure :: "fs \<Rightarrow> int \<Rightarrow> SyStats \<Rightarrow> Pressure \<times> error option" where
  "GetPressure f now systats = withRecover (Pressure_zero 0) (Ok (getPressure f now systats))"

section \<open>Files as the kernel prints them\<close>

text \<open>One line; \<open>a\<close>, \<open>b\<close>, \<open>c\<close> are the printed averages.\<close>

definition psi_text :: "string \<Rightarrow> string \<Rightarrow> string \<Rightarrow> string \<Rightarrow> u64 \<Rightarrow> string" where
  "psi_text kind a b c n = kind @ CHR 0x20 # (''avg10='' @ a) @ CHR 0x20 # (''avg60='' @ b)
     @ CHR 0x20 # (''avg300='' @ c) @ CHR 0x20 # (''total='' @ show_nat (unat n))"

definition psi_metric :: "string \<Rightarrow> string \<Rightarrow> string \<Rightarrow> u64 \<Rightarrow> PressureMetric" where
  "psi_metric a b c n = \<lparr>psi_Avg10 = parseFloatOrZero a, psi_Avg60 = parseFloatOrZero b,
     psi_Avg300 = parseFloatOrZero c, psi_Total = n\<rparr>"

lemma psi_text_Fields:
  assumes "plain k" "k \<noteq> []" "plain a" "plain b" "plain c"
  shows "Fields (psi_text k a b c n) = [k, ''avg10='' @ a, ''avg60='' @ b, ''avg300='' @ c,
     ''total='' @ show_nat (unat n)]"
proof -
  have w: "Fields (w @ CHR 0x20 # t) = w # Fields t" if "plain w" "w \<noteq> []" for w t
    using that by simp
  have l: "Fields (''total='' @ show_nat (unat n)) = [''total='' @ show_nat (unat n)]"
    by (rule Fields_word) (simp_all add: plain_eval)
  show ?thesis
    unfolding psi_text_def
    by (subst w, simp_all only: assms not_False_eq_True, subst w, (simp add: assms plain_eval),
        simp, subst w, (simp add: assms plain_eval), simp, subst w, (simp add: assms plain_eval),
        simp, simp only: l)
qed

lemma psi_field_eval:
  "psi_field m (''avg10='' @ v) = m\<lparr>psi_Avg10 := parseFloatOrZero v\<rparr>"
  "psi_field m (''avg60='' @ v) = m\<lparr>psi_Avg60 := parseFloatOrZero v\<rparr>"
  "psi_field m (''avg300='' @ v) = m\<lparr>psi_Avg300 := parseFloatOrZero v\<rparr>"
  "psi_field m (''total='' @ v) = m\<lparr>psi_Total := fst (ParseUint v)\<rparr>"
  by (simp_all add: psi_field_def)

lemma psi_line_eval:
  assumes "plain a" "plain b" "plain c"
  shows "psi_line out (psi_text ''some'' a b c n) = out\<lparr>rp_Some := psi_metric a b c n\<rparr>"
    and "psi_line out (psi_text ''full'' a b c n)
      = out\<lparr>rp_Full := psi_metric a b c n, rp_FullAvailable := True\<rparr>"
proof -
  note F = psi_text_Fields [OF _ _ assms]
  have s: "Fields (psi_text ''some'' a b c n) = [''some'', ''avg10='' @ a, ''avg60='' @ b,
      ''avg300='' @ c, ''total='' @ show_nat (unat n)]"
    by (rule F) (simp_all add: plain_eval)
  have f: "Fields (psi_text ''full'' a b c n) = [''full'', ''avg10='' @ a, ''avg60='' @ b,
      ''avg300='' @ c, ''total='' @ show_nat (unat n)]"
    by (rule F) (simp_all add: plain_eval)
  have m: "foldl psi_field m [''avg10='' @ a, ''avg60='' @ b, ''avg300='' @ c,
      ''total='' @ show_nat (unat n)] = psi_metric a b c n" for m
    by (simp only: foldl.simps psi_field_eval) (simp add: psi_metric_def)
  show "psi_line out (psi_text ''some'' a b c n) = out\<lparr>rp_Some := psi_metric a b c n\<rparr>"
    unfolding psi_line_def s Let_def list.sel m by simp
  show "psi_line out (psi_text ''full'' a b c n)
      = out\<lparr>rp_Full := psi_metric a b c n, rp_FullAvailable := True\<rparr>"
    unfolding psi_line_def f Let_def list.sel m by simp
qed

lemma psi_text_no_newline:
  assumes "plain k" "plain a" "plain b" "plain c"
  shows "CHR 0x0A \<notin> set (psi_text k a b c n)"
  using assms plain_no_space [of _ "CHR 0x0A"] plain_no_space [OF plain_show_nat, of "CHR 0x0A"]
  by (auto simp: psi_text_def)

section \<open>Properties\<close>

text \<open>
  C30: a PSI file body as the kernel prints it (a "some" line, then possibly a "full" line, each
  with a final line feed) is read field by field: the three averages as printed, the cumulative total
  exactly, and FullAvailable tells whether the second line was there.
\<close>

theorem parsePressure_kernel_file:
  assumes "plain a" "plain b" "plain c" "plain a'" "plain b'" "plain c'"
  shows "parsePressure (psi_text ''some'' a b c n @ CHR 0x0A #
        (if full then psi_text ''full'' a' b' c' n' @ [CHR 0x0A] else []))
     = \<lparr>rp_Some = psi_metric a b c n,
        rp_Full = (if full then psi_metric a' b' c' n' else PressureMetric_zero),
        rp_FullAvailable = full\<rparr>"
proof -
  have s: "CHR 0x0A \<notin> set (psi_text ''some'' a b c n)"
    by (rule psi_text_no_newline) (simp_all add: assms plain_eval)
  have f: "CHR 0x0A \<notin> set (psi_text ''full'' a' b' c' n')"
    by (rule psi_text_no_newline) (simp_all add: assms plain_eval)
  have e: "psi_line out [] = out" for out by (simp add: psi_line_def)
  show ?thesis
    by (cases full) (simp_all add: parsePressure_def Split_append_sep [OF s] Split_append_sep [OF f]
        psi_line_eval assms e ResourcePressure_zero_def)
qed

theorem parsePressure_kernel_file_witness:
  "parsePressure (psi_text ''some'' ''1.50'' ''0.25'' ''0.00'' 12345 @ [CHR 0x0A])
     = \<lparr>rp_Some = psi_metric ''1.50'' ''0.25'' ''0.00'' 12345, rp_Full = PressureMetric_zero,
        rp_FullAvailable = False\<rparr>"
  using parsePressure_kernel_file [of "''1.50''" "''0.25''" "''0.00''" "''0''" "''0''" "''0''" 12345
      False 0] by (simp add: plain_eval)

text \<open>
  getPressure never fails; it reports Available exactly when one of the three files exists, reads
  each resource that is there from its own file and leaves the others at zero, and Limited only for a
  container-aware configuration on cgroup v2 whose own cgroup exposes cpu.pressure.
\<close>

theorem getPressure_sources:
  "getPressure f now s = (let (dir, scoped) = pressureDir f s;
      present = \<lambda>r. IsFile f (pressureFilePath dir r scoped);
      reading = \<lambda>r. if present r then parsePressure (ReadFile f (pressureFilePath dir r scoped))
                else ResourcePressure_zero
    in (\<lparr>pr_CPU = reading ''cpu'', pr_Memory = reading ''memory'', pr_IO = reading ''io'',
         pr_Available = (present ''cpu'' \<or> present ''memory'' \<or> present ''io''),
         pr_Limited = scoped, pr_Time = now\<rparr>, None))
   \<and> (snd (pressureDir f s) = (ContainerAware s
       \<and> detectCgroupVersion f (CgroupRootPath s) = cgroupV2
       \<and> (\<exists>d. resolveCgroupControllerPath f s cgroupV2 [] = Some d
              \<and> fst (pressureDir f s) = d \<and> IsFile f (path_Join [d, ''cpu.pressure'']))))"
proof -
  obtain dir scoped where d: "pressureDir f s = (dir, scoped)" by fastforce
  have c: "scoped = (ContainerAware s \<and> detectCgroupVersion f (CgroupRootPath s) = cgroupV2
      \<and> (\<exists>d. resolveCgroupControllerPath f s cgroupV2 [] = Some d
           \<and> dir = d \<and> IsFile f (path_Join [d, ''cpu.pressure''])))"
    using d by (auto simp: pressureDir_def split: if_splits option.splits)
  then have "scoped \<longrightarrow> IsFile f (pressureFilePath dir ''cpu'' scoped)"
    by (auto simp: pressureFilePath_def)
  then have "getPressure f now s = (let present = \<lambda>r. IsFile f (pressureFilePath dir r scoped);
      reading = \<lambda>r. if present r then parsePressure (ReadFile f (pressureFilePath dir r scoped))
                else ResourcePressure_zero
    in (\<lparr>pr_CPU = reading ''cpu'', pr_Memory = reading ''memory'', pr_IO = reading ''io'',
         pr_Available = (present ''cpu'' \<or> present ''memory'' \<or> present ''io''),
         pr_Limited = scoped, pr_Time = now\<rparr>, None))"
    by (cases scoped) (simp_all add: getPressure_def d psiResources_def psi_resource_def
        ReadFileWithError_def Let_def Pressure_zero_def set_CPU_def set_Memory_def set_IO_def)
  then show ?thesis using c by (simp only: d prod.case Let_def fst_conv snd_conv)
qed

end
