(* ===== verification/DiskIO.thy ===== *)
theory DiskIO
  imports Rates Config
begin

text \<open>
  \<open>diskio.go\<close>: the block device counters of \<open>/proc/diskstats\<close> and the rates between two samples.
\<close>

definition diskSectorSizeBytes :: u64 where
  "diskSectorSizeBytes = 512"

record DiskIO =
  dio_Device :: string
  dio_Major :: u64
  dio_Minor :: u64
  dio_ReadsCompleted :: u64
  dio_ReadsMerged :: u64
  dio_BytesRead :: u64
  dio_ReadTimeMs :: u64
  dio_WritesCompleted :: u64
  dio_WritesMerged :: u64
  dio_BytesWritten :: u64
  dio_WriteTimeMs :: u64
  dio_IOInProgress :: u64
  dio_IOTimeMs :: u64
  dio_WeightedIOTimeMs :: u64
  dio_DiscardsCompleted :: u64
  dio_DiscardsMerged :: u64
  dio_BytesDiscarded :: u64
  dio_DiscardTimeMs :: u64
  dio_HasDiscardStats :: bool
  dio_FlushesCompleted :: u64
  dio_FlushTimeMs :: u64
  dio_HasFlushStats :: bool
  dio_Time :: int

definition DiskIO_zero :: DiskIO where
  "DiskIO_zero = \<lparr>dio_Device = [], dio_Major = 0, dio_Minor = 0, dio_ReadsCompleted = 0,
     dio_ReadsMerged = 0, dio_BytesRead = 0, dio_ReadTimeMs = 0, dio_WritesCompleted = 0,
     dio_WritesMerged = 0, dio_BytesWritten = 0, dio_WriteTimeMs = 0, dio_IOInProgress = 0,
     dio_IOTimeMs = 0, dio_WeightedIOTimeMs = 0, dio_DiscardsCompleted = 0, dio_DiscardsMerged = 0,
     dio_BytesDiscarded = 0, dio_DiscardTimeMs = 0, dio_HasDiscardStats = False,
     dio_FlushesCompleted = 0, dio_FlushTimeMs = 0, dio_HasFlushStats = False, dio_Time = 0\<rparr>"

record DiskIORates =
  dr_Device :: string
  dr_ReadsPerSec :: f64
  dr_WritesPerSec :: f64
  dr_ReadBytesPerSec :: f64
  dr_WriteBytesPerSec :: f64
  dr_UtilPercent :: f64

definition DiskIORates_zero :: "string \<Rightarrow> DiskIORates" where
  "DiskIORates_zero dev = \<lparr>dr_Device = dev, dr_ReadsPerSec = f64_zero, dr_WritesPerSec = f64_zero,
     dr_ReadBytesPerSec = f64_zero, dr_WriteBytesPerSec = f64_zero, dr_UtilPercent = f64_zero\<rparr>"

section \<open>Rates\<close>

definition util_percent :: "u64 \<Rightarrow> f64 \<Rightarrow> f64" where
  "util_percent d elapsedSeconds =
    f64_mul (f64_div (f64_of_u64 d) (f64_mul elapsedSeconds (f64_const 1000))) (f64_const 100)"

definition DiskIO_RatesSince :: "DiskIO \<Rightarrow> DiskIO \<Rightarrow> f64 \<Rightarrow> DiskIORates" where
  "DiskIO_RatesSince d prev elapsedSeconds =
    (let rates = DiskIORates_zero (dio_Device d) in
     if f64_le elapsedSeconds f64_zero then rates
     else if dio_ReadsCompleted d < dio_ReadsCompleted prev
       \<or> dio_WritesCompleted d < dio_WritesCompleted prev
       \<or> dio_BytesRead d < dio_BytesRead prev
       \<or> dio_BytesWritten d < dio_BytesWritten prev
       \<or> dio_IOTimeMs d < dio_IOTimeMs prev then rates
     else rates\<lparr>
       dr_ReadsPerSec := per_sec (dio_ReadsCompleted d - dio_ReadsCompleted prev) elapsedSeconds,
       dr_WritesPerSec := per_sec (dio_WritesCompleted d - dio_WritesCompleted prev) elapsedSeconds,
       dr_ReadBytesPerSec := per_sec (dio_BytesRead d - dio_BytesRead prev) elapsedSeconds,
       dr_WriteBytesPerSec := per_sec (dio_BytesWritten d - dio_BytesWritten prev) elapsedSeconds,
       dr_UtilPercent := util_percent (dio_IOTimeMs d - dio_IOTimeMs prev) elapsedSeconds\<rparr>)"

section \<open>/proc/diskstats\<close>

text \<open>The pattern \<open>^(loop|ram|zram|fd|sr)\d+$\<close>.\<close>

definition isIgnoredDiskDevice :: "string \<Rightarrow> bool" where
  "isIgnoredDiskDevice name = list_ex (\<lambda>p. HasPrefix name p \<and>
     (let ds = drop (length p) name in ds \<noteq> [] \<and> list_all is_digit ds))
     [''loop'', ''ram'', ''zram'', ''fd'', ''sr'']"

definition diskstats_legacy :: "string list \<Rightarrow> DiskIO \<Rightarrow> DiskIO go" where
  "diskstats_legacy f d =
    go_bind (field_u64 f 3) (\<lambda>reads.
    go_bind (field_u64 f 4) (\<lambda>sectorsRead.
    go_bind (field_u64 f 5) (\<lambda>writes.
    go_bind (field_u64 f 6) (\<lambda>sectorsWritten.
      Ok (d\<lparr>dio_ReadsCompleted := reads, dio_BytesRead := sectorsRead * diskSectorSizeBytes,
            dio_WritesCompleted := writes,
            dio_BytesWritten := sectorsWritten * diskSectorSizeBytes\<rparr>)))))"

definition diskstats_base :: "string list \<Rightarrow> DiskIO \<Rightarrow> DiskIO go" where
  "diskstats_base f d =
    go_bind (field_u64 f 3) (\<lambda>v3. go_bind (field_u64 f 4) (\<lambda>v4.
    go_bind (field_u64 f 5) (\<lambda>v5. go_bind (field_u64 f 6) (\<lambda>v6.
    go_bind (field_u64 f 7) (\<lambda>v7. go_bind (field_u64 f 8) (\<lambda>v8.
    go_bind (field_u64 f 9) (\<lambda>v9. go_bind (field_u64 f 10) (\<lambda>v10.
    go_bind (field_u64 f 11) (\<lambda>v11. go_bind (field_u64 f 12) (\<lambda>v12.
    go_bind (field_u64 f 13) (\<lambda>v13.
      Ok (d\<lparr>dio_ReadsCompleted := v3, dio_ReadsMerged := v4,
            dio_BytesRead := v5 * diskSectorSizeBytes, dio_ReadTimeMs := v6,
            dio_WritesCompleted := v7, dio_WritesMerged := v8,
            dio_BytesWritten := v9 * diskSectorSizeBytes, dio_WriteTimeMs := v10,
            dio_IOInProgress := v11, dio_IOTimeMs := v12, dio_WeightedIOTimeMs := v13\<rparr>))))))))))))"

definition diskstats_discard :: "string list \<Rightarrow> DiskIO \<Rightarrow> DiskIO go" where
  "diskstats_discard f d =
    (if 18 \<le> length f then
       go_bind (field_u64 f 14) (\<lambda>v14. go_bind (field_u64 f 15) (\<lambda>v15.
       go_bind (field_u64 f 16) (\<lambda>v16. go_bind (field_u64 f 17) (\<lambda>v17.
         Ok (d\<lparr>dio_HasDiscardStats := True, dio_DiscardsCompleted := v14,
               dio_DiscardsMerged := v15, dio_BytesDiscarded := v16 * diskSectorSizeBytes,
               dio_DiscardTimeMs := v17\<rparr>)))))
     else Ok d)"

definition diskstats_flush :: "string list \<Rightarrow> DiskIO \<Rightarrow> DiskIO go" where
  "diskstats_flush f d =
    (if 20 \<le> length f then
       go_bind (field_u64 f 18) (\<lambda>v18. go_bind (field_u64 f 19) (\<lambda>v19.
         Ok (d\<lparr>dio_HasFlushStats := True, dio_FlushesCompleted := v18, dio_FlushTimeMs := v19\<rparr>)))
     else Ok d)"

definition diskstats_line :: "int \<Rightarrow> DiskIO list \<Rightarrow> string \<Rightarrow> DiskIO list go" where
  "diskstats_line now out line =
    (let f = Fields line in
     if length f < 7 then Ok out
     else if isIgnoredDiskDevice (f ! 2) then Ok out
     else
       go_bind (field_u64 f 0) (\<lambda>major.
       go_bind (field_u64 f 1) (\<lambda>minor.
         let d = DiskIO_zero\<lparr>dio_Device := f ! 2, dio_Major := major, dio_Minor := minor,
                   dio_Time := now\<rparr> in
         if length f < 14 then
           go_bind (diskstats_legacy f d) (\<lambda>d. Ok (out @ [d]))
         else
           go_bind (diskstats_base f d) (\<lambda>d.
           go_bind (diskstats_discard f d) (\<lambda>d.
           go_bind (diskstats_flush f d) (\<lambda>d. Ok (out @ [d])))))))"

definition parseDiskStats :: "int \<Rightarrow> string \<Rightarrow> DiskIO list go" where
  "parseDiskStats now content = range_loop (diskstats_line now) [] (lines content)"

definition getDiskIO :: "fs \<Rightarrow> int \<Rightarrow> SyStats \<Rightarrow> (DiskIO list \<times> error option) go" where
  "getDiskIO f now systats =
    (case ReadFileWithError f (DiskStatsPath systats) of
       Inl e \<Rightarrow> Ok ([], Some e)
     | Inr content \<Rightarrow> go_bind (parseDiskStats now content) (\<lambda>ds. Ok (ds, None)))"

definition GetDiskIO :: "fs \<Rightarrow> int \<Rightarrow> SyStats \<Rightarrow> DiskIO list \<times> error option" where
  "GetDiskIO f now systats = withRecover [] (getDiskIO f now systats)"

section \<open>The rates as a counter group\<close>

definition disk_counters :: "DiskIO \<Rightarrow> u64 list" where
  "disk_counters d = [dio_ReadsCompleted d, dio_WritesCompleted d, dio_BytesRead d,
     dio_BytesWritten d, dio_IOTimeMs d]"

definition disk_rate_list :: "DiskIORates \<Rightarrow> f64 list" where
  "disk_rate_list r = [dr_ReadsPerSec r, dr_WritesPerSec r, dr_ReadBytesPerSec r,
     dr_WriteBytesPerSec r, dr_UtilPercent r]"

text \<open>What the group reports once the elapsed time is known to be positive.\<close>

definition disk_rates :: "DiskIO \<Rightarrow> DiskIO \<Rightarrow> f64 \<Rightarrow> f64 list" where
  "disk_rates d prev el = (if list_all2 (\<le>) (disk_counters prev) (disk_counters d)
     then map2 (\<lambda>fg x. fg x el) [per_sec, per_sec, per_sec, per_sec, util_percent]
       (map2 (-) (disk_counters d) (disk_counters prev))
     else [f64_zero, f64_zero, f64_zero, f64_zero, f64_zero])"

lemma DiskIO_RatesSince_list:
  assumes "\<not> f64_le el f64_zero"
  shows "disk_rate_list (DiskIO_RatesSince d prev el) = disk_rates d prev el"
  using assms by (auto simp: disk_rate_list_def DiskIO_RatesSince_def disk_rates_def
      disk_counters_def DiskIORates_zero_def Let_def not_less)

lemma elapsed_ms:
  assumes "elapsed_ok el"
  obtains k where "f64_mul el (f64_const 1000) = Fin False k" and "pow2 (-40) \<le> k"
proof -
  from assms obtain m where m: "el = Fin False m" "pow2 (-40) \<le> m" "m \<le> pow2 64" "0 < m"
    by (rule elapsed_okE)
  have p: "(1000 :: rat) \<le> pow2 10" using pow2_nat [of 10] by simp
  have "m * 1000 \<le> pow2 64 * pow2 10" using m p by (intro mult_mono) simp_all
  then have "m * 1000 \<le> pow2 74" using pow2_add [of 64 10] by simp
  then have k: "f64_mul el (f64_const 1000) = Fin False (round_at 53 (-1074) (m * 1000))"
    using m by (simp add: f64_const_def mk64_le [where k = 74])
  have "pow2 (-40) \<le> m * 1000" using m by (intro order_trans [OF m(2)]) simp
  then have "pow2 (-40) \<le> round_at 53 (-1074) (m * 1000)"
    by (intro b64.le_rnd representable_pow2) simp_all
  with k show ?thesis by (rule that)
qed

lemma util_percent_sane:
  assumes "elapsed_ok el"
  shows "sane_rate (util_percent d el)"
proof -
  from assms obtain k where k: "f64_mul el (f64_const 1000) = Fin False k" "pow2 (-40) \<le> k"
    by (rule elapsed_ms)
  let ?r = "round_at 53 (-1074)"
  have b0: "k \<noteq> 0" using less_le_trans [OF pow2_pos k(2)] by auto
  let ?q = "?r (?r (rat_of_u64 d) / k)"
  have q: "mk64 False (?r (rat_of_u64 d) / k) = Fin False ?q" "?q \<le> pow2 104"
    using mk64_quot_sane [where j = 64 and k = 40, OF _ u64_val_le [of d] k(2)] by simp_all
  have "(100 :: rat) \<le> pow2 7" using pow2_nat [of 7] by simp
  then have "?q * 100 \<le> pow2 104 * pow2 7" using q by (intro mult_mono) simp_all
  then have "?q * 100 \<le> pow2 111" using pow2_add [of 104 7] by simp
  then have "f64_mul (Fin False ?q) (f64_const 100) = Fin False (?r (?q * 100))"
    by (simp add: f64_const_def mk64_le [where k = 111])
  then show ?thesis
    using b0 q by (simp add: util_percent_def k f64_of_u64_Fin sane_rate_def)
qed

lemma util_percent_0:
  assumes "elapsed_ok el"
  shows "util_percent 0 el = f64_zero"
proof -
  from assms obtain k where k: "f64_mul el (f64_const 1000) = Fin False k" "pow2 (-40) \<le> k"
    by (rule elapsed_ms)
  have "k \<noteq> 0" using less_le_trans [OF pow2_pos k(2)] by auto
  then have "f64_div f64_zero (f64_mul el (f64_const 1000)) = f64_zero"
    by (simp add: k mk64_def)
  then show ?thesis by (simp add: util_percent_def) (simp add: f64_const_def mk64_def)
qed

interpretation disk: counter_group disk_counters
  "[per_sec, per_sec, per_sec, per_sec, util_percent]" disk_rates
  by unfold_locales (auto simp: disk_rates_def per_sec_sane util_percent_sane per_sec_0 util_percent_0)

section \<open>Files as the kernel prints them\<close>

text \<open>A device: major, minor, name, and the numbers its line carries.\<close>

type_synonym diskstats_entry = "u64 \<times> u64 \<times> string \<times> u64 list"

fun diskstats_words :: "diskstats_entry \<Rightarrow> string list" where
  "diskstats_words (major, minor, name, vs) =
     show_u64 major # show_u64 minor # name # map show_u64 vs"

definition diskstats_file :: "diskstats_entry list \<Rightarrow> string" where
  "diskstats_file es = join_with CHR 0x0A (map (\<lambda>e. join_with CHR 0x20 (diskstats_words e)) es)"

fun diskstats_entry_ok :: "diskstats_entry \<Rightarrow> bool" where
  "diskstats_entry_ok (major, minor, name, vs) \<longleftrightarrow> plain name \<and> name \<noteq> []"

text \<open>Which entries are reported, and as what: the columns the line has, nothing past them.\<close>

fun diskstats_reported :: "diskstats_entry \<Rightarrow> bool" where
  "diskstats_reported (major, minor, name, vs) \<longleftrightarrow> 4 \<le> length vs \<and> \<not> isIgnoredDiskDevice name"

fun diskstats_decode :: "int \<Rightarrow> diskstats_entry \<Rightarrow> DiskIO" where
  "diskstats_decode now (major, minor, name, vs) =
    (let d = DiskIO_zero\<lparr>dio_Device := name, dio_Major := major, dio_Minor := minor,
               dio_Time := now\<rparr> in
     if length vs < 11 then
       d\<lparr>dio_ReadsCompleted := vs ! 0, dio_BytesRead := vs ! 1 * 512,
         dio_WritesCompleted := vs ! 2, dio_BytesWritten := vs ! 3 * 512\<rparr>
     else
       (let d = d\<lparr>dio_ReadsCompleted := vs ! 0, dio_ReadsMerged := vs ! 1,
            dio_BytesRead := vs ! 2 * 512, dio_ReadTimeMs := vs ! 3, dio_WritesCompleted := vs ! 4,
            dio_WritesMerged := vs ! 5, dio_BytesWritten := vs ! 6 * 512,
            dio_WriteTimeMs := vs ! 7, dio_IOInProgress := vs ! 8, dio_IOTimeMs := vs ! 9,
            dio_WeightedIOTimeMs := vs ! 10\<rparr>;
          d = (if 15 \<le> length vs then d\<lparr>dio_HasDiscardStats := True,
            dio_DiscardsCompleted := vs ! 11, dio_DiscardsMerged := vs ! 12,
            dio_BytesDiscarded := vs ! 13 * 512, dio_DiscardTimeMs := vs ! 14\<rparr> else d) in
        if 17 \<le> length vs then d\<lparr>dio_HasFlushStats := True, dio_FlushesCompleted := vs ! 15,
          dio_FlushTimeMs := vs ! 16\<rparr> else d))"

lemma diskstats_parts:
  fixes vs :: "u64 list"
  shows "4 \<le> length vs \<Longrightarrow> diskstats_legacy (a # b # n # map show_u64 vs) d =
      Ok (d\<lparr>dio_ReadsCompleted := vs ! 0, dio_BytesRead := vs ! 1 * 512,
        dio_WritesCompleted := vs ! 2, dio_BytesWritten := vs ! 3 * 512\<rparr>)"
    and "11 \<le> length vs \<Longrightarrow> diskstats_base (a # b # n # map show_u64 vs) d =
      Ok (d\<lparr>dio_ReadsCompleted := vs ! 0, dio_ReadsMerged := vs ! 1,
      dio_BytesRead := vs ! 2 * 512, dio_ReadTimeMs := vs ! 3, dio_WritesCompleted := vs ! 4,
      dio_WritesMerged := vs ! 5, dio_BytesWritten := vs ! 6 * 512,
      dio_WriteTimeMs := vs ! 7, dio_IOInProgress := vs ! 8, dio_IOTimeMs := vs ! 9,
      dio_WeightedIOTimeMs := vs ! 10\<rparr>)"
    and "diskstats_discard (a # b # n # map show_u64 vs) d =
      Ok (if 15 \<le> length vs then d\<lparr>dio_HasDiscardStats := True,
      dio_DiscardsCompleted := vs ! 11, dio_DiscardsMerged := vs ! 12,
      dio_BytesDiscarded := vs ! 13 * 512, dio_DiscardTimeMs := vs ! 14\<rparr> else d)"
    and "diskstats_flush (a # b # n # map show_u64 vs) d =
      Ok (if 17 \<le> length vs then d\<lparr>dio_HasFlushStats := True,
      dio_FlushesCompleted := vs ! 15, dio_FlushTimeMs := vs ! 16\<rparr> else d)"
  by (simp_all add: diskstats_legacy_def diskstats_base_def diskstats_discard_def
      diskstats_flush_def diskSectorSizeBytes_def field_u64_def
      length_greater_0_conv [symmetric] del: length_greater_0_conv)

lemma diskstats_line_decode:
  assumes "diskstats_entry_ok e"
  shows "diskstats_line now out (join_with CHR 0x20 (diskstats_words e))
    = Ok (if diskstats_reported e then out @ [diskstats_decode now e] else out)"
proof -
  obtain ma mi name vs where e: "e = (ma, mi, name, vs)" by (metis prod_cases4)
  have "list_all (\<lambda>w. plain w \<and> w \<noteq> []) (diskstats_words e)"
    using assms by (simp add: e list_all_iff)
  then have F: "Fields (join_with CHR 0x20 (diskstats_words e)) = diskstats_words e"
    by (rule Fields_join) simp
  have m: "field_u64 (diskstats_words e) 0 = Ok ma" "field_u64 (diskstats_words e) 1 = Ok mi"
    by (simp_all add: field_u64_def e)
  have l: "length (diskstats_words e) = 3 + length vs" "diskstats_words e ! 2 = name"
    by (simp_all add: e)
  show ?thesis
    unfolding diskstats_line_def F Let_def m l go_bind.simps
    by (simp add: e diskstats_parts Let_def)
qed

lemma diskstats_file_lines:
  assumes "list_all diskstats_entry_ok es"
  shows "range_loop f s (lines (diskstats_file es)) = (if es = [] then f s []
    else range_loop f s (map (\<lambda>e. join_with CHR 0x20 (diskstats_words e)) es))"
proof (cases "es = []")
  case False
  have "CHR 0x0A \<notin> set (join_with CHR 0x20 (diskstats_words e))" if "e \<in> set es" for e
  proof -
    have "\<forall>w \<in> set (diskstats_words e). plain w"
      using assms that by (cases e) (auto simp: list_all_iff)
    then show ?thesis using join_with_set [of "CHR 0x20" "diskstats_words e"]
        plain_no_space [of _ "CHR 0x0A"] by fastforce
  qed
  with False show ?thesis by (simp add: diskstats_file_def Split_join)
qed (simp add: diskstats_file_def)

section \<open>Properties\<close>

text \<open>
  C9: the rates of one device between two samples over a positive duration are always finite,
  non-negative doubles; when any guarded counter went backwards, and when no time passed, every rate
  is zero; counters that all stood still give zeros too.
\<close>

theorem DiskIO_RatesSince_sane:
  assumes "elapsed_ok el"
  shows "list_all sane_rate (disk_rate_list (DiskIO_RatesSince d prev el))
    \<and> (if list_all2 (\<le>) (disk_counters prev) (disk_counters d) \<and> disk_counters d \<noteq> disk_counters prev
       then dr_ReadBytesPerSec (DiskIO_RatesSince d prev el)
          = per_sec (dio_BytesRead d - dio_BytesRead prev) el
       else disk_rate_list (DiskIO_RatesSince d prev el)
          = disk_rate_list (DiskIORates_zero (dio_Device d)))
    \<and> DiskIO_RatesSince d prev f64_zero = DiskIORates_zero (dio_Device d)"
proof -
  note L = DiskIO_RatesSince_list [OF elapsed_ok_positive [OF assms], of d prev]
  have z: "disk_rate_list r = disk_rate_list (DiskIORates_zero (dio_Device d))"
    if "set (disk_rate_list r) \<subseteq> {f64_zero}" for r
    using that by (simp add: disk_rate_list_def DiskIORates_zero_def)
  let ?fwd = "list_all2 (\<le>) (disk_counters prev) (disk_counters d)"
  have "list_all sane_rate (disk_rate_list (DiskIO_RatesSince d prev el))"
    unfolding L by (rule disk.group_sane [OF assms])
  moreover have "dr_ReadBytesPerSec (DiskIO_RatesSince d prev el)
      = per_sec (dio_BytesRead d - dio_BytesRead prev) el" if ?fwd
    using that elapsed_ok_positive [OF assms]
    by (simp add: DiskIO_RatesSince_def disk_counters_def Let_def leD)
  moreover have "disk_rate_list (DiskIO_RatesSince d prev el)
      = disk_rate_list (DiskIORates_zero (dio_Device d))"
    if "\<not> (?fwd \<and> disk_counters d \<noteq> disk_counters prev)"
    by (rule z, unfold L)
      (use that disk.group_still [OF assms] disk.group_backward in blast)
  ultimately show ?thesis by (simp add: DiskIO_RatesSince_def)
qed

theorem DiskIO_RatesSince_sane_witness:
  "list_all sane_rate (disk_rate_list (DiskIO_RatesSince (DiskIO_zero\<lparr>dio_BytesRead := 4096\<rparr>)
     DiskIO_zero (f64_const 2)))"
proof -
  have "pow2 (-40) \<le> pow2 1" "pow2 1 \<le> pow2 64" by simp_all
  moreover have "pow2 1 = 2" using pow2_nat [of 1] by simp
  ultimately have "elapsed_ok (f64_const 2)" by (simp add: elapsed_ok_def f64_const_def)
  then show ?thesis using DiskIO_RatesSince_sane by blast
qed

text \<open>
  C27: a /proc/diskstats of any column count is decoded device by device, in order: loop, ram, zram,
  floppy and optical devices and lines of fewer than seven columns are left out, every other line
  gives exactly the counters of the columns it has (sectors as 512-byte units), with the discard and
  flush groups flagged only when their columns are there.
\<close>

theorem parseDiskStats_kernel_file:
  assumes "list_all diskstats_entry_ok es"
  shows "parseDiskStats now (diskstats_file es)
    = Ok (map (diskstats_decode now) (filter diskstats_reported es))"
proof -
  have "range_loop (diskstats_line now) out (map (\<lambda>e. join_with CHR 0x20 (diskstats_words e)) es)
      = Ok (out @ map (diskstats_decode now) (filter diskstats_reported es))" for out
    using assms by (induction es arbitrary: out) (simp_all add: diskstats_line_decode)
  then show ?thesis
    using assms by (simp add: parseDiskStats_def diskstats_file_lines) (simp add: diskstats_line_def)
qed

theorem parseDiskStats_kernel_file_witness:
  "\<exists>d. parseDiskStats 7 (diskstats_file [(8, 0, ''sda'', [5, 0, 40, 3, 2, 0, 16, 1, 0, 4, 4]),
      (7, 0, ''loop0'', [1, 1, 1, 1])]) = Ok [d] \<and> dio_BytesRead d = 20480 \<and> dio_BytesWritten d = 8192"
proof -
  have "list_all diskstats_entry_ok [(8, 0, ''sda'', [5, 0, 40, 3, 2, 0, 16, 1, 0, 4, 4]),
      (7, 0, ''loop0'', [1, 1, 1, 1])]" by (simp add: plain_eval)
  moreover have "isIgnoredDiskDevice ''loop0''" "\<not> isIgnoredDiskDevice ''sda''" by code_simp+
  ultimately show ?thesis using parseDiskStats_kernel_file by simp
qed

end
