(* ===== verification/Container.thy ===== *)
theory Container
  imports ContainerLayer Memory Cpu Pressure DiskIO Process
begin

text \<open>
  The data of \<open>container.go\<close>: the container and its groups of figures, the rates between two samples,
  and the parsers of the cgroup and namespace files. The metadata client of \<open>container_runtime.go\<close> is
  given what the HTTP request answers.
\<close>

section \<open>The runtime's metadata\<close>

record containerMetadata =
  cm_name :: string
  cm_image :: string
  cm_state :: string
  cm_labels :: "string \<rightharpoonup> string"

record apiContainer =
  api_ID :: string
  api_Names :: "string list"
  api_Image :: string
  api_State :: string
  api_Labels :: "string \<rightharpoonup> string"

text \<open>A response: its status code, its status line, and what decoding the body as JSON yields.\<close>

type_synonym api_request = "string \<Rightarrow> int \<Rightarrow> error + int \<times> string \<times> (error + apiContainer list)"

definition api_name :: "apiContainer \<Rightarrow> string" where
  "api_name c = (case api_Names c of [] \<Rightarrow> [] | n # ns \<Rightarrow> TrimPrefix n ''/'')"

definition metadata_of :: "apiContainer list \<Rightarrow> (string \<rightharpoonup> containerMetadata)" where
  "metadata_of listed = foldl (\<lambda>m c. m(api_ID c \<mapsto> \<lparr>cm_name = api_name c, cm_image = api_Image c,
     cm_state = api_State c, cm_labels = api_Labels c\<rparr>)) Map.empty listed"

definition fetchContainerMetadata ::
    "api_request \<Rightarrow> string \<Rightarrow> int \<Rightarrow> error + (string \<rightharpoonup> containerMetadata)" where
  "fetchContainerMetadata request socketPath timeout0 =
    (if socketPath = [] then Inl (ErrorString ''no container socket configured'')
     else
       (let timeout = (if timeout0 \<le> 0 then defaultContainerSocketTimeout else timeout0) in
        case request socketPath timeout of
          Inl e \<Rightarrow> Inl e
        | Inr (code, status, body) \<Rightarrow>
            if code \<noteq> 200 then Inl (ErrorString (''container runtime API returned '' @ status))
            else (case body of Inl e \<Rightarrow> Inl e | Inr listed \<Rightarrow> Inr (metadata_of listed))))"

section \<open>The container\<close>

record ContainerCPU =
  ccpu_CoresUsed :: f64
  ccpu_PercentOfHost :: f64
  ccpu_PercentOfLimit :: f64
  ccpu_Limited :: bool
  ccpu_AllocatedCores :: f64
  ccpu_UsageSeconds :: f64
  ccpu_UserSeconds :: f64
  ccpu_SystemSeconds :: f64
  ccpu_Periods :: u64
  ccpu_ThrottledPeriods :: u64
  ccpu_ThrottledSeconds :: f64

definition ContainerCPU_zero :: ContainerCPU where
  "ContainerCPU_zero = \<lparr>ccpu_CoresUsed = f64_zero, ccpu_PercentOfHost = f64_zero,
     ccpu_PercentOfLimit = f64_zero, ccpu_Limited = False, ccpu_AllocatedCores = f64_zero,
     ccpu_UsageSeconds = f64_zero, ccpu_UserSeconds = f64_zero, ccpu_SystemSeconds = f64_zero,
     ccpu_Periods = 0, ccpu_ThrottledPeriods = 0, ccpu_ThrottledSeconds = f64_zero\<rparr>"

record ContainerMemory =
  cmem_Used :: f64
  cmem_Limit :: f64
  cmem_Limited :: bool
  cmem_PercentageUsed :: f64
  cmem_Anon :: f64
  cmem_File :: f64
  cmem_Swap :: f64
  cmem_OOMKills :: u64
  cmem_Unit :: unit_name

definition ContainerMemory_zero :: ContainerMemory where
  "ContainerMemory_zero = \<lparr>cmem_Used = f64_zero, cmem_Limit = f64_zero, cmem_Limited = False,
     cmem_PercentageUsed = f64_zero, cmem_Anon = f64_zero, cmem_File = f64_zero,
     cmem_Swap = f64_zero, cmem_OOMKills = 0, cmem_Unit = []\<rparr>"

record ContainerInterface =
  cif_Interface :: string
  cif_RxBytes :: u64
  cif_TxBytes :: u64
  cif_RxPackets :: u64
  cif_TxPackets :: u64
  cif_RxErrors :: u64
  cif_TxErrors :: u64
  cif_RxDropped :: u64
  cif_TxDropped :: u64

definition ContainerInterface_zero :: ContainerInterface where
  "ContainerInterface_zero = \<lparr>cif_Interface = [], cif_RxBytes = 0, cif_TxBytes = 0,
     cif_RxPackets = 0, cif_TxPackets = 0, cif_RxErrors = 0, cif_TxErrors = 0, cif_RxDropped = 0,
     cif_TxDropped = 0\<rparr>"

record ContainerNetwork =
  cnet_Interfaces :: "ContainerInterface list"
  cnet_SharesHostNetwork :: bool
  cnet_Accessible :: bool

definition ContainerNetwork_zero :: ContainerNetwork where
  "ContainerNetwork_zero = \<lparr>cnet_Interfaces = [], cnet_SharesHostNetwork = False, cnet_Accessible = False\<rparr>"

record ContainerBlockIO =
  cbio_Device :: string
  cbio_Major :: u64
  cbio_Minor :: u64
  cbio_ReadBytes :: u64
  cbio_WriteBytes :: u64
  cbio_Reads :: u64
  cbio_Writes :: u64

definition ContainerBlockIO_zero :: ContainerBlockIO where
  "ContainerBlockIO_zero = \<lparr>cbio_Device = [], cbio_Major = 0, cbio_Minor = 0, cbio_ReadBytes = 0,
     cbio_WriteBytes = 0, cbio_Reads = 0, cbio_Writes = 0\<rparr>"

record ContainerMount =
  cmnt_MountPoint :: string
  cmnt_Device :: string
  cmnt_FSType :: string
  cmnt_Total :: f64
  cmnt_Used :: f64
  cmnt_Available :: f64
  cmnt_Unit :: unit_name
  cmnt_Inodes :: u64
  cmnt_InodesUsed :: u64
  cmnt_InodesAvailable :: u64
  cmnt_Accessible :: bool

record ContainerPids =
  cpid_Current :: u64
  cpid_Max :: u64
  cpid_Limited :: bool

record Container =
  co_ID :: string
  co_ShortID :: string
  co_Name :: string
  co_Image :: string
  co_Labels :: "string \<rightharpoonup> string"
  co_State :: string
  co_Runtime :: string
  co_PodUID :: string
  co_MetadataAvailable :: bool
  co_CgroupPath :: string
  co_Pid :: int
  co_CPU :: ContainerCPU
  co_Memory :: ContainerMemory
  co_Network :: ContainerNetwork
  co_BlockIO :: "ContainerBlockIO list"
  co_Mounts :: "ContainerMount list"
  co_Layer :: ContainerLayer
  co_Pids :: ContainerPids
  co_Pressure :: Pressure
  co_Time :: int

definition Container_zero :: Container where
  "Container_zero = \<lparr>co_ID = [], co_ShortID = [], co_Name = [], co_Image = [], co_Labels = Map.empty,
     co_State = [], co_Runtime = [], co_PodUID = [], co_MetadataAvailable = False,
     co_CgroupPath = [], co_Pid = 0, co_CPU = ContainerCPU_zero, co_Memory = ContainerMemory_zero,
     co_Network = ContainerNetwork_zero, co_BlockIO = [], co_Mounts = [],
     co_Layer = ContainerLayer_zero [],
     co_Pids = \<lparr>cpid_Current = 0, cpid_Max = 0, cpid_Limited = False\<rparr>,
     co_Pressure = Pressure_zero 0, co_Time = 0\<rparr>"

section \<open>Rates between two samples\<close>

record ContainerRates =
  crt_ID :: string
  crt_RxBytesPerSec :: f64
  crt_TxBytesPerSec :: f64
  crt_RxPacketsPerSec :: f64
  crt_TxPacketsPerSec :: f64
  crt_ReadBytesPerSec :: f64
  crt_WriteBytesPerSec :: f64
  crt_ReadsPerSec :: f64
  crt_WritesPerSec :: f64
  crt_CPUThrottledPerSec :: f64
  crt_CPUThrottledSecPerSec :: f64

definition ContainerRates_zero :: "string \<Rightarrow> ContainerRates" where
  "ContainerRates_zero i = \<lparr>crt_ID = i, crt_RxBytesPerSec = f64_zero, crt_TxBytesPerSec = f64_zero,
     crt_RxPacketsPerSec = f64_zero, crt_TxPacketsPerSec = f64_zero,
     crt_ReadBytesPerSec = f64_zero, crt_WriteBytesPerSec = f64_zero, crt_ReadsPerSec = f64_zero,
     crt_WritesPerSec = f64_zero, crt_CPUThrottledPerSec = f64_zero,
     crt_CPUThrottledSecPerSec = f64_zero\<rparr>"

definition net_totals :: "ContainerNetwork \<Rightarrow> ContainerInterface" where
  "net_totals n = foldl (\<lambda>t i. t\<lparr>cif_RxBytes := cif_RxBytes t + cif_RxBytes i,
     cif_TxBytes := cif_TxBytes t + cif_TxBytes i, cif_RxPackets := cif_RxPackets t + cif_RxPackets i,
     cif_TxPackets := cif_TxPackets t + cif_TxPackets i\<rparr>) ContainerInterface_zero (cnet_Interfaces n)"

definition blockIOTotals :: "ContainerBlockIO list \<Rightarrow> ContainerBlockIO" where
  "blockIOTotals devices = foldl (\<lambda>t d. t\<lparr>cbio_ReadBytes := cbio_ReadBytes t + cbio_ReadBytes d,
     cbio_WriteBytes := cbio_WriteBytes t + cbio_WriteBytes d, cbio_Reads := cbio_Reads t + cbio_Reads d,
     cbio_Writes := cbio_Writes t + cbio_Writes d\<rparr>) ContainerBlockIO_zero devices"

definition net_group :: "ContainerInterface \<Rightarrow> ContainerInterface \<Rightarrow> f64 \<Rightarrow> ContainerRates \<Rightarrow> ContainerRates" where
  "net_group now prev el rates =
    (if cif_RxBytes now \<ge> cif_RxBytes prev \<and> cif_TxBytes now \<ge> cif_TxBytes prev
       \<and> cif_RxPackets now \<ge> cif_RxPackets prev \<and> cif_TxPackets now \<ge> cif_TxPackets prev then
       rates\<lparr>crt_RxBytesPerSec := per_sec (cif_RxBytes now - cif_RxBytes prev) el,
         crt_TxBytesPerSec := per_sec (cif_TxBytes now - cif_TxBytes prev) el,
         crt_RxPacketsPerSec := per_sec (cif_RxPackets now - cif_RxPackets prev) el,
         crt_TxPacketsPerSec := per_sec (cif_TxPackets now - cif_TxPackets prev) el\<rparr>
     else rates)"

definition io_group :: "ContainerBlockIO \<Rightarrow> ContainerBlockIO \<Rightarrow> f64 \<Rightarrow> ContainerRates \<Rightarrow> ContainerRates" where
  "io_group now prev el rates =
    (if cbio_ReadBytes now \<ge> cbio_ReadBytes prev \<and> cbio_WriteBytes now \<ge> cbio_WriteBytes prev
       \<and> cbio_Reads now \<ge> cbio_Reads prev \<and> cbio_Writes now \<ge> cbio_Writes prev then
       rates\<lparr>crt_ReadBytesPerSec := per_sec (cbio_ReadBytes now - cbio_ReadBytes prev) el,
         crt_WriteBytesPerSec := per_sec (cbio_WriteBytes now - cbio_WriteBytes prev) el,
         crt_ReadsPerSec := per_sec (cbio_Reads now - cbio_Reads prev) el,
         crt_WritesPerSec := per_sec (cbio_Writes now - cbio_Writes prev) el\<rparr>
     else rates)"

definition throttle_group :: "ContainerCPU \<Rightarrow> ContainerCPU \<Rightarrow> f64 \<Rightarrow> ContainerRates \<Rightarrow> ContainerRates" where
  "throttle_group now prev el rates =
    (if ccpu_ThrottledPeriods now \<ge> ccpu_ThrottledPeriods prev
       \<and> f64_le (ccpu_ThrottledSeconds prev) (ccpu_ThrottledSeconds now) then
       rates\<lparr>crt_CPUThrottledPerSec := per_sec (ccpu_ThrottledPeriods now - ccpu_ThrottledPeriods prev) el,
         crt_CPUThrottledSecPerSec :=
           f64_div (f64_sub (ccpu_ThrottledSeconds now) (ccpu_ThrottledSeconds prev)) el\<rparr>
     else rates)"

definition Container_RatesSince :: "Container \<Rightarrow> Container \<Rightarrow> f64 \<Rightarrow> ContainerRates" where
  "Container_RatesSince c prev elapsedSeconds =
    (let rates = ContainerRates_zero (co_ID c) in
     if f64_le elapsedSeconds f64_zero \<or> co_ID c \<noteq> co_ID prev then rates
     else throttle_group (co_CPU c) (co_CPU prev) elapsedSeconds
       (io_group (blockIOTotals (co_BlockIO c)) (blockIOTotals (co_BlockIO prev)) elapsedSeconds
         (net_group (net_totals (co_Network c)) (net_totals (co_Network prev)) elapsedSeconds rates)))"

section \<open>Host facts\<close>

record containerHostInfo =
  hi_cores :: int
  hi_memoryBytes :: u64
  hi_diskNames :: "string \<rightharpoonup> string"
  hi_netNS :: string

definition countStatCPUs :: "string \<Rightarrow> int" where
  "countStatCPUs content = int (length (filter (\<lambda>line. HasPrefix line ''cpu'' \<and> 3 < length line \<and>
     is_digit (line ! 3)) (lines content)))"

definition disk_name_line :: "(string \<rightharpoonup> string) \<Rightarrow> string \<Rightarrow> (string \<rightharpoonup> string)" where
  "disk_name_line names line = (let f = Fields line in
     if length f < 3 then names else names(f ! 0 @ colon # f ! 1 \<mapsto> f ! 2))"

definition parseDiskNames :: "string \<Rightarrow> (string \<rightharpoonup> string)" where
  "parseDiskNames content = foldl disk_name_line Map.empty (lines content)"

definition readContainerHostInfo :: "fs \<Rightarrow> SyStats \<Rightarrow> containerHostInfo go" where
  "readContainerHostInfo f systats =
    (let cores = (case ReadFileWithError f (StatFilePath systats) of
         Inl e \<Rightarrow> 0 | Inr stat \<Rightarrow> countStatCPUs stat);
       diskNames = (case ReadFileWithError f (DiskStatsPath systats) of
         Inl e \<Rightarrow> Map.empty | Inr diskstats \<Rightarrow> parseDiskNames diskstats);
       netNS = (case fs_link f (path_Join [ProcPath systats, ''1'', ''ns'', ''net'']) of
         None \<Rightarrow> [] | Some ns \<Rightarrow> ns) in
     go_bind (case ReadFileWithError f (MeminfoPath systats) of
         Inl e \<Rightarrow> Ok 0
       | Inr meminfo \<Rightarrow> go_bind (parseMeminfo meminfo) (\<lambda>m. Ok (mk_total m * 1024))) (\<lambda>memoryBytes.
       Ok \<lparr>hi_cores = cores, hi_memoryBytes = memoryBytes, hi_diskNames = diskNames, hi_netNS = netNS\<rparr>))"

section \<open>Memory, CPU and pids\<close>

definition statWithFallback :: "(string \<rightharpoonup> u64) \<Rightarrow> string \<Rightarrow> string \<Rightarrow> u64" where
  "statWithFallback stat key fallback = (case stat key of Some v \<Rightarrow> v | None \<Rightarrow> map_u64 stat fallback)"

definition readUintFile :: "fs \<Rightarrow> string \<Rightarrow> u64" where
  "readUintFile f file = (case fs_read f file of
     None \<Rightarrow> 0
   | Some content \<Rightarrow> (case parse_u64 (TrimSpace content) of None \<Rightarrow> 0 | Some v \<Rightarrow> v))"

text \<open>v1 swap: \<open>memsw\<close> is memory and swap together.\<close>

definition v1_swap :: "fs \<Rightarrow> cgroupDirs \<Rightarrow> u64 go" where
  "v1_swap f dirs =
    (let memsw = readUintFile f (path_Join [cd_memory dirs, ''memory.memsw.usage_in_bytes'']) in
     if 0 < memsw then
       go_bind (readCgroupMemoryUsage f (cd_version dirs) (cd_memory dirs)) (\<lambda>r. case r of
         Inl e \<Rightarrow> Ok 0
       | Inr usage \<Rightarrow> Ok (if usage < memsw then memsw - usage else 0))
     else Ok 0)"

text \<open>\<open>(anon, file, swap, oomKills)\<close>.\<close>

definition memory_details :: "fs \<Rightarrow> cgroupDirs \<Rightarrow> (u64 \<times> u64 \<times> u64 \<times> u64) go" where
  "memory_details f dirs =
    (let stat = readKeyValueStat f (path_Join [cd_memory dirs, ''memory.stat'']) in
     if cd_version dirs = cgroupV2 then
       Ok (map_u64 stat ''anon'', map_u64 stat ''file'',
         readUintFile f (path_Join [cd_memory dirs, ''memory.swap.current'']),
         map_u64 (readKeyValueStat f (path_Join [cd_memory dirs, ''memory.events''])) ''oom_kill'')
     else
       go_bind (v1_swap f dirs) (\<lambda>swap.
         Ok (statWithFallback stat ''total_rss'' ''rss'', statWithFallback stat ''total_cache'' ''cache'', swap,
           map_u64 (readKeyValueStat f (path_Join [cd_memory dirs, ''memory.oom_control''])) ''oom_kill'')))"

definition readContainerMemory ::
    "fs \<Rightarrow> cgroupDirs \<Rightarrow> u64 \<Rightarrow> f64 \<Rightarrow> (error + ContainerMemory) go" where
  "readContainerMemory f dirs hostMemoryBytes bytesPer =
    go_bind (readCgroupMemoryBytes f (cd_version dirs) (cd_memory dirs)) (\<lambda>r. case r of
      Inl e \<Rightarrow> Ok (Inl e)
    | Inr (limit0, limited, usedBytes) \<Rightarrow>
        (let limitBytes = (if limited then limit0 else hostMemoryBytes) in
         go_bind (memory_details f dirs) (\<lambda>(anon, file, swap, oomKills).
           Ok (Inr (ContainerMemory_zero\<lparr>
             cmem_Used := f64_div (f64_of_u64 usedBytes) bytesPer,
             cmem_Limit := f64_div (f64_of_u64 limitBytes) bytesPer,
             cmem_Limited := limited,
             cmem_PercentageUsed := (if 0 < limitBytes
               then f64_mul (f64_div (f64_of_u64 usedBytes) (f64_of_u64 limitBytes)) (f64_const 100)
               else f64_zero),
             cmem_Anon := f64_div (f64_of_u64 anon) bytesPer,
             cmem_File := f64_div (f64_of_u64 file) bytesPer,
             cmem_Swap := f64_div (f64_of_u64 swap) bytesPer,
             cmem_OOMKills := oomKills\<rparr>)))))"

definition sampleContainerCPUSeconds :: "fs \<Rightarrow> cgroupDirs \<Rightarrow> f64 option go" where
  "sampleContainerCPUSeconds f dirs = sampleCgroupCPUUsageSeconds f
     (cgroupCPUInfo_zero\<lparr>cc_ok := True, cc_version := cd_version dirs, cc_usageDir := cd_cpuacct dirs\<rparr>)"

definition readContainerCPUCounters :: "fs \<Rightarrow> cgroupDirs \<Rightarrow> ContainerCPU go" where
  "readContainerCPUCounters f dirs =
    go_bind (readCgroupCPUQuota f (cd_version dirs) (cd_cpu dirs)) (\<lambda>r.
      let out = (case r of
          Inr (cores, True) \<Rightarrow> ContainerCPU_zero\<lparr>ccpu_Limited := True, ccpu_AllocatedCores := cores\<rparr>
        | _ \<Rightarrow> ContainerCPU_zero);
        seconds = (\<lambda>v per. f64_div (f64_of_u64 v) (f64_const per));
        stat = readKeyValueStat f (path_Join [cd_cpu dirs, ''cpu.stat'']) in
      if cd_version dirs = cgroupV2 then
        Ok (out\<lparr>ccpu_UsageSeconds := seconds (map_u64 stat ''usage_usec'') 1000000,
          ccpu_UserSeconds := seconds (map_u64 stat ''user_usec'') 1000000,
          ccpu_SystemSeconds := seconds (map_u64 stat ''system_usec'') 1000000,
          ccpu_Periods := map_u64 stat ''nr_periods'',
          ccpu_ThrottledPeriods := map_u64 stat ''nr_throttled'',
          ccpu_ThrottledSeconds := seconds (map_u64 stat ''throttled_usec'') 1000000\<rparr>)
      else
        go_bind (sampleContainerCPUSeconds f dirs) (\<lambda>usage.
          let acct = readKeyValueStat f (path_Join [cd_cpuacct dirs, ''cpuacct.stat'']) in
          Ok (out\<lparr>ccpu_UsageSeconds := (case usage of None \<Rightarrow> f64_zero | Some u \<Rightarrow> u),
            ccpu_UserSeconds := f64_div (f64_of_u64 (map_u64 acct ''user'')) clockTicksPerSec,
            ccpu_SystemSeconds := f64_div (f64_of_u64 (map_u64 acct ''system'')) clockTicksPerSec,
            ccpu_Periods := map_u64 stat ''nr_periods'',
            ccpu_ThrottledPeriods := map_u64 stat ''nr_throttled'',
            ccpu_ThrottledSeconds := seconds (map_u64 stat ''throttled_time'') 1000000000\<rparr>)))"

text \<open>The sample's two readings, with the zero value where the reading failed.\<close>

definition applyContainerCPUSample ::
    "ContainerCPU \<Rightarrow> f64 \<Rightarrow> f64 \<Rightarrow> bool \<Rightarrow> f64 \<Rightarrow> int \<Rightarrow> ContainerCPU" where
  "applyContainerCPUSample out0 usage1 usage2 ok elapsedSeconds hostCores =
    (let out = (if f64_less f64_zero usage2 then out0\<lparr>ccpu_UsageSeconds := usage2\<rparr> else out0) in
     if \<not> ok \<or> f64_le elapsedSeconds f64_zero \<or> f64_less usage2 usage1 then out
     else
       (let cores = f64_div (f64_sub usage2 usage1) elapsedSeconds;
            out = out\<lparr>ccpu_CoresUsed := cores\<rparr>;
            out = (if 0 < hostCores then out\<lparr>ccpu_PercentOfHost :=
                f64_div (f64_mul (f64_const 100) cores) (f64_of_int hostCores)\<rparr> else out) in
        if ccpu_Limited out \<and> f64_less f64_zero (ccpu_AllocatedCores out)
        then out\<lparr>ccpu_PercentOfLimit :=
            f64_div (f64_mul (f64_const 100) cores) (ccpu_AllocatedCores out)\<rparr>
        else out))"

definition readContainerPids :: "fs \<Rightarrow> string \<Rightarrow> ContainerPids" where
  "readContainerPids f dir =
    (let current = readUintFile f (path_Join [dir, ''pids.current'']);
         limit = readUintFile f (path_Join [dir, ''pids.max'']) in
     if 0 < limit then \<lparr>cpid_Current = current, cpid_Max = limit, cpid_Limited = True\<rparr>
     else \<lparr>cpid_Current = current, cpid_Max = 0, cpid_Limited = False\<rparr>)"

definition readContainerPressure :: "fs \<Rightarrow> int \<Rightarrow> cgroupDirs \<Rightarrow> Pressure" where
  "readContainerPressure f now dirs =
    (if cd_version dirs \<noteq> cgroupV2 then Pressure_zero now
     else (let out = foldl (psi_resource f (cd_cpu dirs) True) (Pressure_zero now) psiResources in
       out\<lparr>pr_Limited := pr_Available out\<rparr>))"

definition isCgroupFrozen :: "fs \<Rightarrow> cgroupDirs \<Rightarrow> bool" where
  "isCgroupFrozen f dirs =
    (if cd_version dirs = cgroupV2 then
       map_u64 (readKeyValueStat f (path_Join [cd_cpu dirs, ''cgroup.events''])) ''frozen'' = 1
     else TrimSpace (ReadFile f (path_Join [cd_freezer dirs, ''freezer.state''])) = ''FROZEN'')"

section \<open>Block I/O\<close>

definition parseDevNum :: "string \<Rightarrow> (u64 \<times> u64) option" where
  "parseDevNum s = (case Cut colon s of
     None \<Rightarrow> None
   | Some (a, b) \<Rightarrow> (case (parse_u64 a, parse_u64 b) of
       (Some major, Some minor) \<Rightarrow> Some (major, minor) | _ \<Rightarrow> None))"

definition io_stat_field :: "ContainerBlockIO \<Rightarrow> string \<Rightarrow> ContainerBlockIO" where
  "io_stat_field d kv = (case Cut CHR ''='' kv of
     None \<Rightarrow> d
   | Some (key, val) \<Rightarrow> (case parse_u64 val of
       None \<Rightarrow> d
     | Some n \<Rightarrow>
         if key = ''rbytes'' then d\<lparr>cbio_ReadBytes := n\<rparr>
         else if key = ''wbytes'' then d\<lparr>cbio_WriteBytes := n\<rparr>
         else if key = ''rios'' then d\<lparr>cbio_Reads := n\<rparr>
         else if key = ''wios'' then d\<lparr>cbio_Writes := n\<rparr>
         else d))"

definition io_stat_line :: "string \<Rightarrow> ContainerBlockIO option" where
  "io_stat_line line = (let fields = Fields line in
     if length fields < 2 then None
     else map_option (\<lambda>(major, minor). foldl io_stat_field
       (ContainerBlockIO_zero\<lparr>cbio_Major := major, cbio_Minor := minor\<rparr>) (tl fields))
       (parseDevNum (fields ! 0)))"

definition parseIOStat :: "string \<Rightarrow> ContainerBlockIO list" where
  "parseIOStat content = List.map_filter io_stat_line (lines content)"

text \<open>The v1 devices in order of appearance, each under the text it was named by.\<close>

type_synonym blkio_devs = "(string \<times> ContainerBlockIO) list"

definition blkio_get :: "blkio_devs \<Rightarrow> string \<Rightarrow> blkio_devs option" where
  "blkio_get devs dev =
    (if map_of devs dev \<noteq> None then Some devs
     else map_option (\<lambda>(major, minor). devs @
       [(dev, ContainerBlockIO_zero\<lparr>cbio_Major := major, cbio_Minor := minor\<rparr>)]) (parseDevNum dev))"

definition blkio_set :: "blkio_devs \<Rightarrow> string \<Rightarrow> (ContainerBlockIO \<Rightarrow> ContainerBlockIO) \<Rightarrow> blkio_devs" where
  "blkio_set devs dev g = map (\<lambda>(k, d). (k, if k = dev then g d else d)) devs"

definition blkio_line ::
    "(u64 \<Rightarrow> ContainerBlockIO \<Rightarrow> ContainerBlockIO) \<Rightarrow> (u64 \<Rightarrow> ContainerBlockIO \<Rightarrow> ContainerBlockIO) \<Rightarrow>
     blkio_devs \<Rightarrow> string \<Rightarrow> blkio_devs" where
  "blkio_line on_read on_write devs line = (let fields = Fields line in
     if length fields \<noteq> 3 then devs
     else (case parse_u64 (fields ! 2) of
         None \<Rightarrow> devs
       | Some n \<Rightarrow> (case blkio_get devs (fields ! 0) of
           None \<Rightarrow> devs
         | Some devs' \<Rightarrow>
             if fields ! 1 = ''Read'' then blkio_set devs' (fields ! 0) (on_read n)
             else if fields ! 1 = ''Write'' then blkio_set devs' (fields ! 0) (on_write n)
             else devs')))"

definition parseBlkioThrottle :: "string \<Rightarrow> string \<Rightarrow> ContainerBlockIO list" where
  "parseBlkioThrottle bytesContent opsContent =
    (let devs1 = foldl (blkio_line (\<lambda>n d. d\<lparr>cbio_ReadBytes := n\<rparr>) (\<lambda>n d. d\<lparr>cbio_WriteBytes := n\<rparr>))
           [] (lines bytesContent);
         devs2 = foldl (blkio_line (\<lambda>n d. d\<lparr>cbio_Reads := n\<rparr>) (\<lambda>n d. d\<lparr>cbio_Writes := n\<rparr>))
           devs1 (lines opsContent) in
     map snd devs2)"

fun readFirstExisting :: "fs \<Rightarrow> string \<Rightarrow> string list \<Rightarrow> string" where
  "readFirstExisting f dir [] = []"
| "readFirstExisting f dir (n # names) = (case ReadFileWithError f (path_Join [dir, n]) of
     Inr content \<Rightarrow> content | Inl e \<Rightarrow> readFirstExisting f dir names)"

definition name_device :: "(string \<rightharpoonup> string) \<Rightarrow> ContainerBlockIO \<Rightarrow> ContainerBlockIO" where
  "name_device diskNames d =
    (let key = show_u64 (cbio_Major d) @ colon # show_u64 (cbio_Minor d) in
     d\<lparr>cbio_Device := (case diskNames key of Some name \<Rightarrow> name | None \<Rightarrow> key)\<rparr>)"

definition readContainerBlockIO ::
    "fs \<Rightarrow> cgroupDirs \<Rightarrow> (string \<rightharpoonup> string) \<Rightarrow> ContainerBlockIO list" where
  "readContainerBlockIO f dirs diskNames = map (name_device diskNames)
    (if cd_version dirs = cgroupV2 then parseIOStat (ReadFile f (path_Join [cd_blkio dirs, ''io.stat'']))
     else parseBlkioThrottle
       (readFirstExisting f (cd_blkio dirs)
         [''blkio.throttle.io_service_bytes_recursive'', ''blkio.throttle.io_service_bytes''])
       (readFirstExisting f (cd_blkio dirs)
         [''blkio.throttle.io_serviced_recursive'', ''blkio.throttle.io_serviced'']))"

section \<open>Network and mounts\<close>

definition net_dev_line :: "string \<Rightarrow> ContainerInterface option" where
  "net_dev_line line = (case Cut colon line of
     None \<Rightarrow> None
   | Some (name0, rest) \<Rightarrow>
       (let name = TrimSpace name0; f = Fields rest; n = (\<lambda>i. fst (ParseUint (f ! i))) in
        if name = ''lo'' \<or> length f < 12 then None
        else Some \<lparr>cif_Interface = name, cif_RxBytes = n 0, cif_TxBytes = n 8, cif_RxPackets = n 1,
          cif_TxPackets = n 9, cif_RxErrors = n 2, cif_TxErrors = n 10, cif_RxDropped = n 3,
          cif_TxDropped = n 11\<rparr>))"

definition parseNetDev :: "string \<Rightarrow> ContainerInterface list" where
  "parseNetDev content = List.map_filter net_dev_line (lines content)"

definition readContainerNetwork :: "fs \<Rightarrow> string \<Rightarrow> int \<Rightarrow> string \<Rightarrow> ContainerNetwork" where
  "readContainerNetwork f procPath pid hostNetNS =
    (let pidDir = path_Join [procPath, Itoa pid] in
     case ReadFileWithError f (path_Join [pidDir, ''net'', ''dev'']) of
       Inl e \<Rightarrow> ContainerNetwork_zero
     | Inr content \<Rightarrow> \<lparr>cnet_Interfaces = parseNetDev content,
         cnet_SharesHostNetwork = (hostNetNS \<noteq> [] \<and>
           fs_link f (path_Join [pidDir, ''ns'', ''net'']) = Some hostNetNS),
         cnet_Accessible = True\<rparr>)"

definition containerPseudoFsTypes :: "string list" where
  "containerPseudoFsTypes = [''proc'', ''sysfs'', ''cgroup'', ''cgroup2'', ''devpts'', ''mqueue'',
     ''securityfs'', ''debugfs'', ''tracefs'', ''pstore'', ''bpf'', ''fusectl'', ''configfs'',
     ''hugetlbfs'', ''autofs'', ''binfmt_misc'', ''nsfs'', ''rpc_pipefs'']"

definition containerRuntimeFileMounts :: "string list" where
  "containerRuntimeFileMounts = [''/etc/hosts'', ''/etc/hostname'', ''/etc/resolv.conf'',
     ''/run/.containerenv'', ''/.dockerenv'']"

definition isContainerStorageMount :: "mountEntry \<Rightarrow> bool" where
  "isContainerStorageMount m =
    (if me_fsType m \<in> set containerPseudoFsTypes \<or> me_fsType m \<in> set excludedFsTypes
       \<or> me_mountPoint m \<in> set containerRuntimeFileMounts then False
     else \<not> list_ex (\<lambda>pre. me_mountPoint m = pre \<or> HasPrefix (me_mountPoint m) (pre @ ''/''))
       [''/proc'', ''/sys'', ''/dev''])"

definition container_mount ::
    "fs \<Rightarrow> string \<Rightarrow> unit_name \<Rightarrow> f64 \<Rightarrow> mountEntry \<Rightarrow> ContainerMount option" where
  "container_mount f pidDir u bytesPer m =
    (if \<not> isContainerStorageMount m then None
     else
       (let cm = \<lparr>cmnt_MountPoint = me_mountPoint m, cmnt_Device = me_device m, cmnt_FSType = me_fsType m,
            cmnt_Total = f64_zero, cmnt_Used = f64_zero, cmnt_Available = f64_zero, cmnt_Unit = u,
            cmnt_Inodes = 0, cmnt_InodesUsed = 0, cmnt_InodesAvailable = 0, cmnt_Accessible = False\<rparr> in
        case fs_statfs f (path_Join [pidDir, ''root'', me_mountPoint m]) of
          None \<Rightarrow> Some cm
        | Some stat \<Rightarrow>
            if sf_blocks stat = 0 then None
            else
              (let blockSize = sf_bsize stat; size = sf_blocks stat * blockSize;
                   free = sf_bfree stat * blockSize in
               Some (cm\<lparr>cmnt_Total := f64_div (f64_of_u64 size) bytesPer,
                 cmnt_Used := f64_div (f64_of_u64 (size - free)) bytesPer,
                 cmnt_Available := f64_div (f64_of_u64 (sf_bavail stat * blockSize)) bytesPer,
                 cmnt_Inodes := sf_files stat, cmnt_InodesAvailable := sf_ffree stat,
                 cmnt_InodesUsed := sf_files stat - sf_ffree stat, cmnt_Accessible := True\<rparr>))))"

definition readContainerMounts ::
    "fs \<Rightarrow> string \<Rightarrow> int \<Rightarrow> unit_name \<Rightarrow> f64 \<Rightarrow> ContainerMount list" where
  "readContainerMounts f procPath pid u bytesPer =
    (let pidDir = path_Join [procPath, Itoa pid] in
     case readMounts f (path_Join [pidDir, ''mounts'']) of
       Inl e \<Rightarrow> [] | Inr mounts \<Rightarrow> List.map_filter (container_mount f pidDir u bytesPer) mounts)"

section \<open>The rates as counter groups\<close>

definition net_counters :: "Container \<Rightarrow> u64 list" where
  "net_counters c = (let t = net_totals (co_Network c) in
     [cif_RxBytes t, cif_TxBytes t, cif_RxPackets t, cif_TxPackets t])"

definition io_counters :: "Container \<Rightarrow> u64 list" where
  "io_counters c = (let t = blockIOTotals (co_BlockIO c) in
     [cbio_ReadBytes t, cbio_WriteBytes t, cbio_Reads t, cbio_Writes t])"

definition net_rate_list :: "ContainerRates \<Rightarrow> f64 list" where
  "net_rate_list r = [crt_RxBytesPerSec r, crt_TxBytesPerSec r, crt_RxPacketsPerSec r, crt_TxPacketsPerSec r]"

definition io_rate_list :: "ContainerRates \<Rightarrow> f64 list" where
  "io_rate_list r = [crt_ReadBytesPerSec r, crt_WriteBytesPerSec r, crt_ReadsPerSec r, crt_WritesPerSec r]"

text \<open>What a group of four reports once the elapsed time is known to be positive.\<close>

definition four_rates :: "u64 list \<Rightarrow> u64 list \<Rightarrow> f64 \<Rightarrow> f64 list" where
  "four_rates now prev el = (if list_all2 (\<le>) prev now
     then map2 (\<lambda>fg x. fg x el) [per_sec, per_sec, per_sec, per_sec] (map2 (-) now prev)
     else [f64_zero, f64_zero, f64_zero, f64_zero])"

interpretation container_net: counter_group net_counters "[per_sec, per_sec, per_sec, per_sec]"
  "\<lambda>c prev el. four_rates (net_counters c) (net_counters prev) el"
  by unfold_locales (auto simp: four_rates_def per_sec_sane per_sec_0)

interpretation container_io: counter_group io_counters "[per_sec, per_sec, per_sec, per_sec]"
  "\<lambda>c prev el. four_rates (io_counters c) (io_counters prev) el"
  by unfold_locales (auto simp: four_rates_def per_sec_sane per_sec_0)

lemma throttle_group_lists [simp]:
  "net_rate_list (throttle_group now prev el r) = net_rate_list r"
  "io_rate_list (throttle_group now prev el r) = io_rate_list r"
  by (simp_all add: throttle_group_def net_rate_list_def io_rate_list_def)

lemma io_group_net [simp]: "net_rate_list (io_group now prev el r) = net_rate_list r"
  by (simp add: io_group_def net_rate_list_def)

lemma net_group_io [simp]: "io_rate_list (net_group now prev el r) = io_rate_list r"
  by (simp add: net_group_def io_rate_list_def)

lemma RatesSince_groups:
  assumes "\<not> f64_le el f64_zero" and "co_ID c = co_ID prev"
  shows "net_rate_list (Container_RatesSince c prev el) = four_rates (net_counters c) (net_counters prev) el"
    and "io_rate_list (Container_RatesSince c prev el) = four_rates (io_counters c) (io_counters prev) el"
  using assms
  by (auto simp: Container_RatesSince_def Let_def net_counters_def io_counters_def four_rates_def)
    (auto simp: net_group_def io_group_def net_rate_list_def io_rate_list_def ContainerRates_zero_def)

text \<open>
  C7: the network and block-device rates of a container are finite and not negative; each group
  is the growth of its four totals per second, or all zeros when a total went back, whatever the
  other group did; and everything is zero for samples of different containers or an elapsed time
  that is not positive.
\<close>

theorem Container_RatesSince_groups:
  assumes "elapsed_ok el"
  shows "list_all sane_rate (net_rate_list (Container_RatesSince c prev el) @
      io_rate_list (Container_RatesSince c prev el))
    \<and> (if co_ID c = co_ID prev
       then net_rate_list (Container_RatesSince c prev el) = four_rates (net_counters c) (net_counters prev) el
         \<and> io_rate_list (Container_RatesSince c prev el) = four_rates (io_counters c) (io_counters prev) el
       else Container_RatesSince c prev el = ContainerRates_zero (co_ID c))
    \<and> Container_RatesSince c prev f64_zero = ContainerRates_zero (co_ID c)"
proof (cases "co_ID c = co_ID prev")
  case True
  note g = RatesSince_groups [OF elapsed_ok_positive [OF assms] True]
  show ?thesis
    using container_net.group_sane [OF assms, of c prev] container_io.group_sane [OF assms, of c prev] True
    by (simp add: g) (simp add: Container_RatesSince_def)
next
  case False
  then show ?thesis
    by (simp add: Container_RatesSince_def net_rate_list_def io_rate_list_def ContainerRates_zero_def)
qed

theorem Container_RatesSince_groups_witness:
  "net_rate_list (Container_RatesSince Container_zero Container_zero (f64_const 2)) =
     four_rates [0, 0, 0, 0] [0, 0, 0, 0] (f64_const 2)"
proof -
  have "pow2 (-40) \<le> pow2 1" "pow2 1 \<le> pow2 64" by simp_all
  moreover have "pow2 1 = 2" using pow2_nat [of 1] by simp
  ultimately have "elapsed_ok (f64_const 2)" by (simp add: elapsed_ok_def f64_const_def)
  moreover have "net_counters Container_zero = [0, 0, 0, 0]" by code_simp
  ultimately show ?thesis
    using Container_RatesSince_groups [of "f64_const 2" Container_zero Container_zero] by simp
qed

section \<open>Files as the kernel prints them\<close>

lemma not_digit_not_in_show: "\<not> is_digit c \<Longrightarrow> c \<notin> set (show_nat n)"
  using show_nat_digits [of n] by (auto simp: list_all_iff)

lemma is_digit_literals [simp]: "\<not> is_digit colon" "\<not> is_digit CHR ''=''"
  by code_simp+

text \<open>Lines of plain words, each line ended by a newline.\<close>

definition words_file :: "string list list \<Rightarrow> string" where
  "words_file wss = join_with CHR 0x0A (map (join_with CHR 0x20) wss @ [[]])"

definition plain_words :: "string list \<Rightarrow> bool" where
  "plain_words ws = list_all (\<lambda>w. plain w \<and> w \<noteq> []) ws"

lemma Fields_words: "plain_words ws \<Longrightarrow> Fields (join_with CHR 0x20 ws) = ws"
  by (simp add: plain_words_def Fields_join)

lemma lines_words_file:
  assumes "list_all plain_words wss"
  shows "lines (words_file wss) = map (join_with CHR 0x20) wss @ [[]]"
proof -
  have "CHR 0x0A \<notin> set (join_with CHR 0x20 ws)" if "ws \<in> set wss" for ws
  proof -
    have "\<forall>w \<in> set ws. plain w" using assms that by (auto simp: list_all_iff plain_words_def)
    then show ?thesis using join_with_set [of "CHR 0x20" ws] plain_no_space [of _ "CHR 0x0A"] by fastforce
  qed
  then show ?thesis unfolding words_file_def by (intro Split_join) auto
qed

text \<open>A line parser that only looks at the fields, over such a file.\<close>

lemma map_filter_words_file:
  assumes "list_all plain_words wss" and "\<And>l. parse l = g (Fields l)" and "g [] = None"
  shows "List.map_filter parse (lines (words_file wss)) = List.map_filter g wss"
proof -
  have "List.map_filter parse (map (join_with CHR 0x20) wss) = List.map_filter g wss"
    using assms(1,2) by (induction wss) (simp_all add: List.map_filter_simps Fields_words split: option.split)
  then show ?thesis
    using assms by (simp add: lines_words_file map_filter_append List.map_filter_simps)
qed

text \<open>An io.stat entry: device numbers, the four counters, and what newer kernels add.\<close>

type_synonym io_stat_entry = "(u64 \<times> u64) \<times> (u64 \<times> u64 \<times> u64 \<times> u64) \<times> string list"

fun io_stat_words :: "io_stat_entry \<Rightarrow> string list" where
  "io_stat_words ((ma, mi), (rb, wb, rs, ws), extra) =
     (show_u64 ma @ colon # show_u64 mi) #
     [''rbytes='' @ show_u64 rb, ''wbytes='' @ show_u64 wb, ''rios='' @ show_u64 rs,
      ''wios='' @ show_u64 ws] @ extra"

text \<open>Further words are \<open>key=value\<close> pairs with other keys, as \<open>dbytes\<close> and \<open>dios\<close> are.\<close>

definition io_stat_extra :: "string \<Rightarrow> bool" where
  "io_stat_extra w \<longleftrightarrow> plain w \<and> w \<noteq> [] \<and> (case Cut CHR ''='' w of None \<Rightarrow> True
     | Some (k, v) \<Rightarrow> k \<notin> {''rbytes'', ''wbytes'', ''rios'', ''wios''})"

fun io_stat_value :: "io_stat_entry \<Rightarrow> ContainerBlockIO" where
  "io_stat_value ((ma, mi), (rb, wb, rs, ws), extra) = ContainerBlockIO_zero\<lparr>cbio_Major := ma,
     cbio_Minor := mi, cbio_ReadBytes := rb, cbio_WriteBytes := wb, cbio_Reads := rs, cbio_Writes := ws\<rparr>"

fun io_stat_ok :: "io_stat_entry \<Rightarrow> bool" where
  "io_stat_ok (n, v, extra) = list_all io_stat_extra extra"

definition io_stat_fields :: "string list \<Rightarrow> ContainerBlockIO option" where
  "io_stat_fields ws = (if length ws < 2 then None
     else map_option (\<lambda>(major, minor). foldl io_stat_field
       (ContainerBlockIO_zero\<lparr>cbio_Major := major, cbio_Minor := minor\<rparr>) (tl ws))
       (parseDevNum (ws ! 0)))"

lemma parseDevNum_show: "parseDevNum (show_u64 ma @ colon # show_u64 mi) = Some (ma, mi)"
  by (simp add: parseDevNum_def not_digit_not_in_show)

lemma io_stat_field_show:
  "io_stat_field d (''rbytes='' @ show_u64 n) = d\<lparr>cbio_ReadBytes := n\<rparr>"
  "io_stat_field d (''wbytes='' @ show_u64 n) = d\<lparr>cbio_WriteBytes := n\<rparr>"
  "io_stat_field d (''rios='' @ show_u64 n) = d\<lparr>cbio_Reads := n\<rparr>"
  "io_stat_field d (''wios='' @ show_u64 n) = d\<lparr>cbio_Writes := n\<rparr>"
  by (simp_all add: io_stat_field_def)

lemma io_stat_field_extra: "list_all io_stat_extra ws \<Longrightarrow> foldl io_stat_field d ws = d"
  by (induction ws) (auto simp: io_stat_field_def io_stat_extra_def split: option.splits)

lemma io_stat_fields_entry: "io_stat_ok e \<Longrightarrow> io_stat_fields (io_stat_words e) = Some (io_stat_value e)"
  by (cases e rule: io_stat_words.cases)
    (simp add: io_stat_fields_def parseDevNum_show io_stat_field_show io_stat_field_extra
      del: append_Cons)

lemma io_stat_words_plain: "io_stat_ok e \<Longrightarrow> plain_words (io_stat_words e)"
  by (cases e rule: io_stat_words.cases)
    (auto simp: plain_words_def plain_eval list_all_iff io_stat_extra_def)

text \<open>
  C37: an io.stat of any number of devices is read back device by device, in order, with the
  numbers and the four counters it states, and the keys newer kernels append are ignored.
\<close>

theorem parseIOStat_kernel_file:
  assumes "list_all io_stat_ok es"
  shows "parseIOStat (words_file (map io_stat_words es)) = map io_stat_value es"
proof -
  have "parseIOStat (words_file (map io_stat_words es)) =
      List.map_filter io_stat_fields (map io_stat_words es)"
    unfolding parseIOStat_def
    using assms by (intro map_filter_words_file)
      (auto simp: list_all_iff io_stat_words_plain io_stat_line_def io_stat_fields_def Let_def)
  also have "\<dots> = map io_stat_value es"
    using assms by (induction es) (simp_all add: List.map_filter_simps io_stat_fields_entry)
  finally show ?thesis .
qed

theorem parseIOStat_kernel_file_witness:
  "parseIOStat (words_file [io_stat_words ((8, 0), (1459200, 314773504, 192, 353), [''dbytes=0'', ''dios=0''])]) =
     [io_stat_value ((8, 0), (1459200, 314773504, 192, 353), [''dbytes=0'', ''dios=0''])]"
proof -
  have "list_all io_stat_ok [((8, 0), (1459200, 314773504, 192, 353), [''dbytes=0'', ''dios=0''])]"
    by code_simp
  then show ?thesis using parseIOStat_kernel_file by fastforce
qed

text \<open>
  An interface of /proc/net/dev, its name and its sixteen counters, printed as the kernel does: the
  name flush right in six columns, then each counter flush right in its column, and the two header
  lines letter by letter.
\<close>

type_synonym net_dev_entry = "string \<times> u64 list"

definition net_dev_columns :: "nat list" where
  "net_dev_columns = [7, 7, 4, 4, 4, 5, 10, 9, 8, 7, 4, 4, 4, 5, 7, 10]"

fun net_dev_text :: "net_dev_entry \<Rightarrow> string" where
  "net_dev_text (name, vs) = flush_right 6 name @ colon #
     concat (map2 (\<lambda>w v. CHR 0x20 # flush_right w (show_u64 v)) net_dev_columns vs)"

definition net_dev_headers :: "string list" where
  "net_dev_headers =
     [''Inter-|   Receive                                                |  Transmit'',
      '' face |bytes    packets errs drop fifo frame compressed multicast|bytes    packets errs drop fifo colls carrier compressed'']"

definition net_dev_file :: "net_dev_entry list \<Rightarrow> string" where
  "net_dev_file es = text_lines (net_dev_headers @ map net_dev_text es)"

fun net_dev_ok :: "net_dev_entry \<Rightarrow> bool" where
  "net_dev_ok (name, vs) \<longleftrightarrow> plain name \<and> colon \<notin> set name \<and> length vs = 16"

fun net_dev_value :: "net_dev_entry \<Rightarrow> ContainerInterface" where
  "net_dev_value (name, vs) = \<lparr>cif_Interface = name, cif_RxBytes = vs ! 0, cif_TxBytes = vs ! 8,
     cif_RxPackets = vs ! 1, cif_TxPackets = vs ! 9, cif_RxErrors = vs ! 2, cif_TxErrors = vs ! 10,
     cif_RxDropped = vs ! 3, cif_TxDropped = vs ! 11\<rparr>"

lemma Fields_columns:
  "length vs \<le> length ws \<Longrightarrow>
     Fields (concat (map2 (\<lambda>w v. CHR 0x20 # flush_right w (show_u64 v)) ws vs)) = map show_u64 vs"
proof (induction vs arbitrary: ws)
  case (Cons v vs)
  then obtain w ws' where ws: "ws = w # ws'" by (cases ws) auto
  show ?case
  proof (cases vs)
    case (Cons u us)
    then obtain x xs where "ws' = x # xs" using Cons.prems ws by (cases ws') auto
    then show ?thesis using Cons.IH [of ws'] Cons.prems Cons ws by simp
  qed (simp add: ws)
qed simp

lemma net_dev_text_line:
  assumes "net_dev_ok e"
  shows "net_dev_line (net_dev_text e) = (if fst e = ''lo'' then None else Some (net_dev_value e))"
    and "CHR 0x0A \<notin> set (net_dev_text e)"
proof -
  obtain name vs where e: "e = (name, vs)" by fastforce
  then have p: "plain name" and c: "colon \<notin> set (flush_right 6 name)" and l: "length vs = 16"
    using assms by simp_all
  have f: "Fields (concat (map2 (\<lambda>w v. CHR 0x20 # flush_right w (show_u64 v)) net_dev_columns vs)) = map show_u64 vs"
    using l by (intro Fields_columns) (simp add: net_dev_columns_def)
  show "net_dev_line (net_dev_text e) = (if fst e = ''lo'' then None else Some (net_dev_value e))"
    unfolding e net_dev_text.simps net_dev_line_def Cut_append [OF c] option.case prod.case Let_def f
    using l p by simp
  have "CHR 0x0A \<notin> set (show_u64 v)" for v using plain_no_space [OF plain_show_nat] by simp
  then show "CHR 0x0A \<notin> set (net_dev_text e)"
    using plain_no_space [OF p, of "CHR 0x0A"] by (auto simp: e)
qed

text \<open>
  C38: a /proc/net/dev as the kernel prints it, headers and padding included, is read back interface by
  interface in order: the two header lines and the loopback interface are left out, and every other
  interface is reported under its bare name, with its receive counters from the first four columns
  and its transmit counters from the ninth to the twelfth.
\<close>

theorem parseNetDev_kernel_file:
  assumes "list_all net_dev_ok es"
  shows "parseNetDev (net_dev_file es) = map net_dev_value (filter (\<lambda>e. fst e \<noteq> ''lo'') es)"
proof -
  have "list_all (\<lambda>l. CHR 0x0A \<notin> set l \<and> net_dev_line l = None) net_dev_headers" by code_simp
  then have h: "\<forall>l \<in> set net_dev_headers. CHR 0x0A \<notin> set l" "List.map_filter net_dev_line net_dev_headers = []"
    by (auto simp: list_all_iff List.map_filter_def filter_empty_conv)
  moreover have "\<forall>l \<in> set (map net_dev_text es). CHR 0x0A \<notin> set l"
    using net_dev_text_line(2) assms by (auto simp: list_all_iff)
  ultimately have "lines (net_dev_file es) = (net_dev_headers @ map net_dev_text es) @ [[]]"
    unfolding net_dev_file_def by (intro lines_text_lines) auto
  moreover have "List.map_filter net_dev_line (map net_dev_text es) =
      map net_dev_value (filter (\<lambda>e. fst e \<noteq> ''lo'') es)"
    using assms by (induction es) (simp_all add: List.map_filter_simps net_dev_text_line(1))
  moreover have "net_dev_line [] = None" by (simp add: net_dev_line_def)
  ultimately show ?thesis
    unfolding parseNetDev_def by (simp add: map_filter_append List.map_filter_simps h(2))
qed

definition sample_net_dev :: "net_dev_entry list" where
  "sample_net_dev = [(''lo'', [9, 9, 0, 0, 0, 0, 0, 0, 9, 9, 0, 0, 0, 0, 0, 0]),
     (''eth0'', [100, 1, 0, 0, 0, 0, 0, 0, 200, 2, 0, 0, 0, 0, 0, 0])]"

lemma sample_net_dev_text:
  "map net_dev_text sample_net_dev =
     [''    lo:       9       9    0    0    0     0          0         0        9       9    0    0    0     0       0          0'',
      ''  eth0:     100       1    0    0    0     0          0         0      200       2    0    0    0     0       0          0'']"
  by code_simp

theorem parseNetDev_kernel_file_witness:
  "parseNetDev (net_dev_file sample_net_dev) = [\<lparr>cif_Interface = ''eth0'', cif_RxBytes = 100, cif_TxBytes = 200,
     cif_RxPackets = 1, cif_TxPackets = 2, cif_RxErrors = 0, cif_TxErrors = 0, cif_RxDropped = 0,
     cif_TxDropped = 0\<rparr>]"
proof -
  have "list_all net_dev_ok sample_net_dev" by code_simp
  from parseNetDev_kernel_file [OF this] show ?thesis by (simp add: sample_net_dev_def)
qed

end
