(* ===== verification/Containers.thy ===== *)
theory Containers
  imports Container "HOL-Library.Sublist"
begin

text \<open>
  The operations of \<open>container.go\<close>: matching a name, reading one container, and \<open>collectContainers\<close>,
  which discovers, samples and reads. \<open>f1\<close> is the file system before the sampling window and \<open>f2\<close>
  after it; the read of the host-wide files falls before the window.
\<close>

section \<open>Selecting a container\<close>

definition no_match :: "string \<Rightarrow> error" where
  "no_match idOrName = Errorf ''no running container matches %q'' [idOrName] []"

definition ambiguous_prefix :: "string \<Rightarrow> error" where
  "ambiguous_prefix idOrName = Errorf ''container ID prefix %q is ambiguous'' [idOrName] []"

definition exact_match :: "string \<Rightarrow> Container \<Rightarrow> bool" where
  "exact_match idOrName c = (co_ID c = idOrName \<or> (co_Name c \<noteq> [] \<and> co_Name c = idOrName))"

fun find_exact :: "string \<Rightarrow> nat \<Rightarrow> Container list \<Rightarrow> nat option" where
  "find_exact idOrName i [] = None"
| "find_exact idOrName i (c # cs) =
     (if exact_match idOrName c then Some i else find_exact idOrName (Suc i) cs)"

fun find_prefix :: "string \<Rightarrow> nat \<Rightarrow> nat option \<Rightarrow> Container list \<Rightarrow> error + nat option" where
  "find_prefix idOrName i found [] = Inr found"
| "find_prefix idOrName i found (c # cs) =
     (if HasPrefix (co_ID c) idOrName then
        (if found \<noteq> None then Inl (ambiguous_prefix idOrName)
         else find_prefix idOrName (Suc i) (Some i) cs)
      else find_prefix idOrName (Suc i) found cs)"

definition matchContainer :: "Container list \<Rightarrow> string \<Rightarrow> error + nat" where
  "matchContainer containers idOrName =
    (if idOrName = [] then Inl (ErrorString ''empty container ID or name'')
     else (case find_exact idOrName 0 containers of
         Some i \<Rightarrow> Inr i
       | None \<Rightarrow> (case find_prefix idOrName 0 None containers of
           Inl e \<Rightarrow> Inl e
         | Inr None \<Rightarrow> Inl (no_match idOrName)
         | Inr (Some i) \<Rightarrow> Inr i)))"

definition shortContainerID :: "string \<Rightarrow> string" where
  "shortContainerID i = (if length i = 64 then take 12 i else i)"

section \<open>Reading one container\<close>

text \<open>The body of \<open>readContainerStats\<close>, before its deferred \<open>recover\<close>.\<close>

definition stats_body ::
    "fs \<Rightarrow> int \<Rightarrow> Container \<Rightarrow> containerRef \<Rightarrow> SyStats \<Rightarrow> containerHostInfo \<Rightarrow> unit_name \<Rightarrow> f64 \<Rightarrow>
     (error + Container) go" where
  "stats_body f now c ref systats host u bytesPer =
    (let dirs = cr_dirs ref in
     go_bind (readContainerMemory f dirs (hi_memoryBytes host) bytesPer) (\<lambda>r. case r of
       Inl e \<Rightarrow> Ok (Inl e)
     | Inr mem \<Rightarrow>
         go_bind (readContainerCPUCounters f dirs) (\<lambda>cpu.
           Ok (Inr (c\<lparr>co_Time := now, co_Memory := mem\<lparr>cmem_Unit := u\<rparr>, co_CPU := cpu,
             co_Pids := readContainerPids f (cd_pids dirs),
             co_Pressure := readContainerPressure f now dirs,
             co_BlockIO := readContainerBlockIO f dirs (hi_diskNames host),
             co_Network := readContainerNetwork f (ProcPath systats) (cr_pid ref) (hi_netNS host),
             co_Mounts := readContainerMounts f (ProcPath systats) (cr_pid ref) u bytesPer,
             co_State := (if co_State c = []
               then (if isCgroupFrozen f dirs then ''paused'' else ''running'') else co_State c)\<rparr>)))))"

definition readContainerStats ::
    "fs \<Rightarrow> int \<Rightarrow> Container \<Rightarrow> containerRef \<Rightarrow> SyStats \<Rightarrow> containerHostInfo \<Rightarrow> unit_name \<Rightarrow> f64 \<Rightarrow>
     error + Container" where
  "readContainerStats f now c ref systats host u bytesPer =
    (case stats_body f now c ref systats host u bytesPer of
       Ok r \<Rightarrow> r | Panic p \<Rightarrow> Inl (Wrapped (''reading container '' @ co_ID c) p))"

section \<open>Collecting\<close>

definition container_of :: "containerRef \<Rightarrow> Container" where
  "container_of ref = Container_zero\<lparr>co_ID := cr_id ref, co_ShortID := shortContainerID (cr_id ref),
     co_Runtime := cr_runtime ref, co_PodUID := cr_podUID ref, co_CgroupPath := cr_relPath ref,
     co_Pid := cr_pid ref\<rparr>"

definition add_metadata :: "(string \<rightharpoonup> containerMetadata) \<Rightarrow> Container \<Rightarrow> Container" where
  "add_metadata meta c = (case meta (co_ID c) of
     None \<Rightarrow> c
   | Some m \<Rightarrow> c\<lparr>co_Name := cm_name m, co_Image := cm_image m, co_State := cm_state m,
       co_Labels := cm_labels m, co_MetadataAvailable := True\<rparr>)"

definition named_containers :: "api_request \<Rightarrow> SyStats \<Rightarrow> containerRef list \<Rightarrow> Container list" where
  "named_containers request systats refs =
    (let containers = map container_of refs in
     if refs = [] then containers
     else (case fetchContainerMetadata request (ContainerSocketPath systats) (ContainerSocketTimeout systats) of
         Inl e \<Rightarrow> containers | Inr meta \<Rightarrow> map (add_metadata meta) containers))"

text \<open>One reading per container, in order.\<close>

definition sample_all :: "fs \<Rightarrow> containerRef list \<Rightarrow> f64 option list go" where
  "sample_all f refs = range_loop (\<lambda>out ref.
     go_bind (sampleContainerCPUSeconds f (cr_dirs ref)) (\<lambda>u. Ok (out @ [u]))) [] refs"

text \<open>A failed reading is the zero value with \<open>ok == false\<close>.\<close>

definition reading :: "f64 option \<Rightarrow> f64" where
  "reading u = (case u of None \<Rightarrow> f64_zero | Some v \<Rightarrow> v)"

definition apply_sample :: "f64 option \<Rightarrow> f64 option \<Rightarrow> f64 \<Rightarrow> int \<Rightarrow> Container \<Rightarrow> Container" where
  "apply_sample u1 u2 elapsed cores c = c\<lparr>co_CPU := applyContainerCPUSample (co_CPU c) (reading u1)
     (reading u2) (u1 \<noteq> None \<and> u2 \<noteq> None) elapsed cores\<rparr>"

fun read_all ::
    "fs \<Rightarrow> layer_ctx \<Rightarrow> int \<Rightarrow> SyStats \<Rightarrow> containerHostInfo \<Rightarrow> unit_name \<Rightarrow> f64 \<Rightarrow> f64 \<Rightarrow>
     Container list \<Rightarrow> (Container \<times> containerRef \<times> f64 option \<times> f64 option) list \<Rightarrow>
     error + Container list" where
  "read_all f ctx now systats host u bytesPer elapsed out [] = Inr out"
| "read_all f ctx now systats host u bytesPer elapsed out ((c0, ref, u1, u2) # rest) =
     (case readContainerStats f now c0 ref systats host u bytesPer of
        Inl e \<Rightarrow> read_all f ctx now systats host u bytesPer elapsed out rest
      | Inr c \<Rightarrow>
          (case (if ContainerLayerSize systats
               then readContainerLayer f ctx (ProcPath systats) (cr_pid ref) u bytesPer
               else (ContainerLayer_zero u, None)) of
             (layer, Some e) \<Rightarrow> Inl e
           | (layer, None) \<Rightarrow>
               read_all f ctx now systats host u bytesPer elapsed
                 (out @ [apply_sample u1 u2 elapsed (hi_cores host) (c\<lparr>co_Layer := layer\<rparr>)]) rest))"

definition no_cgroup :: "SyStats \<Rightarrow> error" where
  "no_cgroup systats = ErrorString (''no cgroup filesystem found at '' @ CgroupRootPath systats)"

text \<open>From the (possibly narrowed) containers on: the shared sampling window and the reads.\<close>

definition collect_from ::
    "fs \<Rightarrow> fs \<Rightarrow> wake \<Rightarrow> layer_ctx \<Rightarrow> f64 \<Rightarrow> int \<Rightarrow> SyStats \<Rightarrow> unit_name \<Rightarrow> f64 \<Rightarrow>
     Container list \<Rightarrow> containerRef list \<Rightarrow> (Container list \<times> error option) go" where
  "collect_from f1 f2 w ctx elapsed now systats u bytesPer containers refs =
    go_bind (readContainerHostInfo f1 systats) (\<lambda>host.
    go_bind (sample_all f1 refs) (\<lambda>usage1.
      case sleepCtx w of
        Some e \<Rightarrow> Ok ([], Some e)
      | None \<Rightarrow>
          go_bind (sample_all f2 refs) (\<lambda>usage2.
            (case read_all f2 ctx now systats host u bytesPer elapsed []
                 (zip containers (zip refs (zip usage1 usage2))) of
               Inl e \<Rightarrow> Ok ([], Some e) | Inr out \<Rightarrow> Ok (out, None)))))"

definition collectContainers ::
    "api_request \<Rightarrow> fs \<Rightarrow> fs \<Rightarrow> wake \<Rightarrow> layer_ctx \<Rightarrow> f64 \<Rightarrow> int \<Rightarrow> SyStats \<Rightarrow> unit_name \<Rightarrow>
     string \<Rightarrow> bool \<Rightarrow> (Container list \<times> error option) go" where
  "collectContainers request f1 f2 w ctx elapsed now systats u idOrName single =
    (case bytesPerUnit u of
       None \<Rightarrow> Ok ([], Some (not_supported u))
     | Some bytesPer \<Rightarrow>
         (let version = detectCgroupVersion f1 (CgroupRootPath systats) in
          if version = cgroupNone then Ok ([], Some (no_cgroup systats))
          else
            (let refs = discoverContainers f1 systats version;
                 containers = named_containers request systats refs;
                 go_on = collect_from f1 f2 w ctx elapsed now systats u bytesPer in
             if single then
               (case matchContainer containers idOrName of
                  Inl e \<Rightarrow> Ok ([], Some e)
                | Inr i \<Rightarrow> go_on [containers ! i] [refs ! i])
             else go_on containers refs)))"

definition getContainers ::
    "api_request \<Rightarrow> fs \<Rightarrow> fs \<Rightarrow> wake \<Rightarrow> layer_ctx \<Rightarrow> f64 \<Rightarrow> int \<Rightarrow> SyStats \<Rightarrow> unit_name \<Rightarrow>
     (Container list \<times> error option) go" where
  "getContainers request f1 f2 w ctx elapsed now systats u =
    collectContainers request f1 f2 w ctx elapsed now systats u [] False"

definition getContainer ::
    "api_request \<Rightarrow> fs \<Rightarrow> fs \<Rightarrow> wake \<Rightarrow> layer_ctx \<Rightarrow> f64 \<Rightarrow> int \<Rightarrow> SyStats \<Rightarrow> unit_name \<Rightarrow> string \<Rightarrow>
     (Container \<times> error option) go" where
  "getContainer request f1 f2 w ctx elapsed now systats u idOrName =
    go_bind (collectContainers request f1 f2 w ctx elapsed now systats u idOrName True)
      (\<lambda>(containers, err). case err of
         Some e \<Rightarrow> Ok (Container_zero, Some e)
       | None \<Rightarrow>
           if containers = [] then
             Ok (Container_zero, Some (ErrorString (''container '' @ idOrName @ '' stopped while being read'')))
           else Ok (containers ! 0, None))"

definition GetContainers ::
    "api_request \<Rightarrow> fs \<Rightarrow> fs \<Rightarrow> wake \<Rightarrow> layer_ctx \<Rightarrow> f64 \<Rightarrow> int \<Rightarrow> SyStats \<Rightarrow> unit_name \<Rightarrow>
     Container list \<times> error option" where
  "GetContainers request f1 f2 w ctx elapsed now systats u =
    withRecover [] (getContainers request f1 f2 w ctx elapsed now systats u)"

definition GetContainer ::
    "api_request \<Rightarrow> fs \<Rightarrow> fs \<Rightarrow> wake \<Rightarrow> layer_ctx \<Rightarrow> f64 \<Rightarrow> int \<Rightarrow> SyStats \<Rightarrow> unit_name \<Rightarrow> string \<Rightarrow>
     Container \<times> error option" where
  "GetContainer request f1 f2 w ctx elapsed now systats u idOrName =
    withRecover Container_zero (getContainer request f1 f2 w ctx elapsed now systats u idOrName)"

section \<open>Facts on matching\<close>

lemma upt_shift: "[0..<length (c # cs)] = 0 # map Suc [0..<length cs]"
  by (simp only: map_Suc_upt list.size) (simp add: upt_conv_Cons del: upt_Suc)

lemma find_exact_spec:
  "find_exact s k cs = (case filter (\<lambda>i. exact_match s (cs ! i)) [0..<length cs] of
     [] \<Rightarrow> None | i # _ \<Rightarrow> Some (k + i))"
proof (induction cs arbitrary: k)
  case (Cons c cs)
  show ?case using Cons.IH [of "Suc k"] unfolding upt_shift
    by (auto simp: filter_map comp_def split: list.splits)
qed simp

lemma find_prefix_spec:
  "find_prefix s k found cs = (case (case found of None \<Rightarrow> [] | Some j \<Rightarrow> [j]) @
       map ((+) k) (filter (\<lambda>i. HasPrefix (co_ID (cs ! i)) s) [0..<length cs]) of
     [] \<Rightarrow> Inr None | [i] \<Rightarrow> Inr (Some i) | _ \<Rightarrow> Inl (ambiguous_prefix s))"
proof (induction cs arbitrary: k found)
  case (Cons c cs)
  show ?case using Cons.IH [of "Suc k"] unfolding upt_shift
    by (auto simp: filter_map comp_def split: list.splits option.splits)
qed (simp split: option.split)

text \<open>The indices a name or a prefix selects.\<close>

definition exact_indices :: "Container list \<Rightarrow> string \<Rightarrow> nat list" where
  "exact_indices cs s = filter (\<lambda>i. exact_match s (cs ! i)) [0..<length cs]"

definition prefix_indices :: "Container list \<Rightarrow> string \<Rightarrow> nat list" where
  "prefix_indices cs s = filter (\<lambda>i. HasPrefix (co_ID (cs ! i)) s) [0..<length cs]"

text \<open>
  C23: a container is selected by an exact ID or name, the first one in order when several have it;
  only when there is none by an ID prefix, which must belong to exactly one container; every other
  name, the empty one included, is an error that says which of the three it was.
\<close>

theorem matchContainer_selects:
  "matchContainer cs s =
    (if s = [] then Inl (ErrorString ''empty container ID or name'')
     else (case exact_indices cs s of
         i # _ \<Rightarrow> Inr i
       | [] \<Rightarrow> (case prefix_indices cs s of
           [] \<Rightarrow> Inl (no_match s) | [i] \<Rightarrow> Inr i | _ \<Rightarrow> Inl (ambiguous_prefix s))))"
  by (simp add: matchContainer_def exact_indices_def prefix_indices_def find_exact_spec find_prefix_spec
      split: list.splits)

section \<open>Facts on collecting\<close>

lemma sample_all_eq:
  "sample_all f refs = Ok us \<longleftrightarrow> list_all2 (\<lambda>ref u. sampleContainerCPUSeconds f (cr_dirs ref) = Ok u) refs us"
proof -
  have "range_loop (\<lambda>out ref. go_bind (sampleContainerCPUSeconds f (cr_dirs ref)) (\<lambda>u. Ok (out @ [u]))) out refs = Ok us
    \<longleftrightarrow> (\<exists>vs. us = out @ vs \<and> list_all2 (\<lambda>ref u. sampleContainerCPUSeconds f (cr_dirs ref) = Ok u) refs vs)" for out
    by (induction refs arbitrary: out) (fastforce simp: go_simps list_all2_Cons1)+
  then show ?thesis by (simp add: sample_all_def)
qed

lemma sample_all_panics:
  assumes "ref \<in> set refs" and "sampleContainerCPUSeconds f (cr_dirs ref) = Panic p"
  shows "\<exists>q. sample_all f refs = Panic q"
proof (rule ccontr)
  assume "\<nexists>q. sample_all f refs = Panic q"
  then obtain us where "sample_all f refs = Ok us" using go_not_Panic by blast
  then have "list_all2 (\<lambda>ref u. sampleContainerCPUSeconds f (cr_dirs ref) = Ok u) refs us"
    by (simp add: sample_all_eq)
  then have "\<exists>u. sampleContainerCPUSeconds f (cr_dirs ref) = Ok u"
    using assms(1) by (induction rule: list_all2_induct) auto
  with assms(2) show False by simp
qed

text \<open>The container as it is reported, \<open>None\<close> when its figures cannot be read.\<close>

definition read_one ::
    "fs \<Rightarrow> layer_ctx \<Rightarrow> int \<Rightarrow> SyStats \<Rightarrow> containerHostInfo \<Rightarrow> unit_name \<Rightarrow> f64 \<Rightarrow> f64 \<Rightarrow>
     Container \<times> containerRef \<times> f64 option \<times> f64 option \<Rightarrow> Container option" where
  "read_one f ctx now systats host u bytesPer elapsed r = (case r of (c0, ref, u1, u2) \<Rightarrow>
     (case readContainerStats f now c0 ref systats host u bytesPer of
        Inl e \<Rightarrow> None
      | Inr c \<Rightarrow> Some (apply_sample u1 u2 elapsed (hi_cores host) (c\<lparr>co_Layer :=
          (if ContainerLayerSize systats
           then fst (readContainerLayer f ctx (ProcPath systats) (cr_pid ref) u bytesPer)
           else ContainerLayer_zero u)\<rparr>))))"

lemma readContainerLayer_calm: "lx_after ctx = None \<Longrightarrow> snd (readContainerLayer f ctx p pid u b) = None"
  by (auto simp: readContainerLayer_def Let_def split: sum.split prod.split option.split)

lemma read_all_map_filter:
  "lx_after ctx = None \<Longrightarrow>
     read_all f ctx now systats host u bytesPer elapsed out rs =
       Inr (out @ List.map_filter (read_one f ctx now systats host u bytesPer elapsed) rs)"
proof (induction f ctx now systats host u bytesPer elapsed out rs rule: read_all.induct)
  case (2 f ctx now systats host u bytesPer elapsed out c0 ref u1 u2 rest)
  have "\<exists>l. readContainerLayer f ctx (ProcPath systats) (cr_pid ref) u bytesPer = (l, None)"
    using readContainerLayer_calm [OF "2.prems"] by (metis prod.collapse)
  then show ?case using 2 by (auto simp: read_one_def List.map_filter_simps split: sum.splits)
qed simp

text \<open>What no operation changes: which container it is.\<close>

lemma readContainerStats_ID:
  "readContainerStats f now c0 ref systats host u bytesPer = Inr c \<Longrightarrow> co_ID c = co_ID c0"
  by (cases "stats_body f now c0 ref systats host u bytesPer")
    (auto simp: readContainerStats_def stats_body_def go_bind_sum Let_def, auto simp: go_bind_eq_Ok)

lemma read_all_IDs:
  "read_all f ctx now systats host u bytesPer elapsed out rs = Inr cs \<Longrightarrow>
     \<exists>ids. map co_ID cs = map co_ID out @ ids \<and> subseq ids (map (\<lambda>r. co_ID (fst r)) rs)"
proof (induction f ctx now systats host u bytesPer elapsed out rs rule: read_all.induct)
  case (2 f ctx now systats host u bytesPer elapsed out c0 ref u1 u2 rest)
  show ?case
  proof (cases "readContainerStats f now c0 ref systats host u bytesPer")
    case (Inl e)
    then show ?thesis using 2 by (fastforce intro: subseq_Cons')
  next
    case (Inr c)
    obtain layer where l: "(if ContainerLayerSize systats
        then readContainerLayer f ctx (ProcPath systats) (cr_pid ref) u bytesPer
        else (ContainerLayer_zero u, None)) = (layer, None)"
      and r: "read_all f ctx now systats host u bytesPer elapsed
        (out @ [apply_sample u1 u2 elapsed (hi_cores host) (c\<lparr>co_Layer := layer\<rparr>)]) rest = Inr cs"
      using 2(3) Inr by (auto split: prod.splits option.splits)
    from 2(2) [OF Inr l [symmetric] refl r] show ?thesis
      using readContainerStats_ID [OF Inr] by (auto simp: apply_sample_def)
  qed
qed auto

lemma named_containers_IDs: "map co_ID (named_containers request systats refs) = map cr_id refs"
proof -
  have "co_ID (add_metadata meta c) = co_ID c" for meta c
    by (simp add: add_metadata_def split: option.split)
  then show ?thesis
    by (simp add: named_containers_def container_of_def Let_def comp_def split: sum.split)
qed

lemma map_zip_fst: "length xs = length ys \<Longrightarrow> map (\<lambda>r. f (fst r)) (zip xs ys) = map f xs"
  by (induction xs ys rule: list_induct2) simp_all

lemma collect_from_IDs:
  assumes "collect_from f1 f2 w ctx elapsed now systats u bytesPer cs refs = Ok (out, err)"
    and "length cs = length refs"
  shows "subseq (map co_ID out) (map co_ID cs) \<and> (err \<noteq> None \<longrightarrow> out = [])"
proof -
  have "subseq (map co_ID out) (map co_ID cs)"
    if s1: "sample_all f1 refs = Ok us1" and s2: "sample_all f2 refs = Ok us2"
      and r: "read_all f2 ctx now systats host u bytesPer elapsed [] (zip cs (zip refs (zip us1 us2))) = Inr out"
    for us1 us2 host
  proof -
    have "length us1 = length refs" "length us2 = length refs"
      using s1 s2 by (auto simp: sample_all_eq dest: list_all2_lengthD)
    then have "map (\<lambda>r. co_ID (fst r)) (zip cs (zip refs (zip us1 us2))) = map co_ID cs"
      using assms(2) by (intro map_zip_fst) simp
    with read_all_IDs [OF r] show ?thesis by simp
  qed
  note ids = this
  from assms(1) obtain host us1 where s1: "sample_all f1 refs = Ok us1"
    and rest: "(case sleepCtx w of Some e \<Rightarrow> Ok ([], Some e) | None \<Rightarrow>
        go_bind (sample_all f2 refs) (\<lambda>usage2.
          (case read_all f2 ctx now systats host u bytesPer elapsed [] (zip cs (zip refs (zip us1 usage2))) of
             Inl e \<Rightarrow> Ok ([], Some e) | Inr out \<Rightarrow> Ok (out, None)))) = Ok (out, err)"
    unfolding collect_from_def by (auto simp: go_simps)
  show ?thesis
  proof (cases "sleepCtx w")
    case None
    with rest obtain us2 where s2: "sample_all f2 refs = Ok us2"
      and r: "(case read_all f2 ctx now systats host u bytesPer elapsed [] (zip cs (zip refs (zip us1 us2))) of
             Inl e \<Rightarrow> Ok ([], Some e) | Inr out \<Rightarrow> Ok (out, None)) = Ok (out, err)"
      by (auto simp: go_simps)
    then show ?thesis using ids [OF s1 s2] by (auto split: sum.splits)
  qed (use rest in auto)
qed

text \<open>
  C29: the list of containers is made of discovered containers only, each at most once per
  discovery and in the order of discovery, and an error is never returned beside containers.
\<close>

theorem GetContainers_sound:
  "(case GetContainers request f1 f2 w ctx elapsed now systats u of (out, err) \<Rightarrow>
     subseq (map co_ID out)
       (map cr_id (discoverContainers f1 systats (detectCgroupVersion f1 (CgroupRootPath systats)))) \<and>
     (if err = None then True else out = []))"
proof (cases "getContainers request f1 f2 w ctx elapsed now systats u")
  case (Ok r)
  let ?refs = "discoverContainers f1 systats (detectCgroupVersion f1 (CgroupRootPath systats))"
  have l: "length (named_containers request systats ?refs) = length ?refs"
    using named_containers_IDs [of request systats ?refs] by (metis length_map)
  obtain out err where r: "r = (out, err)" by (cases r)
  have "subseq (map co_ID out) (map cr_id ?refs) \<and> (err \<noteq> None \<longrightarrow> out = [])"
    using Ok collect_from_IDs [OF _ l] named_containers_IDs [of request systats ?refs]
    by (auto simp: r getContainers_def collectContainers_def Let_def split: option.splits if_splits)
  then show ?thesis using Ok by (simp add: GetContainers_def r withRecover_def)
next
  case (Panic p)
  then show ?thesis by (simp add: GetContainers_def withRecover_def)
qed

text \<open>Every reference carries the version it was discovered under.\<close>

lemma discoverContainers_version:
  "ref \<in> set (discoverContainers f systats version) \<Longrightarrow> cd_version (cr_dirs ref) = version"
proof -
  have "list_all (\<lambda>r. cd_version (cr_dirs r) = version) (discoverContainers f systats version)"
    unfolding discoverContainers_def Let_def
    by (rule WalkDir_invariant)
      (auto simp: discover_visit_def container_refs_def cgroupDirsFor_def Let_def
        split: option.splits sum.splits)
  then show "ref \<in> set (discoverContainers f systats version) \<Longrightarrow> cd_version (cr_dirs ref) = version"
    by (simp add: list_all_iff)
qed

text \<open>The reading of a container's CPU counter, and that only version 1 can make it panic.\<close>

definition sampled :: "fs \<Rightarrow> containerRef \<Rightarrow> f64 option" where
  "sampled f ref = (case sampleContainerCPUSeconds f (cr_dirs ref) of Ok u \<Rightarrow> u | Panic p \<Rightarrow> None)"

definition sample_panics :: "fs \<Rightarrow> containerRef \<Rightarrow> bool" where
  "sample_panics f ref \<longleftrightarrow> (\<exists>p. sampleContainerCPUSeconds f (cr_dirs ref) = Panic p)"

lemma sample_all_sampled:
  "\<forall>ref \<in> set refs. \<not> sample_panics f ref \<Longrightarrow> sample_all f refs = Ok (map (sampled f) refs)"
  unfolding sample_all_eq list_all2_map2
  by (auto simp: list_all2_same sampled_def sample_panics_def split: go.split)

lemma sample_v2: "cd_version (cr_dirs ref) = cgroupV2 \<Longrightarrow> \<not> sample_panics f ref"
  by (simp add: sample_panics_def sampleContainerCPUSeconds_def sampleCgroupCPUUsageSeconds_def
      cgroupCPUInfo_zero_def split: sum.split)

lemma zip_samples: "zip refs (zip (map g refs) (map h refs)) = map (\<lambda>r. (r, g r, h r)) refs"
  by (induction refs) simp_all

lemma collect_from_calm:
  assumes "readContainerHostInfo f1 systats = Ok host" and "lx_after ctx = None"
  shows "if \<exists>ref \<in> set refs. sample_panics f1 ref \<or> sample_panics f2 ref
    then \<exists>p. collect_from f1 f2 TimerFired ctx elapsed now systats u b cs refs = Panic p
    else collect_from f1 f2 TimerFired ctx elapsed now systats u b cs refs =
      Ok (List.map_filter (read_one f2 ctx now systats host u b elapsed)
        (zip cs (map (\<lambda>ref. (ref, sampled f1 ref, sampled f2 ref)) refs)), None)"
proof -
  have none: "sample_all f refs = Ok (map (sampled f) refs)" if "\<not> (\<exists>ref \<in> set refs. sample_panics f ref)" for f
    using that by (intro sample_all_sampled) blast
  have some: "\<exists>q. sample_all f refs = Panic q" if "\<exists>ref \<in> set refs. sample_panics f ref" for f
    using that sample_all_panics by (auto simp: sample_panics_def)
  consider (first) "\<exists>ref \<in> set refs. sample_panics f1 ref"
    | (second) "\<not> (\<exists>ref \<in> set refs. sample_panics f1 ref)" "\<exists>ref \<in> set refs. sample_panics f2 ref"
    | (calm) "\<not> (\<exists>ref \<in> set refs. sample_panics f1 ref)" "\<not> (\<exists>ref \<in> set refs. sample_panics f2 ref)"
    by blast
  then show ?thesis
  proof cases
    case first
    with some [OF first] assms(1) show ?thesis by (auto simp: collect_from_def)
  next
    case second
    with some [OF second(2)] none [OF second(1)] assms(1) show ?thesis
      by (auto simp: collect_from_def sleepCtx_def)
  next
    case calm
    then have "\<not> (\<exists>ref \<in> set refs. sample_panics f1 ref \<or> sample_panics f2 ref)" by blast
    then show ?thesis using none [OF calm(1)] none [OF calm(2)] assms
      by (simp add: collect_from_def sleepCtx_def read_all_map_filter zip_samples)
  qed
qed

text \<open>
  C3: one container's failure is its own. On a host whose own files parse, and with a context that is
  not done, the call returns, in the order of discovery, every container whose figures can be read,
  each computed from its own files and layer alone, whether the files of the others are gone, are
  malformed, or make their parsers panic. The one exception is a CPU counter under cgroup v1 that
  cannot be parsed while sampled: then, and only then, the call fails as a whole.
\<close>

theorem GetContainers_survives:
  assumes "bytesPerUnit u = Some b" and "lx_after ctx = None"
    and "detectCgroupVersion f1 (CgroupRootPath systats) = version" and "version \<noteq> cgroupNone"
    and "discoverContainers f1 systats version = refs" and "readContainerHostInfo f1 systats = Ok host"
  shows "if version = cgroupV1 \<and> (\<exists>ref \<in> set refs. sample_panics f1 ref \<or> sample_panics f2 ref)
    then \<exists>p. GetContainers request f1 f2 TimerFired ctx elapsed now systats u = ([], Some (Recovered p))
    else GetContainers request f1 f2 TimerFired ctx elapsed now systats u =
      (List.map_filter (read_one f2 ctx now systats host u b elapsed)
         (zip (named_containers request systats refs)
           (map (\<lambda>ref. (ref, sampled f1 ref, sampled f2 ref)) refs)), None)"
proof -
  have v2: "\<not> sample_panics f ref" if "ref \<in> set refs" "version \<noteq> cgroupV1" for f ref
    using discoverContainers_version [of ref f1 systats version] that assms(4,5)
    by (cases version) (simp_all add: sample_v2)
  have "getContainers request f1 f2 TimerFired ctx elapsed now systats u =
      collect_from f1 f2 TimerFired ctx elapsed now systats u b (named_containers request systats refs) refs"
    using assms by (simp add: getContainers_def collectContainers_def Let_def)
  then show ?thesis
    using collect_from_calm [OF assms(6,2), where refs = refs and elapsed = elapsed and now = now and u = u
        and b = b and cs = "named_containers request systats refs" and ?f2.0 = f2] v2
    by (auto simp: GetContainers_def withRecover_def split: if_splits)
qed

lemma parse_u64_Nil: "parse_u64 [] = None"
  by code_simp

lemma sample_empty_panics:
  assumes "cd_version dirs = cgroupV1"
    and "ReadFileWithError f (path_Join [cd_cpuacct dirs, ''cpuacct.usage'']) = Inr s" and "TrimSpace s = []"
  shows "\<exists>p. sampleContainerCPUSeconds f dirs = Panic p"
  using assms ToUint64_panics [OF parse_u64_Nil]
  by (auto simp: sampleContainerCPUSeconds_def sampleCgroupCPUUsageSeconds_def cgroupCPUInfo_zero_def)

text \<open>
  C33: under cgroup v1 the sampling is outside that protection: a single container whose
  cpuacct.usage reads as empty, as a file does that vanishes between the check and the read, makes
  the whole call return an error and no container, although the same emptiness in any file read
  later costs only that container.
\<close>

theorem GetContainers_v1_vanishing_counter:
  assumes "bytesPerUnit u = Some b"
    and "detectCgroupVersion f1 (CgroupRootPath systats) = cgroupV1"
    and "ref \<in> set (discoverContainers f1 systats cgroupV1)"
    and "ReadFileWithError f1 (path_Join [cd_cpuacct (cr_dirs ref), ''cpuacct.usage'']) = Inr s"
    and "TrimSpace s = []"
  shows "fst (GetContainers request f1 f2 w ctx elapsed now systats u) = [] \<and>
    snd (GetContainers request f1 f2 w ctx elapsed now systats u) \<noteq> None"
proof -
  let ?refs = "discoverContainers f1 systats cgroupV1"
  obtain p where "sampleContainerCPUSeconds f1 (cr_dirs ref) = Panic p"
    using sample_empty_panics [OF discoverContainers_version [OF assms(3)] assms(4,5)] by blast
  then obtain q where "sample_all f1 ?refs = Panic q"
    using sample_all_panics [OF assms(3)] by blast
  then have "\<exists>p. getContainers request f1 f2 w ctx elapsed now systats u = Panic p"
    using assms(1,2) by (cases "readContainerHostInfo f1 systats")
      (simp_all add: getContainers_def collectContainers_def collect_from_def Let_def)
  then show ?thesis by (auto simp: GetContainers_def withRecover_def)
qed

text \<open>A v2 host whose container is gone when its memory files are read, and a v1 host whose
  container's CPU counter has just vanished.\<close>

definition demo_id2 :: string where
  "demo_id2 = replicate 64 CHR ''b''"

definition demo_scope2 :: string where
  "demo_scope2 = ''docker-'' @ demo_id2 @ ''.scope''"

definition demo_slice :: dir_tree where
  "demo_slice = DirNode [(demo_scope, demo_inner), (demo_scope2, demo_inner)] False"

definition demo_v2 :: fs where
  "demo_v2 = (files_fs [(''/sys/fs/cgroup/cgroup.controllers'', ''cpu memory''),
       (''/sys/fs/cgroup/system.slice/'' @ demo_scope @ ''/cgroup.procs'', ''4711''),
       (''/sys/fs/cgroup/system.slice/'' @ demo_scope2 @ ''/cgroup.procs'', ''4712''),
       (''/sys/fs/cgroup/system.slice/'' @ demo_scope2 @ ''/memory.max'', ''max''),
       (''/sys/fs/cgroup/system.slice/'' @ demo_scope2 @ ''/memory.current'', ''4096'')])
     \<lparr>fs_tree := map_of [(''/sys/fs/cgroup'', DirNode [(''system.slice'', demo_slice)] False),
       (''/sys/fs/cgroup/system.slice/'' @ demo_scope, demo_inner),
       (''/sys/fs/cgroup/system.slice/'' @ demo_scope2, demo_inner)]\<rparr>"

definition no_api :: api_request where
  "no_api = (\<lambda>path timeout. Inl (OSError path))"

definition calm_ctx :: layer_ctx where
  "calm_ctx = \<lparr>lx_at = (\<lambda>p. None), lx_after = None\<rparr>"

definition demo_ref :: "string \<Rightarrow> string \<Rightarrow> int \<Rightarrow> containerRef" where
  "demo_ref cid scope pid = \<lparr>cr_id = cid, cr_runtime = ''docker'', cr_podUID = [],
     cr_relPath = ''/system.slice/'' @ scope,
     cr_dirs = cgroupDirsFor cgroupV2 ''/sys/fs/cgroup'' (''/system.slice/'' @ scope) Map.empty,
     cr_pid = pid\<rparr>"

theorem GetContainers_survives_witness:
  "map co_ID (fst (GetContainers no_api demo_v2 demo_v2 TimerFired calm_ctx (f64_const 1) 7 New Byte)) = [demo_id2] \<and>
   snd (GetContainers no_api demo_v2 demo_v2 TimerFired calm_ctx (f64_const 1) 7 New Byte) = None \<and>
   map cr_id (discoverContainers demo_v2 New cgroupV2) = [demo_id, demo_id2]"
proof -
  let ?a = "demo_ref demo_id demo_scope 4711" and ?b = "demo_ref demo_id2 demo_scope2 4712"
  let ?host = "\<lparr>hi_cores = 0, hi_memoryBytes = 0, hi_diskNames = Map.empty, hi_netNS = []\<rparr>"
  have w: "walk_root demo_v2 New cgroupV2 = abs_path [''sys'', ''fs'', ''cgroup'']"
    "fs_tree demo_v2 (abs_path [''sys'', ''fs'', ''cgroup'']) = Some (DirNode [(''system.slice'', demo_slice)] False)"
    "tree_ok (DirNode [(''system.slice'', demo_slice)] False)"
    by code_simp+
  have d: "discoverContainers demo_v2 New cgroupV2 = [?a, ?b]"
    unfolding discover_meets_reference [OF w(1) list.distinct(2) demo_setting(2) w(2,3)] by code_simp
  have unit: "bytesPerUnit Byte = Some (f64_const 1)" by (simp add: bytesPerUnit_def)
  have v: "detectCgroupVersion demo_v2 (CgroupRootPath New) = cgroupV2" by code_simp
  have h: "readContainerHostInfo demo_v2 New = Ok ?host"
    by (simp add: readContainerHostInfo_def New_def demo_v2_def files_fs_def ReadFileWithError_def IsFile_def Let_def)
  have "readContainerStats demo_v2 7 c ?a New ?host Byte (f64_const 1) = Inl (file_not_found
       (path_Join [cd_memory (cr_dirs ?a), ''memory.max'']))" for c
  proof -
    have "\<not> IsFile demo_v2 (path_Join [cd_memory (cr_dirs ?a), ''memory.max''])"
      "cd_version (cr_dirs ?a) = cgroupV2" by code_simp+
    then show ?thesis by (simp add: readContainerStats_def stats_body_def readContainerMemory_def
        readCgroupMemoryBytes_def readCgroupMemoryLimit_def ReadFileWithError_def Let_def)
  qed
  moreover have "\<exists>c'. readContainerStats demo_v2 7 c ?b New ?host Byte (f64_const 1) = Inr c'" for c
  proof -
    have "readCgroupMemoryBytes demo_v2 (cd_version (cr_dirs ?b)) (cd_memory (cr_dirs ?b)) = Ok (Inr (0, False, 4096))"
      "memory_details demo_v2 (cr_dirs ?b) = Ok (0, 0, 0, 0)"
      "readCgroupCPUQuota demo_v2 (cd_version (cr_dirs ?b)) (cd_cpu (cr_dirs ?b)) =
         Ok (Inl (file_not_found (path_Join [cd_cpu (cr_dirs ?b), ''cpu.max''])))"
      "cd_version (cr_dirs ?b) = cgroupV2"
      by code_simp+
    then show ?thesis
      by (simp add: readContainerStats_def stats_body_def readContainerMemory_def readContainerCPUCounters_def Let_def)
  qed
  moreover obtain ca cb where "named_containers no_api New [?a, ?b] = [ca, cb]" "co_ID cb = demo_id2"
    using named_containers_IDs [of no_api New "[?a, ?b]"] by (auto simp: map_eq_Cons_conv demo_ref_def)
  ultimately obtain c' where "List.map_filter (read_one demo_v2 calm_ctx 7 New ?host Byte (f64_const 1) (f64_const 1))
       (zip (named_containers no_api New [?a, ?b])
          (map (\<lambda>ref. (ref, sampled demo_v2 ref, sampled demo_v2 ref)) [?a, ?b])) = [c']" "co_ID c' = demo_id2"
    using readContainerStats_ID [of demo_v2 7 cb ?b New ?host Byte "f64_const 1"]
    by (fastforce simp: read_one_def List.map_filter_simps apply_sample_def)
  then show ?thesis
    using GetContainers_survives [OF unit _ v _ d h, where ctx = calm_ctx and request = no_api
        and ?f2.0 = demo_v2 and elapsed = "f64_const 1" and now = 7]
    by (simp add: calm_ctx_def d demo_ref_def)
qed

definition demo_v1 :: fs where
  "demo_v1 = (files_fs [(''/sys/fs/cgroup/memory/memory.limit_in_bytes'', ''0''),
       (''/sys/fs/cgroup/memory/docker/'' @ demo_id @ ''/cgroup.procs'', ''4711''),
       (''/sys/fs/cgroup/cpu,cpuacct/docker/'' @ demo_id @ ''/cpuacct.usage'', [])])
     \<lparr>fs_tree := map_of
       [(''/sys/fs/cgroup/memory'', DirNode [(''docker'', DirNode [(demo_id, DirNode [] False)] False)] False),
        (''/sys/fs/cgroup/memory/docker/'' @ demo_id, DirNode [] False)]\<rparr>"

theorem GetContainers_v1_vanishing_counter_witness:
  "fst (GetContainers no_api demo_v1 demo_v1 TimerFired calm_ctx (f64_const 1) 7 New Byte) = [] \<and>
   snd (GetContainers no_api demo_v1 demo_v1 TimerFired calm_ctx (f64_const 1) 7 New Byte) \<noteq> None"
proof -
  have t: "walk_root demo_v1 New cgroupV1 = abs_path [''sys'', ''fs'', ''cgroup'', ''memory'']"
    "list_all entry_name [''sys'', ''fs'', ''cgroup'', ''memory'']"
    "fs_tree demo_v1 (abs_path [''sys'', ''fs'', ''cgroup'', ''memory'']) =
       Some (DirNode [(''docker'', DirNode [(demo_id, DirNode [] False)] False)] False)"
    "tree_ok (DirNode [(''docker'', DirNode [(demo_id, DirNode [] False)] False)] False)"
    by code_simp+
  have "map cr_id (discoverContainers demo_v1 New cgroupV1) = [demo_id]"
    unfolding discover_meets_reference [OF t(1) list.distinct(2) t(2-4)] by code_simp
  then obtain ref where ref: "discoverContainers demo_v1 New cgroupV1 = [ref]" by auto
  have "map (\<lambda>r. path_Join [cd_cpuacct (cr_dirs r), ''cpuacct.usage'']) (discoverContainers demo_v1 New cgroupV1) =
      [''/sys/fs/cgroup/cpu,cpuacct/docker/'' @ demo_id @ ''/cpuacct.usage'']"
    unfolding discover_meets_reference [OF t(1) list.distinct(2) t(2-4)] by code_simp
  then have p: "path_Join [cd_cpuacct (cr_dirs ref), ''cpuacct.usage''] =
      ''/sys/fs/cgroup/cpu,cpuacct/docker/'' @ demo_id @ ''/cpuacct.usage''" by (simp add: ref)
  have "bytesPerUnit Byte = Some (f64_const 1)" by (simp add: bytesPerUnit_def)
  moreover have "detectCgroupVersion demo_v1 (CgroupRootPath New) = cgroupV1" by code_simp
  moreover have "ref \<in> set (discoverContainers demo_v1 New cgroupV1)" by (simp add: ref)
  moreover have "ReadFileWithError demo_v1 (path_Join [cd_cpuacct (cr_dirs ref), ''cpuacct.usage'']) = Inr []"
    unfolding p by code_simp
  moreover have "TrimSpace [] = []" by code_simp
  ultimately show ?thesis by (rule GetContainers_v1_vanishing_counter)
qed

end
