(* ===== verification/Network.thy ===== *)
theory Network
  imports Process
begin

text \<open>
  \<open>network.go\<close>: interfaces and their counters, the TCP socket table by state, and the established
  connections of a named process. The interface list is what the operating system answers to
  \<open>net.Interfaces\<close>; the two outgoing probes are given their dial or request result.
\<close>

unbundle bit_operations_syntax

section \<open>Addresses\<close>

text \<open>\<open>net.IP\<close>: a byte slice, of 4 or 16 bytes when it is valid.\<close>

type_synonym ip = "8 word list"

definition To4 :: "ip \<Rightarrow> ip option" where
  "To4 x = (if length x = 4 then Some x
     else if length x = 16 \<and> take 12 x = replicate 10 0 @ [0xFF, 0xFF] then Some (drop 12 x)
     else None)"

definition IsLinkLocalUnicast :: "ip \<Rightarrow> bool" where
  "IsLinkLocalUnicast x = (case To4 x of
     Some x4 \<Rightarrow> x4 ! 0 = 169 \<and> x4 ! 1 = 254
   | None \<Rightarrow> length x = 16 \<and> x ! 0 = 0xFE \<and> (x ! 1 AND 0xC0) = 0x80)"

definition hex_digit :: "nat \<Rightarrow> char" where
  "hex_digit d = char_of (if d < 10 then 48 + d else 87 + d)"

function show_hex :: "nat \<Rightarrow> string" where
  "show_hex n = (if n < 16 then [hex_digit n] else show_hex (n div 16) @ [hex_digit (n mod 16)])"
  by pat_completeness auto
termination
  by (relation "measure id") auto

declare show_hex.simps [simp del]

definition hex_byte :: "8 word \<Rightarrow> string" where
  "hex_byte b = [hex_digit (unat b div 16), hex_digit (unat b mod 16)]"

definition join_strings :: "string \<Rightarrow> string list \<Rightarrow> string" where
  "join_strings sep ss = (case ss of [] \<Rightarrow> [] | s # rest \<Rightarrow> foldl (\<lambda>acc t. acc @ sep @ t) s rest)"

text \<open>The 16-bit groups, and the first longest run of at least two zero groups as (start, end).\<close>

fun v6_groups :: "ip \<Rightarrow> nat list" where
  "v6_groups (a # b # rest) = (unat a * 256 + unat b) # v6_groups rest"
| "v6_groups _ = []"

definition zero_run :: "nat list \<Rightarrow> nat \<Rightarrow> nat" where
  "zero_run gs i = length (takeWhile (\<lambda>g. g = 0) (drop i gs))"

definition longest_run :: "nat list \<Rightarrow> nat \<times> nat" where
  "longest_run gs = foldl (\<lambda>(s, e) i. let l = zero_run gs i in
     if 2 \<le> l \<and> e - s < l then (i, i + l) else (s, e)) (0, 0) [0..<length gs]"

definition v6_String :: "nat list \<Rightarrow> string" where
  "v6_String gs = (let (s, e) = longest_run gs; show_part = (\<lambda>xs. join_strings '':'' (map show_hex xs))
     in if s = e then show_part gs else show_part (take s gs) @ ''::'' @ show_part (drop e gs))"

definition ip_String :: "ip \<Rightarrow> string" where
  "ip_String x =
    (if x = [] then ''<nil>''
     else (case To4 x of
         Some x4 \<Rightarrow> join_strings ''.'' (map (\<lambda>b. show_nat (unat b)) x4)
       | None \<Rightarrow> if length x = 16 then v6_String (v6_groups x)
                 else CHR ''?'' # concat (map hex_byte x)))"

text \<open>\<open>net.HardwareAddr.String\<close>.\<close>

definition hwaddr_String :: "8 word list \<Rightarrow> string" where
  "hwaddr_String a = join_strings '':'' (map hex_byte a)"

text \<open>\<open>net.Addr\<close>: an address that is a \<open>*net.IPNet\<close>, or another implementation.\<close>

datatype net_addr = IPNet ip | OtherAddr

fun pick_loop :: "bool \<Rightarrow> string \<Rightarrow> net_addr list \<Rightarrow> string" where
  "pick_loop wantV4 fallback [] = fallback"
| "pick_loop wantV4 fallback (OtherAddr # addrs) = pick_loop wantV4 fallback addrs"
| "pick_loop wantV4 fallback (IPNet x # addrs) =
     (if (To4 x \<noteq> None) \<noteq> wantV4 then pick_loop wantV4 fallback addrs
      else if \<not> IsLinkLocalUnicast x then ip_String x
      else pick_loop wantV4 (if fallback = [] then ip_String x else fallback) addrs)"

definition pickIP :: "net_addr list \<Rightarrow> bool \<Rightarrow> string" where
  "pickIP addrs wantV4 = pick_loop wantV4 [] addrs"

section \<open>Interfaces\<close>

record NetworkUsage =
  nu_State :: string
  nu_RxBytes :: u64
  nu_TxBytes :: u64
  nu_RxPackets :: u64
  nu_TxPackets :: u64

record Network =
  nw_Interface :: string
  nw_Ip :: string
  nw_Ipv6 :: string
  nw_MacAddress :: string
  nw_Usage :: NetworkUsage
  nw_Time :: int

text \<open>An interface as the system lists it; \<open>None\<close> addresses: \<open>Addrs\<close> fails.\<close>

record net_iface =
  if_name :: string
  if_loopback :: bool
  if_hwaddr :: "8 word list"
  if_addrs :: "net_addr list option"

definition readAsUint64 :: "fs \<Rightarrow> string \<Rightarrow> u64" where
  "readAsUint64 f path = (case ReadFileWithError f path of
     Inl e \<Rightarrow> 0 | Inr result \<Rightarrow> fst (ParseUint (TrimSpace result)))"

interpretation as_uint64: lenient_reader readAsUint64 "\<lambda>s. fst (ParseUint (TrimSpace s))" 0
  by unfold_locales (simp_all add: readAsUint64_def)

definition getNetworkUsage :: "fs \<Rightarrow> SyStats \<Rightarrow> string \<Rightarrow> NetworkUsage" where
  "getNetworkUsage f systats networkInterface =
    (let base = path_Join [SysClassNetPath systats, networkInterface] in
     \<lparr>nu_State = readAsString f (path_Join [base, ''operstate'']),
      nu_RxBytes = readAsUint64 f (path_Join [base, ''statistics'', ''rx_bytes'']),
      nu_TxBytes = readAsUint64 f (path_Join [base, ''statistics'', ''tx_bytes'']),
      nu_RxPackets = readAsUint64 f (path_Join [base, ''statistics'', ''rx_packets'']),
      nu_TxPackets = readAsUint64 f (path_Join [base, ''statistics'', ''tx_packets''])\<rparr>)"

fun network_loop :: "fs \<Rightarrow> int \<Rightarrow> SyStats \<Rightarrow> Network list \<Rightarrow> net_iface list \<Rightarrow> Network list \<times> error option" where
  "network_loop f now systats output [] = (output, None)"
| "network_loop f now systats output (i # rest) =
     (case if_addrs i of
        None \<Rightarrow> (output, Some (OSError (if_name i)))
      | Some addrs \<Rightarrow>
          if if_loopback i then network_loop f now systats output rest
          else network_loop f now systats (output @ [\<lparr>nw_Interface = if_name i,
            nw_Ip = pickIP addrs True, nw_Ipv6 = pickIP addrs False,
            nw_MacAddress = hwaddr_String (if_hwaddr i),
            nw_Usage = getNetworkUsage f systats (if_name i), nw_Time = now\<rparr>]) rest)"

definition getNetworks ::
    "fs \<Rightarrow> net_iface list option \<Rightarrow> int \<Rightarrow> SyStats \<Rightarrow> Network list \<times> error option" where
  "getNetworks f ifaces now systats = (case ifaces of
     None \<Rightarrow> ([], Some (OSError ''interfaces''))
   | Some is \<Rightarrow> network_loop f now systats [] is)"

definition GetNetworks ::
    "fs \<Rightarrow> net_iface list option \<Rightarrow> int \<Rightarrow> SyStats \<Rightarrow> Network list \<times> error option" where
  "GetNetworks f ifaces now systats = withRecover [] (Ok (getNetworks f ifaces now systats))"

section \<open>Probes\<close>

text \<open>Whether the dial to \<open>localhost:port\<close> succeeded is the environment's answer.\<close>

definition isPortOpen :: "(string \<Rightarrow> bool) \<Rightarrow> int \<Rightarrow> bool" where
  "isPortOpen dial port = dial (''localhost:'' @ Itoa port)"

text \<open>\<open>newRequest\<close> and \<open>send\<close> are the two calls that can fail, with the error they return.\<close>

definition canConnect ::
    "(string \<Rightarrow> error option) \<Rightarrow> (string \<Rightarrow> error option) \<Rightarrow> string \<Rightarrow> bool \<times> error option" where
  "canConnect newRequest send url = (case newRequest url of
     Some e \<Rightarrow> (False, Some e)
   | None \<Rightarrow> (case send url of Some e \<Rightarrow> (False, Some e) | None \<Rightarrow> (True, None)))"

section \<open>The socket tables\<close>

record tcpSocketRecord =
  ts_state :: string
  ts_inode :: string

definition tcp_line :: "string \<Rightarrow> tcpSocketRecord option" where
  "tcp_line line = (let fields = Fields line in
     if length fields < 10 then None else Some \<lparr>ts_state = fields ! 3, ts_inode = fields ! 9\<rparr>)"

definition parseProcNetTCP :: "string \<Rightarrow> tcpSocketRecord list" where
  "parseProcNetTCP content = List.map_filter tcp_line (tl (lines content))"

definition readTCPSocketRecords :: "fs \<Rightarrow> SyStats \<Rightarrow> tcpSocketRecord list" where
  "readTCPSocketRecords f systats = concat (map (\<lambda>path.
     case ReadFileWithError f path of Inl e \<Rightarrow> [] | Inr content \<Rightarrow> parseProcNetTCP content)
     [NetTCPPath systats, NetTCP6Path systats])"

text \<open>The constants of the state column and their kernel names.\<close>

definition tcp_states :: "(string \<times> string) list" where
  "tcp_states = [(''01'', ''ESTABLISHED''), (''02'', ''SYN_SENT''), (''03'', ''SYN_RECV''),
     (''04'', ''FIN_WAIT1''), (''05'', ''FIN_WAIT2''), (''06'', ''TIME_WAIT''), (''07'', ''CLOSE''),
     (''08'', ''CLOSE_WAIT''), (''09'', ''LAST_ACK''), (''0A'', ''LISTEN''), (''0B'', ''CLOSING''),
     (''0C'', ''NEW_SYN_RECV'')]"

record TCPStates =
  tc_Established :: int
  tc_SynSent :: int
  tc_SynRecv :: int
  tc_FinWait1 :: int
  tc_FinWait2 :: int
  tc_TimeWait :: int
  tc_Close :: int
  tc_CloseWait :: int
  tc_LastAck :: int
  tc_Listen :: int
  tc_Closing :: int
  tc_NewSynRecv :: int
  tc_Unknown :: int
  tc_Total :: int
  tc_Time :: int

definition TCPStates_zero :: "int \<Rightarrow> TCPStates" where
  "TCPStates_zero now = \<lparr>tc_Established = 0, tc_SynSent = 0, tc_SynRecv = 0, tc_FinWait1 = 0,
     tc_FinWait2 = 0, tc_TimeWait = 0, tc_Close = 0, tc_CloseWait = 0, tc_LastAck = 0,
     tc_Listen = 0, tc_Closing = 0, tc_NewSynRecv = 0, tc_Unknown = 0, tc_Total = 0,
     tc_Time = now\<rparr>"

definition TCPStates_add :: "TCPStates \<Rightarrow> string \<Rightarrow> TCPStates" where
  "TCPStates_add t0 stateHex =
    (let t = t0\<lparr>tc_Total := tc_Total t0 + 1\<rparr>; s = ToUpper stateHex in
     if s = ''01'' then t\<lparr>tc_Established := tc_Established t + 1\<rparr>
     else if s = ''02'' then t\<lparr>tc_SynSent := tc_SynSent t + 1\<rparr>
     else if s = ''03'' then t\<lparr>tc_SynRecv := tc_SynRecv t + 1\<rparr>
     else if s = ''04'' then t\<lparr>tc_FinWait1 := tc_FinWait1 t + 1\<rparr>
     else if s = ''05'' then t\<lparr>tc_FinWait2 := tc_FinWait2 t + 1\<rparr>
     else if s = ''06'' then t\<lparr>tc_TimeWait := tc_TimeWait t + 1\<rparr>
     else if s = ''07'' then t\<lparr>tc_Close := tc_Close t + 1\<rparr>
     else if s = ''08'' then t\<lparr>tc_CloseWait := tc_CloseWait t + 1\<rparr>
     else if s = ''09'' then t\<lparr>tc_LastAck := tc_LastAck t + 1\<rparr>
     else if s = ''0A'' then t\<lparr>tc_Listen := tc_Listen t + 1\<rparr>
     else if s = ''0B'' then t\<lparr>tc_Closing := tc_Closing t + 1\<rparr>
     else if s = ''0C'' then t\<lparr>tc_NewSynRecv := tc_NewSynRecv t + 1\<rparr>
     else t\<lparr>tc_Unknown := tc_Unknown t + 1\<rparr>)"

definition tcpStateName :: "string \<Rightarrow> string" where
  "tcpStateName stateHex = (case map_of tcp_states (ToUpper stateHex) of
     Some name \<Rightarrow> name | None \<Rightarrow> ''UNKNOWN'')"

definition getTCPConnectionStates :: "fs \<Rightarrow> int \<Rightarrow> SyStats \<Rightarrow> TCPStates \<times> error option" where
  "getTCPConnectionStates f now systats =
    (foldl (\<lambda>t r. TCPStates_add t (ts_state r)) (TCPStates_zero now)
       (readTCPSocketRecords f systats), None)"

definition GetTCPConnectionStates :: "fs \<Rightarrow> int \<Rightarrow> SyStats \<Rightarrow> TCPStates \<times> error option" where
  "GetTCPConnectionStates f now systats =
    withRecover (TCPStates_zero 0) (Ok (getTCPConnectionStates f now systats))"

section \<open>Connections of a process\<close>

definition findPidsByName :: "fs \<Rightarrow> string \<Rightarrow> string \<Rightarrow> int list" where
  "findPidsByName f procPath name = (case listPids f procPath of
     Inl e \<Rightarrow> []
   | Inr pids \<Rightarrow> filter (\<lambda>pid. case ReadFileWithError f (procFilePath procPath pid ''comm'') of
       Inl e \<Rightarrow> False | Inr comm \<Rightarrow> TrimSpace comm = name) pids)"

text \<open>No other rune folds to a digit, so \<open>strings.EqualFold\<close> with \<open>01\<close> is equality.\<close>

definition establishedTCPInodes :: "fs \<Rightarrow> SyStats \<Rightarrow> string set" where
  "establishedTCPInodes f systats =
    ts_inode ` set (filter (\<lambda>r. ts_state r = ''01'') (readTCPSocketRecords f systats))"

text \<open>The inode of a link to a socket.\<close>

definition socket_inode :: "string \<Rightarrow> string option" where
  "socket_inode target =
    (if \<not> HasPrefix target ''socket:['' \<or> \<not> HasSuffix target '']'' then None
     else Some (drop 8 (take (length target - 1) target)))"

definition fd_matches :: "fs \<Rightarrow> string \<Rightarrow> string set \<Rightarrow> string \<Rightarrow> bool" where
  "fd_matches f fdDir inodes name = (case fs_link f (fdDir @ ''/'' @ name) of
     None \<Rightarrow> False
   | Some target \<Rightarrow> (case socket_inode target of None \<Rightarrow> False | Some i \<Rightarrow> i \<in> inodes))"

definition countMatchingSocketFds :: "fs \<Rightarrow> string \<Rightarrow> int \<Rightarrow> string set \<Rightarrow> int" where
  "countMatchingSocketFds f procPath pid inodes =
    (let fdDir = path_Join [procPath, Itoa pid, ''fd''] in
     case fs_dir f fdDir of
       None \<Rightarrow> 0 | Some entries \<Rightarrow> int (length (filter (fd_matches f fdDir inodes) entries)))"

definition establishedTCPConnCount :: "fs \<Rightarrow> SyStats \<Rightarrow> string \<Rightarrow> int" where
  "establishedTCPConnCount f systats process =
    (let pids = findPidsByName f (ProcPath systats) process in
     if pids = [] then 0
     else
       (let inodes = establishedTCPInodes f systats in
        if inodes = {} then 0
        else foldl (\<lambda>count pid. count + countMatchingSocketFds f (ProcPath systats) pid inodes) 0 pids))"

section \<open>The exported methods\<close>

definition GetNetworkUsage :: "fs \<Rightarrow> SyStats \<Rightarrow> string \<Rightarrow> NetworkUsage" where
  "GetNetworkUsage f systats networkInterface = getNetworkUsage f systats networkInterface"

definition IsPortOpenWithContext :: "(string \<Rightarrow> bool) \<Rightarrow> int \<Rightarrow> bool" where
  "IsPortOpenWithContext dial port = isPortOpen dial port"

definition CanConnectExternalWithContext ::
    "(string \<Rightarrow> error option) \<Rightarrow> (string \<Rightarrow> error option) \<Rightarrow> string \<Rightarrow> bool \<times> error option" where
  "CanConnectExternalWithContext newRequest send url =
    withRecover False (Ok (canConnect newRequest send url))"

definition EstablishedTCPConnCount :: "fs \<Rightarrow> SyStats \<Rightarrow> string \<Rightarrow> int" where
  "EstablishedTCPConnCount f systats procName = establishedTCPConnCount f systats procName"

section \<open>Properties\<close>

text \<open>
  The specification of the TCP summary is a map from kernel state names to numbers of sockets, of
  which the record is the concrete representation: counting a socket is incrementing the entry of
  its name.
\<close>

definition tcp_names :: "string list" where
  "tcp_names = map snd tcp_states @ [''UNKNOWN'']"

definition tcp_view :: "TCPStates \<Rightarrow> string \<Rightarrow> int" where
  "tcp_view t = (\<lambda>name. case map_of
     (zip tcp_names [tc_Established t, tc_SynSent t, tc_SynRecv t, tc_FinWait1 t, tc_FinWait2 t,
       tc_TimeWait t, tc_Close t, tc_CloseWait t, tc_LastAck t, tc_Listen t, tc_Closing t,
       tc_NewSynRecv t, tc_Unknown t]) name of Some n \<Rightarrow> n | None \<Rightarrow> 0)"

definition tcp_bump :: "string \<Rightarrow> (string \<Rightarrow> int) \<Rightarrow> string \<Rightarrow> int" where
  "tcp_bump name m = m(name := m name + 1)"

lemma tcp_view_add: "tcp_view (TCPStates_add t s) = tcp_bump (tcpStateName s) (tcp_view t)"
  by (auto simp: tcp_view_def TCPStates_add_def tcp_bump_def tcpStateName_def tcp_names_def
      tcp_states_def fun_eq_iff Let_def)

lemma tcp_view_zero: "tcp_view (TCPStates_zero now) = (\<lambda>name. 0)"
  by (auto simp: tcp_view_def TCPStates_zero_def tcp_names_def tcp_states_def fun_eq_iff)

lemma tcp_view_fold:
  "tcp_view (foldl (\<lambda>t r. TCPStates_add t (ts_state r)) t rs) =
     (\<lambda>name. tcp_view t name + int (count_list (map (\<lambda>r. tcpStateName (ts_state r)) rs) name))"
  by (induction rs arbitrary: t) (auto simp: tcp_view_add tcp_bump_def fun_eq_iff)

text \<open>
  C6: the socket summary refines counting by name: read as a map from state names to counts, the
  record that GetTCPConnectionStates returns holds for every name the number of sockets of both
  tables whose state column has that kernel name, whatever the case of its hexadecimal digits, and
  an unlisted state counts as unknown.
\<close>

theorem TCPStates_refines_counting:
  "tcp_view (fst (GetTCPConnectionStates f now systats)) =
     (\<lambda>name. int (count_list
        (map (\<lambda>r. tcpStateName (ts_state r)) (readTCPSocketRecords f systats)) name))"
  by (simp add: GetTCPConnectionStates_def withRecover_def getTCPConnectionStates_def tcp_view_fold
      tcp_view_zero)

definition tcp_sum :: "TCPStates \<Rightarrow> int" where
  "tcp_sum t = tc_Established t + tc_SynSent t + tc_SynRecv t + tc_FinWait1 t + tc_FinWait2 t +
     tc_TimeWait t + tc_Close t + tc_CloseWait t + tc_LastAck t + tc_Listen t + tc_Closing t +
     tc_NewSynRecv t + tc_Unknown t"

lemma tcp_sum_add: "tcp_sum (TCPStates_add t s) - tc_Total (TCPStates_add t s) = tcp_sum t - tc_Total t"
  by (simp add: tcp_sum_def TCPStates_add_def Let_def)

lemma tcp_sum_fold:
  "tcp_sum (foldl (\<lambda>t r. TCPStates_add t (ts_state r)) t rs) -
     tc_Total (foldl (\<lambda>t r. TCPStates_add t (ts_state r)) t rs) = tcp_sum t - tc_Total t"
  by (induction rs arbitrary: t) (simp_all add: tcp_sum_add)

text \<open>
  In the summary no socket is lost and none is counted twice: the thirteen buckets add up to
  the total.
\<close>

theorem TCPStates_total:
  "tcp_sum (fst (GetTCPConnectionStates f now systats)) =
     tc_Total (fst (GetTCPConnectionStates f now systats))"
proof -
  let ?rs = "readTCPSocketRecords f systats"
  have "tcp_sum (foldl (\<lambda>t r. TCPStates_add t (ts_state r)) (TCPStates_zero now) ?rs) -
      tc_Total (foldl (\<lambda>t r. TCPStates_add t (ts_state r)) (TCPStates_zero now) ?rs) = 0"
    by (simp only: tcp_sum_fold) (simp add: tcp_sum_def TCPStates_zero_def)
  then show ?thesis
    by (simp add: GetTCPConnectionStates_def withRecover_def getTCPConnectionStates_def)
qed

text \<open>Address texts are never empty, so an empty fallback means that none was seen.\<close>

lemma join_strings_not_Nil: "s \<noteq> [] \<Longrightarrow> join_strings sep (s # rest) \<noteq> []"
proof -
  have "t \<noteq> [] \<Longrightarrow> foldl (\<lambda>acc t. acc @ sep @ t) t rest \<noteq> []" for t
    by (induction rest arbitrary: t) auto
  then show "s \<noteq> [] \<Longrightarrow> join_strings sep (s # rest) \<noteq> []" by (simp add: join_strings_def)
qed

lemma show_hex_not_Nil [simp]: "show_hex n \<noteq> []"
  by (subst show_hex.simps) simp

lemma v6_groups_not_Nil: "1 < length x \<Longrightarrow> v6_groups x \<noteq> []"
  by (induction x rule: v6_groups.induct) auto

lemma v6_String_not_Nil: "gs \<noteq> [] \<Longrightarrow> v6_String gs \<noteq> []"
  by (cases gs) (auto simp: v6_String_def join_strings_not_Nil split: prod.splits)

lemma To4_length: "To4 x = Some y \<Longrightarrow> length y = 4"
  by (auto simp: To4_def split: if_splits)

lemma ip_String_not_Nil [simp]: "ip_String x \<noteq> []"
proof (cases "To4 x")
  case None
  have "length x = 16 \<Longrightarrow> v6_String (v6_groups x) \<noteq> []"
    by (simp add: v6_String_not_Nil v6_groups_not_Nil)
  with None show ?thesis by (simp add: ip_String_def)
next
  case (Some y)
  then obtain a ys where "y = a # ys" by (cases y) (auto dest: To4_length)
  with Some show ?thesis by (simp add: ip_String_def join_strings_not_Nil)
qed

definition family_addrs :: "bool \<Rightarrow> net_addr list \<Rightarrow> ip list" where
  "family_addrs wantV4 addrs =
     List.map_filter (\<lambda>a. case a of IPNet x \<Rightarrow> if (To4 x \<noteq> None) = wantV4 then Some x else None
       | OtherAddr \<Rightarrow> None) addrs"

lemma pick_loop_spec:
  "pick_loop wantV4 fb addrs = (case find (\<lambda>x. \<not> IsLinkLocalUnicast x) (family_addrs wantV4 addrs) of
     Some x \<Rightarrow> ip_String x
   | None \<Rightarrow> if fb \<noteq> [] then fb else (case family_addrs wantV4 addrs of [] \<Rightarrow> [] | x # _ \<Rightarrow> ip_String x))"
  by (induction wantV4 fb addrs rule: pick_loop.induct)
    (auto simp: family_addrs_def List.map_filter_simps split: option.splits)

text \<open>
  The address reported for an interface is the first of the wanted family that is not
  link-local, otherwise the first link-local one of the family, and empty only when the interface
  has no address of the family.
\<close>

theorem pickIP_prefers_routable:
  "pickIP addrs wantV4 =
    (case (filter (\<lambda>x. \<not> IsLinkLocalUnicast x) (family_addrs wantV4 addrs)) @
          (filter IsLinkLocalUnicast (family_addrs wantV4 addrs)) of
       [] \<Rightarrow> [] | x # _ \<Rightarrow> ip_String x)"
proof -
  have first: "find P xs = (case filter P xs of [] \<Rightarrow> None | x # _ \<Rightarrow> Some x)" for P :: "ip \<Rightarrow> bool" and xs
    by (induction xs) auto
  have "filter (\<lambda>x. \<not> IsLinkLocalUnicast x) xs = [] \<Longrightarrow> filter IsLinkLocalUnicast xs = xs" for xs
    by (simp add: filter_empty_conv)
  then show ?thesis
    by (auto simp: pickIP_def pick_loop_spec first split: list.splits)
qed

text \<open>The link of a socket descriptor and its inode determine each other.\<close>

lemma socket_inode_iff: "socket_inode target = Some i \<longleftrightarrow> target = ''socket:['' @ i @ '']''"
proof
  assume s: "socket_inode target = Some i"
  then have h: "HasPrefix target ''socket:[''" "HasSuffix target '']''"
    and i: "i = drop 8 (take (length target - 1) target)"
    by (auto simp: socket_inode_def split: if_splits)
  from h obtain r p where r: "target = ''socket:['' @ r" and p: "target = p @ '']''"
    unfolding HasPrefix_iff HasSuffix_iff by blast
  obtain q c where q: "r = q @ [c]"
    using r p by (cases r rule: rev_cases) auto
  with r p i show "target = ''socket:['' @ i @ '']''" by simp
qed (simp add: socket_inode_def HasPrefix_def HasSuffix_def)

definition established_fd :: "fs \<Rightarrow> SyStats \<Rightarrow> int \<Rightarrow> string \<Rightarrow> bool" where
  "established_fd f systats pid fd = list_ex (\<lambda>r. ts_state r = ''01'' \<and>
     fs_link f (path_Join [ProcPath systats, Itoa pid, ''fd''] @ ''/'' @ fd) =
       Some (''socket:['' @ ts_inode r @ '']'')) (readTCPSocketRecords f systats)"

lemma case_option_False: "(case y of None \<Rightarrow> False | Some x \<Rightarrow> P x) \<longleftrightarrow> (\<exists>x. y = Some x \<and> P x)"
  by (cases y) auto

lemma fd_matches_established:
  "fd_matches f (path_Join [ProcPath systats, Itoa pid, ''fd'']) (establishedTCPInodes f systats) =
     established_fd f systats pid"
  unfolding fun_eq_iff fd_matches_def established_fd_def establishedTCPInodes_def list_ex_iff
    case_option_False socket_inode_iff by fastforce

lemma foldl_add_sum: "foldl (\<lambda>n x. n + h x) (a::int) xs = a + sum_list (map h xs)"
  by (induction xs arbitrary: a) (simp_all add: algebra_simps)

definition established_count :: "fs \<Rightarrow> SyStats \<Rightarrow> int \<Rightarrow> int" where
  "established_count f systats pid =
     (case fs_dir f (path_Join [ProcPath systats, Itoa pid, ''fd'']) of
        None \<Rightarrow> 0 | Some entries \<Rightarrow> int (length (filter (established_fd f systats pid) entries)))"

lemma countMatchingSocketFds_established:
  "countMatchingSocketFds f (ProcPath systats) pid (establishedTCPInodes f systats) =
     established_count f systats pid"
  by (simp add: countMatchingSocketFds_def established_count_def fd_matches_established Let_def
      split: option.split)

lemma established_count_empty: "establishedTCPInodes f systats = {} \<Longrightarrow> established_count f systats pid = 0"
  by (auto simp: established_count_def established_fd_def establishedTCPInodes_def list_ex_iff
      filter_empty_conv split: option.splits)

text \<open>
  C36: the count of established connections of a service is the number of descriptors, over all
  processes of that command name, that are links to the inode of an established socket; the two
  early returns give the same zero.
\<close>

theorem EstablishedTCPConnCount_descriptors:
  "EstablishedTCPConnCount f systats process =
     sum_list (map (established_count f systats) (findPidsByName f (ProcPath systats) process))"
proof -
  have "establishedTCPInodes f systats = {} \<Longrightarrow>
      sum_list (map (established_count f systats) pids) = 0" for pids
    by (induction pids) (simp_all add: established_count_empty)
  then show ?thesis
    by (simp add: EstablishedTCPConnCount_def establishedTCPConnCount_def foldl_add_sum countMatchingSocketFds_established Let_def)
qed

end
