(* ===== verification/Panels.thy ===== *)
theory Panels
  imports Render System Containers Network
begin

text \<open>
  \<open>example/collect.go\<close>, the panels: how each result of the library becomes the texts, gauges and bars of
  the dashboard. Sorting is the library's, a parameter.
\<close>

section \<open>The panels\<close>

record HostPanel =
  hp_OK :: bool
  hp_Hostname :: string
  hp_OS :: string
  hp_Kernel :: string
  hp_Uptime :: string
  hp_TimeZone :: string
  hp_LoggedInUsers :: int

record CPUPanel =
  cp_OK :: bool
  cp_Gauge :: Gauge
  cp_Cores :: "Bar list"
  cp_Sockets :: int
  cp_Model :: string
  cp_CoresLabel :: string
  cp_Load1 :: string
  cp_Load5 :: string
  cp_Load15 :: string

record GaugePanel =
  gp_OK :: bool
  gp_Gauge :: Gauge
  gp_Used :: string
  gp_Total :: string
  gp_Free :: string
  gp_Detail :: string
  gp_Present :: bool

definition GaugePanel_zero :: GaugePanel where
  "GaugePanel_zero = \<lparr>gp_OK = False, gp_Gauge = Gauge_zero, gp_Used = [], gp_Total = [], gp_Free = [],
     gp_Detail = [], gp_Present = False\<rparr>"

record ContainerPanel =
  cpn_MemoryLimited :: bool
  cpn_MemoryLimit :: string
  cpn_MemoryHost :: string
  cpn_MemoryGauge :: Gauge
  cpn_CPULimited :: bool
  cpn_AllocatedCores :: string
  cpn_CPUGauge :: Gauge
  cpn_HostCores :: int

record PressureRow =
  prow_Name :: string
  prow_Some :: "Bar list"
  prow_Full :: "Bar list"
  prow_FullAvailable :: bool
  prow_SomeTotal :: string

record PressurePanel =
  pp_Available :: bool
  pp_Note :: string
  pp_Limited :: bool
  pp_Resources :: "PressureRow list"

record DiskPanel =
  dp_Device :: string
  dp_MountedOn :: string
  dp_Type :: string
  dp_UsedPct :: f64
  dp_Bar :: Bar
  dp_Used :: string
  dp_Size :: string
  dp_Available :: string
  dp_InodePct :: string
  dp_InodeUsage :: string

record LabelValue =
  lv_Label :: string
  lv_Value :: string

record TCPPanel =
  tcpp_OK :: bool
  tcpp_Total :: int
  tcpp_Segments :: "Segment list"
  tcpp_Rows :: "LabelValue list"

record TempPanel =
  tmp_Chip :: string
  tmp_Label :: string
  tmp_Celsius :: string
  tmp_Gauge :: Gauge
  tmp_Limits :: string
  tmp_Critical :: bool

record ProcessRow =
  pw_Pid :: int
  pw_Name :: string
  pw_User :: string
  pw_State :: string
  pw_Threads :: int
  pw_CPU :: string
  pw_CPUBar :: Bar
  pw_Mem :: string
  pw_MemBar :: Bar
  pw_OpenFDs :: string
  pw_ExecPath :: string

section \<open>Building them\<close>

definition percent_text :: "nat \<Rightarrow> f64 \<Rightarrow> string" where
  "percent_text k x = FormatFixed k x @ ''%''"

definition buildHostPanel :: "System \<Rightarrow> HostPanel" where
  "buildHostPanel s = \<lparr>hp_OK = True, hp_Hostname = sy_HostName s, hp_OS = sy_OS s, hp_Kernel = sy_Kernel s,
     hp_Uptime = sy_UpTime s, hp_TimeZone = sy_TimeZone s,
     hp_LoggedInUsers = int (length (sy_LoggedInUsers s))\<rparr>"

definition buildCPUPanel :: "CPU \<Rightarrow> CPUPanel" where
  "buildCPUPanel c = \<lparr>cp_OK = True,
     cp_Gauge = newGauge (f64_of_int (cpu_LoadAvg c)) (Itoa (cpu_LoadAvg c) @ ''%'') ''CPU'',
     cp_Cores = map (\<lambda>(i, core). newBar (f64_of_int core) (''cpu'' @ show_nat i) (Itoa core @ ''%''))
       (zip [0..<length (cpu_CoreAvg c)] (cpu_CoreAvg c)),
     cp_Sockets = cpu_Sockets c, cp_Model = cpu_Model c,
     cp_CoresLabel = Itoa (cpu_NoOfCores c) @ '' logical / '' @ Itoa (cpu_PhysicalCores c) @ '' physical'',
     cp_Load1 = FormatFixed 2 (cpu_Load1 c), cp_Load5 = FormatFixed 2 (cpu_Load5 c),
     cp_Load15 = FormatFixed 2 (cpu_Load15 c)\<rparr>"

definition buildMemoryPanel :: "Memory \<Rightarrow> GaugePanel" where
  "buildMemoryPanel m = \<lparr>gp_OK = True,
     gp_Gauge = newGauge (mem_PercentageUsed m) (percent_text 0 (mem_PercentageUsed m)) ''Memory'',
     gp_Used = size_text (mem_Used m) (mem_Unit m), gp_Total = size_text (mem_Total m) (mem_Unit m),
     gp_Free = size_text (mem_Free m) (mem_Unit m),
     gp_Detail = size_text (mem_Available m) (mem_Unit m) @ '' available'', gp_Present = True\<rparr>"

definition buildSwapPanel :: "Swap \<Rightarrow> GaugePanel" where
  "buildSwapPanel s =
    (if f64_le (sw_Total s) f64_zero then GaugePanel_zero\<lparr>gp_OK := True, gp_Detail := ''not configured''\<rparr>
     else \<lparr>gp_OK = True,
       gp_Gauge = newGauge (sw_PercentageUsed s) (percent_text 0 (sw_PercentageUsed s)) ''Swap'',
       gp_Used = size_text (sw_Used s) (sw_Unit s), gp_Total = size_text (sw_Total s) (sw_Unit s),
       gp_Free = size_text (sw_Free s) (sw_Unit s),
       gp_Detail = size_text (sw_Free s) (sw_Unit s) @ '' free'', gp_Present = True\<rparr>)"

definition ContainerPanel_zero :: ContainerPanel where
  "ContainerPanel_zero = \<lparr>cpn_MemoryLimited = False, cpn_MemoryLimit = [], cpn_MemoryHost = [],
     cpn_MemoryGauge = Gauge_zero, cpn_CPULimited = False, cpn_AllocatedCores = [],
     cpn_CPUGauge = Gauge_zero, cpn_HostCores = 0\<rparr>"

definition buildContainerPanel :: "Memory \<Rightarrow> CPU \<Rightarrow> Memory \<Rightarrow> CPU \<Rightarrow> ContainerPanel" where
  "buildContainerPanel cgMem cgCPU hostMem hostCPU =
    (let p = ContainerPanel_zero\<lparr>cpn_MemoryLimited := mem_Limited cgMem,
           cpn_CPULimited := cpu_Limited cgCPU, cpn_HostCores := cpu_NoOfCores hostCPU\<rparr>;
         p = (if mem_Limited cgMem then p\<lparr>
             cpn_MemoryLimit := size_text (mem_Total cgMem) (mem_Unit cgMem),
             cpn_MemoryHost := size_text (mem_Total hostMem) (mem_Unit hostMem),
             cpn_MemoryGauge := newGauge (mem_PercentageUsed cgMem)
               (percent_text 0 (mem_PercentageUsed cgMem)) ''of limit''\<rparr> else p) in
     if cpu_Limited cgCPU then p\<lparr>cpn_AllocatedCores := FormatFixed 2 (cpu_AllocatedCores cgCPU),
       cpn_CPUGauge := newGauge (f64_of_int (cpu_LoadAvg cgCPU)) (Itoa (cpu_LoadAvg cgCPU) @ ''%'') ''of quota''\<rparr>
     else p)"

definition pressureBars :: "PressureMetric \<Rightarrow> Bar list" where
  "pressureBars m =
    [newBar (psi_Avg10 m) ''10s'' (percent_text 2 (psi_Avg10 m)),
     newBar (psi_Avg60 m) ''60s'' (percent_text 2 (psi_Avg60 m)),
     newBar (psi_Avg300 m) ''300s'' (percent_text 2 (psi_Avg300 m))]"

text \<open>\<open>time.Duration.Round\<close>: halves away from zero, saturating.\<close>

definition Duration_Round :: "int \<Rightarrow> int \<Rightarrow> int" where
  "Duration_Round m d =
    (if m \<le> 0 then d
     else (let r = \<bar>d\<bar> mod m in
       if d < 0 then
         (if 2 * r < m then d + r else if - (2 ^ 63) \<le> d - m + r then d - m + r else - (2 ^ 63))
       else
         (if 2 * r < m then d - r else if d + m - r < 2 ^ 63 then d + m - r else 2 ^ 63 - 1)))"

definition stallTotal :: "u64 \<Rightarrow> string" where
  "stallTotal micros = Duration_String (Duration_Round 1000000 (wrap64 (sint micros * 1000)))"

definition pressure_row :: "string \<times> ResourcePressure \<Rightarrow> PressureRow" where
  "pressure_row r = (case r of (name, rp) \<Rightarrow> \<lparr>prow_Name = name, prow_Some = pressureBars (rp_Some rp),
     prow_Full = (if rp_FullAvailable rp then pressureBars (rp_Full rp) else []),
     prow_FullAvailable = rp_FullAvailable rp, prow_SomeTotal = stallTotal (psi_Total (rp_Some rp))\<rparr>)"

definition buildPressurePanel :: "Pressure \<Rightarrow> PressurePanel" where
  "buildPressurePanel p =
    (if \<not> pr_Available p then \<lparr>pp_Available = False,
       pp_Note = ''kernel does not expose /proc/pressure - needs 4.20+ with CONFIG_PSI=y'',
       pp_Limited = False, pp_Resources = []\<rparr>
     else \<lparr>pp_Available = True, pp_Note = [], pp_Limited = pr_Limited p,
       pp_Resources = map pressure_row [(''CPU'', pr_CPU p), (''Memory'', pr_Memory p), (''I/O'', pr_IO p)]\<rparr>)"

definition disk_panel :: "unit_name \<Rightarrow> Disk \<Rightarrow> DiskPanel option" where
  "disk_panel u d0 =
    (let us = dk_Usage d0;
         pct = (if f64_less f64_zero (du_Size us)
           then f64_div (f64_mul (f64_const 100) (du_Used us)) (du_Size us) else f64_zero) in
     case Convert d0 u of
       (d, Some e) \<Rightarrow> None
     | (d, None) \<Rightarrow> Some \<lparr>dp_Device = dk_FileSystem d, dp_MountedOn = dk_MountedOn d, dp_Type = dk_Type d,
         dp_UsedPct = pct, dp_Bar = newBar pct (dk_MountedOn d) (du_Usage (dk_Usage d)),
         dp_Used = size_text (du_Used (dk_Usage d)) (du_Unit (dk_Usage d)),
         dp_Size = size_text (du_Size (dk_Usage d)) (du_Unit (dk_Usage d)),
         dp_Available = size_text (du_Available (dk_Usage d)) (du_Unit (dk_Usage d)),
         dp_InodePct = iu_Usage (dk_Inodes d),
         dp_InodeUsage = show_u64 (iu_Used (dk_Inodes d)) @ '' / '' @ show_u64 (iu_Inodes (dk_Inodes d))\<rparr>)"

definition buildDiskPanels :: "DiskPanel sorter \<Rightarrow> Disk list \<Rightarrow> unit_name \<Rightarrow> DiskPanel list" where
  "buildDiskPanels srt disks u =
    srt (\<lambda>a b. f64_less (dp_UsedPct b) (dp_UsedPct a)) (List.map_filter (disk_panel u) disks)"

definition tcp_buckets :: "TCPStates \<Rightarrow> (string \<times> int \<times> string) list" where
  "tcp_buckets s =
    [(''Established'', tc_Established s, colorEstablished), (''Listen'', tc_Listen s, colorListen),
     (''Time wait'', tc_TimeWait s, colorTimeWait), (''Close wait'', tc_CloseWait s, colorCloseWait),
     (''Syn sent'', tc_SynSent s, colorOther), (''Syn recv'', tc_SynRecv s, colorOther),
     (''Fin wait 1'', tc_FinWait1 s, colorOther), (''Fin wait 2'', tc_FinWait2 s, colorOther),
     (''Closing'', tc_Closing s, colorOther), (''Last ack'', tc_LastAck s, colorOther),
     (''Close'', tc_Close s, colorOther), (''New syn recv'', tc_NewSynRecv s, colorOther),
     (''Unknown'', tc_Unknown s, colorUnknown)]"

definition tcp_bucket :: "int \<Rightarrow> TCPPanel \<Rightarrow> string \<times> int \<times> string \<Rightarrow> TCPPanel" where
  "tcp_bucket tot panel b = (case b of (label, n, color) \<Rightarrow>
     if n = 0 then panel
     else
       (let pct = (if 0 < tot then f64_div (f64_mul (f64_const 100) (f64_of_int n)) (f64_of_int tot)
            else f64_zero) in
        panel\<lparr>tcpp_Segments := tcpp_Segments panel @
            [\<lparr>se_Label = label, se_Percent = pct, se_Width = fmtFloat pct, se_Color = color\<rparr>],
          tcpp_Rows := tcpp_Rows panel @ [\<lparr>lv_Label = label, lv_Value = Itoa n\<rparr>]\<rparr>))"

definition buildTCPPanel :: "TCPStates \<Rightarrow> TCPPanel" where
  "buildTCPPanel s = foldl (tcp_bucket (tc_Total s))
     \<lparr>tcpp_OK = True, tcpp_Total = tc_Total s, tcpp_Segments = [], tcpp_Rows = []\<rparr> (tcp_buckets s)"

definition temp_panel :: "Temperature \<Rightarrow> TempPanel" where
  "temp_panel t = (case tempScale t of (pct, limits) \<Rightarrow>
     \<lparr>tmp_Chip = tp_Name t, tmp_Label = tp_Label t, tmp_Celsius = FormatFixed 1 (tp_Celsius t),
      tmp_Gauge = newGaugeColored pct (FormatFixed 0 (tp_Celsius t) @ degree) (tp_Label t) (tempColor t),
      tmp_Limits = limits,
      tmp_Critical = (tp_CriticalAvailable t \<and> f64_le (tp_Critical t) (tp_Celsius t))\<rparr>)"

definition buildTempPanels :: "Temperature list \<Rightarrow> TempPanel list" where
  "buildTempPanels temps = map temp_panel temps"

definition process_row :: "Process \<Rightarrow> ProcessRow" where
  "process_row p = \<lparr>pw_Pid = ps_Pid p, pw_Name = ps_Name p, pw_User = ps_User p, pw_State = ps_StateName p,
     pw_Threads = ps_Threads p, pw_CPU = percent_text 1 (ps_CPUUsage p),
     pw_CPUBar = newBar (ps_CPUUsage p) ''cpu'' [], pw_Mem = percent_text 1 (ps_MemUsage p),
     pw_MemBar = newBar (ps_MemUsage p) ''mem'' [],
     pw_OpenFDs = (if ps_FDsAccessible p then Itoa (ps_OpenFDs p) else ''n/a''),
     pw_ExecPath = ps_ExecPath p\<rparr>"

definition buildProcessRows :: "Process list \<Rightarrow> ProcessRow list" where
  "buildProcessRows procs = map process_row procs"

section \<open>Sampled panels\<close>

record DiskIOPanel =
  dip_Device :: string
  dip_ReadRate :: string
  dip_WriteRate :: string
  dip_IOPS :: string
  dip_Util :: Bar
  dip_InFlight :: u64

record NetworkPanel =
  np_Interface :: string
  np_State :: string
  np_Up :: bool
  np_IP :: string
  np_IPv6 :: string
  np_MAC :: string
  np_RxTotal :: string
  np_TxTotal :: string
  np_RxRate :: string
  np_TxRate :: string
  np_Packets :: string

text \<open>The program has its own interruptible sleep.\<close>

definition example_sleepCtx :: "wake \<Rightarrow> error option" where
  "example_sleepCtx w = (case w of CtxDone e \<Rightarrow> Some (CtxErr e) | TimerFired \<Rightarrow> None)"

text \<open>A map from a key to the last element that has it.\<close>

definition last_by :: "('a \<Rightarrow> string) \<Rightarrow> 'a list \<Rightarrow> (string \<rightharpoonup> 'a)" where
  "last_by key xs = foldl (\<lambda>m x. m(key x \<mapsto> x)) Map.empty xs"

definition diskio_panel :: "(string \<rightharpoonup> DiskIO) \<Rightarrow> f64 \<Rightarrow> DiskIO \<Rightarrow> DiskIOPanel option" where
  "diskio_panel prev elapsed d = (case prev (dio_Device d) of
     None \<Rightarrow> None
   | Some p \<Rightarrow>
       (let r = DiskIO_RatesSince d p elapsed in
        Some \<lparr>dip_Device = dio_Device d, dip_ReadRate = rate_text (dr_ReadBytesPerSec r),
          dip_WriteRate = rate_text (dr_WriteBytesPerSec r),
          dip_IOPS = FormatFixed 0 (dr_ReadsPerSec r) @ '' r/s, '' @ FormatFixed 0 (dr_WritesPerSec r) @ '' w/s'',
          dip_Util = newBar (dr_UtilPercent r) (dio_Device d) (percent_text 1 (dr_UtilPercent r)),
          dip_InFlight = dio_IOInProgress d\<rparr>))"

text \<open>\<open>f1\<close> and \<open>f2\<close> are the file system at the two reads, \<open>w\<close> how the interval between them ended.\<close>

definition sampleDiskIO ::
    "DiskIOPanel sorter \<Rightarrow> fs \<Rightarrow> fs \<Rightarrow> wake \<Rightarrow> f64 \<Rightarrow> int \<Rightarrow> SyStats \<Rightarrow> error + DiskIOPanel list" where
  "sampleDiskIO srt f1 f2 w elapsed now s = (case GetDiskIO f1 now s of
     (prior, Some e) \<Rightarrow> Inl e
   | (prior, None) \<Rightarrow> (case example_sleepCtx w of
       Some e \<Rightarrow> Inl e
     | None \<Rightarrow> (case GetDiskIO f2 now s of
         (after, Some e) \<Rightarrow> Inl e
       | (after, None) \<Rightarrow> Inr (srt (\<lambda>a b. dip_Device a < dip_Device b)
           (List.map_filter (diskio_panel (last_by dio_Device prior) elapsed) after)))))"

definition deltaPerSec :: "u64 \<Rightarrow> u64 \<Rightarrow> f64 \<Rightarrow> f64" where
  "deltaPerSec now old seconds =
    (if now < old \<or> f64_le seconds f64_zero then f64_zero
     else f64_div (f64_of_u64 (now - old)) seconds)"

definition network_panel :: "(string \<rightharpoonup> Network) \<Rightarrow> f64 \<Rightarrow> Network \<Rightarrow> NetworkPanel" where
  "network_panel prev elapsed n =
    (let us = nw_Usage n;
         panel = \<lparr>np_Interface = nw_Interface n, np_State = nu_State us, np_Up = (nu_State us = ''up''),
           np_IP = nw_Ip n, np_IPv6 = nw_Ipv6 n, np_MAC = nw_MacAddress n,
           np_RxTotal = bytesHuman (f64_of_u64 (nu_RxBytes us)),
           np_TxTotal = bytesHuman (f64_of_u64 (nu_TxBytes us)), np_RxRate = ''-'', np_TxRate = ''-'',
           np_Packets = show_u64 (nu_RxPackets us) @ '' rx / '' @ show_u64 (nu_TxPackets us) @ '' tx''\<rparr> in
     case prev (nw_Interface n) of
       None \<Rightarrow> panel
     | Some p \<Rightarrow>
         if f64_less f64_zero elapsed then
           panel\<lparr>np_RxRate := rate_text (deltaPerSec (nu_RxBytes us) (nu_RxBytes (nw_Usage p)) elapsed),
             np_TxRate := rate_text (deltaPerSec (nu_TxBytes us) (nu_TxBytes (nw_Usage p)) elapsed)\<rparr>
         else panel)"

definition sampleNetworks ::
    "NetworkPanel sorter \<Rightarrow> fs \<Rightarrow> fs \<Rightarrow> net_iface list option \<Rightarrow> net_iface list option \<Rightarrow> wake \<Rightarrow>
     f64 \<Rightarrow> int \<Rightarrow> SyStats \<Rightarrow> error + NetworkPanel list" where
  "sampleNetworks srt f1 f2 if1 if2 w elapsed now s = (case GetNetworks f1 if1 now s of
     (prior, Some e) \<Rightarrow> Inl e
   | (prior, None) \<Rightarrow> (case example_sleepCtx w of
       Some e \<Rightarrow> Inl e
     | None \<Rightarrow> (case GetNetworks f2 if2 now s of
         (after, Some e) \<Rightarrow> Inl e
       | (after, None) \<Rightarrow> Inr (srt (\<lambda>a b. np_Interface a < np_Interface b)
           (map (network_panel (last_by nw_Interface prior) elapsed) after)))))"

end
