(* ===== verification/Interleaving.thy ===== *)
theory Interleaving
  imports Prelude "HOL-Library.Multiset"
begin

text \<open>
  Threads that share a state: when the actions of different threads commute up to an equivalence of
  states, a run is determined by what each thread did in its own order, whatever the interleaving.
\<close>

locale interleaving =
  fixes act :: "'t \<Rightarrow> 'a \<Rightarrow> 's \<Rightarrow> 's" and owns :: "'t \<Rightarrow> 'a \<Rightarrow> bool" and same :: "'s \<Rightarrow> 's \<Rightarrow> bool"
  assumes same_refl: "same s s"
    and same_trans: "same s s' \<Longrightarrow> same s' s'' \<Longrightarrow> same s s''"
    and respects: "same s s' \<Longrightarrow> same (act t a s) (act t a s')"
    and commute: "t \<noteq> u \<Longrightarrow> owns t a \<Longrightarrow> owns u b \<Longrightarrow> same (act u b (act t a s)) (act t a (act u b s))"
begin

lemma fold_respects: "same s s' \<Longrightarrow> same (fold (\<lambda>x. act (fst x) (snd x)) ts s) (fold (\<lambda>x. act (fst x) (snd x)) ts s')"
  by (induction ts arbitrary: s s') (simp_all add: respects)

text \<open>An action moves to the front past the actions of other threads.\<close>

lemma move_front:
  assumes "\<forall>x \<in> set xs. fst x \<noteq> t \<and> owns (fst x) (snd x)" and "owns t a"
  shows "same (fold (\<lambda>x. act (fst x) (snd x)) (xs @ (t, a) # ys) s)
    (fold (\<lambda>x. act (fst x) (snd x)) (xs @ ys) (act t a s))"
  using assms(1)
proof (induction xs arbitrary: s)
  case Nil
  then show ?case by (simp add: same_refl)
next
  case (Cons x xs)
  let ?run = "fold (\<lambda>x. act (fst x) (snd x))"
  have "same (?run (xs @ (t, a) # ys) (act (fst x) (snd x) s))
      (?run (xs @ ys) (act t a (act (fst x) (snd x) s)))"
    using Cons.IH Cons.prems by simp
  moreover have "same (?run (xs @ ys) (act t a (act (fst x) (snd x) s)))
      (?run (xs @ ys) (act (fst x) (snd x) (act t a s)))"
    using Cons.prems assms(2) by (intro fold_respects commute) auto
  ultimately show ?case using same_trans by simp
qed

lemma same_projections:
  assumes "\<And>t. filter (\<lambda>x. fst x = t) us = filter (\<lambda>x. fst x = t) ts"
    and "\<forall>x \<in> set ts. owns (fst x) (snd x)"
  shows "same (fold (\<lambda>x. act (fst x) (snd x)) us s) (fold (\<lambda>x. act (fst x) (snd x)) ts s)"
  using assms
proof (induction ts arbitrary: us s)
  case Nil
  have "us = []"
  proof (rule ccontr)
    assume "us \<noteq> []"
    then have "hd us \<in> set (filter (\<lambda>x. fst x = fst (hd us)) us)" by simp
    then show False unfolding Nil(1) by simp
  qed
  then show ?case by (simp add: same_refl)
next
  case (Cons y ts)
  obtain t a where y: "y = (t, a)" by fastforce
  let ?run = "fold (\<lambda>x. act (fst x) (snd x))"
  have "filter (\<lambda>x. fst x = t) us = (t, a) # filter (\<lambda>x. fst x = t) ts"
    using Cons.prems(1) [of t] y by simp
  then obtain xs ys where us: "us = xs @ (t, a) # ys" and xs: "\<forall>x \<in> set xs. fst x \<noteq> t"
      and ys: "filter (\<lambda>x. fst x = t) ys = filter (\<lambda>x. fst x = t) ts"
    by (auto simp: filter_eq_Cons_iff)
  have proj: "filter (\<lambda>x. fst x = u) (xs @ ys) = filter (\<lambda>x. fst x = u) ts" for u
    using Cons.prems(1) [of u] xs ys by (cases "u = t") (auto simp: us y filter_empty_conv)
  have "x \<in> set ts" if "x \<in> set xs" for x
  proof -
    have "x \<in> set (filter (\<lambda>z. fst z = fst x) (xs @ ys))" using that by simp
    then show ?thesis unfolding proj by simp
  qed
  then have "same (?run us s) (?run (xs @ ys) (act t a s))"
    using xs Cons.prems(2) unfolding us y by (intro move_front) auto
  moreover have "same (?run (xs @ ys) (act t a s)) (?run ts (act t a s))"
    using proj Cons.prems(2) by (intro Cons.IH) simp_all
  ultimately show ?case using same_trans by (simp add: y)
qed

end

text \<open>The special case of threads that make one step each.\<close>

locale goroutines =
  fixes run :: "'t \<Rightarrow> 's \<Rightarrow> 's" and same :: "'s \<Rightarrow> 's \<Rightarrow> bool"
  assumes same_refl: "same s s"
    and same_trans: "same s s' \<Longrightarrow> same s' s'' \<Longrightarrow> same s s''"
    and respects: "same s s' \<Longrightarrow> same (run t s) (run t s')"
    and commute: "t \<noteq> u \<Longrightarrow> same (run u (run t s)) (run t (run u s))"

sublocale goroutines \<subseteq> single: interleaving "\<lambda>t (_ :: unit). run t" "\<lambda>_ _. True" same
  by unfold_locales (auto intro: same_refl same_trans respects commute)

context goroutines
begin

lemma any_order:
  assumes "mset us = mset ts"
  shows "same (fold run us s) (fold run ts s)"
proof -
  have "filter (\<lambda>u. u = t) xs = replicate (count (mset xs) t) t" for t and xs :: "'t list"
    unfolding replicate_count_mset_eq_filter_eq by (rule filter_cong) auto
  then have "filter (\<lambda>x. fst x = t) (map (\<lambda>t. (t, ())) us) = filter (\<lambda>x. fst x = t) (map (\<lambda>t. (t, ())) ts)" for t
    using assms by (simp add: filter_map comp_def)
  from single.same_projections [OF this] show ?thesis by (simp add: fold_map comp_def)
qed

end

end
