(* ===== verification/Dashboard.thy ===== *)
theory Dashboard
  imports Panels Interleaving
begin

text \<open>
  \<open>example/collect.go\<close>, the collection: the container cards, and the dashboard that fourteen goroutines
  fill concurrently. Each goroutine reads the library through its own snapshots and then writes its
  panel or, under the mutex, adds a problem; the interleavings are the orders of these writes.
\<close>

section \<open>Container cards\<close>

record ContainerMountRow =
  cmr_MountPoint :: string
  cmr_Bar :: Bar
  cmr_Usage :: string

record ContainerCard =
  cc_Name :: string
  cc_ShortID :: string
  cc_Image :: string
  cc_Runtime :: string
  cc_State :: string
  cc_Running :: bool
  cc_CPUGauge :: Gauge
  cc_MemGauge :: Gauge
  cc_CPU :: string
  cc_Memory :: string
  cc_RxRate :: string
  cc_TxRate :: string
  cc_Read :: string
  cc_Write :: string
  cc_Pids :: Bar
  cc_Throttled :: string
  cc_OOMKills :: u64
  cc_Layer :: string
  cc_Mounts :: "ContainerMountRow list"
  cc_Notes :: "string list"

definition card_cpu :: "ContainerCPU \<Rightarrow> Gauge \<times> string" where
  "card_cpu c =
    (if ccpu_Limited c then
       (newGauge (ccpu_PercentOfLimit c) (percent_text 0 (ccpu_PercentOfLimit c)) ''of limit'',
        FormatFixed 2 (ccpu_CoresUsed c) @ '' of '' @ FormatFixed 2 (ccpu_AllocatedCores c) @ '' cores'')
     else
       (newGauge (ccpu_PercentOfHost c) (percent_text 0 (ccpu_PercentOfHost c)) ''of host'',
        FormatFixed 2 (ccpu_CoresUsed c) @ '' cores, no limit''))"

definition card_pids :: "ContainerPids \<Rightarrow> Bar" where
  "card_pids p =
    (if cpid_Limited p then
       newBar (f64_div (f64_mul (f64_const 100) (f64_of_u64 (cpid_Current p))) (f64_of_u64 (cpid_Max p)))
         ''pids'' (show_u64 (cpid_Current p) @ '' / '' @ show_u64 (cpid_Max p))
     else newBar f64_zero ''pids'' (show_u64 (cpid_Current p)))"

definition card_layer :: "ContainerLayer \<Rightarrow> string" where
  "card_layer l =
    (if cl_Available l then size_text (cl_Size l) (cl_Unit l) @ '' in '' @ show_u64 (cl_Files l) @ '' files''
     else if cl_Path l \<noteq> [] then ''needs root'' else [])"

definition card_mount :: "ContainerMount \<Rightarrow> ContainerMountRow" where
  "card_mount mt =
    (let row = \<lparr>cmr_MountPoint = (if cmnt_MountPoint mt = ''/'' \<and> cmnt_FSType mt = ''overlay''
           then ''/ (host disk)'' else cmnt_MountPoint mt), cmr_Bar = Bar_zero, cmr_Usage = ''no access''\<rparr> in
     if cmnt_Accessible mt \<and> f64_less f64_zero (cmnt_Total mt) then
       (let pct = f64_div (f64_mul (f64_const 100) (cmnt_Used mt)) (cmnt_Total mt) in
        row\<lparr>cmr_Bar := newBar pct (cmnt_MountPoint mt) (percent_text 0 pct),
          cmr_Usage := size_text (cmnt_Used mt) (cmnt_Unit mt) @ '' of '' @
            size_text (cmnt_Total mt) (cmnt_Unit mt)\<rparr>)
     else row)"

definition card_notes :: "Container \<Rightarrow> string list" where
  "card_notes c =
    (if cnet_SharesHostNetwork (co_Network c) then [''host network: rates are the host'' @ [CHR 0x27] @ ''s''] else []) @
    (if \<not> cnet_Accessible (co_Network c) then [''network namespace not readable''] else []) @
    (if co_PodUID c \<noteq> [] then [''pod '' @ co_PodUID c] else [])"

definition buildContainerCard :: "Container \<Rightarrow> ContainerRates option \<Rightarrow> ContainerCard" where
  "buildContainerCard c rates =
    (let m = co_Memory c;
         net = (\<lambda>g. case rates of None \<Rightarrow> ''-''
           | Some r \<Rightarrow> if cnet_Accessible (co_Network c) then rate_text (g r) else ''-'');
         io = (\<lambda>g. case rates of None \<Rightarrow> ''-'' | Some r \<Rightarrow> rate_text (g r)) in
     \<lparr>cc_Name = (if co_Name c = [] then co_ShortID c else co_Name c), cc_ShortID = co_ShortID c,
      cc_Image = co_Image c, cc_Runtime = co_Runtime c, cc_State = co_State c,
      cc_Running = (co_State c = ''running''),
      cc_CPUGauge = fst (card_cpu (co_CPU c)),
      cc_MemGauge = newGauge (cmem_PercentageUsed m) (percent_text 0 (cmem_PercentageUsed m))
        (if cmem_Limited m then ''of limit'' else ''of host''),
      cc_CPU = snd (card_cpu (co_CPU c)),
      cc_Memory = size_text (cmem_Used m) (cmem_Unit m) @ '' of '' @ size_text (cmem_Limit m) (cmem_Unit m),
      cc_RxRate = net crt_RxBytesPerSec, cc_TxRate = net crt_TxBytesPerSec,
      cc_Read = io crt_ReadBytesPerSec, cc_Write = io crt_WriteBytesPerSec,
      cc_Pids = card_pids (co_Pids c),
      cc_Throttled = (if 0 < ccpu_Periods (co_CPU c) then
        FormatFixed 1 (f64_div (f64_mul (f64_const 100) (f64_of_u64 (ccpu_ThrottledPeriods (co_CPU c))))
          (f64_of_u64 (ccpu_Periods (co_CPU c)))) @ ''% of periods'' else []),
      cc_OOMKills = cmem_OOMKills m, cc_Layer = card_layer (co_Layer c),
      cc_Mounts = map card_mount (co_Mounts c), cc_Notes = card_notes c\<rparr>)"

definition containers_note :: "SyStats \<Rightarrow> Container list \<Rightarrow> string" where
  "containers_note s cs =
    (if cs = [] \<or> 0 < length (filter co_MetadataAvailable cs) then []
     else if ContainerSocketPath s = [] then
       ''No container runtime socket configured, so containers are listed by ID. Stats come from the cgroup tree either way.''
     else ''No container runtime socket answered at '' @ ContainerSocketPath s @
       '', so containers are listed by ID. Stats come from the cgroup tree either way.'')"

text \<open>\<open>first\<close> and \<open>second\<close> are the two calls of \<open>GetContainers\<close>, as functions of the configuration.\<close>

definition sampleContainers ::
    "ContainerCard sorter \<Rightarrow> (SyStats \<Rightarrow> Container list \<times> error option) \<Rightarrow>
     (SyStats \<Rightarrow> Container list \<times> error option) \<Rightarrow> wake \<Rightarrow> f64 \<Rightarrow> SyStats \<Rightarrow>
     error + ContainerCard list \<times> string" where
  "sampleContainers srt first second w elapsed s = (case first (s\<lparr>ContainerLayerSize := False\<rparr>) of
     (prior, Some e) \<Rightarrow> Inl e
   | (prior, None) \<Rightarrow> (case example_sleepCtx w of
       Some e \<Rightarrow> Inl e
     | None \<Rightarrow> (case second s of
         (after, Some e) \<Rightarrow> Inl e
       | (after, None) \<Rightarrow>
           (let prev = last_by co_ID prior;
                card = (\<lambda>c. buildContainerCard c
                  (map_option (\<lambda>p. Container_RatesSince c p elapsed) (prev (co_ID c)))) in
            Inr (srt (\<lambda>a b. cc_Name a < cc_Name b) (map card after), containers_note s after)))))"

section \<open>The dashboard\<close>

record Problem =
  pb_Panel :: string
  pb_Err :: string

record Dashboard =
  da_GeneratedAt :: string
  da_Elapsed :: string
  da_Host :: "HostPanel option" \<comment> \<open>\<open>None\<close> is the zero panel\<close>
  da_CPU :: "CPUPanel option"
  da_Memory :: "GaugePanel option"
  da_Swap :: "GaugePanel option"
  da_Container :: "ContainerPanel option"
  da_Containers :: "ContainerCard list"
  da_ContainersNote :: string
  da_Pressure :: "PressurePanel option"
  da_Disks :: "DiskPanel list"
  da_DiskIO :: "DiskIOPanel list"
  da_Networks :: "NetworkPanel list"
  da_TCP :: "TCPPanel option"
  da_Temps :: "TempPanel list"
  da_Processes :: "ProcessRow list"
  da_Problems :: "Problem list"

definition Dashboard_empty :: "string \<Rightarrow> Dashboard" where
  "Dashboard_empty generatedAt = \<lparr>da_GeneratedAt = generatedAt, da_Elapsed = [], da_Host = None,
     da_CPU = None, da_Memory = None, da_Swap = None, da_Container = None, da_Containers = [],
     da_ContainersNote = [], da_Pressure = None, da_Disks = [], da_DiskIO = [], da_Networks = [],
     da_TCP = None, da_Temps = [], da_Processes = [], da_Problems = []\<rparr>"

record Config =
  cf_Unit :: unit_name
  cf_SampleWindow :: int
  cf_SampleInterval :: int
  cf_TopProcesses :: int
  cf_ContainerSocket :: string
  cf_ContainerLayers :: bool

definition host_config :: "Config \<Rightarrow> SyStats" where
  "host_config cfg = New\<lparr>CPUSampleWindow := cf_SampleWindow cfg, ProcessCPUMode := CPUUsageAverage,
     ContainerSocketPath := cf_ContainerSocket cfg, ContainerLayerSize := cf_ContainerLayers cfg\<rparr>"

definition cgroup_config :: "Config \<Rightarrow> SyStats" where
  "cgroup_config cfg = New\<lparr>CPUSampleWindow := cf_SampleWindow cfg, ContainerAware := True\<rparr>"

section \<open>The goroutines\<close>

datatype panel_task = TaskSystem | TaskCPU | TaskMemory | TaskSwap | TaskPressure | TaskDisks
  | TaskDiskIO | TaskNetworks | TaskTCP | TaskTemps | TaskProcesses | TaskContainers
  | TaskCgroupMemory | TaskCgroupCPU

definition all_tasks :: "panel_task list" where
  "all_tasks = [TaskSystem, TaskCPU, TaskMemory, TaskSwap, TaskPressure, TaskDisks, TaskDiskIO,
     TaskNetworks, TaskTCP, TaskTemps, TaskProcesses, TaskContainers, TaskCgroupMemory, TaskCgroupCPU]"

fun task_panel :: "panel_task \<Rightarrow> string" where
  "task_panel TaskSystem = ''System''"
| "task_panel TaskCPU = ''CPU''"
| "task_panel TaskMemory = ''Memory''"
| "task_panel TaskSwap = ''Swap''"
| "task_panel TaskPressure = ''Pressure''"
| "task_panel TaskDisks = ''Disks''"
| "task_panel TaskDiskIO = ''Disk I/O''"
| "task_panel TaskNetworks = ''Networks''"
| "task_panel TaskTCP = ''TCP states''"
| "task_panel TaskTemps = ''Temperatures''"
| "task_panel TaskProcesses = ''Processes''"
| "task_panel TaskContainers = ''Containers''"
| "task_panel TaskCgroupMemory = ''Memory (container-aware)''"
| "task_panel TaskCgroupCPU = ''CPU (container-aware)''"

text \<open>What each goroutine meets: its snapshots in the order of its reads, how its waits end and how
  long they took; and the library's environment.\<close>

record world =
  wo_f1 :: "panel_task \<Rightarrow> fs"
  wo_f2 :: "panel_task \<Rightarrow> fs"
  wo_f3 :: "panel_task \<Rightarrow> fs"
  wo_f4 :: "panel_task \<Rightarrow> fs"
  wo_w1 :: "panel_task \<Rightarrow> wake"
  wo_w2 :: "panel_task \<Rightarrow> wake"
  wo_w3 :: "panel_task \<Rightarrow> wake"
  wo_el1 :: "panel_task \<Rightarrow> f64"
  wo_el2 :: "panel_task \<Rightarrow> f64"
  wo_el3 :: "panel_task \<Rightarrow> f64"
  wo_now_ns :: "panel_task \<Rightarrow> int"
  wo_oor :: "f64 \<Rightarrow> int"
  wo_launch :: launcher
  wo_environ :: "string list"
  wo_ctx :: "int option"
  wo_ctxErr :: "nat \<Rightarrow> ctx_error option"
  wo_lookup :: "string \<Rightarrow> string option"
  wo_request :: api_request
  wo_layer_ctx :: layer_ctx
  wo_ifaces1 :: "net_iface list option"
  wo_ifaces2 :: "net_iface list option"
  wo_errText :: "error \<Rightarrow> string"

record sorters =
  so_temps :: "Temperature sorter"
  so_procs :: "procCandidate sorter"
  so_disks :: "DiskPanel sorter"
  so_diskio :: "DiskIOPanel sorter"
  so_nets :: "NetworkPanel sorter"
  so_cards :: "ContainerCard sorter"
  so_problems :: "Problem sorter"

definition wo_now :: "world \<Rightarrow> panel_task \<Rightarrow> int" where
  "wo_now w t = wo_now_ns w t div 1000000000"

text \<open>What a goroutine writes when its call succeeded.\<close>

datatype panel_write = WHost HostPanel | WCPU CPU | WMemory Memory | WSwap GaugePanel
  | WPressure PressurePanel | WDisks "DiskPanel list" | WDiskIO "DiskIOPanel list"
  | WNetworks "NetworkPanel list" | WTCP TCPPanel | WTemps "TempPanel list"
  | WProcesses "ProcessRow list" | WContainers "ContainerCard list" string
  | WCgMemory Memory | WCgCPU CPU

definition call_result :: "('a \<Rightarrow> panel_write) \<Rightarrow> 'a \<times> error option \<Rightarrow> error + panel_write" where
  "call_result g r = (case r of (x, None) \<Rightarrow> Inr (g x) | (x, Some e) \<Rightarrow> Inl e)"

definition sum_result :: "('a \<Rightarrow> panel_write) \<Rightarrow> error + 'a \<Rightarrow> error + panel_write" where
  "sum_result g r = (case r of Inl e \<Rightarrow> Inl e | Inr x \<Rightarrow> Inr (g x))"

fun task_result :: "world \<Rightarrow> sorters \<Rightarrow> Config \<Rightarrow> panel_task \<Rightarrow> error + panel_write" where
  "task_result w so cfg TaskSystem = call_result (\<lambda>s. WHost (buildHostPanel s))
     (GetSystem (wo_oor w) (wo_launch w) (wo_environ w) (wo_ctx w) (wo_f1 w TaskSystem)
       (wo_now_ns w TaskSystem) (host_config cfg))"
| "task_result w so cfg TaskCPU = call_result WCPU
     (GetCPU (wo_oor w) (wo_f1 w TaskCPU) (wo_f2 w TaskCPU) (wo_w1 w TaskCPU) (wo_el1 w TaskCPU)
       (wo_now w TaskCPU) (host_config cfg))"
| "task_result w so cfg TaskMemory = call_result WMemory
     (GetMemory (wo_f1 w TaskMemory) (wo_now w TaskMemory) (host_config cfg) (cf_Unit cfg))"
| "task_result w so cfg TaskSwap = call_result (\<lambda>s. WSwap (buildSwapPanel s))
     (GetSwap (wo_f1 w TaskSwap) (wo_now w TaskSwap) (host_config cfg) (cf_Unit cfg))"
| "task_result w so cfg TaskPressure = call_result (\<lambda>p. WPressure (buildPressurePanel p))
     (GetPressure (wo_f1 w TaskPressure) (wo_now w TaskPressure) (cgroup_config cfg))"
| "task_result w so cfg TaskDisks = call_result (\<lambda>ds. WDisks (buildDiskPanels (so_disks so) ds (cf_Unit cfg)))
     (GetDisks (wo_oor w) (wo_f1 w TaskDisks) (wo_now w TaskDisks) (host_config cfg))"
| "task_result w so cfg TaskDiskIO = sum_result WDiskIO
     (sampleDiskIO (so_diskio so) (wo_f1 w TaskDiskIO) (wo_f2 w TaskDiskIO) (wo_w1 w TaskDiskIO)
       (wo_el1 w TaskDiskIO) (wo_now w TaskDiskIO) (host_config cfg))"
| "task_result w so cfg TaskNetworks = sum_result WNetworks
     (sampleNetworks (so_nets so) (wo_f1 w TaskNetworks) (wo_f2 w TaskNetworks) (wo_ifaces1 w)
       (wo_ifaces2 w) (wo_w1 w TaskNetworks) (wo_el1 w TaskNetworks) (wo_now w TaskNetworks)
       (host_config cfg))"
| "task_result w so cfg TaskTCP = call_result (\<lambda>s. WTCP (buildTCPPanel s))
     (GetTCPConnectionStates (wo_f1 w TaskTCP) (wo_now w TaskTCP) (host_config cfg))"
| "task_result w so cfg TaskTemps = call_result (\<lambda>ts. WTemps (buildTempPanels ts))
     (GetTemperatures (so_temps so) (wo_f1 w TaskTemps) (host_config cfg))"
| "task_result w so cfg TaskProcesses = call_result (\<lambda>ps. WProcesses (buildProcessRows ps))
     (GetTopProcesses (so_procs so) (wo_lookup w) (wo_f1 w TaskProcesses) (wo_f2 w TaskProcesses)
       (wo_w1 w TaskProcesses) (wo_ctxErr w) (wo_el1 w TaskProcesses) (host_config cfg)
       (cf_TopProcesses cfg) SortByCPU)"
| "task_result w so cfg TaskContainers = sum_result (\<lambda>(cards, note). WContainers cards note)
     (sampleContainers (so_cards so)
       (\<lambda>s. GetContainers (wo_request w) (wo_f1 w TaskContainers) (wo_f2 w TaskContainers)
         (wo_w1 w TaskContainers) (wo_layer_ctx w) (wo_el1 w TaskContainers) (wo_now w TaskContainers) s (cf_Unit cfg))
       (\<lambda>s. GetContainers (wo_request w) (wo_f3 w TaskContainers) (wo_f4 w TaskContainers)
         (wo_w3 w TaskContainers) (wo_layer_ctx w) (wo_el3 w TaskContainers) (wo_now w TaskContainers) s (cf_Unit cfg))
       (wo_w2 w TaskContainers) (wo_el2 w TaskContainers) (host_config cfg))"
| "task_result w so cfg TaskCgroupMemory = call_result WCgMemory
     (GetMemory (wo_f1 w TaskCgroupMemory) (wo_now w TaskCgroupMemory) (cgroup_config cfg) (cf_Unit cfg))"
| "task_result w so cfg TaskCgroupCPU = call_result WCgCPU
     (GetCPU (wo_oor w) (wo_f1 w TaskCgroupCPU) (wo_f2 w TaskCgroupCPU) (wo_w1 w TaskCgroupCPU)
       (wo_el1 w TaskCgroupCPU) (wo_now w TaskCgroupCPU) (cgroup_config cfg))"

text \<open>The variables the goroutines share.\<close>

record collect_state =
  cs_dash :: Dashboard
  cs_hostCPU :: CPU
  cs_hostMem :: Memory
  cs_cgMem :: Memory
  cs_cgCPU :: CPU

fun do_write :: "panel_write \<Rightarrow> collect_state \<Rightarrow> collect_state" where
  "do_write (WHost p) st = st\<lparr>cs_dash := (cs_dash st)\<lparr>da_Host := Some p\<rparr>\<rparr>"
| "do_write (WCPU c) st = st\<lparr>cs_hostCPU := c, cs_dash := (cs_dash st)\<lparr>da_CPU := Some (buildCPUPanel c)\<rparr>\<rparr>"
| "do_write (WMemory m) st = st\<lparr>cs_hostMem := m, cs_dash := (cs_dash st)\<lparr>da_Memory := Some (buildMemoryPanel m)\<rparr>\<rparr>"
| "do_write (WSwap p) st = st\<lparr>cs_dash := (cs_dash st)\<lparr>da_Swap := Some p\<rparr>\<rparr>"
| "do_write (WPressure p) st = st\<lparr>cs_dash := (cs_dash st)\<lparr>da_Pressure := Some p\<rparr>\<rparr>"
| "do_write (WDisks p) st = st\<lparr>cs_dash := (cs_dash st)\<lparr>da_Disks := p\<rparr>\<rparr>"
| "do_write (WDiskIO p) st = st\<lparr>cs_dash := (cs_dash st)\<lparr>da_DiskIO := p\<rparr>\<rparr>"
| "do_write (WNetworks p) st = st\<lparr>cs_dash := (cs_dash st)\<lparr>da_Networks := p\<rparr>\<rparr>"
| "do_write (WTCP p) st = st\<lparr>cs_dash := (cs_dash st)\<lparr>da_TCP := Some p\<rparr>\<rparr>"
| "do_write (WTemps p) st = st\<lparr>cs_dash := (cs_dash st)\<lparr>da_Temps := p\<rparr>\<rparr>"
| "do_write (WProcesses p) st = st\<lparr>cs_dash := (cs_dash st)\<lparr>da_Processes := p\<rparr>\<rparr>"
| "do_write (WContainers p n) st = st\<lparr>cs_dash := (cs_dash st)\<lparr>da_Containers := p, da_ContainersNote := n\<rparr>\<rparr>"
| "do_write (WCgMemory m) st = st\<lparr>cs_cgMem := m\<rparr>"
| "do_write (WCgCPU c) st = st\<lparr>cs_cgCPU := c\<rparr>"

definition do_fail :: "Problem \<Rightarrow> collect_state \<Rightarrow> collect_state" where
  "do_fail p st = st\<lparr>cs_dash := (cs_dash st)\<lparr>da_Problems := da_Problems (cs_dash st) @ [p]\<rparr>\<rparr>"

definition run_task :: "world \<Rightarrow> sorters \<Rightarrow> Config \<Rightarrow> panel_task \<Rightarrow> collect_state \<Rightarrow> collect_state" where
  "run_task w so cfg t st = (case task_result w so cfg t of
     Inl e \<Rightarrow> do_fail \<lparr>pb_Panel = task_panel t, pb_Err = wo_errText w e\<rparr> st
   | Inr p \<Rightarrow> do_write p st)"

definition collect_start :: "string \<Rightarrow> Config \<Rightarrow> collect_state" where
  "collect_start generatedAt cfg = \<lparr>cs_dash = Dashboard_empty generatedAt, cs_hostCPU = CPU_zero,
     cs_hostMem = Memory_zero [], cs_cgMem = Memory_zero [], cs_cgCPU = CPU_zero\<rparr>"

text \<open>After \<open>wg.Wait\<close>: the container panel, the sorted problems and the elapsed time.\<close>

definition collect_finish :: "sorters \<Rightarrow> int \<Rightarrow> collect_state \<Rightarrow> Dashboard" where
  "collect_finish so elapsed_ns st =
    (let d = cs_dash st;
         d = (if mem_Limited (cs_cgMem st) \<or> cpu_Limited (cs_cgCPU st)
           then d\<lparr>da_Container := Some (buildContainerPanel (cs_cgMem st) (cs_cgCPU st)
               (cs_hostMem st) (cs_hostCPU st))\<rparr> else d) in
     d\<lparr>da_Problems := so_problems so (\<lambda>a b. pb_Panel a < pb_Panel b) (da_Problems d),
       da_Elapsed := Duration_String (Duration_Round 1000000 elapsed_ns)\<rparr>)"

text \<open>One step: some goroutine that has not finished yet does its write.\<close>

inductive collect_step ::
    "world \<Rightarrow> sorters \<Rightarrow> Config \<Rightarrow> panel_task list \<times> collect_state \<Rightarrow> panel_task list \<times> collect_state \<Rightarrow> bool"
  for w so cfg where
  finish_task: "collect_step w so cfg (xs @ t # ys, st) (xs @ ys, run_task w so cfg t st)"

inductive_cases collect_stepE: "collect_step w so cfg (pending, st) (pending', st')"

text \<open>The dashboards some schedule of the goroutines produces.\<close>

definition collects :: "world \<Rightarrow> sorters \<Rightarrow> Config \<Rightarrow> string \<Rightarrow> int \<Rightarrow> Dashboard \<Rightarrow> bool" where
  "collects w so cfg generatedAt elapsed_ns d \<longleftrightarrow>
    (\<exists>st. (collect_step w so cfg)\<^sup>*\<^sup>* (all_tasks, collect_start generatedAt cfg) ([], st)
       \<and> d = collect_finish so elapsed_ns st)"

text \<open>The one that runs them in the order they were started.\<close>

definition collect :: "world \<Rightarrow> sorters \<Rightarrow> Config \<Rightarrow> string \<Rightarrow> int \<Rightarrow> Dashboard" where
  "collect w so cfg generatedAt elapsed_ns =
    collect_finish so elapsed_ns (fold (run_task w so cfg) all_tasks (collect_start generatedAt cfg))"
section \<open>Facts\<close>

text \<open>Two states that differ in the order of the problems only.\<close>

definition without_problems :: "collect_state \<Rightarrow> collect_state" where
  "without_problems st = st\<lparr>cs_dash := (cs_dash st)\<lparr>da_Problems := []\<rparr>\<rparr>"

definition same_but_order :: "collect_state \<Rightarrow> collect_state \<Rightarrow> bool" where
  "same_but_order st st' \<longleftrightarrow> without_problems st = without_problems st'
     \<and> mset (da_Problems (cs_dash st)) = mset (da_Problems (cs_dash st'))"

text \<open>Which goroutine makes a write.\<close>

fun write_task :: "panel_write \<Rightarrow> panel_task" where
  "write_task (WHost p) = TaskSystem"
| "write_task (WCPU c) = TaskCPU"
| "write_task (WMemory m) = TaskMemory"
| "write_task (WSwap p) = TaskSwap"
| "write_task (WPressure p) = TaskPressure"
| "write_task (WDisks p) = TaskDisks"
| "write_task (WDiskIO p) = TaskDiskIO"
| "write_task (WNetworks p) = TaskNetworks"
| "write_task (WTCP p) = TaskTCP"
| "write_task (WTemps p) = TaskTemps"
| "write_task (WProcesses p) = TaskProcesses"
| "write_task (WContainers p n) = TaskContainers"
| "write_task (WCgMemory m) = TaskCgroupMemory"
| "write_task (WCgCPU c) = TaskCgroupCPU"

lemma task_result_write: "task_result w so cfg t = Inr p \<Longrightarrow> write_task p = t"
  by (cases t) (auto simp: call_result_def sum_result_def split: prod.splits option.splits sum.splits)

lemma do_write_commute:
  assumes "write_task p \<noteq> write_task q"
  shows "do_write q (do_write p st) = do_write p (do_write q st)"
  using assms by (cases p; cases q; simp)

lemma do_write_problems [simp]: "da_Problems (cs_dash (do_write p st)) = da_Problems (cs_dash st)"
  by (cases p) simp_all

lemma do_write_without: "without_problems (do_write p st) = do_write p (without_problems st)"
  by (cases p) (simp_all add: without_problems_def)

lemma do_fail_simps [simp]:
  "da_Problems (cs_dash (do_fail p st)) = da_Problems (cs_dash st) @ [p]"
  "without_problems (do_fail p st) = without_problems st"
  by (simp_all add: do_fail_def without_problems_def)

interpretation collecting: goroutines "run_task w so cfg" same_but_order for w so cfg
proof
  fix t u :: panel_task and s
  assume "t \<noteq> u"
  then show "same_but_order (run_task w so cfg u (run_task w so cfg t s))
      (run_task w so cfg t (run_task w so cfg u s))"
    using task_result_write [of w so cfg t] task_result_write [of w so cfg u]
    by (auto simp: run_task_def same_but_order_def do_write_without do_write_commute split: sum.split)
qed (auto simp: same_but_order_def run_task_def do_write_without split: sum.split)

text \<open>The panels of the problems are those of the goroutines that failed.\<close>

definition failed :: "world \<Rightarrow> sorters \<Rightarrow> Config \<Rightarrow> panel_task \<Rightarrow> Problem option" where
  "failed w so cfg t = (case task_result w so cfg t of
     Inl e \<Rightarrow> Some \<lparr>pb_Panel = task_panel t, pb_Err = wo_errText w e\<rparr> | Inr p \<Rightarrow> None)"

lemma fold_problems:
  "da_Problems (cs_dash (fold (run_task w so cfg) ts st)) =
   da_Problems (cs_dash st) @ List.map_filter (failed w so cfg) ts"
  by (induction ts arbitrary: st)
    (simp_all add: run_task_def failed_def map_filter_simps split: sum.split)

lemma task_panel_inj: "inj task_panel"
proof (rule injI)
  fix t u assume "task_panel t = task_panel u"
  then show "t = u" by (cases t; cases u; simp)
qed

lemma failed_panels: "map pb_Panel (List.map_filter (failed w so cfg) ts) =
   map task_panel (filter (\<lambda>t. failed w so cfg t \<noteq> None) ts)"
  by (induction ts) (auto simp: map_filter_simps failed_def split: sum.splits)

lemma failed_distinct: "distinct ts \<Longrightarrow> distinct (map pb_Panel (List.map_filter (failed w so cfg) ts))"
  by (simp add: failed_panels distinct_map inj_on_subset [OF task_panel_inj])

text \<open>A schedule is an order of the goroutines.\<close>

lemma collect_step_fold:
  assumes "(collect_step w so cfg)\<^sup>*\<^sup>* (pending, st) ([], st')"
  shows "\<exists>us. mset us = mset pending \<and> st' = fold (run_task w so cfg) us st"
  using assms
proof (induction "(pending, st)" arbitrary: pending st rule: converse_rtranclp_induct)
  case base
  then show ?case by auto
next
  case (step z)
  from step(1) obtain xs t ys where p: "pending = xs @ t # ys" "z = (xs @ ys, run_task w so cfg t st)"
    by (cases z) (auto elim: collect_stepE)
  with step(3) obtain us where "mset us = mset (xs @ ys)"
      and "st' = fold (run_task w so cfg) us (run_task w so cfg t st)" by blast
  then show ?case using p by (intro exI [of _ "t # us"]) simp
qed

lemma fold_collect_step:
  "(collect_step w so cfg)\<^sup>*\<^sup>* (ts, st) ([], fold (run_task w so cfg) ts st)"
proof (induction ts arbitrary: st)
  case (Cons t ts)
  have "collect_step w so cfg (t # ts, st) (ts, run_task w so cfg t st)"
    using finish_task [of w so cfg "[]" t ts st] by simp
  then show ?case using Cons by (simp add: converse_rtranclp_into_rtranclp)
qed simp
text \<open>A slice whose keys differ is sorted in one way only.\<close>

lemma slice_sort_unique:
  fixes k :: "'a \<Rightarrow> 'b :: linorder"
  assumes "slice_sort srt" and "mset xs = mset ys" and "distinct (map k xs)"
  shows "srt (\<lambda>a b. k a < k b) xs = srt (\<lambda>a b. k a < k b) ys"
proof -
  have is_sort: "sort_key k xs = srt (\<lambda>a b. k a < k b) zs" if "mset zs = mset xs" for zs
    using slice_sort.ordered [OF assms(1) weak_order_key [of k], of zs]
      slice_sort.perm [OF assms(1)] that assms(3)
    by (intro sort_key_inj_key_eq) (simp_all add: sorted_wrt_map not_less distinct_map)
  from is_sort [of xs] is_sort [of ys] assms(2) show ?thesis by simp
qed

lemma collect_finish_problems:
  "collect_finish so n st = (collect_finish so n (without_problems st))\<lparr>da_Problems :=
     so_problems so (\<lambda>a b. pb_Panel a < pb_Panel b) (da_Problems (cs_dash st))\<rparr>"
  by (simp add: collect_finish_def without_problems_def Let_def)

lemma collect_finish_same:
  assumes "slice_sort (so_problems so)" and "same_but_order st st'"
    and "distinct (map pb_Panel (da_Problems (cs_dash st')))"
  shows "collect_finish so n st = collect_finish so n st'"
  using assms slice_sort_unique [OF assms(1), of "da_Problems (cs_dash st')" "da_Problems (cs_dash st)" pb_Panel]
  by (simp add: collect_finish_problems [of so n st] collect_finish_problems [of so n st'] same_but_order_def)

lemma all_tasks_distinct: "distinct all_tasks"
  by (simp add: all_tasks_def)

lemma no_problems_at_start [simp]: "da_Problems (cs_dash (collect_start g cfg)) = []"
  by (simp add: collect_start_def Dashboard_empty_def)

text \<open>
  Collection ends: after \<open>k\<close> goroutines have finished, exactly \<open>14 - k\<close> are pending, and while
  any is pending another one can finish, whatever happened before.
\<close>

lemma collect_progress:
  assumes "(collect_step w so cfg ^^ k) (all_tasks, collect_start generatedAt cfg) (pending, st)"
  shows "length pending + k = 14 \<and> (pending \<noteq> [] \<longrightarrow> (\<exists>next. collect_step w so cfg (pending, st) next))"
proof
  have "length (fst z) + k = 14" if "(collect_step w so cfg ^^ k) (all_tasks, collect_start generatedAt cfg) z" for z
    using that
  proof (induction k arbitrary: z)
    case 0
    then show ?case by (auto simp: all_tasks_def)
  next
    case (Suc k)
    then obtain y where "length (fst y) + k = 14" and "collect_step w so cfg y z" by auto
    then show ?case by (cases y; cases z) (auto elim: collect_stepE)
  qed
  from this [OF assms] show "length pending + k = 14" by simp
  show "pending \<noteq> [] \<longrightarrow> (\<exists>next. collect_step w so cfg (pending, st) next)"
    using finish_task [of w so cfg "[]" "hd pending" "tl pending" st]
    by (metis append_Nil list.collapse)
qed

lemma collects_collect: "collects w so cfg g n (collect w so cfg g n)"
  unfolding collects_def collect_def using fold_collect_step by blast

text \<open>What every goroutine keeps holds of the state after \<open>wg.Wait\<close>.\<close>

lemma collects_invariant:
  assumes "collects w so cfg g n d" and "I (collect_start g cfg)"
    and "\<And>t st. I st \<Longrightarrow> I (run_task w so cfg t st)"
  obtains st where "d = collect_finish so n st" and "I st"
proof -
  obtain st where run: "(collect_step w so cfg)\<^sup>*\<^sup>* (all_tasks, collect_start g cfg) ([], st)"
      and d: "d = collect_finish so n st"
    using assms(1) unfolding collects_def by blast
  have "I (snd z)" if "(collect_step w so cfg)\<^sup>*\<^sup>* (all_tasks, collect_start g cfg) z" for z
    using that
  proof (induction rule: rtranclp_induct)
    case (step y z)
    from step(2) step.IH assms(3) show ?case by (cases rule: collect_step.cases) simp
  qed (simp add: assms(2))
  from this [OF run] d show ?thesis by (auto intro: that)
qed

section \<open>Percentages\<close>

text \<open>
  What a template may rely on: the percentage of a bar or gauge is a number from 0 to 100, and its
  width, colour and dashes are those of that percentage. The zero bar and gauge stand for figures the
  panel does not show.
\<close>

definition bar_ok :: "Bar \<Rightarrow> bool" where
  "bar_ok b \<longleftrightarrow> percent_ok (ba_Percent b) \<and>
     (b \<noteq> Bar_zero \<longrightarrow> ba_Width b = fmtFloat (ba_Percent b) \<and> ba_Color b = levelColor (ba_Percent b))"

definition gauge_ok :: "Gauge \<Rightarrow> bool" where
  "gauge_ok g \<longleftrightarrow> percent_ok (ga_Percent g) \<and>
     (g \<noteq> Gauge_zero \<longrightarrow> (ga_Dash g, ga_Gap g) =
       map_prod fmtFloat fmtFloat (dashArray (ga_Percent g) (f64_const gaugeRadius)))"

lemma newBar_ok [simp]: "bar_ok (newBar pct label val)"
  by (simp add: bar_ok_def newBar_def clampPercent_ok levelColor_def)

lemma newGaugeColored_ok [simp]: "gauge_ok (newGaugeColored pct label caption color)"
  by (simp add: gauge_ok_def newGaugeColored_def clampPercent_ok dashArray_def Let_def)

lemma newGauge_ok [simp]: "gauge_ok (newGauge pct label caption)"
  by (simp add: newGauge_def)

lemma zero_ok [simp]: "bar_ok Bar_zero" "gauge_ok Gauge_zero"
  by (simp_all add: bar_ok_def gauge_ok_def Bar_zero_def Gauge_zero_def percent_ok_def)

text \<open>All the bars and gauges of a dashboard, panel by panel.\<close>

definition card_bars :: "ContainerCard \<Rightarrow> Bar list" where
  "card_bars c = cc_Pids c # map cmr_Bar (cc_Mounts c)"

definition dashboard_bars :: "Dashboard \<Rightarrow> Bar list" where
  "dashboard_bars d =
    (case da_CPU d of None \<Rightarrow> [] | Some p \<Rightarrow> cp_Cores p) @
    (case da_Pressure d of None \<Rightarrow> []
      | Some p \<Rightarrow> concat (map (\<lambda>r. prow_Some r @ prow_Full r) (pp_Resources p))) @
    map dp_Bar (da_Disks d) @ map dip_Util (da_DiskIO d) @
    concat (map (\<lambda>r. [pw_CPUBar r, pw_MemBar r]) (da_Processes d)) @
    concat (map card_bars (da_Containers d))"

definition dashboard_gauges :: "Dashboard \<Rightarrow> Gauge list" where
  "dashboard_gauges d =
    (case da_CPU d of None \<Rightarrow> [] | Some p \<Rightarrow> [cp_Gauge p]) @
    (case da_Memory d of None \<Rightarrow> [] | Some p \<Rightarrow> [gp_Gauge p]) @
    (case da_Swap d of None \<Rightarrow> [] | Some p \<Rightarrow> [gp_Gauge p]) @
    (case da_Container d of None \<Rightarrow> [] | Some p \<Rightarrow> [cpn_MemoryGauge p, cpn_CPUGauge p]) @
    map tmp_Gauge (da_Temps d) @ concat (map (\<lambda>c. [cc_CPUGauge c, cc_MemGauge c]) (da_Containers d))"

definition dashboard_ok :: "Dashboard \<Rightarrow> bool" where
  "dashboard_ok d \<longleftrightarrow> list_all bar_ok (dashboard_bars d) \<and> list_all gauge_ok (dashboard_gauges d)"

lemma list_all_case: "list_all P (case x of None \<Rightarrow> [] | Some p \<Rightarrow> f p) = pred_option (\<lambda>p. list_all P (f p)) x"
  by (cases x) simp_all

lemma list_all_concat_map: "list_all P (concat (map f xs)) = list_all (\<lambda>x. list_all P (f x)) xs"
  by (induction xs) simp_all

lemma pred_option_conj: "pred_option (\<lambda>x. P x \<and> Q x) y \<longleftrightarrow> pred_option P y \<and> pred_option Q y"
  by (cases y) auto

lemma list_all_conj: "list_all (\<lambda>x. P x \<and> Q x) ys \<longleftrightarrow> list_all P ys \<and> list_all Q ys"
  by (auto simp: list_all_iff)

lemmas dashboard_ok_simps = dashboard_ok_def dashboard_bars_def dashboard_gauges_def list_all_append
  list_all_case list_all_concat_map list.pred_map comp_def pred_option_conj list_all_conj

named_theorems panel_ok

lemma cpu_panel_ok [panel_ok]:
  "list_all bar_ok (cp_Cores (buildCPUPanel c)) \<and> gauge_ok (cp_Gauge (buildCPUPanel c))"
  by (auto simp: buildCPUPanel_def list_all_iff)

lemma memory_panel_ok [panel_ok]: "gauge_ok (gp_Gauge (buildMemoryPanel m))"
  by (simp add: buildMemoryPanel_def)

lemma swap_panel_ok [panel_ok]: "gauge_ok (gp_Gauge (buildSwapPanel s))"
  by (simp add: buildSwapPanel_def GaugePanel_zero_def)

lemma container_panel_ok [panel_ok]:
  "gauge_ok (cpn_MemoryGauge (buildContainerPanel m c m' c')) \<and>
   gauge_ok (cpn_CPUGauge (buildContainerPanel m c m' c'))"
  by (simp add: buildContainerPanel_def ContainerPanel_zero_def Let_def)

lemma pressure_panel_ok [panel_ok]:
  "list_all (\<lambda>r. list_all bar_ok (prow_Some r) \<and> list_all bar_ok (prow_Full r)) (pp_Resources (buildPressurePanel p))"
  by (simp add: buildPressurePanel_def pressure_row_def pressureBars_def)

lemma disk_panel_ok [panel_ok]: "disk_panel u d = Some p \<Longrightarrow> bar_ok (dp_Bar p)"
  by (auto simp: disk_panel_def Let_def split: prod.splits option.splits)

lemma diskio_panel_ok [panel_ok]: "diskio_panel prev el d = Some p \<Longrightarrow> bar_ok (dip_Util p)"
  by (auto simp: diskio_panel_def Let_def split: option.splits)

lemma temp_panel_ok [panel_ok]: "gauge_ok (tmp_Gauge (temp_panel t))"
  by (simp add: temp_panel_def split: prod.split)

lemma process_row_ok [panel_ok]: "bar_ok (pw_CPUBar (process_row p)) \<and> bar_ok (pw_MemBar (process_row p))"
  by (simp add: process_row_def)

lemma container_card_ok [panel_ok]:
  "list_all bar_ok (card_bars (buildContainerCard c r)) \<and>
   gauge_ok (cc_CPUGauge (buildContainerCard c r)) \<and> gauge_ok (cc_MemGauge (buildContainerCard c r))"
  by (auto simp: buildContainerCard_def card_bars_def card_pids_def card_cpu_def card_mount_def Let_def list_all_iff)

text \<open>What a goroutine writes.\<close>

fun write_ok :: "panel_write \<Rightarrow> bool" where
  "write_ok (WSwap p) \<longleftrightarrow> gauge_ok (gp_Gauge p)"
| "write_ok (WPressure p) \<longleftrightarrow>
     list_all (\<lambda>r. list_all bar_ok (prow_Some r) \<and> list_all bar_ok (prow_Full r)) (pp_Resources p)"
| "write_ok (WDisks ps) \<longleftrightarrow> list_all (\<lambda>p. bar_ok (dp_Bar p)) ps"
| "write_ok (WDiskIO ps) \<longleftrightarrow> list_all (\<lambda>p. bar_ok (dip_Util p)) ps"
| "write_ok (WTemps ps) \<longleftrightarrow> list_all (\<lambda>p. gauge_ok (tmp_Gauge p)) ps"
| "write_ok (WProcesses rs) \<longleftrightarrow> list_all (\<lambda>r. bar_ok (pw_CPUBar r) \<and> bar_ok (pw_MemBar r)) rs"
| "write_ok (WContainers cs n) \<longleftrightarrow>
     list_all (\<lambda>c. list_all bar_ok (card_bars c) \<and> gauge_ok (cc_CPUGauge c) \<and> gauge_ok (cc_MemGauge c)) cs"
| "write_ok _ \<longleftrightarrow> True"

text \<open>The sorts keep the elements.\<close>

definition sorters_ok :: "sorters \<Rightarrow> bool" where
  "sorters_ok so \<longleftrightarrow> slice_sort (so_disks so) \<and> slice_sort (so_diskio so) \<and> slice_sort (so_cards so)"

lemma set_map_filter: "set (List.map_filter g xs) = {y. \<exists>x \<in> set xs. g x = Some y}"
  by (induction xs) (auto simp: map_filter_simps split: option.split)

lemma sampleDiskIO_ok:
  "slice_sort srt \<Longrightarrow> sampleDiskIO srt f1 f2 w el now s = Inr ps \<Longrightarrow> list_all (\<lambda>p. bar_ok (dip_Util p)) ps"
  by (auto simp: sampleDiskIO_def list_all_iff slice_sort.srt_set set_map_filter diskio_panel_ok
      split: prod.splits option.splits)

lemma sampleContainers_ok:
  "slice_sort srt \<Longrightarrow> sampleContainers srt g1 g2 w el s = Inr (cs, n) \<Longrightarrow> write_ok (WContainers cs n)"
  by (auto simp: sampleContainers_def Let_def list_all_iff slice_sort.srt_set
      container_card_ok [unfolded list_all_iff] split: prod.splits option.splits)

lemma call_result_ok: "call_result g r = Inr p \<Longrightarrow> \<forall>x. Q (g x) \<Longrightarrow> Q p"
  by (auto simp: call_result_def split: prod.splits option.splits)

lemma sum_result_ok: "sum_result g r = Inr p \<Longrightarrow> (\<And>x. r = Inr x \<Longrightarrow> Q (g x)) \<Longrightarrow> Q p"
  by (auto simp: sum_result_def split: sum.splits)

lemma buildDiskPanels_ok: "slice_sort srt \<Longrightarrow> write_ok (WDisks (buildDiskPanels srt ds u))"
  by (auto simp: buildDiskPanels_def list_all_iff slice_sort.srt_set set_map_filter disk_panel_ok)

lemma build_ok: "write_ok (WTemps (buildTempPanels ts))" "write_ok (WProcesses (buildProcessRows ps))"
    "write_ok (WPressure (buildPressurePanel p))" "write_ok (WSwap (buildSwapPanel s))"
  by (simp_all add: buildTempPanels_def buildProcessRows_def list_all_iff temp_panel_ok process_row_ok
      pressure_panel_ok [unfolded list_all_iff] swap_panel_ok)

lemma task_result_ok:
  assumes "sorters_ok so" and "task_result w so cfg t = Inr p"
  shows "write_ok p"
proof -
  have sorts: "slice_sort (so_disks so)" "slice_sort (so_diskio so)" "slice_sort (so_cards so)"
    using assms(1) by (simp_all add: sorters_ok_def)
  show ?thesis
    using assms(2)
  proof (cases t)
    case TaskDiskIO
    with assms(2) show ?thesis
      by (auto elim!: sum_result_ok simp: sampleDiskIO_ok [OF sorts(2)])
  next
    case TaskContainers
    with assms(2) show ?thesis
      by (auto elim!: sum_result_ok dest!: sampleContainers_ok [OF sorts(3)])
  next
    case TaskNetworks
    with assms(2) show ?thesis by (auto elim!: sum_result_ok)
  qed (auto elim!: call_result_ok simp: buildDiskPanels_ok [OF sorts(1)] build_ok simp del: write_ok.simps,
      simp_all)
qed

lemma do_write_ok: "write_ok p \<Longrightarrow> dashboard_ok (cs_dash st) \<Longrightarrow> dashboard_ok (cs_dash (do_write p st))"
  by (cases p) (simp_all add: dashboard_ok_simps cpu_panel_ok memory_panel_ok)

lemma do_fail_ok: "dashboard_ok (cs_dash (do_fail p st)) = dashboard_ok (cs_dash st)"
  by (simp add: dashboard_ok_def dashboard_bars_def dashboard_gauges_def do_fail_def)

lemma run_task_ok:
  "sorters_ok so \<Longrightarrow> dashboard_ok (cs_dash st) \<Longrightarrow> dashboard_ok (cs_dash (run_task w so cfg t st))"
  by (auto simp: run_task_def do_fail_ok task_result_ok do_write_ok split: sum.split)

lemma collect_start_ok: "dashboard_ok (cs_dash (collect_start g cfg))"
  by (simp add: collect_start_def Dashboard_empty_def dashboard_ok_def dashboard_bars_def dashboard_gauges_def)

lemma collect_finish_ok: "dashboard_ok (cs_dash st) \<Longrightarrow> dashboard_ok (collect_finish so n st)"
  by (simp add: collect_finish_def Let_def dashboard_ok_simps container_panel_ok)

section \<open>Properties\<close>

text \<open>
  The dashboard does not depend on the schedule: whatever the order in which the fourteen
  goroutines finish, collection returns the dashboard that running them one after another gives, and
  some schedule does return it.
\<close>

theorem collect_deterministic:
  assumes "slice_sort (so_problems so)"
  shows "collects w so cfg generatedAt n d \<longleftrightarrow> d = collect w so cfg generatedAt n"
proof
  assume "collects w so cfg generatedAt n d"
  then obtain us where "mset us = mset all_tasks"
      and d: "d = collect_finish so n (fold (run_task w so cfg) us (collect_start generatedAt cfg))"
    unfolding collects_def by (metis collect_step_fold)
  then show "d = collect w so cfg generatedAt n"
    unfolding d collect_def
    by (intro collect_finish_same [OF assms] collecting.any_order)
      (simp_all add: all_tasks_distinct fold_problems failed_distinct)
next
  assume "d = collect w so cfg generatedAt n"
  then show "collects w so cfg generatedAt n d" by (simp add: collects_collect)
qed

text \<open>A host where only the memory file can be read, asked by a caller that has given up.\<close>

definition bare_world :: world where
  "bare_world = (let f = files_fs [(''/proc/meminfo'', ''MemTotal: 100 kB'' @ [CHR 10] @ ''MemAvailable: 50 kB'')] in
     \<lparr>wo_f1 = (\<lambda>_. f), wo_f2 = (\<lambda>_. f), wo_f3 = (\<lambda>_. f), wo_f4 = (\<lambda>_. f),
      wo_w1 = (\<lambda>_. CtxDone Canceled), wo_w2 = (\<lambda>_. CtxDone Canceled), wo_w3 = (\<lambda>_. CtxDone Canceled),
      wo_el1 = (\<lambda>_. f64_zero), wo_el2 = (\<lambda>_. f64_zero), wo_el3 = (\<lambda>_. f64_zero),
      wo_now_ns = (\<lambda>_. 0), wo_oor = (\<lambda>_. 0), wo_launch = (\<lambda>_ _ _ _. ([], None)), wo_environ = [],
      wo_ctx = None, wo_ctxErr = (\<lambda>_. Some Canceled), wo_lookup = (\<lambda>_. None),
      wo_request = (\<lambda>_ _. Inl (Errorf ''refused'' [] [])),
      wo_layer_ctx = \<lparr>lx_at = (\<lambda>_. Some Canceled), lx_after = Some Canceled\<rparr>,
      wo_ifaces1 = None, wo_ifaces2 = None, wo_errText = (\<lambda>_. ''error'')\<rparr>)"

definition bare_sorters :: sorters where
  "bare_sorters = \<lparr>so_temps = insertionSort, so_procs = insertionSort, so_disks = insertionSort,
     so_diskio = insertionSort, so_nets = insertionSort, so_cards = insertionSort,
     so_problems = insertionSort\<rparr>"

definition bare_config :: Config where
  "bare_config = \<lparr>cf_Unit = Kilobyte, cf_SampleWindow = 1000000, cf_SampleInterval = 1000000,
     cf_TopProcesses = 5, cf_ContainerSocket = [], cf_ContainerLayers = False\<rparr>"

theorem collect_deterministic_witness:
  "collects bare_world bare_sorters bare_config ''now'' 5 (collect bare_world bare_sorters bare_config ''now'' 5)"
  by (rule collect_deterministic [THEN iffD2, OF _ refl])
    (simp add: bare_sorters_def go_sort.slice_sort_axioms)



end
