(* ===== verification/Schedule.thy ===== *)
theory Schedule
  imports Dashboard
begin

text \<open>
  \<open>collect\<close> of \<open>example/collect.go\<close> at the grain of its shared variables: the launch of the goroutines
  through \<open>run\<close>, the wait group, the mutex that \<open>fail\<close> and the four locals take, the append to the
  problems as a load and a store, and every assignment to a field of the dashboard on its own. The
  steps of \<open>Dashboard\<close>, which finish a goroutine at once, are the specification it refines.
\<close>

section \<open>Operations on the shared variables\<close>

datatype assign = AHost HostPanel | AHostCPU CPU | ACPU CPUPanel | AHostMem Memory
  | AMemory GaugePanel | ASwap GaugePanel | APressure PressurePanel | ADisks "DiskPanel list"
  | ADiskIO "DiskIOPanel list" | ANetworks "NetworkPanel list" | ATCP TCPPanel
  | ATemps "TempPanel list" | AProcesses "ProcessRow list" | AContainers "ContainerCard list"
  | ANote string | ACgMem Memory | ACgCPU CPU

fun do_assign :: "assign \<Rightarrow> collect_state \<Rightarrow> collect_state" where
  "do_assign (AHost p) st = st\<lparr>cs_dash := (cs_dash st)\<lparr>da_Host := Some p\<rparr>\<rparr>"
| "do_assign (AHostCPU c) st = st\<lparr>cs_hostCPU := c\<rparr>"
| "do_assign (ACPU p) st = st\<lparr>cs_dash := (cs_dash st)\<lparr>da_CPU := Some p\<rparr>\<rparr>"
| "do_assign (AHostMem m) st = st\<lparr>cs_hostMem := m\<rparr>"
| "do_assign (AMemory p) st = st\<lparr>cs_dash := (cs_dash st)\<lparr>da_Memory := Some p\<rparr>\<rparr>"
| "do_assign (ASwap p) st = st\<lparr>cs_dash := (cs_dash st)\<lparr>da_Swap := Some p\<rparr>\<rparr>"
| "do_assign (APressure p) st = st\<lparr>cs_dash := (cs_dash st)\<lparr>da_Pressure := Some p\<rparr>\<rparr>"
| "do_assign (ADisks p) st = st\<lparr>cs_dash := (cs_dash st)\<lparr>da_Disks := p\<rparr>\<rparr>"
| "do_assign (ADiskIO p) st = st\<lparr>cs_dash := (cs_dash st)\<lparr>da_DiskIO := p\<rparr>\<rparr>"
| "do_assign (ANetworks p) st = st\<lparr>cs_dash := (cs_dash st)\<lparr>da_Networks := p\<rparr>\<rparr>"
| "do_assign (ATCP p) st = st\<lparr>cs_dash := (cs_dash st)\<lparr>da_TCP := Some p\<rparr>\<rparr>"
| "do_assign (ATemps p) st = st\<lparr>cs_dash := (cs_dash st)\<lparr>da_Temps := p\<rparr>\<rparr>"
| "do_assign (AProcesses p) st = st\<lparr>cs_dash := (cs_dash st)\<lparr>da_Processes := p\<rparr>\<rparr>"
| "do_assign (AContainers p) st = st\<lparr>cs_dash := (cs_dash st)\<lparr>da_Containers := p\<rparr>\<rparr>"
| "do_assign (ANote n) st = st\<lparr>cs_dash := (cs_dash st)\<lparr>da_ContainersNote := n\<rparr>\<rparr>"
| "do_assign (ACgMem m) st = st\<lparr>cs_cgMem := m\<rparr>"
| "do_assign (ACgCPU c) st = st\<lparr>cs_cgCPU := c\<rparr>"

text \<open>What a goroutine still has to do, one operation of the scheduler's grain each.\<close>

datatype op = OpLock | OpUnlock | OpLoad | OpStore Problem | OpAssign assign | OpDone

fun write_ops :: "panel_write \<Rightarrow> op list" where
  "write_ops (WHost p) = [OpAssign (AHost p)]"
| "write_ops (WCPU c) = [OpLock, OpAssign (AHostCPU c), OpUnlock, OpAssign (ACPU (buildCPUPanel c))]"
| "write_ops (WMemory m) = [OpLock, OpAssign (AHostMem m), OpUnlock, OpAssign (AMemory (buildMemoryPanel m))]"
| "write_ops (WSwap p) = [OpAssign (ASwap p)]"
| "write_ops (WPressure p) = [OpAssign (APressure p)]"
| "write_ops (WDisks p) = [OpAssign (ADisks p)]"
| "write_ops (WDiskIO p) = [OpAssign (ADiskIO p)]"
| "write_ops (WNetworks p) = [OpAssign (ANetworks p)]"
| "write_ops (WTCP p) = [OpAssign (ATCP p)]"
| "write_ops (WTemps p) = [OpAssign (ATemps p)]"
| "write_ops (WProcesses p) = [OpAssign (AProcesses p)]"
| "write_ops (WContainers cards n) = [OpAssign (AContainers cards), OpAssign (ANote n)]"
| "write_ops (WCgMemory m) = [OpLock, OpAssign (ACgMem m), OpUnlock]"
| "write_ops (WCgCPU c) = [OpLock, OpAssign (ACgCPU c), OpUnlock]"

text \<open>\<open>fail\<close>: the append loads the slice and stores it one longer.\<close>

definition fail_ops :: "Problem \<Rightarrow> op list" where
  "fail_ops p = [OpLock, OpLoad, OpStore p, OpUnlock]"

text \<open>The body of a goroutine after its library call, and the deferred \<open>wg.Done\<close>.\<close>

definition task_ops :: "world \<Rightarrow> sorters \<Rightarrow> Config \<Rightarrow> panel_task \<Rightarrow> op list" where
  "task_ops w so cfg t = (case task_result w so cfg t of
     Inl e \<Rightarrow> fail_ops \<lparr>pb_Panel = task_panel t, pb_Err = wo_errText w e\<rparr>
   | Inr p \<Rightarrow> write_ops p) @ [OpDone]"

section \<open>The machine\<close>

record machine =
  ma_shared :: collect_state
  ma_mutex :: "panel_task option"
  ma_wg :: nat
  ma_launch :: "panel_task list" \<comment> \<open>calls of \<open>run\<close> still to come\<close>
  ma_code :: "panel_task \<Rightarrow> op list"
  ma_reg :: "panel_task \<Rightarrow> Problem list" \<comment> \<open>the slice a goroutine has loaded\<close>

text \<open>
  \<open>None\<close> is an operation that cannot proceed: a held mutex blocks. Unlocking a free mutex and taking the
  wait group below zero abort the Go program; they have no successor here and are told apart by
  \<open>aborts\<close>.
\<close>

fun exec_op :: "panel_task \<Rightarrow> op \<Rightarrow> machine \<Rightarrow> machine option" where
  "exec_op t OpLock m = (if ma_mutex m = None then Some (m\<lparr>ma_mutex := Some t\<rparr>) else None)"
| "exec_op t OpUnlock m = (if ma_mutex m = None then None else Some (m\<lparr>ma_mutex := None\<rparr>))"
| "exec_op t OpLoad m = Some (m\<lparr>ma_reg := (ma_reg m)(t := da_Problems (cs_dash (ma_shared m)))\<rparr>)"
| "exec_op t (OpStore p) m = Some (m\<lparr>ma_shared := (ma_shared m)\<lparr>cs_dash :=
     (cs_dash (ma_shared m))\<lparr>da_Problems := ma_reg m t @ [p]\<rparr>\<rparr>\<rparr>)"
| "exec_op t (OpAssign a) m = Some (m\<lparr>ma_shared := do_assign a (ma_shared m)\<rparr>)"
| "exec_op t OpDone m = (if 0 < ma_wg m then Some (m\<lparr>ma_wg := ma_wg m - 1\<rparr>) else None)"

fun aborts :: "op \<Rightarrow> machine \<Rightarrow> bool" where
  "aborts OpUnlock m \<longleftrightarrow> ma_mutex m = None"
| "aborts OpDone m \<longleftrightarrow> ma_wg m = 0"
| "aborts op m \<longleftrightarrow> False"

definition machine_start :: "string \<Rightarrow> Config \<Rightarrow> machine" where
  "machine_start generatedAt cfg = \<lparr>ma_shared = collect_start generatedAt cfg, ma_mutex = None,
     ma_wg = 0, ma_launch = all_tasks, ma_code = (\<lambda>_. []), ma_reg = (\<lambda>_. [])\<rparr>"

text \<open>The main goroutine launches the next one (\<open>wg.Add\<close>, then \<open>go\<close>), or a launched one proceeds.\<close>

inductive machine_step :: "world \<Rightarrow> sorters \<Rightarrow> Config \<Rightarrow> machine \<Rightarrow> machine \<Rightarrow> bool"
  for w so cfg where
  launch: "ma_launch m = t # ts \<Longrightarrow> machine_step w so cfg m
     (m\<lparr>ma_launch := ts, ma_wg := Suc (ma_wg m), ma_code := (ma_code m)(t := task_ops w so cfg t)\<rparr>)"
| proceed: "ma_code m t = op # ops \<Longrightarrow> exec_op t op m = Some m' \<Longrightarrow>
     machine_step w so cfg m (m'\<lparr>ma_code := (ma_code m)(t := ops)\<rparr>)"

text \<open>\<open>wg.Wait\<close> lets the main goroutine pass.\<close>

definition machine_done :: "machine \<Rightarrow> bool" where
  "machine_done m \<longleftrightarrow> ma_launch m = [] \<and> ma_wg m = 0"

definition machine_collects :: "world \<Rightarrow> sorters \<Rightarrow> Config \<Rightarrow> string \<Rightarrow> int \<Rightarrow> Dashboard \<Rightarrow> bool" where
  "machine_collects w so cfg generatedAt elapsed_ns d \<longleftrightarrow>
    (\<exists>m. (machine_step w so cfg)\<^sup>*\<^sup>* (machine_start generatedAt cfg) m \<and> machine_done m
       \<and> d = collect_finish so elapsed_ns (ma_shared m))"

section \<open>The discipline of a goroutine\<close>

text \<open>Which goroutine assigns a variable.\<close>

fun assign_task :: "assign \<Rightarrow> panel_task" where
  "assign_task (AHost p) = TaskSystem"
| "assign_task (AHostCPU c) = TaskCPU"
| "assign_task (ACPU p) = TaskCPU"
| "assign_task (AHostMem m) = TaskMemory"
| "assign_task (AMemory p) = TaskMemory"
| "assign_task (ASwap p) = TaskSwap"
| "assign_task (APressure p) = TaskPressure"
| "assign_task (ADisks p) = TaskDisks"
| "assign_task (ADiskIO p) = TaskDiskIO"
| "assign_task (ANetworks p) = TaskNetworks"
| "assign_task (ATCP p) = TaskTCP"
| "assign_task (ATemps p) = TaskTemps"
| "assign_task (AProcesses p) = TaskProcesses"
| "assign_task (AContainers p) = TaskContainers"
| "assign_task (ANote n) = TaskContainers"
| "assign_task (ACgMem m) = TaskCgroupMemory"
| "assign_task (ACgCPU c) = TaskCgroupCPU"

text \<open>Where a goroutine is with respect to the mutex: without it, with it, with it and the slice.\<close>

datatype phase = Free | Held | Loaded

fun next_phase :: "op \<Rightarrow> phase \<Rightarrow> phase" where
  "next_phase OpLock ph = Held"
| "next_phase OpUnlock ph = Free"
| "next_phase OpLoad ph = Loaded"
| "next_phase (OpStore p) ph = Held"
| "next_phase op ph = ph"

fun allowed :: "panel_task \<Rightarrow> op \<Rightarrow> phase \<Rightarrow> bool" where
  "allowed t OpLock ph \<longleftrightarrow> ph = Free"
| "allowed t OpUnlock ph \<longleftrightarrow> ph = Held"
| "allowed t OpLoad ph \<longleftrightarrow> ph = Held"
| "allowed t (OpStore p) ph \<longleftrightarrow> ph = Loaded"
| "allowed t (OpAssign a) ph \<longleftrightarrow> assign_task a = t"
| "allowed t OpDone ph \<longleftrightarrow> ph = Free"

text \<open>Every operation allowed where it stands, the last one and no other \<open>OpDone\<close>.\<close>

fun disciplined :: "panel_task \<Rightarrow> phase \<Rightarrow> op list \<Rightarrow> bool" where
  "disciplined t ph [] \<longleftrightarrow> False"
| "disciplined t ph (op # ops) \<longleftrightarrow> allowed t op ph \<and>
     (if op = OpDone then ops = [] else disciplined t (next_phase op ph) ops)"

lemma task_ops_disciplined: "disciplined t Free (task_ops w so cfg t)"
proof (cases "task_result w so cfg t")
  case (Inr p)
  then have "write_task p = t" by (rule task_result_write)
  then have "disciplined t Free (write_ops p @ [OpDone])" by (cases p) auto
  then show ?thesis by (simp add: task_ops_def Inr)
qed (simp add: task_ops_def fail_ops_def)

lemma task_ops_bound: "length (task_ops w so cfg t) \<le> 5"
proof -
  have "length (write_ops p) \<le> 4" for p by (cases p) simp_all
  then show ?thesis by (simp add: task_ops_def fail_ops_def split: sum.split)
qed

section \<open>Effects\<close>

text \<open>What the operations leave behind, once the mutex has made the append atomic.\<close>

datatype effect = EAssign assign | EProblem Problem

fun effects :: "op list \<Rightarrow> effect list" where
  "effects [] = []"
| "effects (OpAssign a # ops) = EAssign a # effects ops"
| "effects (OpStore p # ops) = EProblem p # effects ops"
| "effects (op # ops) = effects ops"

fun do_effect :: "effect \<Rightarrow> collect_state \<Rightarrow> collect_state" where
  "do_effect (EAssign a) st = do_assign a st"
| "do_effect (EProblem p) st = do_fail p st"

fun effect_of :: "panel_task \<Rightarrow> effect \<Rightarrow> bool" where
  "effect_of t (EAssign a) \<longleftrightarrow> assign_task a = t"
| "effect_of t (EProblem p) \<longleftrightarrow> True"

lemma do_assign_problems [simp]: "da_Problems (cs_dash (do_assign a st)) = da_Problems (cs_dash st)"
  by (cases a) simp_all

lemma do_assign_without: "without_problems (do_assign a st) = do_assign a (without_problems st)"
  by (cases a) (simp_all add: without_problems_def)

lemma do_assign_commute:
  "assign_task a \<noteq> assign_task b \<Longrightarrow> do_assign b (do_assign a st) = do_assign a (do_assign b st)"
  by (cases a; cases b; simp)

interpretation effects: interleaving "\<lambda>_. do_effect" effect_of same_but_order
proof
  fix t u :: panel_task and a b and s
  assume "t \<noteq> u" and "effect_of t a" and "effect_of u b"
  then show "same_but_order (do_effect b (do_effect a s)) (do_effect a (do_effect b s))"
    by (cases a; cases b) (auto simp: same_but_order_def do_assign_without do_assign_commute)
next
  fix s s' :: collect_state and t :: panel_task and a
  assume "same_but_order s s'"
  then show "same_but_order (do_effect a s) (do_effect a s')"
    by (cases a) (simp_all add: same_but_order_def do_assign_without)
qed (simp_all add: same_but_order_def)

text \<open>The effects of a whole goroutine are its step in the specification.\<close>

lemma task_effects: "fold do_effect (effects (task_ops w so cfg t)) st = run_task w so cfg t st"
proof -
  have "fold do_effect (effects (write_ops p @ [OpDone])) st = do_write p st" for p
    by (cases p) simp_all
  then show ?thesis
    by (simp add: task_ops_def run_task_def fail_ops_def split: sum.split)
qed

lemma effects_Cons: "effects (op # ops) = effects [op] @ effects ops"
  by (cases op) simp_all

lemma disciplined_effects: "disciplined t ph ops \<Longrightarrow> e \<in> set (effects ops) \<Longrightarrow> effect_of t e"
proof (induction t ph ops rule: disciplined.induct)
  case (2 t ph op ops)
  then show ?case by (cases op) auto
qed simp

section \<open>The invariant\<close>

text \<open>
  \<open>ph\<close> says where each goroutine stands, \<open>tr\<close> is the history of effects. The mutex is held by the
  goroutine inside its critical section and by no other; a loaded slice is still the current one; the
  wait group counts the unfinished goroutines; the shared state is what the history leaves, and the
  history of each goroutine is the part of its code that it has executed.
\<close>

definition lock_inv :: "(panel_task \<Rightarrow> phase) \<Rightarrow> machine \<Rightarrow> bool" where
  "lock_inv ph m \<longleftrightarrow>
     (\<forall>t. ma_code m t = [] \<and> ph t = Free \<or> disciplined t (ph t) (ma_code m t)) \<and>
     (\<forall>t. ph t \<noteq> Free \<longleftrightarrow> ma_mutex m = Some t) \<and>
     (\<forall>t. ph t = Loaded \<longrightarrow> ma_reg m t = da_Problems (cs_dash (ma_shared m)))"

definition live :: "machine \<Rightarrow> panel_task list" where
  "live m = filter (\<lambda>t. ma_code m t \<noteq> []) all_tasks"

definition wait_inv :: "machine \<Rightarrow> bool" where
  "wait_inv m \<longleftrightarrow> ma_wg m = length (live m) \<and> distinct (ma_launch m) \<and>
     (\<forall>t \<in> set (ma_launch m). ma_code m t = [])"

definition history_inv :: "world \<Rightarrow> sorters \<Rightarrow> Config \<Rightarrow> string \<Rightarrow> (panel_task \<times> effect) list \<Rightarrow> machine \<Rightarrow> bool" where
  "history_inv w so cfg g tr m \<longleftrightarrow>
     ma_shared m = fold (\<lambda>x. do_effect (snd x)) tr (collect_start g cfg) \<and>
     (\<forall>t. map snd (filter (\<lambda>x. fst x = t) tr) @ effects (ma_code m t) =
        (if t \<in> set (ma_launch m) then [] else effects (task_ops w so cfg t)))"

definition machine_inv :: "world \<Rightarrow> sorters \<Rightarrow> Config \<Rightarrow> string \<Rightarrow> machine \<Rightarrow> bool" where
  "machine_inv w so cfg g m \<longleftrightarrow> (\<exists>ph tr. lock_inv ph m \<and> wait_inv m \<and> history_inv w so cfg g tr m)"

lemma all_tasks_UNIV: "set all_tasks = UNIV"
proof -
  have "t \<in> set all_tasks" for t by (cases t) (simp_all add: all_tasks_def)
  then show ?thesis by auto
qed

lemma task_ops_not_Nil [simp]: "task_ops w so cfg t \<noteq> []"
  by (simp add: task_ops_def)

lemma machine_start_inv: "machine_inv w so cfg g (machine_start g cfg)"
proof -
  have "lock_inv (\<lambda>_. Free) (machine_start g cfg)" "wait_inv (machine_start g cfg)"
      "history_inv w so cfg g [] (machine_start g cfg)"
    using all_tasks_UNIV all_tasks_distinct
    by (simp_all add: machine_start_def lock_inv_def wait_inv_def live_def history_inv_def)
  then show ?thesis unfolding machine_inv_def by blast
qed

text \<open>The number of unfinished goroutines grows by one with a launch and falls by one with \<open>OpDone\<close>.\<close>

lemma length_filter_upd:
  assumes "distinct xs" and "t \<in> set xs" and "\<not> P t" and "P' t"
    and "\<And>u. u \<noteq> t \<Longrightarrow> P' u = P u"
  shows "length (filter P' xs) = Suc (length (filter P xs))"
proof -
  obtain as bs where xs: "xs = as @ t # bs" and "t \<notin> set as" "t \<notin> set bs"
    using assms(1,2) by (metis distinct_append distinct.simps(2) disjoint_iff list.set_intros(1) split_list)
  then have "\<forall>u \<in> set as \<union> set bs. P' u = P u" using assms(5) by (metis UnE)
  then have "filter P' as = filter P as" "filter P' bs = filter P bs"
    by (auto intro: filter_cong)
  then show ?thesis using assms(3,4) by (simp add: xs)
qed

lemma live_grows:
  assumes "ma_code m t = []" and "ops \<noteq> []" and "ma_code m' = (ma_code m)(t := ops)"
  shows "length (live m') = Suc (length (live m))"
  unfolding live_def using all_tasks_UNIV assms
  by (intro length_filter_upd [OF all_tasks_distinct, of t]) auto

lemma live_falls:
  assumes "ma_code m t \<noteq> []" and "ma_code m' = (ma_code m)(t := [])"
  shows "length (live m) = Suc (length (live m'))"
  unfolding live_def using all_tasks_UNIV assms
  by (intro length_filter_upd [OF all_tasks_distinct, of t]) auto

lemma live_same:
  assumes "ma_code m t \<noteq> []" and "ops \<noteq> []" and "ma_code m' = (ma_code m)(t := ops)"
  shows "live m' = live m"
  unfolding live_def using assms by (intro filter_cong) auto

lemma launch_inv:
  assumes "machine_inv w so cfg g m" and l: "ma_launch m = t # ts"
  shows "machine_inv w so cfg g (m\<lparr>ma_launch := ts, ma_wg := Suc (ma_wg m),
    ma_code := (ma_code m)(t := task_ops w so cfg t)\<rparr>)" (is "machine_inv w so cfg g ?m")
proof -
  obtain ph tr where inv: "lock_inv ph m" "wait_inv m" "history_inv w so cfg g tr m"
    using assms(1) unfolding machine_inv_def by blast
  have code: "ma_code m t = []" and fresh: "t \<notin> set ts"
    using inv(2) l by (simp_all add: wait_inv_def)
  then have "ph t = Free" using inv(1) by (auto simp: lock_inv_def)
  then have "lock_inv ph ?m"
    using inv(1) task_ops_disciplined by (simp add: lock_inv_def)
  moreover have "wait_inv ?m"
    using inv(2) live_grows [OF code task_ops_not_Nil, of ?m] l by (auto simp: wait_inv_def)
  moreover have "history_inv w so cfg g tr ?m"
    using inv(3) code fresh l by (auto simp: history_inv_def split: if_splits)
  ultimately show ?thesis unfolding machine_inv_def by blast
qed

text \<open>Mutual exclusion.\<close>

lemma lock_inv_exclusive: "lock_inv ph m \<Longrightarrow> ph t \<noteq> Free \<Longrightarrow> ph u \<noteq> Free \<Longrightarrow> t = u"
  unfolding lock_inv_def by (metis option.inject)

lemma exec_lock_inv:
  assumes "lock_inv ph m" and "ma_code m t = op # ops" and "exec_op t op m = Some m'"
  shows "lock_inv (ph(t := next_phase op (ph t))) (m'\<lparr>ma_code := (ma_code m)(t := ops)\<rparr>)"
proof -
  have d: "disciplined t (ph t) (op # ops)" using assms(1,2) unfolding lock_inv_def by (metis list.distinct(1))
  have "ph u = Free" if "ph t \<noteq> Free" "u \<noteq> t" for u
    using lock_inv_exclusive [OF assms(1)] that by blast
  then show ?thesis
    using assms d by (cases op) (auto simp: lock_inv_def split: if_splits)
qed

lemma exec_wait_inv:
  assumes "wait_inv m" and code: "ma_code m t = op # ops" and "exec_op t op m = Some m'"
    and d: "disciplined t p (op # ops)"
  shows "wait_inv (m'\<lparr>ma_code := (ma_code m)(t := ops)\<rparr>)" (is "wait_inv ?m")
proof -
  have same: "ma_launch ?m = ma_launch m" "t \<notin> set (ma_launch m)"
    using assms(1-3) by (cases op; auto simp: wait_inv_def split: if_splits)+
  show ?thesis
  proof (cases "op = OpDone")
    case True
    then have "ops = []" "ma_wg ?m = ma_wg m - 1" using d assms(3) by (auto split: if_splits)
    then show ?thesis
      using assms(1) same live_falls [of m t ?m] code by (auto simp: wait_inv_def)
  next
    case False
    then have "ops \<noteq> []" "ma_wg ?m = ma_wg m" using d assms(3) by (cases op; auto split: if_splits)+
    then show ?thesis
      using assms(1) same live_same [of m t ops ?m] code by (auto simp: wait_inv_def)
  qed
qed

lemma exec_history_inv:
  assumes "history_inv w so cfg g tr m" and code: "ma_code m t = op # ops"
    and ex: "exec_op t op m = Some m'" and "lock_inv ph m"
  shows "history_inv w so cfg g (tr @ map (Pair t) (effects [op])) (m'\<lparr>ma_code := (ma_code m)(t := ops)\<rparr>)"
    (is "history_inv w so cfg g ?tr ?m")
proof -
  have d: "disciplined t (ph t) (op # ops)" using assms(2,4) unfolding lock_inv_def by (metis list.distinct(1))
  have "ma_reg m t = da_Problems (cs_dash (ma_shared m))" if "op = OpStore p" for p
    using that d assms(4) by (simp add: lock_inv_def)
  then have "ma_shared ?m = fold do_effect (effects [op]) (ma_shared m)"
    using ex by (cases op) (auto simp: do_fail_def split: if_splits)
  then have "ma_shared ?m = fold (\<lambda>x. do_effect (snd x)) ?tr (collect_start g cfg)"
    using assms(1) by (simp add: history_inv_def fold_map comp_def)
  moreover have "ma_launch ?m = ma_launch m" using ex by (cases op) (auto split: if_splits)
  moreover have "map snd (filter (\<lambda>x. fst x = u) ?tr) @ effects (ma_code ?m u) =
      map snd (filter (\<lambda>x. fst x = u) tr) @ effects (ma_code m u)" for u
    using effects_Cons [of op ops] code by (auto simp: filter_map comp_def)
  ultimately show ?thesis using assms(1) by (simp add: history_inv_def)
qed

lemma machine_step_inv:
  assumes "machine_step w so cfg m m'" and "machine_inv w so cfg g m"
  shows "machine_inv w so cfg g m'"
  using assms(1)
proof (cases rule: machine_step.cases)
  case (launch t ts)
  then show ?thesis using launch_inv [OF assms(2)] by simp
next
  case (proceed t op ops m1)
  obtain ph tr where inv: "lock_inv ph m" "wait_inv m" "history_inv w so cfg g tr m"
    using assms(2) unfolding machine_inv_def by blast
  have "disciplined t (ph t) (op # ops)"
    using inv(1) proceed(2) unfolding lock_inv_def by (metis list.distinct(1))
  then show ?thesis
    using exec_lock_inv [OF inv(1) proceed(2,3)] exec_wait_inv [OF inv(2) proceed(2,3)]
      exec_history_inv [OF inv(3) proceed(2,3) inv(1)] proceed(1)
    unfolding machine_inv_def by blast
qed

lemma machine_run_inv:
  "(machine_step w so cfg)\<^sup>*\<^sup>* (machine_start g cfg) m \<Longrightarrow> machine_inv w so cfg g m"
  by (induction rule: rtranclp_induct) (auto intro: machine_start_inv machine_step_inv)

section \<open>Progress\<close>

text \<open>The operations still to come bound the steps still to come.\<close>

definition to_do :: "world \<Rightarrow> sorters \<Rightarrow> Config \<Rightarrow> machine \<Rightarrow> nat" where
  "to_do w so cfg m = (\<Sum>t \<in> set all_tasks. length (ma_code m t)) +
     (\<Sum>t \<leftarrow> ma_launch m. Suc (length (task_ops w so cfg t)))"

lemma sum_upd:
  "finite A \<Longrightarrow> t \<in> A \<Longrightarrow> (\<Sum>u \<in> A. length ((f(t := ys)) u)) + length (f t) = (\<Sum>u \<in> A. length (f u)) + length ys"
  by (simp add: sum.remove [of A t])

lemma to_do_falls:
  assumes "machine_step w so cfg m m'"
  shows "Suc (to_do w so cfg m') \<le> to_do w so cfg m"
  using assms
proof (cases rule: machine_step.cases)
  case (launch t ts)
  then show ?thesis
    using sum_upd [of "set all_tasks" t "ma_code m" "task_ops w so cfg t"]
    by (simp add: to_do_def all_tasks_UNIV [symmetric] del: fun_upd_apply) (simp add: all_tasks_UNIV)
next
  case (proceed t op ops m1)
  then have "ma_launch m1 = ma_launch m" by (cases op) (auto split: if_splits)
  with proceed show ?thesis
    using sum_upd [of "set all_tasks" t "ma_code m" ops]
    by (simp add: to_do_def all_tasks_UNIV [symmetric] del: fun_upd_apply) (simp add: all_tasks_UNIV)
qed

lemma to_do_start: "to_do w so cfg (machine_start g cfg) \<le> 84"
proof -
  have "(\<Sum>t \<leftarrow> ts. Suc (length (task_ops w so cfg t))) \<le> 6 * length ts" for ts
  proof (induction ts)
    case (Cons t ts)
    then show ?case using task_ops_bound [of w so cfg t] by simp
  qed simp
  from this [of all_tasks] show ?thesis
    by (simp add: to_do_def machine_start_def) (simp add: all_tasks_def)
qed

text \<open>An operation that comes next never aborts, and all it can wait for is a mutex whose holder is at work.\<close>

lemma lock_inv_allowed: "lock_inv ph m \<Longrightarrow> ma_code m t = op # ops \<Longrightarrow> allowed t op (ph t)"
  unfolding lock_inv_def by (metis disciplined.simps(2) list.distinct(1))

lemma live_counted: "wait_inv m \<Longrightarrow> ma_wg m = 0 \<longleftrightarrow> (\<forall>t. ma_code m t = [])"
  using all_tasks_UNIV by (auto simp: wait_inv_def live_def filter_empty_conv)

lemma next_op_safe:
  assumes "machine_inv w so cfg g m" and code: "ma_code m t = op # ops"
  shows "\<not> aborts op m"
    and "exec_op t op m = None \<Longrightarrow> op = OpLock \<and> (\<exists>u. u \<noteq> t \<and> ma_mutex m = Some u \<and> ma_code m u \<noteq> [])"
proof -
  obtain ph tr where inv: "lock_inv ph m" "wait_inv m"
    using assms(1) unfolding machine_inv_def by blast
  note a = lock_inv_allowed [OF inv(1) code]
  have wg: "0 < ma_wg m" using live_counted [OF inv(2)] code by auto
  have mx: "ph u \<noteq> Free \<longleftrightarrow> ma_mutex m = Some u" for u using inv(1) by (simp add: lock_inv_def)
  then have held: "ma_mutex m \<noteq> None" if "ph t \<noteq> Free" using that by auto
  show "\<not> aborts op m" using a wg held by (cases op) auto
  show "op = OpLock \<and> (\<exists>u. u \<noteq> t \<and> ma_mutex m = Some u \<and> ma_code m u \<noteq> [])" if none: "exec_op t op m = None"
  proof -
    have op: "op = OpLock" "ma_mutex m \<noteq> None" using none a wg held by (cases op; auto split: if_splits)+
    then obtain u where u: "ma_mutex m = Some u" by blast
    then have "ph u \<noteq> Free" "u \<noteq> t" using mx [of u] a op(1) by auto
    moreover have "ma_code m u \<noteq> []" using inv(1) \<open>ph u \<noteq> Free\<close> unfolding lock_inv_def by auto
    ultimately show ?thesis using op(1) u by blast
  qed
qed

text \<open>What \<open>wg.Wait\<close> lets through is a finished machine.\<close>

lemma machine_done_finished:
  assumes "machine_inv w so cfg g m" and "machine_done m"
  shows "(\<forall>t. ma_code m t = []) \<and> ma_mutex m = None"
proof -
  obtain ph tr where inv: "lock_inv ph m" "wait_inv m"
    using assms(1) unfolding machine_inv_def by blast
  have code: "ma_code m t = []" for t
    using live_counted [OF inv(2)] assms(2) by (auto simp: machine_done_def)
  have "ph t = Free" for t using inv(1) code [of t] unfolding lock_inv_def by (metis disciplined.simps(1))
  then show ?thesis using inv(1) code unfolding lock_inv_def by (metis not_None_eq)
qed

text \<open>No goroutine waits forever: the holder of the mutex can always go on.\<close>

lemma machine_progress:
  assumes "machine_inv w so cfg g m" and "\<not> machine_done m"
  shows "\<exists>m'. machine_step w so cfg m m'"
proof (cases "ma_launch m")
  case (Cons t ts)
  then show ?thesis using launch by blast
next
  case Nil
  obtain ph tr where inv: "lock_inv ph m" "wait_inv m"
    using assms(1) unfolding machine_inv_def by blast
  have wg: "0 < ma_wg m" using assms(2) Nil by (simp add: machine_done_def)
  then obtain u where u: "ma_code m u \<noteq> []"
    using inv(2) by (auto simp: wait_inv_def live_def filter_empty_conv)
  define t where "t = (case ma_mutex m of None \<Rightarrow> u | Some v \<Rightarrow> v)"
  have ph: "ma_mutex m = None \<longleftrightarrow> ph t = Free"
    using inv(1) unfolding lock_inv_def t_def by (auto split: option.splits)
  have "ma_code m t \<noteq> []"
    using inv(1) u unfolding lock_inv_def t_def by (auto split: option.splits)
  then obtain op ops where code: "ma_code m t = op # ops" by (meson neq_Nil_conv)
  then have "allowed t op (ph t)" using inv(1) unfolding lock_inv_def by (metis disciplined.simps(2) list.distinct(1))
  then have "\<exists>m'. exec_op t op m = Some m'" using ph wg by (cases op) auto
  then show ?thesis using code proceed by blast
qed

lemma machine_finishes:
  assumes "machine_inv w so cfg g m"
  shows "\<exists>m'. (machine_step w so cfg)\<^sup>*\<^sup>* m m' \<and> machine_done m'"
  using assms
proof (induction "to_do w so cfg m" arbitrary: m rule: less_induct)
  case less
  show ?case
  proof (cases "machine_done m")
    case False
    then obtain m1 where step: "machine_step w so cfg m m1" using machine_progress less.prems by blast
    then have "to_do w so cfg m1 < to_do w so cfg m" using to_do_falls by fastforce
    then obtain m' where "(machine_step w so cfg)\<^sup>*\<^sup>* m1 m'" "machine_done m'"
      using less.hyps machine_step_inv [OF step less.prems] by blast
    then show ?thesis using step converse_rtranclp_into_rtranclp by metis
  qed blast
qed

section \<open>The final state\<close>

lemma concat_projection:
  assumes "distinct ts"
  shows "filter (\<lambda>x. fst x = t) (concat (map (\<lambda>u. map (Pair u) (f u)) ts)) =
    (if t \<in> set ts then map (Pair t) (f t) else [])"
  using assms by (induction ts) (auto simp: filter_map comp_def filter_empty_conv)

lemma fold_tasks:
  "fold (\<lambda>x. do_effect (snd x)) (concat (map (\<lambda>t. map (Pair t) (effects (task_ops w so cfg t))) ts)) st =
   fold (run_task w so cfg) ts st"
  by (induction ts arbitrary: st) (simp_all add: fold_map comp_def task_effects)

lemma machine_done_same:
  assumes "machine_inv w so cfg g m" and "machine_done m"
  shows "same_but_order (ma_shared m) (fold (run_task w so cfg) all_tasks (collect_start g cfg))"
proof -
  obtain ph tr where inv: "wait_inv m" "history_inv w so cfg g tr m"
    using assms(1) unfolding machine_inv_def by blast
  have "ma_code m t = []" for t
    using inv(1) assms(2) all_tasks_UNIV
    by (auto simp: wait_inv_def machine_done_def live_def filter_empty_conv)
  then have proj: "map snd (filter (\<lambda>x. fst x = t) tr) = effects (task_ops w so cfg t)" for t
    using inv(2) assms(2) by (simp add: history_inv_def machine_done_def)
  let ?seq = "concat (map (\<lambda>t. map (Pair t) (effects (task_ops w so cfg t))) all_tasks)"
  have "filter (\<lambda>x. fst x = t) tr = map (Pair t) (map snd (filter (\<lambda>x. fst x = t) tr))" for t
    by (induction tr) auto
  then have "filter (\<lambda>x. fst x = t) tr = filter (\<lambda>x. fst x = t) ?seq" for t
    using concat_projection [OF all_tasks_distinct] all_tasks_UNIV by (metis UNIV_I proj)
  moreover have "\<forall>x \<in> set ?seq. effect_of (fst x) (snd x)"
    using disciplined_effects [OF task_ops_disciplined] by auto
  ultimately have "same_but_order (fold (\<lambda>x. do_effect (snd x)) tr (collect_start g cfg))
      (fold (\<lambda>x. do_effect (snd x)) ?seq (collect_start g cfg))"
    by (rule effects.same_projections)
  then show ?thesis using inv(2) by (simp add: history_inv_def fold_tasks)
qed

lemma machine_collect:
  assumes "slice_sort (so_problems so)" and "machine_inv w so cfg g m" and "machine_done m"
  shows "collect_finish so n (ma_shared m) = collect w so cfg g n"
  unfolding collect_def
  by (intro collect_finish_same [OF assms(1)] machine_done_same [OF assms(2,3)])
    (simp add: fold_problems failed_distinct all_tasks_distinct)

section \<open>Races\<close>

text \<open>The shared variable an operation reads, and the one it writes.\<close>

datatype variable = VHost | VHostCPU | VCPU | VHostMem | VMemory | VSwap | VPressure | VDisks | VDiskIO
  | VNetworks | VTCP | VTemps | VProcesses | VContainers | VNote | VCgMem | VCgCPU | VProblems

fun assign_var :: "assign \<Rightarrow> variable" where
  "assign_var (AHost p) = VHost"
| "assign_var (AHostCPU c) = VHostCPU"
| "assign_var (ACPU p) = VCPU"
| "assign_var (AHostMem m) = VHostMem"
| "assign_var (AMemory p) = VMemory"
| "assign_var (ASwap p) = VSwap"
| "assign_var (APressure p) = VPressure"
| "assign_var (ADisks p) = VDisks"
| "assign_var (ADiskIO p) = VDiskIO"
| "assign_var (ANetworks p) = VNetworks"
| "assign_var (ATCP p) = VTCP"
| "assign_var (ATemps p) = VTemps"
| "assign_var (AProcesses p) = VProcesses"
| "assign_var (AContainers p) = VContainers"
| "assign_var (ANote n) = VNote"
| "assign_var (ACgMem m) = VCgMem"
| "assign_var (ACgCPU c) = VCgCPU"

fun op_reads :: "op \<Rightarrow> variable option" where
  "op_reads OpLoad = Some VProblems"
| "op_reads op = None"

fun op_writes :: "op \<Rightarrow> variable option" where
  "op_writes (OpStore p) = Some VProblems"
| "op_writes (OpAssign a) = Some (assign_var a)"
| "op_writes op = None"

text \<open>Two goroutines that may both go on, one writing what the other one reads or writes.\<close>

definition race :: "machine \<Rightarrow> bool" where
  "race m \<longleftrightarrow> (\<exists>t u a b as bs. t \<noteq> u \<and> ma_code m t = a # as \<and> ma_code m u = b # bs \<and>
     op_writes a \<noteq> None \<and> (op_writes a = op_writes b \<or> op_writes a = op_reads b))"

lemma assign_var_task: "assign_var a = assign_var b \<Longrightarrow> assign_task a = assign_task b"
  by (cases a; cases b) simp_all

lemma not_problems [simp]: "assign_var a \<noteq> VProblems" "VProblems \<noteq> assign_var a"
  by (cases a; simp)+

lemma lock_inv_no_race:
  assumes "lock_inv ph m"
  shows "\<not> race m"
proof
  assume "race m"
  then obtain t u a b as bs where tu: "t \<noteq> u" and a: "ma_code m t = a # as" and b: "ma_code m u = b # bs"
      and wr: "op_writes a \<noteq> None" "op_writes a = op_writes b \<or> op_writes a = op_reads b"
    unfolding race_def by blast
  have "ph t = Free \<or> ph u = Free" using lock_inv_exclusive [OF assms] tu by blast
  with lock_inv_allowed [OF assms a] lock_inv_allowed [OF assms b] wr tu show False
    by (cases a; cases b) (auto dest: assign_var_task)
qed

section \<open>Properties\<close>

text \<open>
  C2: the dashboard does not depend on the schedule: however the launches, the locking, the loads, the
  stores and the assignments of the fourteen goroutines interleave, once the wait group lets the main
  goroutine pass the dashboard is the one of running the goroutines one after another, no problem
  report being lost; and some schedule does get there.
\<close>

theorem collect_schedule_independent:
  assumes "slice_sort (so_problems so)"
  shows "machine_collects w so cfg generatedAt n d \<longleftrightarrow> d = collect w so cfg generatedAt n"
  using machine_finishes [OF machine_start_inv] machine_run_inv machine_collect [OF assms]
  unfolding machine_collects_def by metis

theorem collect_schedule_independent_witness:
  "machine_collects bare_world bare_sorters bare_config ''now'' 5 (collect bare_world bare_sorters bare_config ''now'' 5)"
  by (rule collect_schedule_independent [THEN iffD2, OF _ refl])
    (simp add: bare_sorters_def go_sort.slice_sort_axioms)

text \<open>
  C12: collection terminates and never aborts. No schedule makes more than 84 steps; in every state it
  reaches, no goroutine is about to unlock a free mutex or to take the wait group below zero, and one
  that cannot go on is waiting for the mutex, held by another goroutine that still has work to do; a
  state in which the main goroutine still waits has a next step, so there is no deadlock, and when
  the wait group lets it pass every goroutine has finished and the mutex is free.
\<close>

theorem collect_terminates:
  assumes "(machine_step w so cfg ^^ k) (machine_start generatedAt cfg) m"
  shows "k \<le> 84
    \<and> (\<forall>t op ops. ma_code m t = op # ops \<longrightarrow> \<not> aborts op m \<and> (exec_op t op m = None \<longrightarrow>
        op = OpLock \<and> (\<exists>u. u \<noteq> t \<and> ma_mutex m = Some u \<and> ma_code m u \<noteq> [])))
    \<and> (if machine_done m then (\<forall>t. ma_code m t = []) \<and> ma_mutex m = None
       else \<exists>m'. machine_step w so cfg m m')"
proof (intro conjI)
  have "to_do w so cfg z + k \<le> to_do w so cfg (machine_start generatedAt cfg)"
    if "(machine_step w so cfg ^^ k) (machine_start generatedAt cfg) z" for z
    using that
  proof (induction k arbitrary: z)
    case (Suc k)
    then obtain y where "to_do w so cfg y + k \<le> to_do w so cfg (machine_start generatedAt cfg)"
        and "machine_step w so cfg y z" by auto
    then show ?case using to_do_falls by fastforce
  qed simp
  from this [OF assms] show "k \<le> 84" using to_do_start [of w so cfg generatedAt] by simp
  have inv: "machine_inv w so cfg generatedAt m"
    using machine_run_inv relpowp_imp_rtranclp [OF assms] by blast
  show "\<forall>t op ops. ma_code m t = op # ops \<longrightarrow> \<not> aborts op m \<and> (exec_op t op m = None \<longrightarrow>
      op = OpLock \<and> (\<exists>u. u \<noteq> t \<and> ma_mutex m = Some u \<and> ma_code m u \<noteq> []))"
    using next_op_safe [OF inv] by blast
  show "if machine_done m then (\<forall>t. ma_code m t = []) \<and> ma_mutex m = None
      else \<exists>m'. machine_step w so cfg m m'"
    using machine_done_finished [OF inv] machine_progress [OF inv] by simp
qed

theorem collect_terminates_witness:
  "\<exists>k m. (machine_step bare_world bare_sorters bare_config ^^ k) (machine_start ''now'' bare_config) m
     \<and> 0 < k \<and> k \<le> 84 \<and> machine_done m \<and> (\<forall>t. ma_code m t = []) \<and> ma_mutex m = None"
proof -
  obtain m where "(machine_step bare_world bare_sorters bare_config)\<^sup>*\<^sup>* (machine_start ''now'' bare_config) m"
    and d: "machine_done m" using machine_finishes [OF machine_start_inv] by blast
  then obtain k where k: "(machine_step bare_world bare_sorters bare_config ^^ k) (machine_start ''now'' bare_config) m"
    by (auto simp: rtranclp_power)
  have "\<not> machine_done (machine_start ''now'' bare_config)"
    by (simp add: machine_done_def machine_start_def all_tasks_def)
  then have "0 < k" using k d by (cases k) auto
  then show ?thesis using collect_terminates [OF k] k d by (metis (no_types))
qed

text \<open>
  C13: collection is free of data races: in no reachable state are two goroutines both about to access
  the same shared variable, one of them writing it; in particular the slice of problems, which all of
  them may append to, is only touched under the mutex.
\<close>

theorem collect_race_free:
  assumes "(machine_step w so cfg)\<^sup>*\<^sup>* (machine_start generatedAt cfg) m"
  shows "\<not> race m"
  using machine_run_inv [OF assms] lock_inv_no_race unfolding machine_inv_def by blast

theorem collect_race_free_witness:
  "\<not> race ((machine_start ''now'' bare_config)\<lparr>ma_launch := tl all_tasks, ma_wg := 1,
     ma_code := (\<lambda>_. [])(TaskSystem := task_ops bare_world bare_sorters bare_config TaskSystem)\<rparr>)"
proof (rule collect_race_free [OF r_into_rtranclp])
  show "machine_step bare_world bare_sorters bare_config (machine_start ''now'' bare_config)
     ((machine_start ''now'' bare_config)\<lparr>ma_launch := tl all_tasks, ma_wg := 1,
      ma_code := (\<lambda>_. [])(TaskSystem := task_ops bare_world bare_sorters bare_config TaskSystem)\<rparr>)"
    using launch [of "machine_start ''now'' bare_config" TaskSystem "tl all_tasks" bare_world bare_sorters bare_config]
    by (simp add: machine_start_def all_tasks_def)
qed

end
