(* ===== verification/Frontends.thy ===== *)
theory Frontends
  imports Dashboard
begin

text \<open>
  The dashboard program around the collection: its flags, the page, the console digest, the two modes
  of \<open>main\<close> and how it exits. Files, HTTP and the template engine are parameters, given what the
  program hands them; the template answers with the bytes it wrote and whether it failed.
\<close>

section \<open>The command line (example/main.go)\<close>

definition parseUnit :: "string \<Rightarrow> error + unit_name" where
  "parseUnit s =
    (let u = ToUpper (TrimSpace s) in
     if u = Byte then Inr Byte
     else if u = Kilobyte then Inr Kilobyte
     else if u = Megabyte then Inr Megabyte
     else if u = Gigabyte then Inr Gigabyte
     else Inl (Errorf ''unsupported unit %q: want B, KB, MB or GB'' [s] []))"

definition displayAddr :: "string \<Rightarrow> string" where
  "displayAddr addr = (if HasPrefix addr '':'' then ''localhost'' @ addr else addr)"

text \<open>\<open>Printf\<close> with \<open>%-14s %s\<close>; the labels are ASCII. The newline is left out.\<close>

definition digest_line :: "string \<Rightarrow> string \<Rightarrow> string" where
  "digest_line label txt = label @ replicate (14 - length label) CHR 0x20 @ '' '' @ txt"

definition digest_cpu :: "CPUPanel \<Rightarrow> string" where
  "digest_cpu p = digest_line ''CPU''
     (ga_Label (cp_Gauge p) @ '' across '' @ Itoa (int (length (cp_Cores p))) @ '' cores'')"

definition digest_container :: "ContainerPanel \<Rightarrow> string list" where
  "digest_container p =
    (if cpn_MemoryLimited p then [digest_line ''Container'' (''memory limited to '' @ cpn_MemoryLimit p)] else []) @
    (if cpn_CPULimited p then [digest_line ''Container'' (cpn_AllocatedCores p @ '' cores allocated'')] else [])"

text \<open>\<open>r.Some[0]\<close> may panic.\<close>

definition digest_pressure :: "string list \<Rightarrow> PressureRow \<Rightarrow> string list go" where
  "digest_pressure ls r = go_bind (index_go (prow_Some r) 0) (\<lambda>b.
     Ok (ls @ [digest_line ''Pressure'' (prow_Name r @ '' some avg10 '' @ ba_Value b)]))"

definition digest_host :: "HostPanel option \<Rightarrow> string list" where
  "digest_host h =
    (let get = (\<lambda>g. case h of None \<Rightarrow> [] | Some p \<Rightarrow> g p) in
     [digest_line ''Host'' (get hp_Hostname), digest_line ''OS'' (get hp_OS),
      digest_line ''Uptime'' (get hp_Uptime)])"

definition summarize :: "Dashboard \<Rightarrow> string list go" where
  "summarize d =
    (let ls = digest_host (da_Host d)
       @ (case da_CPU d of None \<Rightarrow> [] | Some p \<Rightarrow> [digest_cpu p])
       @ (case da_Memory d of None \<Rightarrow> [] | Some p \<Rightarrow>
            [digest_line ''Memory'' (gp_Used p @ '' of '' @ gp_Total p @ '' used'')])
       @ (case da_Container d of None \<Rightarrow> [] | Some p \<Rightarrow> digest_container p)
       @ map (\<lambda>c. digest_line ''Container''
            (cc_Name c @ '': cpu '' @ cc_CPU c @ '', memory '' @ cc_Memory c)) (da_Containers d) in
     go_bind (case da_Pressure d of
         None \<Rightarrow> Ok ls
       | Some p \<Rightarrow> if pp_Available p then range_loop digest_pressure ls (pp_Resources p) else Ok ls) (\<lambda>ls.
     Ok (ls @ [digest_line ''Collected''
           (Itoa (int (length (da_Temps d))) @ '' sensors, '' @ Itoa (int (length (da_Disks d))) @ '' disks, '' @
            Itoa (int (length (da_Networks d))) @ '' interfaces, '' @
            Itoa (int (length (da_Processes d))) @ '' processes''),
         digest_line ''Took'' (da_Elapsed d)]
       @ map (\<lambda>p. digest_line ''Unavailable'' (pb_Panel p @ '': '' @ pb_Err p)) (da_Problems d))))"

section \<open>The page (example/template.go)\<close>

record page =
  pg_Dashboard :: Dashboard
  pg_Refresh :: bool
  pg_RefreshSeconds :: int

text \<open>\<open>time.Duration.Seconds\<close>, of a positive duration.\<close>

definition Duration_Seconds :: "int \<Rightarrow> f64" where
  "Duration_Seconds d =
    f64_add (f64_of_int (d div 1000000000)) (f64_div (f64_of_int (d mod 1000000000)) (f64_const 1000000000))"

definition render_page :: "(f64 \<Rightarrow> int) \<Rightarrow> Dashboard \<Rightarrow> int \<Rightarrow> page" where
  "render_page oor d refresh =
    (let p = \<lparr>pg_Dashboard = d, pg_Refresh = False, pg_RefreshSeconds = 0\<rparr> in
     if 0 < refresh then
       (let secs = int_of_f64 oor (f64_ceil (Duration_Seconds refresh)) in
        p\<lparr>pg_Refresh := True, pg_RefreshSeconds := (if secs < 1 then 1 else secs)\<rparr>)
     else p)"

text \<open>The request handler: \<open>ctxErr\<close> is the state of the request's context after the collection.\<close>

datatype response = NotFound | NoAnswer | Page page

definition handle_request ::
    "(f64 \<Rightarrow> int) \<Rightarrow> string \<Rightarrow> Dashboard \<Rightarrow> ctx_error option \<Rightarrow> int \<Rightarrow> response" where
  "handle_request oor path d ctxErr refresh =
    (if path \<noteq> ''/'' then NotFound
     else if ctxErr \<noteq> None then NoAnswer
     else Page (render_page oor d refresh))"

section \<open>The program (example/main.go)\<close>

record main_flags =
  fl_out :: string
  fl_serve :: string
  fl_refresh :: int
  fl_unit :: string
  fl_sampleWindow :: int
  fl_sampleInterval :: int
  fl_top :: int
  fl_timeout :: int
  fl_layers :: bool
  fl_socket :: string

definition flag_defaults :: main_flags where
  "flag_defaults = \<lparr>fl_out = ''example/dashboard.html'', fl_serve = [], fl_refresh = 5 * 1000000000,
     fl_unit = ''MB'', fl_sampleWindow = 300 * 1000000, fl_sampleInterval = 1000000000, fl_top = 8,
     fl_timeout = 30 * 1000000000, fl_layers = True, fl_socket = ''/var/run/docker.sock''\<rparr>"

definition main_config :: "unit_name \<Rightarrow> main_flags \<Rightarrow> Config" where
  "main_config u fl = \<lparr>cf_Unit = u, cf_SampleWindow = fl_sampleWindow fl,
     cf_SampleInterval = fl_sampleInterval fl, cf_TopProcesses = fl_top fl,
     cf_ContainerSocket = fl_socket fl, cf_ContainerLayers = fl_layers fl\<rparr>"

record server =
  sv_Addr :: string
  sv_WriteTimeout :: int
  sv_ReadTimeout :: int

text \<open>What the operating system, the template engine and the HTTP server answer. A collection is given
  its deadline and its configuration.\<close>

record main_env =
  en_abs :: "string \<Rightarrow> error + string" \<comment> \<open>\<open>filepath.Abs\<close>\<close>
  en_mkdir :: "string \<Rightarrow> error option" \<comment> \<open>\<open>os.MkdirAll\<close>\<close>
  en_create :: "string \<Rightarrow> error option" \<comment> \<open>\<open>os.Create\<close>\<close>
  en_execute :: "page \<Rightarrow> string \<times> error option"
    \<comment> \<open>executing the template: the bytes that reach the file, all of them or those before the error\<close>
  en_listen :: "server \<Rightarrow> error option" \<comment> \<open>\<open>ListenAndServe\<close>\<close>
  en_oor :: "f64 \<Rightarrow> int"
  en_errText :: "error \<Rightarrow> string"
  en_collect :: "int \<Rightarrow> Config \<Rightarrow> Dashboard"

text \<open>
  The file it leaves and what it returns. \<open>os.Create\<close> truncates the file and the template is executed
  straight into it, so a failing execution leaves the bytes written so far.
\<close>

definition writeSnapshot ::
    "main_env \<Rightarrow> string \<Rightarrow> Dashboard \<Rightarrow> int \<Rightarrow> (string \<times> string) option \<times> (error + string)" where
  "writeSnapshot en out d refresh = (case en_abs en out of
     Inl e \<Rightarrow> (None, Inl e)
   | Inr path \<Rightarrow> (case en_mkdir en (path_Dir path) of
       Some e \<Rightarrow> (None, Inl e)
     | None \<Rightarrow> (case en_create en path of
         Some e \<Rightarrow> (None, Inl e)
       | None \<Rightarrow> (case en_execute en (render_page (en_oor en) d refresh) of
           (bytes, Some e) \<Rightarrow> (Some (path, bytes), Inl e)
         | (bytes, None) \<Rightarrow> (Some (path, bytes), Inr path)))))"

definition serve_banner :: "string \<Rightarrow> int \<Rightarrow> string" where
  "serve_banner addr refresh = ''Serving on http://'' @ displayAddr addr @ '' (refreshing every '' @
     Duration_String refresh @ '', Ctrl-C to stop)''"

text \<open>\<open>serveDashboard\<close>: the line it prints and the error of the server, which runs until it fails.\<close>

definition serveDashboard :: "main_env \<Rightarrow> string \<Rightarrow> int \<Rightarrow> int \<Rightarrow> string \<times> error option" where
  "serveDashboard en addr refresh timeout_ns = (serve_banner addr refresh, en_listen en \<lparr>sv_Addr = addr,
     sv_WriteTimeout = wrap64 (timeout_ns + 10 * 1000000000), sv_ReadTimeout = 10 * 1000000000\<rparr>)"

record outcome =
  oc_exit :: int
  oc_stderr :: "string list"
  oc_stdout :: "string list"
  oc_file :: "(string \<times> string) option" \<comment> \<open>the snapshot's path and content, when it was created\<close>

definition example_main :: "main_env \<Rightarrow> main_flags \<Rightarrow> outcome go" where
  "example_main en fl = (case parseUnit (fl_unit fl) of
     Inl e \<Rightarrow> Ok \<lparr>oc_exit = 2, oc_stderr = [en_errText en e], oc_stdout = [], oc_file = None\<rparr>
   | Inr u \<Rightarrow>
       if fl_serve fl \<noteq> [] then
         (case serveDashboard en (fl_serve fl) (fl_refresh fl) (fl_timeout fl) of
            (banner, Some e) \<Rightarrow> Ok \<lparr>oc_exit = 1, oc_stderr = [en_errText en e], oc_stdout = [banner], oc_file = None\<rparr>
          | (banner, None) \<Rightarrow> Ok \<lparr>oc_exit = 0, oc_stderr = [], oc_stdout = [banner], oc_file = None\<rparr>)
       else
         (let d = en_collect en (fl_timeout fl) (main_config u fl) in
          case writeSnapshot en (fl_out fl) d 0 of
            (file, Inl e) \<Rightarrow> Ok \<lparr>oc_exit = 1, oc_stderr = [''failed to write dashboard: '' @ en_errText en e],
              oc_stdout = [], oc_file = file\<rparr>
          | (file, Inr path) \<Rightarrow> go_bind (summarize d) (\<lambda>digest.
              Ok \<lparr>oc_exit = 0, oc_stderr = [], oc_stdout = digest @ [[], ''Dashboard written to: '' @ path],
                oc_file = file\<rparr>)))"

section \<open>Facts\<close>

text \<open>A refreshing page waits at least a second between loads.\<close>

lemma render_page_waits:
  "pg_Refresh (render_page oor d refresh) = (0 < refresh)"
  "0 < refresh \<Longrightarrow> 1 \<le> pg_RefreshSeconds (render_page oor d refresh)"
  by (simp_all add: render_page_def Let_def)

lemma parseUnit_known: "parseUnit s = Inr u \<Longrightarrow> bytesPerUnit u \<noteq> None"
  by (auto simp: parseUnit_def bytesPerUnit_def Let_def Byte_def Kilobyte_def Megabyte_def Gigabyte_def split: if_splits)

text \<open>The digest cannot panic on a pressure panel the program built.\<close>

lemma pressure_rows_barred: "r \<in> set (pp_Resources (buildPressurePanel p)) \<Longrightarrow> prow_Some r \<noteq> []"
  by (auto simp: buildPressurePanel_def pressure_row_def pressureBars_def split: if_splits)

lemma digest_loop_returns:
  "\<forall>r \<in> set rs. prow_Some r \<noteq> [] \<Longrightarrow> \<exists>out. range_loop digest_pressure ls rs = Ok out"
  by (induction rs arbitrary: ls) (auto simp: digest_pressure_def)
definition pressure_barred :: "Dashboard \<Rightarrow> bool" where
  "pressure_barred d \<longleftrightarrow> pred_option (\<lambda>p. \<forall>r \<in> set (pp_Resources p). prow_Some r \<noteq> []) (da_Pressure d)"

lemma do_write_barred:
  assumes "pressure_barred (cs_dash st)" and "task_result w so cfg t = Inr p"
  shows "pressure_barred (cs_dash (do_write p st))"
proof (cases "t = TaskPressure")
  case True
  with assms(2) show ?thesis
    by (auto simp: pressure_barred_def call_result_def pressure_rows_barred split: prod.splits option.splits)
next
  case False
  with task_result_write [OF assms(2)] have "write_task p \<noteq> TaskPressure" by simp
  with assms(1) show ?thesis by (cases p) (simp_all add: pressure_barred_def)
qed

lemma run_task_barred:
  "pressure_barred (cs_dash st) \<Longrightarrow> pressure_barred (cs_dash (run_task w so cfg t st))"
  unfolding run_task_def
  by (auto simp: do_write_barred split: sum.split) (simp add: do_fail_def pressure_barred_def)

lemma collects_barred: "collects w so cfg g n d \<Longrightarrow> pressure_barred d"
  by (erule collects_invariant [where I = "\<lambda>st. pressure_barred (cs_dash st)"])
    (auto simp: run_task_barred, simp_all add: collect_start_def Dashboard_empty_def
      pressure_barred_def collect_finish_def Let_def)

text \<open>
  The console digest of a collected dashboard never panics, whatever the library reported and however
  the goroutines were scheduled, although it takes the first bar of every pressure row without looking
  whether there is one.
\<close>

lemma summarize_returns:
  assumes "collects w so cfg generatedAt n d"
  shows "\<exists>digest. summarize d = Ok digest"
proof (cases "da_Pressure d")
  case None
  then show ?thesis by (simp add: summarize_def Let_def)
next
  case (Some p)
  then have "\<forall>r \<in> set (pp_Resources p). prow_Some r \<noteq> []"
    using collects_barred [OF assms] by (simp add: pressure_barred_def)
  then show ?thesis
    using digest_loop_returns Some by (fastforce simp: summarize_def Let_def go_simps split: if_splits)
qed

section \<open>Properties\<close>

text \<open>The path of the snapshot, once its file could be created.\<close>

definition created_path :: "main_env \<Rightarrow> string \<Rightarrow> string option" where
  "created_path en out = (case en_abs en out of
     Inl e \<Rightarrow> None
   | Inr path \<Rightarrow> if en_mkdir en (path_Dir path) = None \<and> en_create en path = None then Some path else None)"

lemma writeSnapshot_created:
  "created_path en out = None \<Longrightarrow> \<exists>e. writeSnapshot en out d refresh = (None, Inl e)"
  "created_path en out = Some path \<Longrightarrow> writeSnapshot en out d refresh =
     (case en_execute en (render_page (en_oor en) d refresh) of
        (bytes, Some e) \<Rightarrow> (Some (path, bytes), Inl e) | (bytes, None) \<Rightarrow> (Some (path, bytes), Inr path))"
  by (auto simp: created_path_def writeSnapshot_def split: sum.splits option.splits if_splits)

text \<open>
  C16: whatever the machine reports, the program never panics. It exits with status 2 exactly when the
  unit flag, trimmed and in upper case, is not B, KB, MB or GB, and with status 0 exactly when it
  printed no error. It leaves a file exactly when it was asked for a snapshot, knew the unit and could
  create the file, at the path it was asked for and holding what the template wrote for a page that
  shows the dashboard collected in that unit within the timeout and does not refresh itself; that is
  the complete page exactly when the status is 0, and after a failed execution the part before it.
\<close>

theorem example_main_outcome:
  defines "unit_of \<equiv> \<lambda>fl. ToUpper (TrimSpace (fl_unit fl))"
  shows "\<exists>r. example_main (en\<lparr>en_collect := \<lambda>timeout cfg. collect (w timeout) so cfg g n\<rparr>) fl = Ok r
    \<and> (oc_exit r = 2) = (unit_of fl \<notin> {''B'', ''KB'', ''MB'', ''GB''})
    \<and> (oc_exit r = 0) = (oc_stderr r = [])
    \<and> (if fl_serve fl \<noteq> [] \<or> oc_exit r = 2 then oc_file r = None
       else (case created_path en (fl_out fl) of
           None \<Rightarrow> oc_file r = None \<and> oc_exit r = 1
         | Some path \<Rightarrow> (case en_execute en \<lparr>pg_Dashboard = collect (w (fl_timeout fl)) so (main_config (unit_of fl) fl) g n,
               pg_Refresh = False, pg_RefreshSeconds = 0\<rparr> of (bytes, err) \<Rightarrow>
             oc_file r = Some (path, bytes) \<and> oc_exit r = (if err = None then 0 else 1))))"
proof (cases "parseUnit (fl_unit fl)")
  case (Inl e)
  then show ?thesis
    by (auto simp: example_main_def parseUnit_def unit_of_def Let_def unit_defs split: if_splits)
next
  case (Inr u)
  then have u: "u = unit_of fl" "unit_of fl \<in> {''B'', ''KB'', ''MB'', ''GB''}"
    by (auto simp: parseUnit_def unit_of_def Let_def unit_defs split: if_splits)
  obtain digest where "summarize (collect (w (fl_timeout fl)) so (main_config (unit_of fl) fl) g n) = Ok digest"
    using summarize_returns [OF collects_collect] by blast
  note digest = this
  let ?en = "en\<lparr>en_collect := \<lambda>timeout cfg. collect (w timeout) so cfg g n\<rparr>"
  have k: "unit_of fl = ''B'' \<or> unit_of fl = ''KB'' \<or> unit_of fl = ''MB'' \<or> unit_of fl = ''GB''"
    using u(2) by simp
  note known = Inr [unfolded u(1)]
  have same: "created_path ?en = created_path en" by (auto simp: created_path_def fun_eq_iff split: sum.split)
  show ?thesis
  proof (cases "fl_serve fl = []")
    case False
    then show ?thesis using known k
      by (cases "en_listen en \<lparr>sv_Addr = fl_serve fl, sv_WriteTimeout = wrap64 (fl_timeout fl + 10000000000),
          sv_ReadTimeout = 10000000000\<rparr>") (simp_all add: example_main_def serveDashboard_def)
  next
    case serve: True
    show ?thesis
    proof (cases "created_path en (fl_out fl)")
      case None
      from writeSnapshot_created(1) [of ?en, unfolded same, OF None]
      obtain e where "writeSnapshot ?en (fl_out fl)
          (collect (w (fl_timeout fl)) so (main_config (unit_of fl) fl) g n) 0 = (None, Inl e)" by blast
      then show ?thesis using known k None serve by (auto simp: example_main_def Let_def)
    next
      case (Some path)
      note snap = writeSnapshot_created(2) [of ?en, unfolded same, OF Some]
      show ?thesis
        using known k Some serve digest
        by (cases "en_execute en \<lparr>pg_Dashboard = collect (w (fl_timeout fl)) so (main_config (unit_of fl) fl) g n,
            pg_Refresh = False, pg_RefreshSeconds = 0\<rparr>"; cases "snd (en_execute en \<lparr>pg_Dashboard =
            collect (w (fl_timeout fl)) so (main_config (unit_of fl) fl) g n, pg_Refresh = False, pg_RefreshSeconds = 0\<rparr>)")
          (auto simp: example_main_def snap render_page_def Let_def)
    qed
  qed
qed

text \<open>A template that fails halfway: status 1, and half a page in the file.\<close>

definition half_env :: main_env where
  "half_env = \<lparr>en_abs = (\<lambda>p. Inr (''/root/'' @ p)), en_mkdir = (\<lambda>p. None), en_create = (\<lambda>p. None),
     en_execute = (\<lambda>p. (''<html>'', Some (ErrorString ''no space left''))), en_listen = (\<lambda>s. None),
     en_oor = (\<lambda>x. 0), en_errText = (\<lambda>e. ''no space left''),
     en_collect = (\<lambda>timeout cfg. Dashboard_empty [])\<rparr>"

theorem example_main_outcome_witness:
  "\<exists>r. example_main (half_env\<lparr>en_collect := \<lambda>timeout cfg. collect bare_world bare_sorters cfg ''now'' 5\<rparr>)
       flag_defaults = Ok r
     \<and> oc_exit r = 1 \<and> oc_file r = Some (''/root/example/dashboard.html'', ''<html>'')"
proof -
  have u: "ToUpper (TrimSpace (fl_unit flag_defaults)) = ''MB''" "fl_serve flag_defaults = []"
    "created_path half_env (fl_out flag_defaults) = Some ''/root/example/dashboard.html''"
    by code_simp+
  show ?thesis
    using example_main_outcome [where en = half_env and w = "\<lambda>timeout. bare_world" and so = bare_sorters and g = "''now''"
        and n = 5 and fl = flag_defaults]
    unfolding u by (auto simp: half_env_def split: if_splits)
qed

end
