(* ===== verification/Api.thy ===== *)
theory Api
  imports System Containers Network
begin

text \<open>
  The exported methods of \<open>systats.go\<close> that take no context: each is its \<open>WithContext\<close> form under
  \<open>context.Background\<close>, which is never done, so a wait always runs out and a poll finds no error. And
  what a context can do to a call, over all the methods that take one.
\<close>

section \<open>The methods without a context\<close>

definition GetCPU_background ::
    "(f64 \<Rightarrow> int) \<Rightarrow> fs \<Rightarrow> fs \<Rightarrow> f64 \<Rightarrow> int \<Rightarrow> SyStats \<Rightarrow> CPU \<times> error option" where
  "GetCPU_background oor f1 f2 elapsed now systats = GetCPU oor f1 f2 TimerFired elapsed now systats"

definition GetSystem_background ::
    "(f64 \<Rightarrow> int) \<Rightarrow> launcher \<Rightarrow> string list \<Rightarrow> fs \<Rightarrow> int \<Rightarrow> SyStats \<Rightarrow> System \<times> error option" where
  "GetSystem_background oor launch environ f now_ns systats =
    GetSystem oor launch environ None f now_ns systats"

definition GetTopProcesses_background ::
    "procCandidate sorter \<Rightarrow> (string \<Rightarrow> string option) \<Rightarrow> fs \<Rightarrow> fs \<Rightarrow> f64 \<Rightarrow> SyStats \<Rightarrow> int \<Rightarrow>
     sort_order \<Rightarrow> Process list \<times> error option" where
  "GetTopProcesses_background srt lookup f1 f2 elapsed systats limit sortBy =
    GetTopProcesses srt lookup f1 f2 TimerFired (\<lambda>_. None) elapsed systats limit sortBy"

definition GetProcess_background ::
    "(string \<Rightarrow> string option) \<Rightarrow> fs \<Rightarrow> fs \<Rightarrow> f64 \<Rightarrow> SyStats \<Rightarrow> int \<Rightarrow> Process \<times> error option" where
  "GetProcess_background lookup f1 f2 elapsed systats pid =
    GetProcess lookup f1 f2 TimerFired elapsed systats pid"

definition IsPortOpen :: "(string \<Rightarrow> bool) \<Rightarrow> int \<Rightarrow> bool" where
  "IsPortOpen dial port = IsPortOpenWithContext dial port"

definition CanConnectExternal ::
    "(string \<Rightarrow> error option) \<Rightarrow> (string \<Rightarrow> error option) \<Rightarrow> string \<Rightarrow> bool \<times> error option" where
  "CanConnectExternal newRequest send url = CanConnectExternalWithContext newRequest send url"

definition layer_background :: layer_ctx where
  "layer_background = \<lparr>lx_at = (\<lambda>_. None), lx_after = None\<rparr>"

definition GetContainers_background ::
    "api_request \<Rightarrow> fs \<Rightarrow> fs \<Rightarrow> f64 \<Rightarrow> int \<Rightarrow> SyStats \<Rightarrow> unit_name \<Rightarrow> Container list \<times> error option" where
  "GetContainers_background request f1 f2 elapsed now systats u =
    GetContainers request f1 f2 TimerFired layer_background elapsed now systats u"

definition GetContainer_background ::
    "api_request \<Rightarrow> fs \<Rightarrow> fs \<Rightarrow> f64 \<Rightarrow> int \<Rightarrow> SyStats \<Rightarrow> unit_name \<Rightarrow> string \<Rightarrow> Container \<times> error option" where
  "GetContainer_background request f1 f2 elapsed now systats u idOrName =
    GetContainer request f1 f2 TimerFired layer_background elapsed now systats u idOrName"

section \<open>Facts\<close>

text \<open>The errors a context contributes to, and those a call reports as a context's.\<close>

fun wake_errors :: "wake \<Rightarrow> ctx_error set" where
  "wake_errors TimerFired = {}"
| "wake_errors (CtxDone e) = {e}"

definition poll_errors :: "(nat \<Rightarrow> ctx_error option) \<Rightarrow> ctx_error set" where
  "poll_errors polls = {e. \<exists>i. polls i = Some e}"

definition layer_errors :: "layer_ctx \<Rightarrow> ctx_error set" where
  "layer_errors ctx = {e. lx_after ctx = Some e}"

definition ctx_reported :: "'a \<times> error option \<Rightarrow> ctx_error set" where
  "ctx_reported r = {e. snd r = Some (CtxErr e)}"

text \<open>An error of the library's own, not a context's.\<close>

fun plain_error :: "error \<Rightarrow> bool" where
  "plain_error (CtxErr e) = False"
| "plain_error e = True"

lemma not_plain: "\<not> plain_error e \<longleftrightarrow> (\<exists>c. e = CtxErr c)"
  by (cases e) simp_all

lemma ctx_reported_iff: "e \<in> ctx_reported (withRecover z m) \<longleftrightarrow> (\<exists>x. m = Ok (x, Some (CtxErr e)))"
  by (auto simp: ctx_reported_def withRecover_def split: go.splits)

named_theorems plain_errors

lemma plain_ReadFileWithError [plain_errors]: "ReadFileWithError f p = Inl e \<Longrightarrow> plain_error e"
  by (auto simp: ReadFileWithError_def file_not_found_def split: if_splits)

lemma plain_parseProcStat [plain_errors]: "parseProcStat c = Ok (Inl e) \<Longrightarrow> plain_error e"
  by (auto simp: parseProcStat_def bad_stat_def Let_def go_simps split: option.splits if_splits)

lemma plain_readProcStat [plain_errors]: "readProcStat f p pid = Ok (Inl e) \<Longrightarrow> plain_error e"
  by (auto simp: readProcStat_def dest: plain_errors split: sum.splits)

lemma plain_readProcMemAndUID [plain_errors]: "readProcMemAndUID f p pid = Ok (Inl e) \<Longrightarrow> plain_error e"
  by (auto simp: readProcMemAndUID_def go_simps dest: plain_errors split: sum.splits)

lemma plain_totalMemoryKB [plain_errors]: "totalMemoryKB f p = Ok (Inl e) \<Longrightarrow> plain_error e"
  by (auto simp: totalMemoryKB_def go_simps dest: plain_errors split: sum.splits option.splits)

lemma plain_systemUptimeSeconds [plain_errors]: "systemUptimeSeconds f p = Ok (Inl e) \<Longrightarrow> plain_error e"
  by (auto simp: systemUptimeSeconds_def Let_def go_simps dest: plain_errors split: sum.splits if_splits)

lemma plain_enrichProcess [plain_errors]: "enrichProcess f s p = Ok (Inl e) \<Longrightarrow> plain_error e"
  by (auto simp: enrichProcess_def go_bind_sum Let_def dest: plain_errors)

lemma plain_listPids [plain_errors]: "listPids f p = Inl e \<Longrightarrow> plain_error e"
  by (auto simp: listPids_def split: option.splits)

lemma plain_validateSortBy [plain_errors]: "validateSortBy sortBy = Some e \<Longrightarrow> plain_error e"
  by (auto simp: validateSortBy_def split: if_splits)

lemma plain_finishCPU [plain_errors]: "finishCPU oor f now s out info u1 u2 el = Ok (c, Some e) \<Longrightarrow> plain_error e"
  by (auto simp: finishCPU_def Let_def processLoadAvgFileContent_def go_simps dest: plain_errors
      split: sum.splits if_splits)

lemma plain_collect_candidates:
  "collect_candidates f s polls cpuOf tot i acc pids = Ok (Inl e) \<Longrightarrow> plain_error e \<or> (\<exists>c \<in> poll_errors polls. e = CtxErr c)"
proof (induction f s polls cpuOf tot i acc pids rule: collect_candidates.induct)
  case (2 f s polls cpuOf tot i acc pid pids)
  show ?case
  proof (cases "polls i")
    case None
    with 2 show ?thesis by (auto simp: go_bind_sum split: option.splits prod.splits)
  next
    case (Some c)
    then show ?thesis using "2.prems" by (auto simp: poll_errors_def)
  qed
qed simp

lemma plain_matchContainer [plain_errors]: "matchContainer cs k = Inl e \<Longrightarrow> plain_error e"
proof -
  have "find_prefix k i found cs = Inl e \<Longrightarrow> plain_error e" for i found
    by (induction k i found cs rule: find_prefix.induct)
      (auto simp: ambiguous_prefix_def split: if_splits)
  then show "matchContainer cs k = Inl e \<Longrightarrow> plain_error e"
    by (auto simp: matchContainer_def no_match_def split: if_splits option.splits sum.splits)
qed

lemma layer_reported: "readContainerLayer f ctx p pid u b = (l, Some e) \<Longrightarrow> \<exists>c \<in> layer_errors ctx. e = CtxErr c"
  by (auto simp: readContainerLayer_def Let_def layer_errors_def split: sum.splits if_splits prod.splits option.splits)

lemma read_all_reported:
  "read_all f ctx now s host u b el out xs = Inl e \<Longrightarrow> \<exists>c \<in> layer_errors ctx. e = CtxErr c"
  by (induction f ctx now s host u b el out xs rule: read_all.induct)
    (auto dest: layer_reported split: sum.splits prod.splits option.splits if_splits)

lemma sleepCtx_errors: "sleepCtx w = Some e \<Longrightarrow> \<exists>c \<in> wake_errors w. e = CtxErr c"
  by (cases w) (auto simp: sleepCtx_def)

lemma cpu_reported: "ctx_reported (GetCPU oor f1 f2 w el now s) \<subseteq> wake_errors w"
proof
  fix c assume "c \<in> ctx_reported (GetCPU oor f1 f2 w el now s)"
  then obtain x where "getCPU oor f1 f2 w el now s = Ok (x, Some (CtxErr c))"
    by (auto simp: GetCPU_def ctx_reported_iff)
  then show "c \<in> wake_errors w"
    by (cases w; cases "ReadFileWithError f2 (StatFilePath s)")
      (auto simp: getCPU_def sleepCtx_def go_simps dest!: plain_errors split: sum.splits)
qed

lemma process_cpu_reported: "process_cpu f1 f2 w el s pid = Ok (Inl e) \<Longrightarrow>
   plain_error e \<or> (\<exists>c \<in> wake_errors w. e = CtxErr c)"
  by (auto simp: process_cpu_def go_bind_sum dest: plain_errors sleepCtx_errors
      split: if_splits option.splits)

lemma process_reported: "ctx_reported (GetProcess lookup f1 f2 w el s pid) \<subseteq> wake_errors w"
proof
  fix c assume "c \<in> ctx_reported (GetProcess lookup f1 f2 w el s pid)"
  then obtain x where "getProcess lookup f1 f2 w el s pid = Ok (x, Some (CtxErr c))"
    by (auto simp: GetProcess_def ctx_reported_iff)
  then show "c \<in> wake_errors w"
    by (auto simp: getProcess_def go_bind_sum dest!: plain_errors process_cpu_reported split: prod.splits)
qed

lemma instant_reported:
  "collectCandidatesInstant f1 f2 w polls el s pids tot = Ok (Inl e) \<Longrightarrow>
     plain_error e \<or> (\<exists>c \<in> wake_errors w \<union> poll_errors polls. e = CtxErr c)"
  by (cases w) (auto simp: collectCandidatesInstant_def sleepCtx_def go_simps dest!: plain_collect_candidates)

lemma average_reported:
  "collectCandidatesAverage f2 polls s pids tot = Ok (Inl e) \<Longrightarrow>
     plain_error e \<or> (\<exists>c \<in> poll_errors polls. e = CtxErr c)"
  unfolding collectCandidatesAverage_def go_bind_sum
  by (auto simp: go_simps dest: plain_errors dest!: plain_collect_candidates)

lemma top_reported:
  "ctx_reported (GetTopProcesses srt lookup f1 f2 w polls el s limit sortBy) \<subseteq> wake_errors w \<union> poll_errors polls"
proof
  fix c assume "c \<in> ctx_reported (GetTopProcesses srt lookup f1 f2 w polls el s limit sortBy)"
  then obtain x where "getTopProcesses srt lookup f1 f2 w polls el s limit sortBy = Ok (x, Some (CtxErr c))"
    by (auto simp: GetTopProcesses_def ctx_reported_iff)
  then show "c \<in> wake_errors w \<union> poll_errors polls"
    by (auto simp: getTopProcesses_def go_bind_sum dest!: plain_errors instant_reported average_reported
        split: option.splits sum.splits if_splits) (auto simp: go_simps)
qed

lemma sum_to_pair_eq:
  "(case r of Inl e \<Rightarrow> Ok ([], Some e) | Inr out \<Rightarrow> Ok (out, None)) = Ok (x, Some e) \<longleftrightarrow> r = Inl e \<and> x = []"
  by (cases r) auto

lemma collect_from_reported:
  "collect_from f1 f2 w ctx el now s u b cs refs = Ok (x, Some (CtxErr c)) \<Longrightarrow> c \<in> wake_errors w \<union> layer_errors ctx"
  by (cases w) (auto simp: collect_from_def sleepCtx_def go_simps sum_to_pair_eq dest!: read_all_reported)

lemma collectContainers_reported:
  "collectContainers request f1 f2 w ctx el now s u k single = Ok (x, Some (CtxErr c)) \<Longrightarrow>
   c \<in> wake_errors w \<union> layer_errors ctx"
  by (auto simp: collectContainers_def Let_def not_supported_def no_cgroup_def dest!: plain_errors
      dest: collect_from_reported split: option.splits if_splits sum.splits)

lemma containers_reported:
  "ctx_reported (GetContainers request f1 f2 w ctx el now s u) \<subseteq> wake_errors w \<union> layer_errors ctx"
  "ctx_reported (GetContainer request f1 f2 w ctx el now s u k) \<subseteq> wake_errors w \<union> layer_errors ctx"
  by (auto simp: GetContainers_def GetContainer_def getContainers_def getContainer_def ctx_reported_iff go_simps
      dest!: collectContainers_reported split: option.splits if_splits)

lemma plain_getOperatingSystem [plain_errors]: "getOperatingSystem f s x = (y, Some e) \<Longrightarrow> plain_error e"
  by (auto simp: getOperatingSystem_def FindFileWithNameLike_def split: sum.splits option.splits if_splits)

lemma plain_processSystemBootTimes [plain_errors]:
  "processSystemBootTimes oor f now s x = (y, Some e) \<Longrightarrow> plain_error e"
  by (auto simp: processSystemBootTimes_def Let_def split: prod.splits option.splits if_splits)

lemma system_reported: "ctx_reported (GetSystem oor launch environ ctx f now_ns s) = {}"
  by (auto simp: GetSystem_def getSystem_def withRecover_def ctx_reported_def Let_def dest!: plain_errors
      split: prod.splits option.splits if_splits)

text \<open>Interrupted waits.\<close>

lemma withRecover_nothing:
  assumes "\<And>x err. m = Ok (x, err) \<Longrightarrow> x = z \<and> err \<noteq> None"
  shows "fst (withRecover z m) = z \<and> snd (withRecover z m) \<noteq> None"
proof (cases m)
  case (Ok r)
  with assms [of "fst r" "snd r"] show ?thesis by (simp add: withRecover_def)
qed (simp add: withRecover_def)

lemma cpu_interrupted:
  "fst (GetCPU oor f1 f2 (CtxDone e) el now s) = CPU_zero \<and> snd (GetCPU oor f1 f2 (CtxDone e) el now s) \<noteq> None"
  unfolding GetCPU_def
  by (rule withRecover_nothing) (auto simp: getCPU_def sleepCtx_def go_simps split: sum.splits)

lemma collectContainers_interrupted:
  "collectContainers request f1 f2 (CtxDone e) lctx el now s u k single = Ok (cs, err) \<Longrightarrow> cs = [] \<and> err \<noteq> None"
  by (auto simp: collectContainers_def collect_from_def Let_def sleepCtx_def go_simps
      split: option.splits if_splits sum.splits)

lemma containers_interrupted:
  "fst (GetContainers request f1 f2 (CtxDone e) lctx el now s u) = [] \<and>
   snd (GetContainers request f1 f2 (CtxDone e) lctx el now s u) \<noteq> None"
  "fst (GetContainer request f1 f2 (CtxDone e) lctx el now s u k) = Container_zero \<and>
   snd (GetContainer request f1 f2 (CtxDone e) lctx el now s u k) \<noteq> None"
  unfolding GetContainers_def GetContainer_def
  by (rule withRecover_nothing;
      auto simp: getContainers_def getContainer_def go_simps dest!: collectContainers_interrupted)+

lemma getTopProcesses_interrupted:
  assumes "ProcessCPUMode s \<noteq> CPUUsageAverage"
    and "getTopProcesses srt lookup f1 f2 (CtxDone e) polls el s limit sortBy = Ok (ps, err)"
  shows "ps = [] \<and> err \<noteq> None"
  using assms by (cases "validateSortBy sortBy"; cases "listPids f1 (ProcPath s)")
    (auto simp: getTopProcesses_def collectCandidatesInstant_def sleepCtx_def go_bind_sum,
      auto simp: go_simps, metis+)

lemma process_interrupted:
  assumes "ProcessCPUMode s \<noteq> CPUUsageAverage"
  shows "fst (GetProcess lookup f1 f2 (CtxDone e) el s pid) = Process_zero \<and>
      snd (GetProcess lookup f1 f2 (CtxDone e) el s pid) \<noteq> None"
    and "fst (GetTopProcesses srt lookup f1 f2 (CtxDone e) polls el s limit sortBy) = [] \<and>
      snd (GetTopProcesses srt lookup f1 f2 (CtxDone e) polls el s limit sortBy) \<noteq> None"
proof -
  show "fst (GetProcess lookup f1 f2 (CtxDone e) el s pid) = Process_zero \<and>
      snd (GetProcess lookup f1 f2 (CtxDone e) el s pid) \<noteq> None"
    unfolding GetProcess_def using assms
    by (intro withRecover_nothing) (auto simp: getProcess_def process_cpu_def sleepCtx_def go_bind_sum)
  show "fst (GetTopProcesses srt lookup f1 f2 (CtxDone e) polls el s limit sortBy) = [] \<and>
      snd (GetTopProcesses srt lookup f1 f2 (CtxDone e) polls el s limit sortBy) \<noteq> None"
    unfolding GetTopProcesses_def
    by (rule withRecover_nothing) (rule getTopProcesses_interrupted [OF assms])
qed

text \<open>
  The result of an interrupted call beside the one without the interruption: either the context's own
  error, or nothing came of the interruption because the call never got to wait.
\<close>

definition cut_short :: "ctx_error \<Rightarrow> 'a \<times> error option \<Rightarrow> 'a \<times> error option \<Rightarrow> bool" where
  "cut_short e r r' \<longleftrightarrow> snd r = Some (CtxErr e) \<or> r = r'"

definition cut_go :: "error \<Rightarrow> ('a \<times> error option) go \<Rightarrow> ('a \<times> error option) go \<Rightarrow> bool" where
  "cut_go e m m' \<longleftrightarrow> (\<exists>x. m = Ok (x, Some e)) \<or> m = m'"

lemma cut_go_refl [simp]: "cut_go e m m"
  by (simp add: cut_go_def)

lemma cut_go_err [simp]: "cut_go e (Ok (x, Some e)) m"
  by (simp add: cut_go_def)

lemma cut_go_bind: "(\<And>x. cut_go e (f x) (g x)) \<Longrightarrow> cut_go e (go_bind m f) (go_bind m g)"
  by (cases m) simp_all

lemma cut_short_recover: "cut_go (CtxErr e) m m' \<Longrightarrow> cut_short e (withRecover z m) (withRecover z m')"
  by (auto simp: cut_go_def cut_short_def withRecover_def)

lemma cut_cpu: "cut_short e (GetCPU oor f1 f2 (CtxDone e) el now s) (GetCPU oor f1 f2 TimerFired el now s)"
  unfolding GetCPU_def getCPU_def
  by (rule cut_short_recover) (auto simp: sleepCtx_def intro!: cut_go_bind split: sum.split)

lemma process_cpu_cut:
  "process_cpu f1 f2 (CtxDone e) el s pid = Ok (Inl (CtxErr e)) \<or>
   process_cpu f1 f2 (CtxDone e) el s pid = process_cpu f1 f2 TimerFired el s pid"
  by (cases "readProcStat f1 (ProcPath s) pid") (auto simp: process_cpu_def sleepCtx_def split: sum.split)

lemma cut_process:
  "cut_short e (GetProcess lookup f1 f2 (CtxDone e) el s pid) (GetProcess lookup f1 f2 TimerFired el s pid)"
  unfolding GetProcess_def getProcess_def
  using process_cpu_cut [of f1 f2 e el s pid]
  by (intro cut_short_recover cut_go_bind) (auto split: sum.split)

lemma instant_cut:
  "(\<exists>p. collectCandidatesInstant f1 f2 (CtxDone e) polls el s pids tot = Panic p \<and>
      collectCandidatesInstant f1 f2 TimerFired polls el s pids tot = Panic p) \<or>
   collectCandidatesInstant f1 f2 (CtxDone e) polls el s pids tot = Ok (Inl (CtxErr e))"
  by (cases "sampleProcStats f1 (ProcPath s) pids") (auto simp: collectCandidatesInstant_def sleepCtx_def)

lemma cut_top:
  "cut_short e (GetTopProcesses srt lookup f1 f2 (CtxDone e) polls el s limit sortBy)
     (GetTopProcesses srt lookup f1 f2 TimerFired polls el s limit sortBy)"
proof (cases "ProcessCPUMode s = CPUUsageAverage")
  case True
  then show ?thesis by (simp add: GetTopProcesses_def getTopProcesses_def cut_short_def cong: option.case_cong sum.case_cong)
next
  case False
  have "cut_go (CtxErr e)
      (go_bind (collectCandidatesInstant f1 f2 (CtxDone e) polls el s pids tot) (case_sum (\<lambda>e. Ok ([], Some e)) h))
      (go_bind (collectCandidatesInstant f1 f2 TimerFired polls el s pids tot) (case_sum (\<lambda>e. Ok ([], Some e)) h))"
    for pids tot and h :: "procCandidate list \<Rightarrow> (Process list \<times> error option) go"
    using instant_cut [of f1 f2 e polls el s pids tot] by auto
  with False show ?thesis
    unfolding GetTopProcesses_def getTopProcesses_def
    by (intro cut_short_recover) (auto intro!: cut_go_bind split: option.split sum.split)
qed

lemma collectContainers_cut:
  "cut_go (CtxErr e) (collectContainers request f1 f2 (CtxDone e) lctx el now s u k single)
     (collectContainers request f1 f2 TimerFired lctx el now s u k single)"
  by (auto simp: collectContainers_def collect_from_def sleepCtx_def Let_def intro!: cut_go_bind
      split: option.split sum.split)

lemma cut_containers:
  "cut_short e (GetContainers request f1 f2 (CtxDone e) lctx el now s u)
     (GetContainers request f1 f2 TimerFired lctx el now s u)"
  "cut_short e (GetContainer request f1 f2 (CtxDone e) lctx el now s u k)
     (GetContainer request f1 f2 TimerFired lctx el now s u k)"
  unfolding GetContainers_def GetContainer_def getContainers_def getContainer_def
  using collectContainers_cut [of e request f1 f2 lctx el now s u "[]" False]
    collectContainers_cut [of e request f1 f2 lctx el now s u k True]
  by - (rule cut_short_recover, assumption, rule cut_short_recover, auto simp: cut_go_def)

lemma service_reported:
  "ctx_reported (IsServiceRunningWithContext launch environ deadline ctxErr service) \<subseteq> {e. ctxErr = Some e}"
  by (auto simp: ctx_reported_def IsServiceRunningWithContext_def isServiceRunning_def status_unknown_def
      split: prod.splits if_splits option.splits)

lemma connect_reported:
  "ctx_reported (CanConnectExternalWithContext newRequest send url) \<subseteq>
     {e. newRequest url = Some (CtxErr e) \<or> send url = Some (CtxErr e)}"
  by (auto simp: ctx_reported_def CanConnectExternalWithContext_def canConnect_def withRecover_def
      split: option.splits)

section \<open>Properties\<close>

text \<open>
  C14: the context errors of the seven methods that take a context and return an error. A CPU, process,
  container or service call reports no context error but the caller's own: that of the wait it
  interrupted, of a poll of the context, of the walk of a container's layer, or of the context after
  both service tools failed; a system call reports none; and the connectivity check reports one only
  where the HTTP client returned it, which may be the client's own timeout. Without a context, the CPU,
  process, container and system calls never report one. And an interrupted wait makes a call report
  exactly the context's error, unless the call ends as it would without the interruption.
\<close>

theorem context_errors_from_context:
  "ctx_reported (GetCPU oor f1 f2 w el now s) \<subseteq> wake_errors w
   \<and> ctx_reported (GetProcess lookup f1 f2 w el s pid) \<subseteq> wake_errors w
   \<and> ctx_reported (GetTopProcesses srt lookup f1 f2 w polls el s limit sortBy) \<subseteq> wake_errors w \<union> poll_errors polls
   \<and> ctx_reported (GetContainers request f1 f2 w lctx el now s u) \<subseteq> wake_errors w \<union> layer_errors lctx
   \<and> ctx_reported (GetContainer request f1 f2 w lctx el now s u k) \<subseteq> wake_errors w \<union> layer_errors lctx
   \<and> ctx_reported (IsServiceRunningWithContext launch environ deadline ctxErr service) \<subseteq> {e. ctxErr = Some e}
   \<and> ctx_reported (CanConnectExternalWithContext newRequest send url) \<subseteq>
       {e. newRequest url = Some (CtxErr e) \<or> send url = Some (CtxErr e)}
   \<and> ctx_reported (GetSystem oor launch environ deadline f1 now s) = {}
   \<and> ctx_reported (GetCPU_background oor f1 f2 el now s) = {}
   \<and> ctx_reported (GetProcess_background lookup f1 f2 el s pid) = {}
   \<and> ctx_reported (GetTopProcesses_background srt lookup f1 f2 el s limit sortBy) = {}
   \<and> ctx_reported (GetContainers_background request f1 f2 el now s u) = {}
   \<and> ctx_reported (GetContainer_background request f1 f2 el now s u k) = {}
   \<and> ctx_reported (GetSystem_background oor launch environ f1 now s) = {}
   \<and> cut_short e (GetCPU oor f1 f2 (CtxDone e) el now s) (GetCPU oor f1 f2 TimerFired el now s)
   \<and> cut_short e (GetProcess lookup f1 f2 (CtxDone e) el s pid) (GetProcess lookup f1 f2 TimerFired el s pid)
   \<and> cut_short e (GetTopProcesses srt lookup f1 f2 (CtxDone e) polls el s limit sortBy)
       (GetTopProcesses srt lookup f1 f2 TimerFired polls el s limit sortBy)
   \<and> cut_short e (GetContainers request f1 f2 (CtxDone e) lctx el now s u)
       (GetContainers request f1 f2 TimerFired lctx el now s u)
   \<and> cut_short e (GetContainer request f1 f2 (CtxDone e) lctx el now s u k)
       (GetContainer request f1 f2 TimerFired lctx el now s u k)"
proof -
  have "poll_errors (\<lambda>_. None) = {}" "layer_errors layer_background = {}"
    by (simp_all add: poll_errors_def layer_errors_def layer_background_def)
  then show ?thesis
    using cpu_reported [of oor f1 f2 w el now s] process_reported [of lookup f1 f2 w el s pid]
      top_reported [of srt lookup f1 f2 w polls el s limit sortBy]
      containers_reported [of request f1 f2 w lctx el now s u] system_reported service_reported connect_reported
      cpu_reported [of oor f1 f2 TimerFired el now s] process_reported [of lookup f1 f2 TimerFired el s pid]
      top_reported [of srt lookup f1 f2 TimerFired "\<lambda>_. None" el s limit sortBy]
      containers_reported [of request f1 f2 TimerFired layer_background el now s u]
      cut_cpu cut_process cut_top cut_containers
    by (simp add: GetCPU_background_def GetProcess_background_def GetTopProcesses_background_def
        GetContainers_background_def GetContainer_background_def GetSystem_background_def)
qed

text \<open>
  C11: a call whose wait the context interrupts returns an error and no figure at all, whatever the files
  hold: no half-measured CPU, process or container ever reaches a caller that gave up. The process
  calls do not wait in the average mode.
\<close>

theorem interrupted_calls_return_nothing:
  "(fst (GetCPU oor f1 f2 (CtxDone e) el now s) = CPU_zero \<and> snd (GetCPU oor f1 f2 (CtxDone e) el now s) \<noteq> None)
   \<and> (fst (GetContainers request f1 f2 (CtxDone e) lctx el now s u) = [] \<and>
      snd (GetContainers request f1 f2 (CtxDone e) lctx el now s u) \<noteq> None)
   \<and> (fst (GetContainer request f1 f2 (CtxDone e) lctx el now s u k) = Container_zero \<and>
      snd (GetContainer request f1 f2 (CtxDone e) lctx el now s u k) \<noteq> None)
   \<and> (ProcessCPUMode s = CPUUsageAverage \<or>
      fst (GetProcess lookup f1 f2 (CtxDone e) el s pid) = Process_zero \<and>
      snd (GetProcess lookup f1 f2 (CtxDone e) el s pid) \<noteq> None \<and>
      fst (GetTopProcesses srt lookup f1 f2 (CtxDone e) polls el s limit sortBy) = [] \<and>
      snd (GetTopProcesses srt lookup f1 f2 (CtxDone e) polls el s limit sortBy) \<noteq> None)"
  using cpu_interrupted [of oor f1 f2 e el now s] containers_interrupted(1) [of request f1 f2 e lctx el now s u]
    containers_interrupted(2) [of request f1 f2 e lctx el now s u k]
    process_interrupted(1) [of s lookup f1 f2 e el pid] process_interrupted(2) [of s srt lookup f1 f2 e polls el limit sortBy]
  by (cases "ProcessCPUMode s = CPUUsageAverage"; simp)

end
