(* ===== verification/NetProto.thy ===== *)
theory NetProto
  imports Config
begin

text \<open>
  \<open>netproto.go\<close>: the per-protocol counters of \<open>/proc/net/snmp\<close> and \<open>/proc/net/netstat\<close>, paired
  header line by value line.
\<close>

type_synonym counters = "string \<rightharpoonup> int"
type_synonym protocols = "string \<rightharpoonup> counters"

record ProtocolStats =
  pst_Protocols :: protocols
  pst_Time :: int

text \<open>\<open>Value\<close>; \<open>None\<close> is \<open>(0, false)\<close>.\<close>

definition Value :: "ProtocolStats \<Rightarrow> string \<Rightarrow> string \<Rightarrow> int option" where
  "Value p protocol counter = (case pst_Protocols p protocol of
     None \<Rightarrow> None | Some counters \<Rightarrow> counters counter)"

section \<open>Parsing\<close>

text \<open>The innermost loop: the columns of a pair, up to the shorter of the two lines; a column that is
  not a signed integer is skipped.\<close>

definition set_counter :: "counters \<Rightarrow> string \<times> string \<Rightarrow> counters" where
  "set_counter c col = (case col of (name, word) \<Rightarrow>
    (case parse_i64 word of Some v \<Rightarrow> c(name \<mapsto> v) | None \<Rightarrow> c))"

definition pair_counters :: "counters \<Rightarrow> string list \<Rightarrow> string list \<Rightarrow> counters" where
  "pair_counters c header cols = foldl set_counter c (zip header cols)"

text \<open>The loop's state: the map being filled, the pending protocol and its header.\<close>

type_synonym snmp_state = "protocols \<times> string \<times> string list"

definition snmp_fields :: "snmp_state \<Rightarrow> string \<Rightarrow> string list \<Rightarrow> snmp_state" where
  "snmp_fields st proto cols = (case st of (into, pendingProto, pendingHeader) \<Rightarrow>
    if pendingProto = proto then
      (let counters = (case into proto of None \<Rightarrow> Map.empty | Some c \<Rightarrow> c) in
       (into(proto \<mapsto> pair_counters counters pendingHeader cols), [], []))
    else (into, proto, cols))"

definition snmp_line :: "snmp_state \<Rightarrow> string \<Rightarrow> snmp_state" where
  "snmp_line st line =
    (let fields = Fields line in
     if length fields < 2 \<or> \<not> HasSuffix (fields ! 0) '':'' then st
     else snmp_fields st (TrimSuffix (fields ! 0) '':'') (tl fields))"

definition parseProcNetSNMP :: "string \<Rightarrow> protocols \<Rightarrow> protocols" where
  "parseProcNetSNMP content into = fst (foldl snmp_line (into, [], []) (lines content))"

definition protocol_file :: "fs \<Rightarrow> protocols \<Rightarrow> string \<Rightarrow> protocols" where
  "protocol_file f into path = (case ReadFileWithError f path of
     Inl e \<Rightarrow> into | Inr content \<Rightarrow> parseProcNetSNMP content into)"

definition getProtocolStats :: "fs \<Rightarrow> int \<Rightarrow> SyStats \<Rightarrow> ProtocolStats \<times> error option" where
  "getProtocolStats f now systats = (\<lparr>pst_Protocols =
     foldl (protocol_file f) Map.empty [NetSNMPPath systats, NetNetstatPath systats],
     pst_Time = now\<rparr>, None)"

definition GetProtocolStats :: "fs \<Rightarrow> int \<Rightarrow> SyStats \<Rightarrow> ProtocolStats \<times> error option" where
  "GetProtocolStats f now systats =
    withRecover \<lparr>pst_Protocols = Map.empty, pst_Time = 0\<rparr> (Ok (getProtocolStats f now systats))"

section \<open>Torn files\<close>

text \<open>
  A block of the file: a protocol's header line, and its value line unless the read was torn. The
  reference meaning of a sequence of blocks looks at one block at a time.
\<close>

type_synonym snmp_block = "string \<times> string list \<times> string list option"

fun snmp_block_lines :: "snmp_block \<Rightarrow> string list" where
  "snmp_block_lines (p, header, vals) = join_with CHR 0x20 ((p @ '':'') # header) #
     (case vals of None \<Rightarrow> [] | Some vs \<Rightarrow> [join_with CHR 0x20 ((p @ '':'') # vs)])"

definition words_ok :: "string list \<Rightarrow> bool" where
  "words_ok ws \<longleftrightarrow> ws \<noteq> [] \<and> list_all (\<lambda>w. plain w \<and> w \<noteq> []) ws"

fun snmp_block_ok :: "snmp_block \<Rightarrow> bool" where
  "snmp_block_ok (p, header, vals) \<longleftrightarrow> plain p \<and> p \<noteq> [] \<and> words_ok header
     \<and> (case vals of None \<Rightarrow> True | Some vs \<Rightarrow> words_ok vs)"

text \<open>No torn block is followed by a block of the same protocol.\<close>

fun snmp_blocks_ok :: "snmp_block list \<Rightarrow> bool" where
  "snmp_blocks_ok [] = True"
| "snmp_blocks_ok [b] = snmp_block_ok b"
| "snmp_blocks_ok (b # c # bs) \<longleftrightarrow> snmp_block_ok b \<and> (snd (snd b) = None \<longrightarrow> fst b \<noteq> fst c) \<and> snmp_blocks_ok (c # bs)"

fun snmp_block_effect :: "protocols \<Rightarrow> snmp_block \<Rightarrow> protocols" where
  "snmp_block_effect into (p, header, None) = into"
| "snmp_block_effect into (p, header, Some vs) =
     into(p \<mapsto> pair_counters (case into p of None \<Rightarrow> Map.empty | Some c \<Rightarrow> c) header vs)"

definition snmp_file :: "snmp_block list \<Rightarrow> string" where
  "snmp_file bs = join_with CHR 0x0A (concat (map snmp_block_lines bs))"

lemma snmp_line_words:
  assumes "plain p" and "words_ok ws"
  shows "snmp_line st (join_with CHR 0x20 ((p @ '':'') # ws)) = snmp_fields st p ws"
proof -
  have "Fields (join_with CHR 0x20 ((p @ '':'') # ws)) = (p @ '':'') # ws"
    using assms by (intro Fields_join) (simp_all add: words_ok_def plain_eval)
  then show ?thesis using assms(2) by (cases ws) (simp_all add: snmp_line_def words_ok_def)
qed

text \<open>One block, from a state whose pending protocol is another one.\<close>

lemma snmp_block:
  assumes "snmp_block_ok b" and "q \<noteq> fst b"
  shows "foldl snmp_line (into, q, h) (snmp_block_lines b) =
    (case snd (snd b) of None \<Rightarrow> (into, fst b, fst (snd b)) | Some vs \<Rightarrow> (snmp_block_effect into b, [], []))"
proof -
  obtain p header vals where b: "b = (p, header, vals)" by (metis prod_cases3)
  with assms show ?thesis
    by (cases vals) (simp_all add: snmp_line_words snmp_fields_def)
qed

lemma snmp_blocks:
  assumes "snmp_blocks_ok bs" and "bs \<noteq> [] \<Longrightarrow> q \<noteq> fst (hd bs)"
  shows "fst (foldl snmp_line (into, q, h) (concat (map snmp_block_lines bs))) = foldl snmp_block_effect into bs"
  using assms
proof (induction bs arbitrary: into q h rule: snmp_blocks_ok.induct)
  case (2 b)
  moreover have "snmp_block_effect into b = into" if "snd (snd b) = None"
    using that by (cases b) simp
  ultimately show ?case using snmp_block [of b q into h] by (simp split: option.splits)
next
  case (3 b c bs)
  have b: "snmp_block_ok b" "snmp_blocks_ok (c # bs)" "q \<noteq> fst b" "snd (snd b) = None \<Longrightarrow> fst b \<noteq> fst c"
    using "3.prems" by auto
  have c: "fst c \<noteq> []" using b(2) by (cases c; cases bs) simp_all
  show ?case
  proof (cases "snd (snd b)")
    case None
    then have "snmp_block_effect into b = into" by (cases b) simp
    with None show ?thesis
      using "3.IH" [of "fst b" into "fst (snd b)"] b by (simp add: snmp_block)
  next
    case (Some vs)
    then show ?thesis using "3.IH" [of "[]" "snmp_block_effect into b" "[]"] b c by (simp add: snmp_block)
  qed
qed simp

lemma snmp_block_no_newline:
  assumes "snmp_block_ok b" and "l \<in> set (snmp_block_lines b)"
  shows "CHR 0x0A \<notin> set l"
proof -
  obtain p header vals where b: "b = (p, header, vals)" by (metis prod_cases3)
  have j: "CHR 0x0A \<notin> set (join_with CHR 0x20 ((p @ '':'') # ws))" if "words_ok ws" for ws
  proof -
    have "\<forall>w \<in> set ((p @ '':'') # ws). CHR 0x0A \<notin> set w"
      using assms(1) that b plain_no_space [of _ "CHR 0x0A"] by (auto simp: words_ok_def list_all_iff)
    then show ?thesis using join_with_set [of "CHR 0x20" "(p @ '':'') # ws"] by fastforce
  qed
  show ?thesis using assms b j by (auto split: option.splits)
qed

section \<open>Properties\<close>



end
