(* ===== verification/Report.thy ===== *)
theory Report
  imports Frontends Api NetProto
begin

text \<open>
  \<open>build_test/main.go\<close>: the report of all the calls, section by section and check by check, with the
  configuration that the run switches between them. Profiling, flags, the file and its template are
  left to Go.
\<close>

section \<open>Rows\<close>

record report_section =
  rs_Name :: string
  rs_OK :: bool
  rs_Error :: string
  rs_JSON :: string
  rs_Duration :: string

record report_check =
  rc_Name :: string
  rc_Value :: string
  rc_Duration :: string

text \<open>\<open>marshal\<close> is \<open>json.MarshalIndent\<close>, \<open>Inl\<close> the text of its error; \<open>err\<close> the text of the call's.\<close>

definition buildSection :: "('a \<Rightarrow> string + string) \<Rightarrow> string \<Rightarrow> 'a \<Rightarrow> string option \<Rightarrow> int \<Rightarrow> report_section" where
  "buildSection marshal name val err duration =
    (let s = \<lparr>rs_Name = name, rs_OK = False, rs_Error = [], rs_JSON = [],
           rs_Duration = Duration_String duration\<rparr> in
     case err of
       Some e \<Rightarrow> s\<lparr>rs_Error := e\<rparr>
     | None \<Rightarrow> (case marshal val of
         Inl e \<Rightarrow> s\<lparr>rs_Error := e\<rparr>
       | Inr b \<Rightarrow> s\<lparr>rs_OK := True, rs_JSON := b\<rparr>))"

definition timedCheck :: "string \<Rightarrow> string \<Rightarrow> int \<Rightarrow> report_check" where
  "timedCheck name val duration =
    \<lparr>rc_Name = name, rc_Value = val, rc_Duration = Duration_String duration\<rparr>"

text \<open>\<open>strings.Join\<close>.\<close>

fun Join :: "string \<Rightarrow> string list \<Rightarrow> string" where
  "Join sep [] = []"
| "Join sep [x] = x"
| "Join sep (x # y # xs) = x @ sep @ Join sep (y # xs)"

text \<open>The total memory in each unit; \<open>get\<close> is the call of \<open>GetMemory\<close>.\<close>

definition unit_totals :: "(error \<Rightarrow> string) \<Rightarrow> (unit_name \<Rightarrow> Memory \<times> error option) \<Rightarrow> string" where
  "unit_totals errText get = Join ''  /  '' (map (\<lambda>u. case get u of
       (m, Some e) \<Rightarrow> ''ERR('' @ u @ ''): '' @ errText e
     | (m, None) \<Rightarrow> FormatFixed 2 (mem_Total m) @ '' '' @ mem_Unit m)
     [Byte, Kilobyte, Megabyte, Gigabyte])"

definition hottest_sensor :: "Temperature list \<Rightarrow> Temperature \<Rightarrow> Temperature" where
  "hottest_sensor temps first =
    foldl (\<lambda>h t. if f64_less (tp_Celsius h) (tp_Celsius t) then t else h) first temps"

definition sensors_check :: "(error \<Rightarrow> string) \<Rightarrow> Temperature list \<times> error option \<Rightarrow> string" where
  "sensors_check errText r = (case r of
       (temps, Some e) \<Rightarrow> ''error: '' @ errText e
     | ([], None) \<Rightarrow> ''0 (no hwmon chips - normal in a VM or container)''
     | (t # ts, None) \<Rightarrow>
         (let h = hottest_sensor (t # ts) t in
          Itoa (int (length (t # ts))) @ '' (hottest: '' @ tp_Name h @ ''/'' @ tp_Label h @ '' at '' @
            FormatFixed 1 (tp_Celsius h) @ '' C)''))"

definition pressure_check :: "(error \<Rightarrow> string) \<Rightarrow> Pressure \<times> error option \<Rightarrow> string" where
  "pressure_check errText r = (case r of
       (p, Some e) \<Rightarrow> ''error: '' @ errText e
     | (p, None) \<Rightarrow>
         (if \<not> pr_Available p then ''false (kernel has no /proc/pressure - needs 4.20+ with CONFIG_PSI=y)''
          else ''true (cpu some avg10='' @ FormatFixed 2 (psi_Avg10 (rp_Some (pr_CPU p))) @
            '', memory some avg10='' @ FormatFixed 2 (psi_Avg10 (rp_Some (pr_Memory p))) @
            '', io some avg10='' @ FormatFixed 2 (psi_Avg10 (rp_Some (pr_IO p))) @ '')''))"

section \<open>The calls\<close>

text \<open>The values \<open>any\<close> holds here.\<close>

datatype any = AnySystem System | AnyCPU CPU | AnyMemory Memory | AnySwap Swap | AnyDisks "Disk list"
  | AnyDiskIO "DiskIO list" | AnyNetworks "Network list" | AnyTCP TCPStates
  | AnyProtocols ProtocolStats | AnyPressure Pressure | AnyTemps "Temperature list"
  | AnyContainers "Container list" | AnyProcesses "Process list" | AnyProcess Process

text \<open>
  What each call meets and how long it took; a call is known by the name of its row. \<open>rv_json\<close> is
  \<open>json.MarshalIndent\<close>.
\<close>

record report_env =
  rv_f1 :: "string \<Rightarrow> fs"
  rv_f2 :: "string \<Rightarrow> fs"
  rv_wake :: "string \<Rightarrow> wake"
  rv_polls :: "string \<Rightarrow> nat \<Rightarrow> ctx_error option"
  rv_elapsed :: "string \<Rightarrow> f64"
  rv_now_ns :: "string \<Rightarrow> int"
  rv_took :: "string \<Rightarrow> int"
  rv_oor :: "f64 \<Rightarrow> int"
  rv_launch :: "string \<Rightarrow> launcher"
  rv_environ :: "string list"
  rv_lookup :: "string \<Rightarrow> string option"
  rv_ifaces :: "net_iface list option"
  rv_request :: api_request
  rv_temps :: "Temperature sorter"
  rv_procs :: "procCandidate sorter"
  rv_dial :: "string \<Rightarrow> bool"
  rv_newRequest :: "string \<Rightarrow> error option"
  rv_send :: "string \<Rightarrow> error option"
  rv_pid :: int
  rv_json :: "any \<Rightarrow> string + string"
  rv_errText :: "error \<Rightarrow> string"

definition rv_now :: "report_env \<Rightarrow> string \<Rightarrow> int" where
  "rv_now en k = rv_now_ns en k div 1000000000"

record report =
  rp_GeneratedAt :: string
  rp_Hostname :: string
  rp_GOOS :: string
  rp_Sections :: "report_section list"
  rp_Checks :: "report_check list"

definition add_section :: "report_section \<Rightarrow> report \<Rightarrow> report" where
  "add_section s d = d\<lparr>rp_Sections := rp_Sections d @ [s]\<rparr>"

definition add_check :: "report_check \<Rightarrow> report \<Rightarrow> report" where
  "add_check c d = d\<lparr>rp_Checks := rp_Checks d @ [c]\<rparr>"

text \<open>\<open>timedCollect\<close>, with the result of the call.\<close>

definition timedCollect :: "report_env \<Rightarrow> string \<Rightarrow> any \<times> error option \<Rightarrow> report_section" where
  "timedCollect en name r =
    buildSection (rv_json en) name (fst r) (map_option (rv_errText en) (snd r)) (rv_took en name)"

definition sec :: "report_env \<Rightarrow> string \<Rightarrow> ('a \<Rightarrow> any) \<Rightarrow> 'a \<times> error option \<Rightarrow> report \<Rightarrow> report" where
  "sec en name wrap r = add_section (timedCollect en name (map_prod wrap id r))"

definition chk :: "report_env \<Rightarrow> string \<Rightarrow> string \<Rightarrow> report \<Rightarrow> report" where
  "chk en name val = add_check (timedCheck name val (rv_took en name))"

section \<open>The host-wide part\<close>

definition call_cpu :: "report_env \<Rightarrow> string \<Rightarrow> SyStats \<Rightarrow> CPU \<times> error option" where
  "call_cpu en k s = GetCPU_background (rv_oor en) (rv_f1 en k) (rv_f2 en k) (rv_elapsed en k) (rv_now en k) s"

definition call_memory :: "report_env \<Rightarrow> string \<Rightarrow> unit_name \<Rightarrow> SyStats \<Rightarrow> Memory \<times> error option" where
  "call_memory en k u s = GetMemory (rv_f1 en k) (rv_now en k) s u"

definition call_containers :: "report_env \<Rightarrow> string \<Rightarrow> SyStats \<Rightarrow> Container list \<times> error option" where
  "call_containers en k s = GetContainers_background (rv_request en) (rv_f1 en k) (rv_f2 en k)
     (rv_elapsed en k) (rv_now en k) s Megabyte"

definition report_cpu :: "report_env \<Rightarrow> SyStats \<Rightarrow> report \<Rightarrow> report" where
  "report_cpu en s d =
    (let r = call_cpu en ''GetCPU'' s; d = sec en ''GetCPU'' AnyCPU r d in
     if snd r = None then
       add_check \<lparr>rc_Name = ''CPU load average (1m / 5m / 15m)'',
         rc_Value = FormatFixed 2 (cpu_Load1 (fst r)) @ '' / '' @ FormatFixed 2 (cpu_Load5 (fst r)) @
           '' / '' @ FormatFixed 2 (cpu_Load15 (fst r)),
         rc_Duration = Duration_String (rv_took en ''GetCPU'')\<rparr> d
     else d)"

definition unit_total_key :: string where
  "unit_total_key = ''Memory total (B / KB / MB / GB)''"

definition report_memory :: "report_env \<Rightarrow> SyStats \<Rightarrow> report \<Rightarrow> report" where
  "report_memory en s d =
    (let d = sec en ''GetMemory'' AnyMemory (call_memory en ''GetMemory'' Megabyte s) d;
         d = sec en ''GetSwap'' AnySwap (GetSwap (rv_f1 en ''GetSwap'') (rv_now en ''GetSwap'') s Megabyte) d in
     chk en unit_total_key
       (unit_totals (rv_errText en) (\<lambda>u. call_memory en (unit_total_key @ u) u s)) d)"

definition report_devices :: "report_env \<Rightarrow> SyStats \<Rightarrow> report \<Rightarrow> report" where
  "report_devices en s d =
    (let now = rv_now en; f = rv_f1 en;
         d = sec en ''GetDisks'' AnyDisks (GetDisks (rv_oor en) (f ''GetDisks'') (now ''GetDisks'') s) d;
         d = sec en ''GetDiskIO'' AnyDiskIO (GetDiskIO (f ''GetDiskIO'') (now ''GetDiskIO'') s) d;
         d = sec en ''GetNetworks'' AnyNetworks
           (GetNetworks (f ''GetNetworks'') (rv_ifaces en) (now ''GetNetworks'') s) d;
         d = sec en ''GetTCPConnectionStates'' AnyTCP
           (GetTCPConnectionStates (f ''GetTCPConnectionStates'') (now ''GetTCPConnectionStates'') s) d;
         d = sec en ''GetProtocolStats'' AnyProtocols
           (GetProtocolStats (f ''GetProtocolStats'') (now ''GetProtocolStats'') s) d;
         d = sec en ''GetPressure'' AnyPressure (GetPressure (f ''GetPressure'') (now ''GetPressure'') s) d;
         d = sec en ''GetTemperatures'' AnyTemps
           (GetTemperatures (rv_temps en) (f ''GetTemperatures'') s) d;
         d = sec en ''GetContainers'' AnyContainers (call_containers en ''GetContainers'' s) d in
     sec en ''GetContainers(layer size)'' AnyContainers
       (call_containers en ''GetContainers(layer size)'' (s\<lparr>ContainerLayerSize := True\<rparr>)) d)"

definition report_sensors :: "report_env \<Rightarrow> SyStats \<Rightarrow> report \<Rightarrow> report" where
  "report_sensors en s d =
    (let d = chk en ''Temperature sensors found'' (sensors_check (rv_errText en)
           (GetTemperatures (rv_temps en) (rv_f1 en ''Temperature sensors found'') s)) d in
     chk en ''Pressure stall info available'' (pressure_check (rv_errText en)
       (GetPressure (rv_f1 en ''Pressure stall info available'')
         (rv_now en ''Pressure stall info available'') s)) d)"

section \<open>The container-aware part\<close>

definition bool_text :: "bool \<Rightarrow> string" where
  "bool_text b = (if b then ''true'' else ''false'')"

definition report_cgroup :: "report_env \<Rightarrow> CPU \<times> error option \<Rightarrow> int \<Rightarrow> SyStats \<Rightarrow> report \<Rightarrow> SyStats \<times> report" where
  "report_cgroup en cpuResult cpuDuration s d =
    (let s = s\<lparr>ContainerAware := True\<rparr>;
         kmem = ''GetMemory (container-aware)''; kcpu = ''GetCPU (container-aware)'';
         mem = call_memory en kmem Megabyte s;
         d = sec en kmem AnyMemory mem d;
         d = (if snd mem = None then add_check \<lparr>rc_Name = ''Memory cgroup limit detected'',
             rc_Value = bool_text (mem_Limited (fst mem)) @ '' (total: '' @ FormatFixed 2 (mem_Total (fst mem)) @
               '' '' @ mem_Unit (fst mem) @ '')'',
             rc_Duration = Duration_String (rv_took en kmem)\<rparr> d else d);
         cpu = call_cpu en kcpu s;
         d = sec en kcpu AnyCPU cpu d;
         d = (if snd cpu = None then add_check \<lparr>rc_Name = ''CPU cgroup quota detected'',
             rc_Value = bool_text (cpu_Limited (fst cpu)) @ '' (allocated cores: '' @
               FormatFixed 2 (cpu_AllocatedCores (fst cpu)) @ '')'',
             rc_Duration = Duration_String (rv_took en kcpu)\<rparr> d else d);
         d = (if snd cpuResult = None \<and> snd cpu = None then
             add_check \<lparr>rc_Name = ''CPU usage % (host-wide vs container-aware)'',
               rc_Value = Itoa (cpu_LoadAvg (fst cpuResult)) @ ''% vs '' @ Itoa (cpu_LoadAvg (fst cpu)) @ ''%'',
               rc_Duration = Duration_String (cpuDuration + rv_took en kcpu)\<rparr> d else d) in
     (s\<lparr>ContainerAware := False\<rparr>, d))"

section \<open>The processes\<close>

definition call_top :: "report_env \<Rightarrow> string \<Rightarrow> sort_order \<Rightarrow> SyStats \<Rightarrow> Process list \<times> error option" where
  "call_top en k sortBy s = GetTopProcesses_background (rv_procs en) (rv_lookup en) (rv_f1 en k)
     (rv_f2 en k) (rv_elapsed en k) s 5 sortBy"

definition top_section :: "report_env \<Rightarrow> string \<Rightarrow> sort_order \<Rightarrow> SyStats \<Rightarrow> report \<Rightarrow> report" where
  "top_section en k sortBy s = sec en k AnyProcesses (call_top en k sortBy s)"

definition bad_sort_key :: string where
  "bad_sort_key = ''GetTopProcesses rejects a bad sort order''"

definition bad_sort_check :: "report_env \<Rightarrow> SyStats \<Rightarrow> string" where
  "bad_sort_check en s = (case snd (call_top en bad_sort_key ''memroy'' s) of
     Some e \<Rightarrow> ''true ('' @ rv_errText en e @ '')''
   | None \<Rightarrow> ''false - BUG: a misspelled sort order was accepted'')"

definition report_processes :: "report_env \<Rightarrow> SyStats \<Rightarrow> report \<Rightarrow> SyStats \<times> report" where
  "report_processes en s d =
    (let s = s\<lparr>ProcessCPUMode := CPUUsageInstant\<rparr>;
         d = top_section en ''GetTopProcesses(cpu, instant)'' SortByCPU s d;
         d = top_section en ''GetTopProcesses(memory, instant)'' SortByMemory s d;
         s = s\<lparr>ProcessCPUMode := CPUUsageAverage\<rparr>;
         d = top_section en ''GetTopProcesses(cpu, average)'' SortByCPU s d;
         d = top_section en ''GetTopProcesses(memory, average)'' SortByMemory s d;
         d = chk en bad_sort_key (bad_sort_check en s) d;
         s = s\<lparr>ProcessCPUMode := CPUUsageAverage\<rparr>; k = ''GetProcess(self, average)'';
         d = sec en k AnyProcess (GetProcess_background (rv_lookup en) (rv_f1 en k) (rv_f2 en k)
           (rv_elapsed en k) s (rv_pid en)) d in
     (s\<lparr>ProcessCPUMode := CPUUsageInstant\<rparr>, d))"

section \<open>Contexts and windows\<close>

definition cancel_key :: string where
  "cancel_key = ''GetCPUWithContext aborts on a cancelled context''"

definition cancel_check :: "report_env \<Rightarrow> SyStats \<Rightarrow> string" where
  "cancel_check en s =
    (let k = cancel_key; elapsed = rv_took en k in
     case snd (GetCPU (rv_oor en) (rv_f1 en k) (rv_f2 en k) (rv_wake en k) (rv_elapsed en k) (rv_now en k) s) of
       None \<Rightarrow> ''false - BUG: a cancelled context still returned a result''
     | Some e \<Rightarrow>
         if 300 * 1000000 \<le> elapsed
         then ''false - BUG: took '' @ Duration_String elapsed @ '', the full sample window''
         else ''true (aborted in '' @ Duration_String (Duration_Round 1000 elapsed) @ '' with: '' @
           rv_errText en e @ '')'')"

definition deadline_key :: string where
  "deadline_key = ''GetTopProcessesWithContext honors a 50ms deadline''"

definition deadline_check :: "report_env \<Rightarrow> SyStats \<Rightarrow> string" where
  "deadline_check en s =
    (let k = deadline_key; elapsed = rv_took en k in
     case snd (GetTopProcesses (rv_procs en) (rv_lookup en) (rv_f1 en k) (rv_f2 en k) (rv_wake en k)
         (rv_polls en k) (rv_elapsed en k) s 5 SortByCPU) of
       None \<Rightarrow> ''false - BUG: ran to completion in '' @ Duration_String elapsed @ '', ignoring the deadline''
     | Some e \<Rightarrow> ''true (aborted in '' @ Duration_String (Duration_Round 1000000 elapsed) @ '' with: '' @
         rv_errText en e @ '')'')"

definition window_key :: string where
  "window_key = ''CPUSampleWindow=50ms is honored''"

definition window_check :: "report_env \<Rightarrow> string" where
  "window_check en =
    (let elapsed = rv_took en window_key in
     case snd (call_cpu en window_key (New\<lparr>CPUSampleWindow := 50 * 1000000\<rparr>)) of
       Some e \<Rightarrow> ''error: '' @ rv_errText en e
     | None \<Rightarrow>
         if 300 * 1000000 \<le> elapsed
         then ''false - BUG: took '' @ Duration_String elapsed @ '' despite a 50ms window''
         else ''true ('' @ Duration_String (Duration_Round 1000000 elapsed) @ '', vs the 300ms default)'')"

definition report_contexts :: "report_env \<Rightarrow> SyStats \<Rightarrow> report \<Rightarrow> report" where
  "report_contexts en s d =
    (let d = chk en cancel_key (cancel_check en s) d;
         d = chk en deadline_key (deadline_check en s) d in
     chk en window_key (window_check en) d)"

section \<open>Services and connections\<close>

definition service_key :: string where
  "service_key = ''IsServiceRunning('' @ [dquote] @ ''cron'' @ [dquote] @ '')''"

definition service_ctx_key :: string where
  "service_ctx_key = ''IsServiceRunningWithContext('' @ [dquote] @ ''cron'' @ [dquote] @ '')''"

definition service_ctx_check :: "report_env \<Rightarrow> string" where
  "service_ctx_check en =
    (case IsServiceRunningWithContext (rv_launch en service_ctx_key) (rv_environ en) None None ''cron'' of
       (running, Some e) \<Rightarrow> bool_text running @ '' (check failed: '' @ rv_errText en e @ '')''
     | (running, None) \<Rightarrow> bool_text running @ '' (check succeeded)'')"

definition connect_check :: "report_env \<Rightarrow> string" where
  "connect_check en = (case CanConnectExternal (rv_newRequest en) (rv_send en) ''https://www.google.com'' of
     (reached, Some e) \<Rightarrow> bool_text reached @ '' (error: '' @ rv_errText en e @ '')''
   | (reached, None) \<Rightarrow> bool_text reached)"

definition report_services :: "report_env \<Rightarrow> SyStats \<Rightarrow> report \<Rightarrow> report" where
  "report_services en s d =
    (let d = chk en service_key (bool_text (IsServiceRunning (rv_launch en service_key) (rv_environ en) ''cron'')) d;
         d = chk en service_ctx_key (service_ctx_check en) d;
         d = chk en ''IsPortOpen(22)'' (bool_text (IsPortOpen (rv_dial en) 22)) d;
         d = chk en (''CanConnectExternal('' @ [dquote] @ ''https://www.google.com'' @ [dquote] @ '')'')
           (connect_check en) d;
         k = ''EstablishedTCPConnCount('' @ [dquote] @ ''sshd'' @ [dquote] @ '')'' in
     chk en k (Itoa (EstablishedTCPConnCount (rv_f1 en k) s ''sshd'')) d)"

section \<open>The run\<close>

definition collect_report :: "report_env \<Rightarrow> report \<Rightarrow> SyStats \<times> report" where
  "collect_report en d =
    (let s = New; k = ''GetSystem'';
         d = sec en k AnySystem (GetSystem_background (rv_oor en) (rv_launch en k) (rv_environ en)
           (rv_f1 en k) (rv_now_ns en k) s) d;
         d = report_cpu en s d;
         d = report_memory en s d;
         d = report_devices en s d;
         d = report_sensors en s d;
         (s, d) = report_cgroup en (call_cpu en ''GetCPU'' s) (rv_took en ''GetCPU'') s d;
         (s, d) = report_processes en s d in
     (s, report_services en s (report_contexts en s d)))"

text \<open>The console digest.\<close>

text \<open>\<open>Printf\<close> pads to a number of runes: the bytes that do not continue one (a duration may hold a micro
  sign; names and durations are valid UTF-8).\<close>

definition rune_count :: "string \<Rightarrow> nat" where
  "rune_count s = length (filter (\<lambda>c. of_char c < (0x80 :: nat) \<or> 0xC0 \<le> (of_char c :: nat)) s)"

definition pad_right :: "nat \<Rightarrow> string \<Rightarrow> string" where
  "pad_right n s = s @ replicate (n - rune_count s) CHR 0x20"

definition section_line :: "report_section \<Rightarrow> string" where
  "section_line s = pad_right 34 (rs_Name s) @ '' '' @ pad_right 10 (rs_Duration s) @ '' '' @
     (if rs_OK s then ''OK'' else ''ERROR: '' @ rs_Error s)"

definition check_line :: "report_check \<Rightarrow> string" where
  "check_line c = pad_right 45 (rc_Name c) @ '' '' @ pad_right 9 (rc_Duration c) @ '' '' @ rc_Value c"

definition report_lines :: "report \<Rightarrow> string list" where
  "report_lines d = map section_line (rp_Sections d) @ map check_line (rp_Checks d)"

section \<open>Facts\<close>

lemma buildSection_name [simp]: "rs_Name (buildSection marshal name val err took) = name"
  by (simp add: buildSection_def Let_def split: option.split sum.split)

lemma sec_sections [simp]: "map rs_Name (rp_Sections (sec en name wrap r d)) = map rs_Name (rp_Sections d) @ [name]"
  by (simp add: sec_def add_section_def timedCollect_def)

lemma chk_sections [simp]: "rp_Sections (chk en name val d) = rp_Sections d"
  "rp_Sections (add_check c d) = rp_Sections d"
  by (simp_all add: chk_def add_check_def)

lemma sec_checks [simp]: "rp_Checks (sec en name wrap r d) = rp_Checks d"
  by (simp add: sec_def add_section_def)

lemma chk_checks [simp]: "rp_Checks (chk en name val d) = rp_Checks d @ [timedCheck name val (rv_took en name)]"
  by (simp add: chk_def add_check_def)

text \<open>A misspelled sort order is refused before anything is read.\<close>

lemma bad_sort_refused: "snd (call_top en k ''memroy'' s) = Some (ErrorString
    (''memroy is not a supported sort order, want '' @ SortByCPU @ '' or '' @ SortByMemory))"
  by (simp add: call_top_def GetTopProcesses_background_def GetTopProcesses_def getTopProcesses_def
      validateSortBy_def SortByCPU_def SortByMemory_def withRecover_def)

abbreviation section_keys :: "report \<Rightarrow> string list" where
  "section_keys d \<equiv> map rs_Name (rp_Sections d)"

lemma report_cpu_sections: "section_keys (report_cpu en s d) = section_keys d @ [''GetCPU'']"
  by (simp add: report_cpu_def Let_def)

lemma report_memory_sections: "section_keys (report_memory en s d) = section_keys d @ [''GetMemory'', ''GetSwap'']"
  by (simp add: report_memory_def Let_def)

lemma report_devices_sections: "section_keys (report_devices en s d) = section_keys d @
    [''GetDisks'', ''GetDiskIO'', ''GetNetworks'', ''GetTCPConnectionStates'', ''GetProtocolStats'',
     ''GetPressure'', ''GetTemperatures'', ''GetContainers'', ''GetContainers(layer size)'']"
  by (simp add: report_devices_def Let_def)

lemma report_cgroup_sections: "section_keys (snd (report_cgroup en r took s d)) = section_keys d @
    [''GetMemory (container-aware)'', ''GetCPU (container-aware)'']"
  by (simp add: report_cgroup_def Let_def)

lemma report_processes_sections: "section_keys (snd (report_processes en s d)) = section_keys d @
    [''GetTopProcesses(cpu, instant)'', ''GetTopProcesses(memory, instant)'',
     ''GetTopProcesses(cpu, average)'', ''GetTopProcesses(memory, average)'', ''GetProcess(self, average)'']"
  by (simp add: report_processes_def top_section_def Let_def)

lemma report_checks_only:
  "section_keys (report_sensors en s d) = section_keys d"
  "section_keys (report_contexts en s d) = section_keys d"
  "section_keys (report_services en s d) = section_keys d"
  by (simp_all add: report_sensors_def report_contexts_def report_services_def Let_def)

lemmas report_sections = report_cpu_sections report_memory_sections report_devices_sections
  report_cgroup_sections report_processes_sections report_checks_only

definition section_names :: "string list" where
  "section_names = [''GetSystem'', ''GetCPU'', ''GetMemory'', ''GetSwap'', ''GetDisks'', ''GetDiskIO'',
     ''GetNetworks'', ''GetTCPConnectionStates'', ''GetProtocolStats'', ''GetPressure'',
     ''GetTemperatures'', ''GetContainers'', ''GetContainers(layer size)'',
     ''GetMemory (container-aware)'', ''GetCPU (container-aware)'', ''GetTopProcesses(cpu, instant)'',
     ''GetTopProcesses(memory, instant)'', ''GetTopProcesses(cpu, average)'',
     ''GetTopProcesses(memory, average)'', ''GetProcess(self, average)'']"

text \<open>
  A run goes through the same twenty sections in the same order whatever any of them reports, restores
  the configuration it switches on the way, and its row on a misspelled sort order always says that
  the order was refused.
\<close>

lemma collect_report_sections: "section_keys (snd (collect_report en d)) = section_keys d @ section_names"
  by (simp add: collect_report_def Let_def split_def report_sections section_names_def)

lemma collect_report_config: "fst (collect_report en d) = New"
  by (simp add: collect_report_def Let_def split_def report_cgroup_def report_processes_def New_def)

lemma collect_report_refusal: "timedCheck bad_sort_key (''true ('' @ rv_errText en (ErrorString (''memroy is not a supported sort order, want ''
        @ SortByCPU @ '' or '' @ SortByMemory)) @ '')'') (rv_took en bad_sort_key)
      \<in> set (rp_Checks (snd (collect_report en d)))"
  by (simp add: collect_report_def Let_def split_def report_contexts_def report_services_def
      report_processes_def top_section_def bad_sort_check_def bad_sort_refused)

end
