(* ===== verification/Spec2Isabelle.thy ===== *)
theory Spec2Isabelle
  imports Schedule Report
begin

text \<open>
  A verification development for \<open>systats\<close>, a Go library that reports a Linux host's CPU, memory, swap,
  disks, networks, processes, pressure, temperatures, services and containers from \<open>/proc\<close>, \<open>/sys\<close>
  and the cgroup tree, and for the dashboard and report programs beside it.

  How the program works. A \<open>SyStats\<close> value (\<open>systats.go\<close>) holds the paths to read and a few switches.
  Each exported \<open>Get\<close> method calls one component, which reads files through \<open>internal/fileops\<close>,
  parses them with \<open>internal/strops\<close> and returns a struct and an error. The parsers of \<open>strops\<close> panic on
  malformed numbers, and the exported methods turn a panic into an error (\<open>withRecover\<close>). CPU figures,
  process and container figures come from two reads with an interruptible sleep between; rates come
  from two structs the caller kept (\<open>RatesSince\<close>). \<open>example/\<close> calls fourteen of these methods from
  fourteen goroutines and renders a page; \<open>build_test/\<close> prints a report of all of them.

  Modelling conventions.
  A struct is a record, its fields prefixed; a Go string is a list of bytes; \<open>uint64\<close> is a 64-bit word
  with its wrap-around; \<open>int\<close> counts that cannot overflow are \<open>int\<close>; \<open>float64\<close> and \<open>float32\<close> are
  IEEE values rounded once per operation. A function that may panic returns \<open>'a go\<close> (a value or a
  panic), an error is a value of \<open>error\<close>, \<open>(T, error)\<close> is a pair with an option, or a sum where the
  code uses the value only without an error. A Go map is a map or an association list in the order
  the code fills it.
  What the program is given from outside is an argument: \<open>f\<close> (\<open>f1\<close>, \<open>f2\<close>, ...), a snapshot of the file
  system at each time the code reads it (nothing is assumed about how the answers of a snapshot or of
  two snapshots relate, so a file may vanish between \<open>Stat\<close> and \<open>ReadFile\<close>); \<open>wake\<close>, how a sleep
  ended; \<open>ctxErr\<close> and \<open>layer_ctx\<close>, what the context answers when it is polled; \<open>elapsed\<close>, the
  measured time; \<open>now\<close>, the clock; \<open>oor\<close>, the value of a float-to-integer conversion that is out of
  range, which Go leaves open; \<open>srt\<close>, the library sort, with the contract \<open>slice_sort\<close> (a permutation,
  ordered, nothing about ties); \<open>lookup\<close>, the user database; the interface list of \<open>net.Interfaces\<close>;
  \<open>launch\<close>, the start of a subprocess; \<open>request\<close>, the answer of the container runtime's socket.

  Where the parts are.
  \<^item> \<open>Prelude\<close>: errors, panics, the \<open>range\<close> loop and their rules (\<open>go_simps\<close>). \<open>GoStrings\<close>, \<open>GoNumbers\<close>,
    \<open>GoPath\<close>: what is used of \<open>strings\<close>, the integer half of \<open>strconv\<close> and \<open>path\<close>. \<open>Rounding\<close>,
    \<open>GoFloats\<close>, \<open>GoParseFloat\<close>: rounding to nearest even (locale \<open>rounding\<close>, interpreted for both
    float widths), the operations on floats, \<open>ParseFloat\<close>.
  \<^item> \<open>Strops\<close> (\<open>internal/strops\<close>), \<open>FileOps\<close> (\<open>internal/fileops\<close>, with the locale \<open>lenient_reader\<close> for
    readers that fall back to a default), \<open>Config\<close> (\<open>systats.go\<close>, \<open>internal/unitconv\<close>).
  \<^item> \<open>Cgroup\<close> (\<open>cgroup.go\<close>), \<open>Memory\<close> (\<open>memory.go\<close>, \<open>swap.go\<close>), \<open>Pressure\<close> (\<open>pressure.go\<close>), \<open>Cpu\<close>
    (\<open>cpu.go\<close>), \<open>Rates\<close> and \<open>DiskIO\<close> (\<open>diskio.go\<close>, with the locale \<open>counter_group\<close> for counters
    that are reported together or not at all), \<open>Disk\<close> (\<open>disk.go\<close>).
  \<^item> \<open>Process\<close> (\<open>process.go\<close>, with the locale \<open>slice_sort\<close>), \<open>Network\<close> (\<open>network.go\<close>), \<open>NetProto\<close>
    (\<open>netproto.go\<close>), \<open>Temperature\<close> (\<open>temperature.go\<close>), \<open>System\<close> (\<open>system.go\<close>, \<open>service.go\<close>,
    \<open>exec/exec.go\<close>).
  \<^item> \<open>Walk\<close> (\<open>filepath.WalkDir\<close>, with the locale \<open>steady_visitor\<close> for visitors whose walk is a fold over
    a fixed list of nodes), \<open>ContainerDiscover\<close> (\<open>container_discover.go\<close>), \<open>ContainerLayer\<close>
    (\<open>container_layer.go\<close>), \<open>Container\<close> (the data and parsers of \<open>container.go\<close>,
    \<open>container_runtime.go\<close>), \<open>Containers\<close> (the operations of \<open>container.go\<close>).
  \<^item> \<open>Api\<close>: the methods of \<open>systats.go\<close> without a context, and what a context can do to a call.
  \<^item> \<open>Render\<close> (\<open>example/render.go\<close>), \<open>Panels\<close> and \<open>Dashboard\<close> (\<open>example/collect.go\<close>: the panels, and the
    collection with each goroutine as one step), \<open>Schedule\<close> (the same collection at the grain of its
    shared variables: launches, wait group, mutex, the append as a load and a store), \<open>Frontends\<close>
    (\<open>example/main.go\<close>, \<open>example/template.go\<close>), \<open>Report\<close> (\<open>build_test/main.go\<close>). \<open>Interleaving\<close> holds
    the locale \<open>interleaving\<close> (threads whose actions commute; interpreted on the assignments and
    appends of \<open>Schedule\<close>) and its special case \<open>goroutines\<close>, a sublocale, interpreted on the steps of
    \<open>Dashboard\<close>.

  What is shown.
  \<^item> Parsers: each one reads back a printed file, for any number of entries and any names: meminfo and
    net/dev in the kernel's columns, with their padding, headers and final line feed, the pressure
    files and cpuinfo in the kernel's layout, mounts, io.stat, snmp and the stat of a process with any
    name in fields separated by one blank, which is how the kernel writes them, diskstats likewise but
    without its leading blanks; the cgroup files as last-wins or first-wins maps.
  \<^item> Figures: CPU and memory percentages are in 0..100 and equal the quotient they document; disk usage
    is the exact ceiling for counts below \<open>2^46\<close> blocks and within one percent of it for all counts;
    rates are finite and never negative; unit conversion is exact; the layer size counts a
    hard-linked file once; the TCP summary is the count of the socket table per state.
  \<^item> Selection and order: the top processes for any sort that keeps the contract, the order of the
    temperatures, the address a network shows, the container an identifier selects.
  \<^item> Containers: discovery finds exactly the outermost matching groups down to ten levels, each with the
    first process of its subtree; a call returns only discovered containers and survives whatever the
    files of any of them hold, except a CPU counter of version 1 that cannot be parsed while sampled.
  \<^item> Errors: every outcome of \<open>GetMemory\<close> and those of the service check, and the places where the code
    falls short of what it means to do.
  \<^item> Contexts: an interrupted call returns no figure and the context's own error, unless it fails as it
    would without the interruption; a context error is the caller's, the connectivity check aside,
    which passes on what the HTTP client reports.
  \<^item> Concurrency: at the grain of single assignments the collection has no data race, no lost append
    and no deadlock, aborts nowhere, takes at most 84 steps, and gives the dashboard of the sequential run whatever the
    schedule (\<open>Schedule\<close> refines \<open>Dashboard\<close>); all bars and gauges hold clamped percentages; the
    program that writes the page never panics, and its exit status and the file it leaves agree, a
    page cut short by a failing template included.

  Bounds. There is no fuel: every function is structurally recursive or has a termination proof, and the
  walk recurses over the finite tree that the snapshot shows. Depth ten is the constant of
  \<open>container_discover.go\<close>. \<open>elapsed_ok\<close> asks for an elapsed time between \<open>2^-40\<close> and \<open>2^64\<close> seconds,
  which a nanosecond clock cannot leave; within it no quotient overflows. Exact conversions ask for
  counts that fit in 53 bits.

  Interleaving. In \<open>Dashboard\<close> a goroutine finishes in one step. In \<open>Schedule\<close> a step is the launch of a
  goroutine, one lock or unlock, one load or store of the slice of problems, one assignment to a
  variable or field, or \<open>wg.Done\<close>; a blocked operation has no step, nor has one that would abort the
  program (an unlock of a free mutex, a negative wait group), which \<open>aborts\<close> tells apart. Memory is sequentially consistent, which Go
  guarantees for programs without data races. The library calls of a goroutine read its own snapshots
  and share nothing.

  Not modelled: the HTTP, DNS and TCP exchanges themselves, \<open>os/exec\<close>, \<open>html/template\<close> and the two page
  templates, JSON encoding, flag parsing, profiling and the writing of files, which are the standard
  library at work and appear as the parameters above (\<open>main_env\<close>, \<open>report_env\<close>); the text of
  operating-system errors; \<open>doc.go\<close>, which is a comment.
\<close>

end
